(* ===== verification/Prelude.thy ===== *)
theory Prelude
  imports Main "HOL-Library.Word" "HOL-Library.Sublist" "HOL-Library.AList"
begin

text \<open>
  What the components share: the Go base types (instants and durations in nanoseconds,
  signed 64-bit wrap-around), the library functions on strings that the server calls,
  compound string keys such as \<open>app|user\<close>, Go maps of sets used as secondary indexes,
  the update of the first matching element of a slice of pointers, and the collections of
  simplification rules the component theories fill.
\<close>

section \<open>Rule collections\<close>

named_theorems op_defs \<open>definitions of the operations of a component\<close>
named_theorems field_frames \<open>fields an operation leaves alone\<close>

section \<open>Time\<close>

text \<open>
  A \<open>time.Time\<close> is the number of nanoseconds since January 1, year 1, 00:00:00 UTC, so that
  the zero value of the type is \<open>0\<close> and \<open>IsZero\<close> is a comparison with it; the Unix
  epoch is 62135596800 seconds later. A \<open>time.Duration\<close> is a number of nanoseconds.
\<close>

type_synonym gotime = int
type_synonym duration = int

abbreviation Millisecond :: duration where "Millisecond \<equiv> 1000000"
abbreviation Second :: duration where "Second \<equiv> 1000000000"
abbreviation Minute :: duration where "Minute \<equiv> 60000000000"
abbreviation Hour :: duration where "Hour \<equiv> 3600000000000"

definition IsZero :: "gotime \<Rightarrow> bool" where
  "IsZero t \<longleftrightarrow> t = 0"

definition Unix :: "gotime \<Rightarrow> int" where
  "Unix t = t div Second - 62135596800"

text \<open>
  \<open>int(d.Seconds())\<close>: the conversion of a float to int truncates towards zero. The float is
  exact enough for this below 2 to the power 24 seconds (194 days).
\<close>

definition whole_seconds :: "duration \<Rightarrow> int" where
  "whole_seconds d = (if d < 0 then - ((- d) div Second) else d div Second)"

text \<open>\<open>t.Sub(u)\<close> saturates at the range of a duration.\<close>

definition time_Sub :: "gotime \<Rightarrow> gotime \<Rightarrow> duration" where
  "time_Sub t u = max (- (2 ^ 63)) (min (2 ^ 63 - 1) (t - u))"

text \<open>Arithmetic on \<open>int64\<close> wraps around.\<close>

definition int64 :: "int \<Rightarrow> int" where
  "int64 x = signed_take_bit 63 x"

section \<open>Strings\<close>

text \<open>\<open>strconv.FormatInt(n, 10)\<close> and the verbs \<open>%d\<close> of \<open>fmt\<close>.\<close>

fun nat_digits :: "nat \<Rightarrow> string" where
  "nat_digits n =
     (if n < 10 then [char_of (48 + n)] else nat_digits (n div 10) @ [char_of (48 + n mod 10)])"

declare nat_digits.simps [simp del]

definition FormatInt :: "int \<Rightarrow> string" where
  "FormatInt n = (if n < 0 then CHR ''-'' # nat_digits (nat (- n)) else nat_digits (nat n))"

text \<open>
  \<open>utf8.RuneCountInString\<close>: a byte that does not start a well-formed sequence counts as
  one rune. \<open>utf8_width\<close> is the length the first byte announces (0 if it cannot start a
  sequence), \<open>utf8_second\<close> the range its second byte must be in.
\<close>

definition utf8_width :: "nat \<Rightarrow> nat" where
  "utf8_width b = (if b < 128 then 1 else if 194 \<le> b \<and> b \<le> 223 then 2
     else if 224 \<le> b \<and> b \<le> 239 then 3 else if 240 \<le> b \<and> b \<le> 244 then 4 else 0)"

definition utf8_second :: "nat \<Rightarrow> nat \<Rightarrow> bool" where
  "utf8_second b c \<longleftrightarrow>
     (if b = 224 then 160 \<le> c \<and> c \<le> 191 else if b = 237 then 128 \<le> c \<and> c \<le> 159
      else if b = 240 then 144 \<le> c \<and> c \<le> 191 else if b = 244 then 128 \<le> c \<and> c \<le> 143
      else 128 \<le> c \<and> c \<le> 191)"

definition utf8_rest :: "nat list \<Rightarrow> bool" where
  "utf8_rest cs \<longleftrightarrow> (\<forall>c \<in> set cs. 128 \<le> c \<and> c \<le> 191)"

fun rune_skip :: "nat list \<Rightarrow> nat" where
  "rune_skip [] = 0"
| "rune_skip (b # bs) =
     (let w = utf8_width b
      in if w \<le> 1 then 1
         else if w - 1 \<le> length bs \<and> utf8_second b (hd bs) \<and> utf8_rest (take (w - 2) (tl bs)) then w
         else 1)"

function rune_count :: "nat list \<Rightarrow> nat" where
  "rune_count bs = (if bs = [] then 0 else 1 + rune_count (drop (rune_skip bs) bs))"
  by auto

termination
proof (relation "measure length", goal_cases)
  case (2 bs)
  then have "0 < rune_skip bs" by (cases bs) (auto simp: Let_def)
  with 2 show ?case by (cases bs) auto
qed simp

declare rune_count.simps [simp del]

definition RuneCountInString :: "string \<Rightarrow> nat" where
  "RuneCountInString s = rune_count (map of_char s)"

text \<open>A compound key: two strings joined by a separator string.\<close>

definition join_key :: "string \<Rightarrow> string \<Rightarrow> string \<Rightarrow> string" where
  "join_key sep a b = a @ sep @ b"

section \<open>Go maps of sets, slices of pointers\<close>

text \<open>
  A \<open>map[string]map[string]struct\{\}\<close> is a map to duplicate-free lists. The iteration order
  of a Go map is not specified: no theorem depends on the order of these lists.
\<close>

type_synonym index = "string \<rightharpoonup> string list"

definition index_get :: "index \<Rightarrow> string \<Rightarrow> string list" where
  "index_get m k = (case m k of None \<Rightarrow> [] | Some l \<Rightarrow> l)"

definition index_add :: "string \<Rightarrow> string \<Rightarrow> index \<Rightarrow> index" where
  "index_add k v m = m(k \<mapsto> List.insert v (index_get m k))"

text \<open>
  Writing through the pointer that a linear search over a slice of pointers returned
  changes the first element that matches.
\<close>

fun upd_first :: "('a \<Rightarrow> bool) \<Rightarrow> ('a \<Rightarrow> 'a) \<Rightarrow> 'a list \<Rightarrow> 'a list" where
  "upd_first P f [] = []"
| "upd_first P f (x # xs) = (if P x then f x # xs else x # upd_first P f xs)"

text \<open>A sequence of operations on a state, with their answers.\<close>

fun runs :: "('q \<Rightarrow> 's \<Rightarrow> 's \<times> 'a) \<Rightarrow> 'q list \<Rightarrow> 's \<Rightarrow> 's \<times> 'a list" where
  "runs run [] s = (s, [])"
| "runs run (q # qs) s = (case run q s of (s, a) \<Rightarrow> map_prod id (\<lambda>as. a # as) (runs run qs s))"

section \<open>Lemmas\<close>

lemma rune_count_le: "rune_count bs \<le> length bs"
proof (induction bs rule: rune_count.induct)
  case (1 bs)
  show ?case
  proof (cases bs)
    case (Cons b bs')
    then have "0 < rune_skip bs" by (auto simp: Let_def)
    with 1 Cons show ?thesis by (subst rune_count.simps) auto
  qed (simp add: rune_count.simps)
qed

lemma RuneCountInString_le: "RuneCountInString s \<le> length s"
  using rune_count_le [of "map of_char s"] by (simp add: RuneCountInString_def)

lemma RuneCountInString_Nil [simp]: "RuneCountInString [] = 0"
  by (simp add: RuneCountInString_def rune_count.simps)

lemma int64_id: "- (2 ^ 63) \<le> x \<Longrightarrow> x < 2 ^ 63 \<Longrightarrow> int64 x = x"
  by (simp add: int64_def signed_take_bit_int_eq_self_iff)

lemma int64_range: "- (2 ^ 63) \<le> int64 x \<and> int64 x < 2 ^ 63"
  using signed_take_bit_int_greater_eq_minus_exp [of 63 x] signed_take_bit_int_less_exp [of 63 x]
  unfolding int64_def by blast

lemma join_key_inj:
  assumes eq: "join_key [s] a b = join_key [s] c d" and na: "s \<notin> set a" and nc: "s \<notin> set c"
  shows "a = c \<and> b = d"
proof -
  have *: "takeWhile (\<lambda>x. x \<noteq> s) (join_key [s] u v) = u" if "s \<notin> set u" for u v
    using that by (induction u) (auto simp: join_key_def)
  have "a = c" using *[OF na, of b] *[OF nc, of d] eq by simp
  with eq show ?thesis by (simp add: join_key_def)
qed

lemma index_get_add [simp]:
  "index_get (index_add k v m) k' =
     (if k' = k then List.insert v (index_get m k) else index_get m k')"
  by (simp add: index_add_def index_get_def)

lemma index_get_empty [simp]: "index_get Map.empty k = []"
  by (simp add: index_get_def)

lemma length_upd_first [simp]: "length (upd_first P f xs) = length xs"
  by (induction xs) auto

lemma map_upd_first: "(\<And>x. g (f x) = g x) \<Longrightarrow> map g (upd_first P f xs) = map g xs"
  by (induction xs) auto

lemma upd_first_id: "(\<And>x. x \<in> set xs \<Longrightarrow> P x \<Longrightarrow> f x = x) \<Longrightarrow> upd_first P f xs = xs"
  by (induction xs) auto

lemma set_upd_first_subset: "set (upd_first P f xs) \<subseteq> set xs \<union> f ` set xs"
  by (induction xs) auto

lemma set_upd_firstD:
  "x \<in> set (upd_first P f xs) \<Longrightarrow> x \<in> set xs \<or> (\<exists>y \<in> set xs. P y \<and> x = f y)"
  by (induction xs) (auto split: if_splits)

lemma find_upd_first_other:
  "(\<And>x. P x \<Longrightarrow> \<not> Q x) \<Longrightarrow> (\<And>x. P x \<Longrightarrow> Q (f x) = Q x) \<Longrightarrow>
   find Q (upd_first P f xs) = find Q xs"
  by (induction xs) auto

lemma find_upd_first_same:
  "find P xs = Some x \<Longrightarrow> (\<And>x. P (f x) = P x) \<Longrightarrow> find P (upd_first P f xs) = Some (f x)"
  by (induction xs) (auto split: if_splits)

lemma find_map_preserve:
  "(\<And>x. P (f x) = P x) \<Longrightarrow> find P (map f xs) = map_option f (find P xs)"
  by (induction xs) auto

lemma find_eq_None_set: "find P xs = None \<longleftrightarrow> (\<forall>x \<in> set xs. \<not> P x)"
  by (auto simp: find_None_iff)

lemma find_SomeD: "find P xs = Some x \<Longrightarrow> x \<in> set xs \<and> P x"
  by (auto simp: find_Some_iff)

end
