(* ===== verification/RateLimit.thy ===== *)
theory RateLimit
  imports Prelude
begin

text \<open>
  The package \<open>internal/ratelimit\<close>: a fixed-window counter per key. \<open>Allow\<close> reads the
  clock once, before taking the mutex; the instant is an argument. Shown: no interval as
  long as the window admits more than twice the limit, a fresh window admits exactly the limit,
  keys do not interfere, and the periodic clean-up never changes a later decision.
\<close>

section \<open>Model (ratelimit/limiter.go)\<close>

record bucket =
  b_count :: int
  b_resetAt :: gotime

record Limiter =
  l_window :: duration
  l_limit :: int
  l_buckets :: "string \<rightharpoonup> bucket"

definition New :: "int \<Rightarrow> duration \<Rightarrow> Limiter" where
  "New limit window =
     (let limit = (if limit \<le> 0 then 60 else limit);
          window = (if window \<le> 0 then Minute else window)
      in \<lparr>l_window = window, l_limit = limit, l_buckets = Map.empty\<rparr>)"

definition Allow :: "gotime \<Rightarrow> string \<Rightarrow> Limiter \<Rightarrow> Limiter \<times> bool" where
  "Allow now key l =
     (case l_buckets l key of
        None \<Rightarrow>
          (l\<lparr>l_buckets := (l_buckets l)(key \<mapsto> \<lparr>b_count = 1, b_resetAt = now + l_window l\<rparr>)\<rparr>, True)
      | Some b \<Rightarrow>
          if now > b_resetAt b then
            (l\<lparr>l_buckets := (l_buckets l)(key \<mapsto> \<lparr>b_count = 1, b_resetAt = now + l_window l\<rparr>)\<rparr>, True)
          else if b_count b \<ge> l_limit l then (l, False)
          else (l\<lparr>l_buckets := (l_buckets l)(key \<mapsto> b\<lparr>b_count := b_count b + 1\<rparr>)\<rparr>, True))"

definition Cleanup :: "gotime \<Rightarrow> Limiter \<Rightarrow> Limiter" where
  "Cleanup now l =
     l\<lparr>l_buckets := (\<lambda>k. case l_buckets l k of
         None \<Rightarrow> None
       | Some b \<Rightarrow> if now > b_resetAt b then None else Some b)\<rparr>"

text \<open>A run of \<open>Allow\<close> calls, each with its instant and key; the decisions in order.\<close>

fun allow_run :: "Limiter \<Rightarrow> (gotime \<times> string) list \<Rightarrow> bool list" where
  "allow_run l [] = []"
| "allow_run l ((t, k) # es) = (let (l', ok) = Allow t k l in ok # allow_run l' es)"

text \<open>How many of the requests of \<open>key\<close> with an instant in \<open>{a..e}\<close> were admitted.\<close>

definition admitted :: "Limiter \<Rightarrow> (gotime \<times> string) list \<Rightarrow> string \<Rightarrow> gotime \<Rightarrow> gotime \<Rightarrow> nat" where
  "admitted l es key a e =
     length (filter (\<lambda>((t, k), ok). ok \<and> k = key \<and> a \<le> t \<and> t \<le> e) (zip es (allow_run l es)))"

definition limiter_inv :: "Limiter \<Rightarrow> bool" where
  "limiter_inv l \<longleftrightarrow> 0 < l_window l \<and> 0 < l_limit l \<and>
     (\<forall>k b. l_buckets l k = Some b \<longrightarrow> 1 \<le> b_count b \<and> b_count b \<le> l_limit l)"

section \<open>Lemmas\<close>

lemma limiter_inv_New [simp]: "limiter_inv (New n w)"
  by (simp add: limiter_inv_def New_def Let_def)

lemma New_params:
  "l_window (New limit window) = (if window \<le> 0 then Minute else window)"
  "l_limit (New limit window) = (if limit \<le> 0 then 60 else limit)"
  by (simp_all add: New_def Let_def)

lemma Allow_params [simp]:
  "l_window (fst (Allow t k l)) = l_window l" "l_limit (fst (Allow t k l)) = l_limit l"
  by (simp_all add: Allow_def split: option.splits)

lemma Allow_other_key [simp]:
  "k' \<noteq> k \<Longrightarrow> l_buckets (fst (Allow t k l)) k' = l_buckets l k'"
  by (simp add: Allow_def split: option.splits)

lemma limiter_invD:
  "limiter_inv l \<Longrightarrow> l_buckets l k = Some b \<Longrightarrow> 1 \<le> b_count b \<and> b_count b \<le> l_limit l"
  by (simp add: limiter_inv_def)

lemma limiter_inv_set_bucket:
  "limiter_inv l \<Longrightarrow> 1 \<le> b_count b \<Longrightarrow> b_count b \<le> l_limit l \<Longrightarrow>
   limiter_inv (l\<lparr>l_buckets := (l_buckets l)(k \<mapsto> b)\<rparr>)"
  by (auto simp: limiter_inv_def)

lemma limiter_inv_fresh_bucket:
  "limiter_inv l \<Longrightarrow> limiter_inv (l\<lparr>l_buckets := (l_buckets l)(k \<mapsto> \<lparr>b_count = 1, b_resetAt = r\<rparr>)\<rparr>)"
  by (rule limiter_inv_set_bucket) (auto simp: limiter_inv_def)

lemma limiter_inv_Allow [simp]: "limiter_inv l \<Longrightarrow> limiter_inv (fst (Allow t k l))"
  using limiter_invD [of l k]
  by (fastforce simp: Allow_def limiter_inv_fresh_bucket split: option.splits
      intro: limiter_inv_set_bucket)

lemma limiter_inv_Cleanup: "limiter_inv l \<Longrightarrow> limiter_inv (Cleanup t l)"
  by (auto simp: limiter_inv_def Cleanup_def split: option.splits if_splits)

lemma length_allow_run [simp]: "length (allow_run l es) = length es"
  by (induction es arbitrary: l) (auto simp: split_beta Let_def)

lemma admitted_Nil [simp]: "admitted l [] key a e = 0"
  by (simp add: admitted_def)

lemma admitted_Cons [simp]:
  "admitted l ((t, k) # es) key a e =
     (if snd (Allow t k l) \<and> k = key \<and> a \<le> t \<and> t \<le> e then 1 else 0)
     + admitted (fst (Allow t k l)) es key a e"
  by (simp add: admitted_def split_beta Let_def)

text \<open>What is left of the running window of a key.\<close>

definition room :: "Limiter \<Rightarrow> string \<Rightarrow> int" where
  "room l key = (case l_buckets l key of None \<Rightarrow> 0 | Some b \<Rightarrow> l_limit l - b_count b)"

lemma room_bound: "limiter_inv l \<Longrightarrow> 0 \<le> room l key \<and> room l key \<le> l_limit l"
proof (cases "l_buckets l key")
  case None
  moreover assume "limiter_inv l"
  ultimately show ?thesis by (simp add: room_def limiter_inv_def)
next
  case (Some b)
  moreover assume "limiter_inv l"
  ultimately have "1 \<le> b_count b \<and> b_count b \<le> l_limit l" by (blast dest: limiter_invD)
  with Some show ?thesis by (simp add: room_def)
qed

lemma room_Allow_other: "k \<noteq> key \<Longrightarrow> room (fst (Allow t k l)) key = room l key"
  by (simp add: room_def split: option.splits)

text \<open>While the window of a key is running, only the room left in it can be admitted.\<close>

lemma admitted_running_window:
  assumes "limiter_inv l" "l_buckets l key = Some b" "e \<le> b_resetAt b"
    and "\<forall>(t, k) \<in> set es. t \<le> e"
  shows "int (admitted l es key a e) \<le> room l key"
  using assms
proof (induction es arbitrary: l b)
  case Nil
  then show ?case using room_bound [of l key] by simp
next
  case (Cons ev es)
  obtain t k where ev: "ev = (t, k)" by (cases ev)
  show ?case
  proof (cases "k = key")
    case False
    with Cons.prems ev have "int (admitted (fst (Allow t k l)) es key a e) \<le> room (fst (Allow t k l)) key"
      by (intro Cons.IH) auto
    with False ev show ?thesis by (simp add: room_Allow_other)
  next
    case True
    with Cons.prems ev have run: "\<not> t > b_resetAt b" by auto
    show ?thesis
    proof (cases "b_count b \<ge> l_limit l")
      case full: True
      with run Cons.prems(2) True have "Allow t k l = (l, False)" by (simp add: Allow_def)
      with Cons.IH [OF Cons.prems(1-3)] Cons.prems(4) ev show ?thesis by simp
    next
      case False
      let ?b = "b\<lparr>b_count := b_count b + 1\<rparr>"
      let ?l = "l\<lparr>l_buckets := (l_buckets l)(key \<mapsto> ?b)\<rparr>"
      have A: "Allow t k l = (?l, True)"
        using run Cons.prems(2) True False by (simp add: Allow_def)
      have "int (admitted ?l es key a e) \<le> room ?l key"
        using Cons.prems limiter_inv_Allow [OF Cons.prems(1), of t k] A ev
        by (intro Cons.IH [of ?l ?b]) auto
      then show ?thesis using A ev True Cons.prems(2) by (simp add: room_def)
    qed
  qed
qed

text \<open>
  From any state: what is left of the running window, plus one whole window, bounds what an
  interval no longer than a window can admit.
\<close>

lemma admitted_interval:
  assumes "limiter_inv l" "e \<le> a + l_window l" "\<forall>(t, k) \<in> set es. a \<le> t \<and> t \<le> e"
  shows "int (admitted l es key a e) \<le> room l key + l_limit l"
  using assms
proof (induction es arbitrary: l)
  case Nil
  then show ?case using room_bound [of l key] by (simp add: limiter_inv_def)
next
  case (Cons ev es)
  obtain t k where ev: "ev = (t, k)" by (cases ev)
  let ?l = "fst (Allow t k l)"
  have IH: "int (admitted ?l es key a e) \<le> room ?l key + l_limit l"
    using Cons.IH [of ?l] Cons.prems by simp
  let ?fresh = "l_buckets l key = None \<or> (\<exists>b. l_buckets l key = Some b \<and> t > b_resetAt b)"
  show ?case
  proof (cases "k = key \<and> ?fresh")
    case True
    then have A: "Allow t k l =
        (l\<lparr>l_buckets := (l_buckets l)(key \<mapsto> \<lparr>b_count = 1, b_resetAt = t + l_window l\<rparr>)\<rparr>, True)"
      by (auto simp: Allow_def split: option.splits)
    have "int (admitted ?l es key a e) \<le> room ?l key"
      by (rule admitted_running_window [of _ _ "\<lparr>b_count = 1, b_resetAt = t + l_window l\<rparr>"])
         (use A Cons.prems ev in \<open>auto simp: limiter_inv_fresh_bucket\<close>)
    also have "room ?l key = l_limit l - 1" by (simp add: A room_def)
    finally show ?thesis using ev A room_bound [OF Cons.prems(1), of key] by simp
  next
    case False
    then have "room ?l key + (if snd (Allow t k l) \<and> k = key then 1 else 0) = room l key"
      by (cases "k = key") (auto simp: room_def Allow_def split: option.splits)
    with IH ev show ?thesis by (auto split: if_splits)
  qed
qed

lemma Allow_after_Cleanup:
  "t0 \<le> t \<Longrightarrow> snd (Allow t k (Cleanup t0 l)) = snd (Allow t k l)"
  "t0 \<le> t \<Longrightarrow> Cleanup t (fst (Allow t k (Cleanup t0 l))) = Cleanup t (fst (Allow t k l))"
  by (auto simp: Allow_def Cleanup_def fun_eq_iff split: option.splits if_splits)

section \<open>Whole runs\<close>

definition allow_state :: "Limiter \<Rightarrow> (gotime \<times> string) list \<Rightarrow> Limiter" where
  "allow_state l es = fold (\<lambda>(t, k) l. fst (Allow t k l)) es l"

lemma limiter_inv_state: "limiter_inv l \<Longrightarrow> limiter_inv (allow_state l es)"
  by (induction es arbitrary: l) (auto simp: allow_state_def)

lemma allow_state_params [simp]:
  "l_window (allow_state l es) = l_window l" "l_limit (allow_state l es) = l_limit l"
  by (induction es arbitrary: l) (auto simp: allow_state_def)

lemma admitted_append:
  "admitted l (xs @ ys) key a e = admitted l xs key a e + admitted (allow_state l xs) ys key a e"
  by (induction xs arbitrary: l) (auto simp: allow_state_def)

lemma admitted_outside:
  "\<forall>(t, k) \<in> set es. t < a \<or> e < t \<Longrightarrow> admitted l es key a e = 0"
  by (induction es arbitrary: l) auto

lemma admitted_sorted:
  assumes "limiter_inv l" "sorted (map fst es)" "e \<le> a + l_window l"
  shows "int (admitted l es key a e) \<le> 2 * l_limit l"
proof -
  define pre rest where "pre = takeWhile (\<lambda>(t, k). t < a) es" and "rest = dropWhile (\<lambda>(t, k). t < a) es"
  define mid post where "mid = takeWhile (\<lambda>(t, k). t \<le> e) rest" and "post = dropWhile (\<lambda>(t, k). t \<le> e) rest"
  have es: "es = pre @ rest" "rest = mid @ post"
    by (simp_all add: pre_def rest_def mid_def post_def)
  have sorted: "sorted (map fst rest)" "sorted (map fst post)"
    using assms(2) unfolding es(1) by (simp_all add: es(2) sorted_append)
  have rest: "\<forall>(t, k) \<in> set rest. a \<le> t"
    using sorted(1) hd_dropWhile [of "\<lambda>(t, k). t < a" es] unfolding rest_def [symmetric]
    by (cases rest) (auto simp: split_beta)
  have mid: "\<forall>(t, k) \<in> set mid. a \<le> t \<and> t \<le> e"
    using rest unfolding mid_def by (auto dest: set_takeWhileD)
  have post: "\<forall>(t, k) \<in> set post. t < a \<or> e < t"
    using sorted(2) hd_dropWhile [of "\<lambda>(t, k). t \<le> e" rest] unfolding post_def [symmetric]
    by (cases post) (auto simp: split_beta)
  have pre: "\<forall>(t, k) \<in> set pre. t < a \<or> e < t"
    unfolding pre_def by (auto dest: set_takeWhileD)
  have "admitted l es key a e = admitted (allow_state l pre) mid key a e"
    unfolding es by (simp add: admitted_append admitted_outside [OF pre] admitted_outside [OF post])
  also have "int \<dots> \<le> room (allow_state l pre) key + l_limit l"
    using admitted_interval [of "allow_state l pre" e a mid key] assms mid limiter_inv_state by simp
  also have "\<dots> \<le> 2 * l_limit l"
    using room_bound [OF limiter_inv_state [OF assms(1)], of pre key] by simp
  finally show ?thesis .
qed

text \<open>Requests with clean-ups between them: \<open>None\<close> stands for a call of \<open>Cleanup\<close>.\<close>

fun limiter_run :: "Limiter \<Rightarrow> (gotime \<times> string option) list \<Rightarrow> bool list" where
  "limiter_run l [] = []"
| "limiter_run l ((t, None) # es) = limiter_run (Cleanup t l) es"
| "limiter_run l ((t, Some k) # es) = (let (l', ok) = Allow t k l in ok # limiter_run l' es)"

definition requests :: "(gotime \<times> string option) list \<Rightarrow> (gotime \<times> string) list" where
  "requests es = concat (map (\<lambda>(t, k). case k of None \<Rightarrow> [] | Some k \<Rightarrow> [(t, k)]) es)"

lemma Cleanup_Cleanup: "t0 \<le> t \<Longrightarrow> Cleanup t (Cleanup t0 l) = Cleanup t l"
  by (auto simp: Cleanup_def fun_eq_iff split: option.splits)

lemma Allow_cong_Cleanup:
  assumes "Cleanup t l = Cleanup t l'"
  shows "snd (Allow t k l) = snd (Allow t k l')"
    "Cleanup t (fst (Allow t k l)) = Cleanup t (fst (Allow t k l'))"
  using Allow_after_Cleanup [of t t k l] Allow_after_Cleanup [of t t k l'] assms by simp_all

lemma limiter_run_cong:
  "sorted (t0 # map fst es) \<Longrightarrow> Cleanup t0 l = Cleanup t0 l' \<Longrightarrow>
   limiter_run l es = allow_run l' (requests es)"
proof (induction es arbitrary: l l' t0)
  case (Cons ev es)
  obtain t k where ev: "ev = (t, k)" by (cases ev)
  from Cons.prems ev have t: "t0 \<le> t" "sorted (t # map fst es)" by auto
  have eq: "Cleanup t l = Cleanup t l'"
    using Cleanup_Cleanup [OF t(1), of l] Cleanup_Cleanup [OF t(1), of l'] Cons.prems(2) by simp
  show ?case
  proof (cases k)
    case None
    have "Cleanup t (Cleanup t l) = Cleanup t l'" using Cleanup_Cleanup [of t t l] eq by simp
    from Cons.IH [OF t(2) this] ev None show ?thesis by (simp add: requests_def)
  next
    case (Some key)
    from Cons.IH [OF t(2) Allow_cong_Cleanup(2) [OF eq, of key]] Allow_cong_Cleanup(1) [OF eq, of key] ev Some
    show ?thesis by (simp add: requests_def split_beta Let_def)
  qed
qed (simp add: requests_def)

text \<open>
  C24. The limiter never admits more than twice its limit in any interval no longer than a window:
  for requests that arrive in the order of their clock readings, from a new limiter, whatever the
  other keys do.
\<close>

theorem admitted_at_most_twice_limit:
  assumes "sorted (map fst es)" "e \<le> a + (if window \<le> 0 then Minute else window)"
  shows "int (admitted (New limit window) es key a e) \<le> 2 * (if limit \<le> 0 then 60 else limit)"
  using admitted_sorted [OF limiter_inv_New assms(1), of e a limit window key] assms(2) by (simp add: New_params)

theorem admitted_at_most_twice_limit_witness:
  "admitted (New 1 10) [(9, ''k''), (10, ''k''), (20, ''k'')] ''k'' 9 20 = 2 \<and>
   int (admitted (New 1 10) [(9, ''k''), (10, ''k''), (20, ''k'')] ''k'' 10 20) \<le> 2"
  using admitted_at_most_twice_limit [of "[(9, ''k''), (10, ''k''), (20, ''k'')]" 20 10 10 1 "''k''"]
  by (simp add: New_def Allow_def)

text \<open>
  C25. The periodic clean-up is invisible: run between requests at any points of a run in clock
  order, it changes no decision.
\<close>

theorem Cleanup_changes_no_decision:
  assumes "sorted (map fst es)"
  shows "limiter_run l es = allow_run l (requests es)"
proof (cases es)
  case (Cons ev es')
  with assms show ?thesis by (intro limiter_run_cong [of "fst ev"]) auto
qed (simp add: requests_def)

theorem Cleanup_changes_no_decision_witness:
  "limiter_run (New 1 10) [(0, Some ''k''), (5, None), (6, Some ''k''), (20, None), (21, Some ''k'')] =
     [True, False, True]"
  using Cleanup_changes_no_decision [of "[(0, Some ''k''), (5, None), (6, Some ''k''), (20, None), (21, Some ''k'')]"
      "New 1 10"]
  by (simp add: requests_def New_def Allow_def)

end
