(* ===== verification/Domain.thy ===== *)
theory Domain
  imports Prelude
begin

text \<open>
  The package \<open>internal/domain\<close>: application errors and their constructors, message types,
  and the records of a message, a device and a delivery. The Go \<open>error\<close> interface is a
  datatype with one constructor per dynamic type the server distinguishes: \<open>*AppError\<close>,
  the provider package's \<open>*ProviderError\<close>, and everything else with its text.
\<close>

section \<open>Errors (domain/errors.go)\<close>

abbreviation ErrCodeInvalidRequest :: string where "ErrCodeInvalidRequest \<equiv> ''INVALID_REQUEST''"
abbreviation ErrCodeUnauthorized :: string where "ErrCodeUnauthorized \<equiv> ''UNAUTHORIZED''"
abbreviation ErrCodeForbidden :: string where "ErrCodeForbidden \<equiv> ''FORBIDDEN''"
abbreviation ErrCodeDeviceNotFound :: string where "ErrCodeDeviceNotFound \<equiv> ''DEVICE_NOT_FOUND''"
abbreviation ErrCodeCallNotFound :: string where "ErrCodeCallNotFound \<equiv> ''CALL_NOT_FOUND''"
abbreviation ErrCodeInvalidToken :: string where "ErrCodeInvalidToken \<equiv> ''INVALID_TOKEN''"
abbreviation ErrCodeProviderNotAvailable :: string where
  "ErrCodeProviderNotAvailable \<equiv> ''PROVIDER_NOT_AVAILABLE''"
abbreviation ErrCodeProviderAuthError :: string where
  "ErrCodeProviderAuthError \<equiv> ''PROVIDER_AUTH_ERROR''"
abbreviation ErrCodeProviderRateLimit :: string where
  "ErrCodeProviderRateLimit \<equiv> ''PROVIDER_RATE_LIMIT''"
abbreviation ErrCodeProviderTempError :: string where
  "ErrCodeProviderTempError \<equiv> ''PROVIDER_TEMPORARY_ERROR''"
abbreviation ErrCodeMessageNotFound :: string where "ErrCodeMessageNotFound \<equiv> ''MESSAGE_NOT_FOUND''"
abbreviation ErrCodeInternalError :: string where "ErrCodeInternalError \<equiv> ''INTERNAL_ERROR''"

record AppError =
  ae_Code :: string
  ae_Message :: string
  ae_HTTPStatus :: int

record ProviderError =
  pe_Provider :: string
  pe_Code :: string
  pe_Message :: string
  pe_Retryable :: bool
  pe_InvalidToken :: bool

datatype error = App AppError | Prov ProviderError | Other string

definition AppError_Error :: "AppError \<Rightarrow> string" where
  "AppError_Error e = ae_Code e @ '': '' @ ae_Message e"

definition ProviderError_Error :: "ProviderError \<Rightarrow> string" where
  "ProviderError_Error e = pe_Provider e @ '': '' @ pe_Code e @ '': '' @ pe_Message e"

fun Error :: "error \<Rightarrow> string" where
  "Error (App e) = AppError_Error e"
| "Error (Prov e) = ProviderError_Error e"
| "Error (Other s) = s"

definition NewAppError :: "string \<Rightarrow> string \<Rightarrow> int \<Rightarrow> AppError" where
  "NewAppError code message httpStatus =
     \<lparr>ae_Code = code, ae_Message = message, ae_HTTPStatus = httpStatus\<rparr>"

definition InvalidRequest :: "string \<Rightarrow> error" where
  "InvalidRequest msg = App (NewAppError ErrCodeInvalidRequest msg 400)"

definition Unauthorized :: "string \<Rightarrow> error" where
  "Unauthorized msg = App (NewAppError ErrCodeUnauthorized msg 401)"

definition Forbidden :: "string \<Rightarrow> error" where
  "Forbidden msg = App (NewAppError ErrCodeForbidden msg 403)"

definition DeviceNotFound :: error where
  "DeviceNotFound = App (NewAppError ErrCodeDeviceNotFound ''Device not found'' 404)"

definition CallNotFound :: error where
  "CallNotFound = App (NewAppError ErrCodeCallNotFound ''Call not found'' 404)"

definition MessageNotFound :: error where
  "MessageNotFound = App (NewAppError ErrCodeMessageNotFound ''Message not found'' 404)"

definition Internal :: "string \<Rightarrow> error" where
  "Internal msg = App (NewAppError ErrCodeInternalError msg 500)"

fun IsNotFound :: "error \<Rightarrow> bool" where
  "IsNotFound (App ae) \<longleftrightarrow>
     ae_Code ae = ErrCodeDeviceNotFound \<or> ae_Code ae = ErrCodeCallNotFound \<or>
     ae_Code ae = ErrCodeMessageNotFound"
| "IsNotFound _ \<longleftrightarrow> False"

text \<open>What \<open>ctx.Err()\<close> returns when an operation consults its context.\<close>

type_synonym ctx = "error option"

abbreviation (input) Background :: ctx where "Background \<equiv> None"

section \<open>Messages (domain/message.go)\<close>

type_synonym MessageType = string

abbreviation MessageNotification :: MessageType where "MessageNotification \<equiv> ''notification''"
abbreviation MessageSilent :: MessageType where "MessageSilent \<equiv> ''silent''"
abbreviation MessageBackground :: MessageType where "MessageBackground \<equiv> ''background''"
abbreviation MessageIncomingCall :: MessageType where "MessageIncomingCall \<equiv> ''incoming_call''"
abbreviation MessageCallCancelled :: MessageType where "MessageCallCancelled \<equiv> ''call_cancelled''"
abbreviation MessageCallEnded :: MessageType where "MessageCallEnded \<equiv> ''call_ended''"

abbreviation PriorityNormal :: string where "PriorityNormal \<equiv> ''normal''"
abbreviation PriorityHigh :: string where "PriorityHigh \<equiv> ''high''"

abbreviation MessageStatusCreated :: string where "MessageStatusCreated \<equiv> ''created''"
abbreviation MessageStatusQueued :: string where "MessageStatusQueued \<equiv> ''queued''"
abbreviation MessageStatusSending :: string where "MessageStatusSending \<equiv> ''sending''"
abbreviation MessageStatusAccepted :: string where "MessageStatusAccepted \<equiv> ''accepted''"
abbreviation MessageStatusCompleted :: string where "MessageStatusCompleted \<equiv> ''completed''"
abbreviation MessageStatusFailed :: string where "MessageStatusFailed \<equiv> ''failed''"

abbreviation DefaultIncomingCallTTL :: duration where "DefaultIncomingCallTTL \<equiv> 30 * Second"

record Message =
  m_ID :: string
  m_Type :: MessageType
  m_Title :: string
  m_Body :: string
  m_Data :: "(string \<times> string) list"
  m_ImageURL :: string
  m_Priority :: string
  m_TTL :: duration
  m_CollapseKey :: string
  m_Sound :: string
  m_Badge :: "int option"
  m_DeepLink :: string
  m_Category :: string
  m_AppID :: string
  m_Status :: string
  m_CreatedAt :: gotime
  m_QueuedAt :: "gotime option"
  m_CompletedAt :: "gotime option"

record IncomingCall =
  ic_CallID :: string
  ic_CallerID :: string
  ic_CalleeID :: string
  ic_MediaType :: string
  ic_CallerName :: string
  ic_Timestamp :: gotime
  ic_ExpiresAt :: gotime

definition IsCallRelated :: "MessageType \<Rightarrow> bool" where
  "IsCallRelated t \<longleftrightarrow> t = MessageIncomingCall \<or> t = MessageCallCancelled \<or> t = MessageCallEnded"

definition IsDataOnly :: "MessageType \<Rightarrow> bool" where
  "IsDataOnly t \<longleftrightarrow> t = MessageSilent \<or> t = MessageBackground \<or> t = MessageIncomingCall \<or>
     t = MessageCallCancelled \<or> t = MessageCallEnded"

section \<open>Devices (domain/device.go)\<close>

abbreviation PlatformAndroid :: string where "PlatformAndroid \<equiv> ''android''"
abbreviation PlatformIOS :: string where "PlatformIOS \<equiv> ''ios''"

abbreviation ProviderHuawei :: string where "ProviderHuawei \<equiv> ''huawei''"
abbreviation ProviderXiaomi :: string where "ProviderXiaomi \<equiv> ''xiaomi''"
abbreviation ProviderOppo :: string where "ProviderOppo \<equiv> ''oppo''"
abbreviation ProviderVivo :: string where "ProviderVivo \<equiv> ''vivo''"
abbreviation ProviderFCM :: string where "ProviderFCM \<equiv> ''fcm''"
abbreviation ProviderAPNs :: string where "ProviderAPNs \<equiv> ''apns''"
abbreviation ProviderAPNsVoIP :: string where "ProviderAPNsVoIP \<equiv> ''apns_voip''"

abbreviation DeviceStatusActive :: string where "DeviceStatusActive \<equiv> ''active''"
abbreviation DeviceStatusInvalid :: string where "DeviceStatusInvalid \<equiv> ''invalid''"
abbreviation DeviceStatusDisabled :: string where "DeviceStatusDisabled \<equiv> ''disabled''"

record Device =
  d_ID :: string
  d_UserID :: string
  d_InstallationID :: string
  d_Platform :: string
  d_Provider :: string
  d_Token :: string
  d_AppID :: string
  d_AppVersion :: string
  d_OSVersion :: string
  d_DeviceModel :: string
  d_Locale :: string
  d_Timezone :: string
  d_Status :: string
  d_CreatedAt :: gotime
  d_UpdatedAt :: gotime
  d_LastSeenAt :: gotime

section \<open>Deliveries (domain/delivery.go)\<close>

abbreviation DeliveryStatusPending :: string where "DeliveryStatusPending \<equiv> ''pending''"
abbreviation DeliveryStatusSending :: string where "DeliveryStatusSending \<equiv> ''sending''"
abbreviation DeliveryStatusAccepted :: string where "DeliveryStatusAccepted \<equiv> ''accepted''"
abbreviation DeliveryStatusDelivered :: string where "DeliveryStatusDelivered \<equiv> ''delivered''"
abbreviation DeliveryStatusOpened :: string where "DeliveryStatusOpened \<equiv> ''opened''"
abbreviation DeliveryStatusFailed :: string where "DeliveryStatusFailed \<equiv> ''failed''"
abbreviation DeliveryStatusRetrying :: string where "DeliveryStatusRetrying \<equiv> ''retrying''"

record Delivery =
  dl_ID :: string
  dl_MessageID :: string
  dl_DeviceID :: string
  dl_Provider :: string
  dl_Status :: string
  dl_ProviderMessageID :: string
  dl_ErrorCode :: string
  dl_ErrorMessage :: string
  dl_Attempts :: int
  dl_CreatedAt :: gotime
  dl_SentAt :: "gotime option"
  dl_DeliveredAt :: "gotime option"
  dl_OpenedAt :: "gotime option"
  dl_NextRetryAt :: "gotime option"

section \<open>Lemmas\<close>

lemmas error_defs = InvalidRequest_def Unauthorized_def Forbidden_def DeviceNotFound_def
  CallNotFound_def MessageNotFound_def Internal_def NewAppError_def

lemma error_constructors_distinct [simp]:
  "InvalidRequest m \<noteq> Forbidden m'" "InvalidRequest m \<noteq> CallNotFound" "Forbidden m \<noteq> CallNotFound"
  "InvalidRequest m \<noteq> Internal m'" "Forbidden m \<noteq> Internal m'" "CallNotFound \<noteq> Internal m"
  "CallNotFound \<noteq> InvalidRequest m" "CallNotFound \<noteq> Forbidden m" "Forbidden m \<noteq> InvalidRequest m'"
  by (simp_all add: error_defs)

lemma InvalidRequest_inject [simp]: "InvalidRequest m = InvalidRequest m' \<longleftrightarrow> m = m'"
  by (simp add: error_defs)

lemma Forbidden_inject [simp]: "Forbidden m = Forbidden m' \<longleftrightarrow> m = m'"
  by (simp add: error_defs)

lemma IsNotFound_constructors [simp]:
  "IsNotFound DeviceNotFound" "IsNotFound CallNotFound" "IsNotFound MessageNotFound"
  "\<not> IsNotFound (InvalidRequest m)" "\<not> IsNotFound (Forbidden m)" "\<not> IsNotFound (Internal m)"
  "\<not> IsNotFound (Unauthorized m)"
  by (simp_all add: error_defs)

lemma call_related_data_only: "IsCallRelated t \<Longrightarrow> IsDataOnly t"
  by (auto simp: IsCallRelated_def IsDataOnly_def)

end
