(* ===== verification/Events.thy ===== *)
theory Events
  imports Domain
begin

text \<open>
  The package \<open>internal/events\<close>: the internal event and the process-local bus. A
  handler is an identifier; \<open>Publish\<close> copies the handlers of the event's type and the
  catch-all handlers under the read lock and starts one goroutine per handler, so its effect
  is the list of (handler, event) pairs it starts.
\<close>

section \<open>Model (events/bus.go)\<close>

record 'p Event =
  ev_Type :: string
  ev_AppID :: string
  ev_UserID :: string
  ev_DeviceID :: string
  ev_CallID :: string
  ev_Timestamp :: gotime
  ev_Payload :: "string \<rightharpoonup> 'p"

type_synonym Handler = nat

record Bus =
  bus_subs :: "string \<rightharpoonup> Handler list"
  bus_all :: "Handler list"
  bus_buffer :: int

definition NewBus :: "int \<Rightarrow> Bus" where
  "NewBus buffer =
     (let buffer = (if buffer \<le> 0 then 256 else buffer)
      in \<lparr>bus_subs = Map.empty, bus_all = [], bus_buffer = buffer\<rparr>)"

definition bus_handlers :: "Bus \<Rightarrow> string \<Rightarrow> Handler list" where
  "bus_handlers b t = (case bus_subs b t of None \<Rightarrow> [] | Some hs \<Rightarrow> hs)"

definition Subscribe :: "string \<Rightarrow> Handler \<Rightarrow> Bus \<Rightarrow> Bus" where
  "Subscribe eventType h b = b\<lparr>bus_subs := (bus_subs b)(eventType \<mapsto> bus_handlers b eventType @ [h])\<rparr>"

definition SubscribeAll :: "Handler \<Rightarrow> Bus \<Rightarrow> Bus" where
  "SubscribeAll h b = b\<lparr>bus_all := bus_all b @ [h]\<rparr>"

definition stamp_event :: "gotime \<Rightarrow> 'p Event \<Rightarrow> 'p Event" where
  "stamp_event now e = (if IsZero (ev_Timestamp e) then e\<lparr>ev_Timestamp := now\<rparr> else e)"

definition Publish :: "gotime \<Rightarrow> 'p Event \<Rightarrow> Bus \<Rightarrow> (Handler \<times> 'p Event) list" where
  "Publish now e b =
     (let e = stamp_event now e;
          handlers = bus_handlers b (ev_Type e) @ bus_all b
      in map (\<lambda>h. (h, e)) handlers)"

abbreviation CallCreated :: string where "CallCreated \<equiv> ''call.created''"
abbreviation CallRinging :: string where "CallRinging \<equiv> ''call.ringing''"
abbreviation CallAccepted :: string where "CallAccepted \<equiv> ''call.accepted''"
abbreviation CallRejected :: string where "CallRejected \<equiv> ''call.rejected''"
abbreviation CallCancelled :: string where "CallCancelled \<equiv> ''call.cancelled''"
abbreviation CallConnected :: string where "CallConnected \<equiv> ''call.connected''"
abbreviation CallParticipantJoined :: string where
  "CallParticipantJoined \<equiv> ''call.participant.joined''"
abbreviation CallParticipantLeft :: string where "CallParticipantLeft \<equiv> ''call.participant.left''"
abbreviation CallEnded :: string where "CallEnded \<equiv> ''call.ended''"
abbreviation CallFailed :: string where "CallFailed \<equiv> ''call.failed''"
abbreviation DeviceConnected :: string where "DeviceConnected \<equiv> ''device.connected''"
abbreviation DeviceDisconnected :: string where "DeviceDisconnected \<equiv> ''device.disconnected''"
abbreviation PresenceOnline :: string where "PresenceOnline \<equiv> ''presence.online''"
abbreviation PresenceOffline :: string where "PresenceOffline \<equiv> ''presence.offline''"
abbreviation PresenceUpdated :: string where "PresenceUpdated \<equiv> ''presence.updated''"
abbreviation PushRequested :: string where "PushRequested \<equiv> ''push.requested''"
abbreviation PushSent :: string where "PushSent \<equiv> ''push.sent''"
abbreviation PushFailed :: string where "PushFailed \<equiv> ''push.failed''"
abbreviation WSDeliver :: string where "WSDeliver \<equiv> ''ws.deliver''"

section \<open>Lemmas\<close>

lemma stamp_event_fields [simp]:
  "ev_Type (stamp_event now e) = ev_Type e" "ev_CallID (stamp_event now e) = ev_CallID e"
  "ev_AppID (stamp_event now e) = ev_AppID e" "ev_UserID (stamp_event now e) = ev_UserID e"
  "ev_DeviceID (stamp_event now e) = ev_DeviceID e" "ev_Payload (stamp_event now e) = ev_Payload e"
  by (simp_all add: stamp_event_def)

lemma bus_handlers_NewBus [simp]: "bus_handlers (NewBus n) t = []" "bus_all (NewBus n) = []"
  by (simp_all add: NewBus_def bus_handlers_def Let_def)

lemma bus_handlers_Subscribe [simp]:
  "bus_handlers (Subscribe t h b) t' = bus_handlers b t' @ (if t' = t then [h] else [])"
  "bus_all (Subscribe t h b) = bus_all b"
  by (simp_all add: Subscribe_def bus_handlers_def)

lemma bus_handlers_SubscribeAll [simp]:
  "bus_handlers (SubscribeAll h b) t = bus_handlers b t" "bus_all (SubscribeAll h b) = bus_all b @ [h]"
  by (simp_all add: SubscribeAll_def bus_handlers_def)

lemma Publish_recipients:
  "map fst (Publish now e b) = bus_handlers b (ev_Type e) @ bus_all b"
  by (simp add: Publish_def Let_def comp_def)

end
