(* ===== verification/CallTypes.thy ===== *)
theory CallTypes
  imports Events
begin

text \<open>
  The data of the call runtime (\<open>internal/call/types.go\<close>): call and participant states,
  the \<open>Call\<close> and \<open>Participant\<close> structs, the terminal test and the participant search.
  Structs are values here: \<open>Clone\<close>, which copies a call field by field, is the identity.
\<close>

section \<open>Model\<close>

datatype CallState =
    StateCreated | StateRinging | StateAccepted | StateConnecting | StateConnected
  | StateEnded | StateRejected | StateCancelled | StateTimeout | StateFailed

datatype ParticipantState =
    ParticipantInvited | ParticipantRinging | ParticipantAccepted | ParticipantConnecting
  | ParticipantConnected | ParticipantLeft | ParticipantReconnecting | ParticipantDisconnected
  | ParticipantRejected

text \<open>Both are enumerations, which the decoder of a stored call runs through.\<close>

instantiation CallState :: enum
begin

definition enum_CallState :: "CallState list" where
  "enum_CallState = [StateCreated, StateRinging, StateAccepted, StateConnecting, StateConnected,
     StateEnded, StateRejected, StateCancelled, StateTimeout, StateFailed]"

definition enum_all_CallState :: "(CallState \<Rightarrow> bool) \<Rightarrow> bool" where
  "enum_all_CallState P \<longleftrightarrow> list_all P enum_class.enum"

definition enum_ex_CallState :: "(CallState \<Rightarrow> bool) \<Rightarrow> bool" where
  "enum_ex_CallState P \<longleftrightarrow> list_ex P enum_class.enum"

instance
proof
  have "x \<in> set enum_class.enum" for x :: CallState
    by (cases x) (simp_all add: enum_CallState_def)
  then show univ: "(UNIV :: CallState set) = set enum_class.enum" by blast
  show "distinct (enum_class.enum :: CallState list)" by (simp add: enum_CallState_def)
  show "enum_class.enum_all P \<longleftrightarrow> Ball UNIV P" "enum_class.enum_ex P \<longleftrightarrow> Bex UNIV P" for P :: "CallState \<Rightarrow> bool"
    unfolding univ by (simp_all add: enum_all_CallState_def enum_ex_CallState_def list_all_iff list_ex_iff)
qed

end

instantiation ParticipantState :: enum
begin

definition enum_ParticipantState :: "ParticipantState list" where
  "enum_ParticipantState = [ParticipantInvited, ParticipantRinging, ParticipantAccepted, ParticipantConnecting,
     ParticipantConnected, ParticipantLeft, ParticipantReconnecting, ParticipantDisconnected, ParticipantRejected]"

definition enum_all_ParticipantState :: "(ParticipantState \<Rightarrow> bool) \<Rightarrow> bool" where
  "enum_all_ParticipantState P \<longleftrightarrow> list_all P enum_class.enum"

definition enum_ex_ParticipantState :: "(ParticipantState \<Rightarrow> bool) \<Rightarrow> bool" where
  "enum_ex_ParticipantState P \<longleftrightarrow> list_ex P enum_class.enum"

instance
proof
  have "x \<in> set enum_class.enum" for x :: ParticipantState
    by (cases x) (simp_all add: enum_ParticipantState_def)
  then show univ: "(UNIV :: ParticipantState set) = set enum_class.enum" by blast
  show "distinct (enum_class.enum :: ParticipantState list)" by (simp add: enum_ParticipantState_def)
  show "enum_class.enum_all P \<longleftrightarrow> Ball UNIV P" "enum_class.enum_ex P \<longleftrightarrow> Bex UNIV P" for P :: "ParticipantState \<Rightarrow> bool"
    unfolding univ by (simp_all add: enum_all_ParticipantState_def enum_ex_ParticipantState_def list_all_iff list_ex_iff)
qed

end

abbreviation TypeAudio :: string where "TypeAudio \<equiv> ''audio''"
abbreviation TypeVideo :: string where "TypeVideo \<equiv> ''video''"
abbreviation ModeDirect :: string where "ModeDirect \<equiv> ''direct''"
abbreviation ModeGroup :: string where "ModeGroup \<equiv> ''group''"
abbreviation TransportP2P :: string where "TransportP2P \<equiv> ''p2p''"
abbreviation TransportSFU :: string where "TransportSFU \<equiv> ''sfu''"

record Participant =
  p_CallID :: string
  p_UserID :: string
  p_DeviceID :: string
  p_State :: ParticipantState
  p_JoinedAt :: "gotime option"
  p_LeftAt :: "gotime option"
  p_Role :: string

record Call =
  c_ID :: string
  c_RoomID :: string
  c_AppID :: string
  c_CallerID :: string
  c_Type :: string
  c_Mode :: string
  c_State :: CallState
  c_Transport :: string
  c_CreatedAt :: gotime
  c_StartedAt :: "gotime option"
  c_EndedAt :: "gotime option"
  c_Reason :: string
  c_Participants :: "Participant list"

definition IsTerminal :: "Call \<Rightarrow> bool" where
  "IsTerminal c = (case c_State c of
      StateEnded \<Rightarrow> True
    | StateRejected \<Rightarrow> True
    | StateCancelled \<Rightarrow> True
    | StateTimeout \<Rightarrow> True
    | StateFailed \<Rightarrow> True
    | _ \<Rightarrow> False)"

definition FindParticipant :: "string \<Rightarrow> Call \<Rightarrow> Participant option" where
  "FindParticipant userID c = find (\<lambda>p. p_UserID p = userID) (c_Participants c)"

text \<open>Assigning to the fields of the participant that \<open>FindParticipant\<close> returned.\<close>

definition set_participant :: "string \<Rightarrow> (Participant \<Rightarrow> Participant) \<Rightarrow> Call \<Rightarrow> Call" where
  "set_participant userID f c =
     c\<lparr>c_Participants := upd_first (\<lambda>p. p_UserID p = userID) f (c_Participants c)\<rparr>"

text \<open>The loop of the timeout and cancel closures over the participants.\<close>

definition disconnect_ringing :: "gotime \<Rightarrow> Participant \<Rightarrow> Participant" where
  "disconnect_ringing now p =
     (if p_State p = ParticipantRinging \<or> p_State p = ParticipantInvited
      then p\<lparr>p_State := ParticipantDisconnected, p_LeftAt := Some now\<rparr> else p)"

section \<open>Lemmas\<close>

lemma IsTerminal_iff:
  "IsTerminal c \<longleftrightarrow> c_State c \<in> {StateEnded, StateRejected, StateCancelled, StateTimeout, StateFailed}"
  by (simp add: IsTerminal_def split: CallState.splits)

lemma IsTerminal_cong: "c_State c = c_State d \<Longrightarrow> IsTerminal c = IsTerminal d"
  by (simp add: IsTerminal_def)

lemma set_participant_fields [simp]:
  "c_ID (set_participant u f c) = c_ID c" "c_RoomID (set_participant u f c) = c_RoomID c"
  "c_AppID (set_participant u f c) = c_AppID c" "c_CallerID (set_participant u f c) = c_CallerID c"
  "c_Type (set_participant u f c) = c_Type c" "c_Mode (set_participant u f c) = c_Mode c"
  "c_State (set_participant u f c) = c_State c" "c_Transport (set_participant u f c) = c_Transport c"
  "c_CreatedAt (set_participant u f c) = c_CreatedAt c"
  "c_StartedAt (set_participant u f c) = c_StartedAt c"
  "c_EndedAt (set_participant u f c) = c_EndedAt c" "c_Reason (set_participant u f c) = c_Reason c"
  by (simp_all add: set_participant_def)

lemma set_participant_users [simp]:
  "(\<And>p. p_UserID (f p) = p_UserID p) \<Longrightarrow>
   map p_UserID (c_Participants (set_participant u f c)) = map p_UserID (c_Participants c)"
  by (simp add: set_participant_def map_upd_first)

lemma disconnect_ringing_fields [simp]:
  "p_UserID (disconnect_ringing now p) = p_UserID p" "p_CallID (disconnect_ringing now p) = p_CallID p"
  "p_Role (disconnect_ringing now p) = p_Role p" "p_DeviceID (disconnect_ringing now p) = p_DeviceID p"
  "p_JoinedAt (disconnect_ringing now p) = p_JoinedAt p"
  by (simp_all add: disconnect_ringing_def)

lemma disconnect_ringing_not_ringing [simp]:
  "p_State (disconnect_ringing now p) \<noteq> ParticipantRinging"
  "p_State (disconnect_ringing now p) \<noteq> ParticipantInvited"
  by (simp_all add: disconnect_ringing_def)

lemma FindParticipant_None: "FindParticipant u c = None \<longleftrightarrow> u \<notin> p_UserID ` set (c_Participants c)"
  by (auto simp: FindParticipant_def find_None_iff)

lemma FindParticipant_SomeD:
  "FindParticipant u c = Some p \<Longrightarrow> p \<in> set (c_Participants c) \<and> p_UserID p = u"
  unfolding FindParticipant_def by (rule find_SomeD)

lemma FindParticipant_set_same:
  "FindParticipant u c = Some p \<Longrightarrow> (\<And>p. p_UserID (f p) = p_UserID p) \<Longrightarrow>
   FindParticipant u (set_participant u f c) = Some (f p)"
  by (simp add: FindParticipant_def set_participant_def find_upd_first_same)

lemma FindParticipant_set_other:
  "v \<noteq> u \<Longrightarrow> (\<And>p. p_UserID (f p) = p_UserID p) \<Longrightarrow>
   FindParticipant v (set_participant u f c) = FindParticipant v c"
  by (simp add: FindParticipant_def set_participant_def find_upd_first_other)

end
