(* ===== verification/CallStore.thy ===== *)
theory CallStore
  imports CallTypes
begin

text \<open>
  The \<open>Store\<close> interface of the call runtime (\<open>internal/call/store.go\<close>) and its
  in-process implementation (\<open>internal/call/memory_store.go\<close>). A value of the Go interface
  is a record of functions over the store's state. The function given to \<open>Update\<close> mutates
  the call in place and may also return an error, so it is modelled as returning both: the
  in-process store keeps whatever the function did to the call before it failed. The locale
  \<open>call_store\<close> states what the runtime relies on; it is interpreted here on the
  in-process store.
\<close>

section \<open>The interface (store.go)\<close>

type_synonym update_fn = "Call \<Rightarrow> Call \<times> error option"

record 's Store =
  st_Put :: "ctx \<Rightarrow> Call \<Rightarrow> 's \<Rightarrow> 's \<times> error option"
  st_Get :: "ctx \<Rightarrow> string \<Rightarrow> 's \<Rightarrow> error + Call"
  st_Update :: "ctx \<Rightarrow> string \<Rightarrow> update_fn \<Rightarrow> 's \<Rightarrow> 's \<times> (error + Call)"
  st_ActiveCallIDsForUser :: "ctx \<Rightarrow> string \<Rightarrow> string \<Rightarrow> 's \<Rightarrow> string list"

section \<open>The in-process store (memory_store.go)\<close>

record MemoryStore =
  ms_calls :: "string \<rightharpoonup> Call"
  ms_byUser :: index

definition NewMemoryStore :: MemoryStore where
  "NewMemoryStore = \<lparr>ms_calls = Map.empty, ms_byUser = Map.empty\<rparr>"

definition user_key :: "string \<Rightarrow> string \<Rightarrow> string" where
  "user_key appID userID = join_key ''|'' appID userID"

text \<open>The loop that \<open>Put\<close> and \<open>Update\<close> run over the participants.\<close>

definition index_participants :: "Call \<Rightarrow> index \<Rightarrow> index" where
  "index_participants c m =
     fold (\<lambda>p. index_add (user_key (c_AppID c) (p_UserID p)) (c_ID c)) (c_Participants c) m"

definition mem_Put :: "ctx \<Rightarrow> Call \<Rightarrow> MemoryStore \<Rightarrow> MemoryStore \<times> error option" where
  "mem_Put ctx c s =
     (case ctx of
        Some err \<Rightarrow> (s, Some err)
      | None \<Rightarrow>
          (s\<lparr>ms_calls := (ms_calls s)(c_ID c \<mapsto> c),
             ms_byUser := index_participants c (ms_byUser s)\<rparr>, None))"

definition mem_Get :: "ctx \<Rightarrow> string \<Rightarrow> MemoryStore \<Rightarrow> error + Call" where
  "mem_Get ctx callID s =
     (case ctx of
        Some err \<Rightarrow> Inl err
      | None \<Rightarrow> (case ms_calls s callID of None \<Rightarrow> Inl CallNotFound | Some c \<Rightarrow> Inr c))"

definition mem_Update ::
    "ctx \<Rightarrow> string \<Rightarrow> update_fn \<Rightarrow> MemoryStore \<Rightarrow> MemoryStore \<times> (error + Call)" where
  "mem_Update ctx callID fn s =
     (case ctx of
        Some err \<Rightarrow> (s, Inl err)
      | None \<Rightarrow>
          (case ms_calls s callID of
             None \<Rightarrow> (s, Inl CallNotFound)
           | Some c \<Rightarrow>
               (case fn c of
                  (c', Some err) \<Rightarrow> (s\<lparr>ms_calls := (ms_calls s)(callID \<mapsto> c')\<rparr>, Inl err)
                | (c', None) \<Rightarrow>
                    (s\<lparr>ms_calls := (ms_calls s)(callID \<mapsto> c'),
                       ms_byUser := index_participants c' (ms_byUser s)\<rparr>, Inr c'))))"

definition mem_ActiveCallIDsForUser ::
    "ctx \<Rightarrow> string \<Rightarrow> string \<Rightarrow> MemoryStore \<Rightarrow> string list" where
  "mem_ActiveCallIDsForUser ctx appID userID s =
     (case ctx of
        Some _ \<Rightarrow> []
      | None \<Rightarrow>
          filter (\<lambda>id. case ms_calls s id of None \<Rightarrow> False | Some c \<Rightarrow> \<not> IsTerminal c)
            (index_get (ms_byUser s) (user_key appID userID)))"

definition memory_store :: "MemoryStore Store" where
  "memory_store = \<lparr>st_Put = mem_Put, st_Get = mem_Get, st_Update = mem_Update,
     st_ActiveCallIDsForUser = mem_ActiveCallIDsForUser\<rparr>"

section \<open>What the runtime relies on\<close>

text \<open>
  An update function is well behaved if it leaves the identity of the call alone, keeps every
  participant, and has not touched the call when it returns an error.
\<close>

definition keeps_identity :: "Call \<Rightarrow> Call \<Rightarrow> bool" where
  "keeps_identity c c' \<longleftrightarrow> c_ID c' = c_ID c \<and> c_AppID c' = c_AppID c \<and>
     p_UserID ` set (c_Participants c) \<subseteq> p_UserID ` set (c_Participants c')"

definition well_behaved :: "update_fn \<Rightarrow> bool" where
  "well_behaved fn \<longleftrightarrow>
     (\<forall>c. keeps_identity c (fst (fn c)) \<and> (snd (fn c) \<noteq> None \<longrightarrow> fst (fn c) = c))"

definition has_user :: "(string \<Rightarrow> string \<Rightarrow> string) \<Rightarrow> string \<Rightarrow> Call \<Rightarrow> bool" where
  "has_user key k c \<longleftrightarrow> (\<exists>p \<in> set (c_Participants c). key (c_AppID c) (p_UserID p) = k)"

locale call_store =
  fixes st :: "'s Store"
    and key :: "string \<Rightarrow> string \<Rightarrow> string"
    and lookup :: "'s \<Rightarrow> string \<Rightarrow> Call option"
    and invar :: "'s \<Rightarrow> bool"
  assumes put_ok: "invar s \<Longrightarrow> lookup s (c_ID c) = None \<Longrightarrow> st_Put st ctx c s = (s', None) \<Longrightarrow>
      lookup s' = (lookup s)(c_ID c \<mapsto> c) \<and> invar s'"
    and put_err: "st_Put st ctx c s = (s', Some e) \<Longrightarrow> s' = s"
    and put_background: "snd (st_Put st Background c s) = None"
    and get_ok: "st_Get st ctx cid s = Inr c \<Longrightarrow> lookup s cid = Some c"
    and get_background: "st_Get st Background cid s =
      (case lookup s cid of None \<Rightarrow> Inl CallNotFound | Some c \<Rightarrow> Inr c)"
    and update_ok: "invar s \<Longrightarrow> well_behaved fn \<Longrightarrow> st_Update st ctx cid fn s = (s', Inr c') \<Longrightarrow>
      \<exists>c. lookup s cid = Some c \<and> fn c = (c', None) \<and> lookup s' = (lookup s)(cid \<mapsto> c') \<and> invar s'"
    and update_err: "invar s \<Longrightarrow> well_behaved fn \<Longrightarrow> st_Update st ctx cid fn s = (s', Inl e) \<Longrightarrow>
      lookup s' = lookup s \<and> invar s'"
    and update_background: "lookup s cid = Some c \<Longrightarrow> fn c = (c', r) \<Longrightarrow>
      snd (st_Update st Background cid fn s) = (case r of None \<Rightarrow> Inr c' | Some e \<Rightarrow> Inl e)"
    and lookup_id: "invar s \<Longrightarrow> lookup s cid = Some c \<Longrightarrow> c_ID c = cid"
    and active: "invar s \<Longrightarrow>
      set (st_ActiveCallIDsForUser st Background app u s) =
        {cid. \<exists>c. lookup s cid = Some c \<and> \<not> IsTerminal c \<and> has_user key (key app u) c}"
begin

lemma update_cases:
  assumes "invar s" "well_behaved fn" "st_Update st ctx cid fn s = (s', r)"
  obtains (ok) c c' where "r = Inr c'" "lookup s cid = Some c" "fn c = (c', None)"
      "lookup s' = (lookup s)(cid \<mapsto> c')" "invar s'"
    | (err) e where "r = Inl e" "lookup s' = lookup s" "invar s'"
  using assms update_ok [of s fn ctx cid s'] update_err [of s fn ctx cid s'] by (cases r) blast+

lemma update_invar: "invar s \<Longrightarrow> well_behaved fn \<Longrightarrow> invar (fst (st_Update st ctx cid fn s))"
  by (metis prod.collapse update_cases)

end

section \<open>The in-process store keeps the contract\<close>

text \<open>Every call is filed under its own id, and the index holds exactly the participants.\<close>

definition mem_invar :: "MemoryStore \<Rightarrow> bool" where
  "mem_invar s \<longleftrightarrow> (\<forall>cid c. ms_calls s cid = Some c \<longrightarrow> c_ID c = cid) \<and>
     (\<forall>k cid. cid \<in> set (index_get (ms_byUser s) k) \<longleftrightarrow>
        (\<exists>c. ms_calls s cid = Some c \<and> has_user user_key k c))"

lemma has_user_mono:
  "keeps_identity c c' \<Longrightarrow> has_user key k c \<Longrightarrow> has_user key k c'"
  by (fastforce simp: keeps_identity_def has_user_def)

lemma index_participants_get:
  "set (index_get (index_participants c m) k) =
     set (index_get m k) \<union> (if has_user user_key k c then {c_ID c} else {})"
proof -
  have "set (index_get (fold (\<lambda>p. index_add (key (p_UserID p)) cid) ps m) k) =
     set (index_get m k) \<union> (if \<exists>p \<in> set ps. key (p_UserID p) = k then {cid} else {})" for key cid ps
    by (induction ps arbitrary: m) auto
  from this [of "user_key (c_AppID c)" "c_ID c" "c_Participants c"] show ?thesis
    by (simp add: index_participants_def has_user_def)
qed

lemma mem_invar_New [simp]: "mem_invar NewMemoryStore"
  by (simp add: mem_invar_def NewMemoryStore_def)

lemma mem_invar_store:
  assumes inv: "mem_invar s" and id: "c_ID c' = cid"
    and old: "\<And>c. ms_calls s cid = Some c \<Longrightarrow> keeps_identity c c'"
  shows "mem_invar (s\<lparr>ms_calls := (ms_calls s)(cid \<mapsto> c'),
                      ms_byUser := index_participants c' (ms_byUser s)\<rparr>)"
  using inv id old unfolding mem_invar_def
  by (auto simp: index_participants_get intro: has_user_mono)

lemma well_behavedD:
  "well_behaved fn \<Longrightarrow> fn c = (c', r) \<Longrightarrow> keeps_identity c c' \<and> (r \<noteq> None \<longrightarrow> c' = c)"
  unfolding well_behaved_def by (metis fst_conv snd_conv)

interpretation mem: call_store memory_store user_key ms_calls mem_invar
proof (unfold_locales, goal_cases)
  case (1 s c ctx s')
  then show ?case using mem_invar_store [of s c "c_ID c"]
    by (auto simp: memory_store_def mem_Put_def split: option.splits)
next
  case (6 s fn ctx cid s' c')
  then obtain c where c: "ms_calls s cid = Some c" and f: "fn c = (c', None)"
    and s': "s' = s\<lparr>ms_calls := (ms_calls s)(cid \<mapsto> c'),
                   ms_byUser := index_participants c' (ms_byUser s)\<rparr>"
    by (auto simp: memory_store_def mem_Update_def split: option.splits prod.splits)
  have k: "keeps_identity c c'" using well_behavedD [OF \<open>well_behaved fn\<close> f] by blast
  have "c_ID c = cid" using \<open>mem_invar s\<close> c by (simp add: mem_invar_def)
  with k have "c_ID c' = cid" by (simp add: keeps_identity_def)
  with \<open>mem_invar s\<close> c k have "mem_invar s'" unfolding s' by (intro mem_invar_store) auto
  with c f s' show ?case by auto
next
  case (7 s fn ctx cid s' e)
  then show ?case using well_behavedD [of fn]
    by (fastforce simp: memory_store_def mem_Update_def fun_upd_idem split: option.splits prod.splits)
qed (auto simp: memory_store_def mem_Put_def mem_Get_def mem_Update_def
      mem_ActiveCallIDsForUser_def mem_invar_def split: option.splits prod.splits)

end
