(* ===== verification/CallService.thy ===== *)
theory CallService
  imports CallStore
begin

text \<open>
  The call runtime (\<open>internal/call/service.go\<close>). Every operation takes the store it runs
  against (a value of the \<open>Store\<close> interface), the context of the request, the instant its
  clock reads and, where it generates identifiers, the identifiers; it returns the new service
  state and the result. The state carries, besides the fields of the Go struct, what the
  operation leaves behind: the events handed to the bus, the ring timers that are waiting and
  the calls reported to the ring-timeout handler. The closures given to \<open>Update\<close> are
  definitions of their own, each with the early returns of the source in their order.
\<close>

section \<open>Model\<close>

record CreateInput =
  in_AppID :: string
  in_CallerID :: string
  in_CallerDevice :: string
  in_CalleeIDs :: "string list"
  in_Type :: string
  in_Mode :: string
  in_CallerName :: string

datatype payload = PCall Call | PStr string | PBool bool

type_synonym call_event = "payload Event"

record 's Service =
  sv_store :: 's
  sv_bus :: "Bus option"
  sv_ringTimeout :: duration
  sv_onRingTimeout :: bool
  sv_published :: "call_event list"
  sv_timers :: "(string \<times> gotime) list"
  sv_timeouts :: "string list"

definition NewService :: "'s \<Rightarrow> Bus option \<Rightarrow> duration \<Rightarrow> 's Service" where
  "NewService store bus ringTimeout =
     (let ringTimeout = (if ringTimeout \<le> 0 then 45 * Second else ringTimeout)
      in \<lparr>sv_store = store, sv_bus = bus, sv_ringTimeout = ringTimeout, sv_onRingTimeout = False,
          sv_published = [], sv_timers = [], sv_timeouts = []\<rparr>)"

definition SetRingTimeoutHandler :: "'s Service \<Rightarrow> 's Service" where
  "SetRingTimeoutHandler s = s\<lparr>sv_onRingTimeout := True\<rparr>"

definition publish ::
    "gotime \<Rightarrow> string \<Rightarrow> Call \<Rightarrow> string \<Rightarrow> (string \<rightharpoonup> payload) \<Rightarrow> 's Service \<Rightarrow> 's Service" where
  "publish now typ c sender extra s =
     (case sv_bus s of
        None \<Rightarrow> s
      | Some _ \<Rightarrow>
          s\<lparr>sv_published := sv_published s @
             [stamp_event now \<lparr>ev_Type = typ, ev_AppID = c_AppID c, ev_UserID = sender,
                ev_DeviceID = '''', ev_CallID = c_ID c, ev_Timestamp = 0,
                ev_Payload = [''call'' \<mapsto> PCall c] ++ extra\<rparr>]\<rparr>)"

subsection \<open>Creating a call\<close>

definition new_participants :: "gotime \<Rightarrow> string \<Rightarrow> CreateInput \<Rightarrow> Participant list" where
  "new_participants now callID inp =
     \<lparr>p_CallID = callID, p_UserID = in_CallerID inp, p_DeviceID = in_CallerDevice inp,
       p_State = ParticipantAccepted, p_JoinedAt = Some now, p_LeftAt = None, p_Role = ''caller''\<rparr> #
     map (\<lambda>uid. \<lparr>p_CallID = callID, p_UserID = uid, p_DeviceID = '''', p_State = ParticipantRinging,
                  p_JoinedAt = None, p_LeftAt = None, p_Role = ''callee''\<rparr>)
       (filter (\<lambda>uid. uid \<noteq> in_CallerID inp) (in_CalleeIDs inp))"

definition create_type :: "CreateInput \<Rightarrow> string" where
  "create_type inp = (if in_Type inp = '''' then TypeAudio else in_Type inp)"

definition create_mode :: "CreateInput \<Rightarrow> string" where
  "create_mode inp =
     (if in_Mode inp = '''' then (if length (in_CalleeIDs inp) = 1 then ModeDirect else ModeGroup)
      else in_Mode inp)"

definition create_check :: "CreateInput \<Rightarrow> error option" where
  "create_check inp =
     (if in_CallerID inp = '''' \<or> in_CalleeIDs inp = []
      then Some (InvalidRequest ''caller_id and callees are required'')
      else if create_type inp \<noteq> TypeAudio \<and> create_type inp \<noteq> TypeVideo
      then Some (InvalidRequest ''type must be audio or video'')
      else if create_mode inp \<noteq> ModeDirect \<and> create_mode inp \<noteq> ModeGroup
      then Some (InvalidRequest ''mode must be direct or group'')
      else if create_mode inp = ModeDirect \<and> length (in_CalleeIDs inp) \<noteq> 1
      then Some (InvalidRequest ''direct call requires exactly one callee'')
      else None)"

definition new_call :: "gotime \<Rightarrow> string \<Rightarrow> string \<Rightarrow> CreateInput \<Rightarrow> Call" where
  "new_call now callID roomID inp =
     \<lparr>c_ID = callID, c_RoomID = roomID, c_AppID = in_AppID inp, c_CallerID = in_CallerID inp,
       c_Type = create_type inp, c_Mode = create_mode inp, c_State = StateRinging,
       c_Transport = (if create_mode inp = ModeGroup then TransportSFU else TransportP2P),
       c_CreatedAt = now, c_StartedAt = None, c_EndedAt = None, c_Reason = '''',
       c_Participants = new_participants now callID inp\<rparr>"

text \<open>
  \<open>newID1\<close> and \<open>newID2\<close> are what the two calls of \<open>idgen.New\<close> return (a ULID
  library, outside the repository).
\<close>

definition Create ::
    "'s Store \<Rightarrow> ctx \<Rightarrow> gotime \<Rightarrow> string \<Rightarrow> string \<Rightarrow> CreateInput \<Rightarrow> 's Service \<Rightarrow>
     's Service \<times> (error + Call)" where
  "Create st ctx now newID1 newID2 inp s =
     (case create_check inp of
        Some e \<Rightarrow> (s, Inl e)
      | None \<Rightarrow>
          (let callID = ''call_'' @ newID1;
               roomID = ''room_'' @ newID2;
               c = new_call now callID roomID inp
           in case st_Put st ctx c (sv_store s) of
                (store, Some err) \<Rightarrow> (s\<lparr>sv_store := store\<rparr>, Inl err)
              | (store, None) \<Rightarrow>
                  (let s = s\<lparr>sv_store := store\<rparr>;
                       s = publish now CallCreated c (in_CallerID inp) Map.empty s;
                       s = publish now CallRinging c (in_CallerID inp) Map.empty s;
                       s = s\<lparr>sv_timers := sv_timers s @ [(callID, now + sv_ringTimeout s)]\<rparr>
                   in (s, Inr c))))"

subsection \<open>The closures of the updates\<close>

definition errSkip :: error where
  "errSkip = InvalidRequest ''skip''"

definition timeout_fn :: "gotime \<Rightarrow> update_fn" where
  "timeout_fn now c =
     (if c_State c \<noteq> StateRinging then (c, Some errSkip)
      else (c\<lparr>c_State := StateTimeout, c_EndedAt := Some now, c_Reason := ''ring_timeout'',
              c_Participants := map (disconnect_ringing now) (c_Participants c)\<rparr>, None))"

text \<open>The loop of \<open>Accept\<close> over the other participants of a direct call.\<close>

definition disconnect_others :: "gotime \<Rightarrow> string \<Rightarrow> Call \<Rightarrow> Call" where
  "disconnect_others now userID c =
     c\<lparr>c_Participants := map (\<lambda>other.
         if p_UserID other \<noteq> userID \<and> p_UserID other \<noteq> c_CallerID c
         then disconnect_ringing now other else other) (c_Participants c)\<rparr>"

definition accept_fn :: "gotime \<Rightarrow> string \<Rightarrow> string \<Rightarrow> update_fn" where
  "accept_fn now userID deviceID c =
     (if IsTerminal c then (c, Some (InvalidRequest ''call already ended''))
      else if c_State c \<noteq> StateRinging \<and> c_State c \<noteq> StateAccepted \<and> c_State c \<noteq> StateConnecting
      then (c, Some (InvalidRequest ''call not ringing''))
      else case FindParticipant userID c of
             None \<Rightarrow> (c, Some (Forbidden ''not a participant''))
           | Some _ \<Rightarrow>
               (let c = set_participant userID
                          (\<lambda>p. p\<lparr>p_State := ParticipantAccepted, p_DeviceID := deviceID,
                                  p_JoinedAt := Some now\<rparr>) c;
                    c = c\<lparr>c_State := StateAccepted\<rparr>
                in (if c_Mode c = ModeDirect then disconnect_others now userID c else c, None)))"

definition reject_fn :: "gotime \<Rightarrow> string \<Rightarrow> update_fn" where
  "reject_fn now userID c =
     (if IsTerminal c then (c, Some (InvalidRequest ''call already ended''))
      else case FindParticipant userID c of
             None \<Rightarrow> (c, Some (Forbidden ''not a participant''))
           | Some _ \<Rightarrow>
               (let c = set_participant userID
                          (\<lambda>p. p\<lparr>p_State := ParticipantRejected, p_LeftAt := Some now\<rparr>) c
                in (if c_Mode c = ModeDirect
                    then c\<lparr>c_State := StateRejected, c_EndedAt := Some now, c_Reason := ''rejected''\<rparr>
                    else c, None)))"

definition cancel_fn :: "gotime \<Rightarrow> string \<Rightarrow> update_fn" where
  "cancel_fn now userID c =
     (if IsTerminal c then (c, Some (InvalidRequest ''call already ended''))
      else if c_CallerID c \<noteq> userID then (c, Some (Forbidden ''only caller can cancel''))
      else (c\<lparr>c_State := StateCancelled, c_EndedAt := Some now, c_Reason := ''cancelled'',
              c_Participants := map (disconnect_ringing now) (c_Participants c)\<rparr>, None))"

definition join_fn :: "gotime \<Rightarrow> string \<Rightarrow> string \<Rightarrow> string \<Rightarrow> update_fn" where
  "join_fn now callID userID deviceID c =
     (if IsTerminal c then (c, Some (InvalidRequest ''call already ended''))
      else if FindParticipant userID c = None \<and> c_Mode c \<noteq> ModeGroup
      then (c, Some (Forbidden ''not a participant''))
      else
        (let c = (if FindParticipant userID c = None
                  then c\<lparr>c_Participants := c_Participants c @
                      [\<lparr>p_CallID = callID, p_UserID = userID, p_DeviceID = '''',
                        p_State = ParticipantInvited, p_JoinedAt = None, p_LeftAt = None,
                        p_Role = ''participant''\<rparr>]\<rparr>
                  else c);
             c = set_participant userID
                   (\<lambda>p. p\<lparr>p_DeviceID := deviceID, p_State := ParticipantConnecting,
                           p_JoinedAt := (if p_JoinedAt p = None then Some now else p_JoinedAt p)\<rparr>) c
         in (if c_State c = StateAccepted \<or> c_State c = StateRinging
             then c\<lparr>c_State := StateConnecting\<rparr> else c, None)))"

definition connected_fn :: "gotime \<Rightarrow> string \<Rightarrow> update_fn" where
  "connected_fn now userID c =
     (if IsTerminal c then (c, Some (InvalidRequest ''call already ended''))
      else case FindParticipant userID c of
             None \<Rightarrow> (c, Some (Forbidden ''not a participant''))
           | Some _ \<Rightarrow>
               (let c = set_participant userID (\<lambda>p. p\<lparr>p_State := ParticipantConnected\<rparr>) c
                in (if c_StartedAt c = None
                    then c\<lparr>c_StartedAt := Some now, c_State := StateConnected\<rparr> else c, None)))"

definition fail_fn :: "gotime \<Rightarrow> string \<Rightarrow> update_fn" where
  "fail_fn now reason c =
     (if IsTerminal c then (c, None)
      else (c\<lparr>c_State := StateFailed, c_EndedAt := Some now, c_Reason := reason\<rparr>, None))"

definition resume_fn :: "string \<Rightarrow> string \<Rightarrow> update_fn" where
  "resume_fn userID deviceID c =
     (set_participant userID
        (\<lambda>p. let p = p\<lparr>p_DeviceID := deviceID\<rparr>
              in if p_State p = ParticipantDisconnected \<or> p_State p = ParticipantReconnecting \<or>
                    p_State p = ParticipantConnected
                 then p\<lparr>p_State := ParticipantReconnecting\<rparr> else p) c, None)"

definition is_active :: "ParticipantState \<Rightarrow> bool" where
  "is_active ps \<longleftrightarrow> ps = ParticipantConnected \<or> ps = ParticipantConnecting \<or>
     ps = ParticipantAccepted \<or> ps = ParticipantReconnecting"

definition end_fn :: "gotime \<Rightarrow> string \<Rightarrow> string \<Rightarrow> bool \<Rightarrow> update_fn" where
  "end_fn now userID reason endCall c =
     (if IsTerminal c then (c, Some (InvalidRequest ''call already ended''))
      else case FindParticipant userID c of
             None \<Rightarrow> (c, Some (Forbidden ''not a participant''))
           | Some _ \<Rightarrow>
               (let c = set_participant userID
                          (\<lambda>p. p\<lparr>p_State := ParticipantLeft, p_LeftAt := Some now\<rparr>) c;
                    ended = c\<lparr>c_State := StateEnded, c_EndedAt := Some now, c_Reason := reason\<rparr>
                in if endCall \<or> c_Mode c = ModeDirect then (ended, None)
                   else (let active = length (filter (\<lambda>other. is_active (p_State other)) (c_Participants c))
                         in if active = 0 then (ended, None) else (c, None))))"

subsection \<open>The operations\<close>

definition run_update ::
    "'s Store \<Rightarrow> ctx \<Rightarrow> string \<Rightarrow> update_fn \<Rightarrow> 's Service \<Rightarrow> 's Service \<times> (error + Call)" where
  "run_update st ctx callID fn s =
     (case st_Update st ctx callID fn (sv_store s) of (store, r) \<Rightarrow> (s\<lparr>sv_store := store\<rparr>, r))"

definition Get :: "'s Store \<Rightarrow> ctx \<Rightarrow> string \<Rightarrow> 's Service \<Rightarrow> error + Call" where
  "Get st ctx callID s = st_Get st ctx callID (sv_store s)"

definition fire_timeout :: "'s Store \<Rightarrow> gotime \<Rightarrow> string \<Rightarrow> 's Service \<Rightarrow> 's Service" where
  "fire_timeout st now callID s =
     (case run_update st Background callID (timeout_fn now) s of
        (s, Inl _) \<Rightarrow> s
      | (s, Inr _) \<Rightarrow>
          (let s = (case Get st Background callID s of
                      Inr c \<Rightarrow> publish now CallEnded c '''' [''reason'' \<mapsto> PStr ''ring_timeout''] s
                    | Inl _ \<Rightarrow> s)
           in if sv_onRingTimeout s then s\<lparr>sv_timeouts := sv_timeouts s @ [callID]\<rparr> else s))"

definition Accept ::
    "'s Store \<Rightarrow> ctx \<Rightarrow> gotime \<Rightarrow> string \<Rightarrow> string \<Rightarrow> string \<Rightarrow> 's Service \<Rightarrow>
     's Service \<times> (error + Call)" where
  "Accept st ctx now callID userID deviceID s =
     (case run_update st ctx callID (accept_fn now userID deviceID) s of
        (s, Inl err) \<Rightarrow> (s, Inl err)
      | (s, Inr c) \<Rightarrow>
          (publish now CallAccepted c userID
             [''accepted_device_id'' \<mapsto> PStr deviceID, ''stop_ringing'' \<mapsto> PBool True] s, Inr c))"

definition Reject ::
    "'s Store \<Rightarrow> ctx \<Rightarrow> gotime \<Rightarrow> string \<Rightarrow> string \<Rightarrow> 's Service \<Rightarrow> 's Service \<times> (error + Call)" where
  "Reject st ctx now callID userID s =
     (case run_update st ctx callID (reject_fn now userID) s of
        (s, Inl err) \<Rightarrow> (s, Inl err)
      | (s, Inr c) \<Rightarrow>
          (let s = publish now CallRejected c userID Map.empty s;
               s = (if c_State c = StateRejected
                    then publish now CallEnded c userID [''reason'' \<mapsto> PStr ''rejected''] s else s)
           in (s, Inr c)))"

definition Cancel ::
    "'s Store \<Rightarrow> ctx \<Rightarrow> gotime \<Rightarrow> string \<Rightarrow> string \<Rightarrow> 's Service \<Rightarrow> 's Service \<times> (error + Call)" where
  "Cancel st ctx now callID userID s =
     (case run_update st ctx callID (cancel_fn now userID) s of
        (s, Inl err) \<Rightarrow> (s, Inl err)
      | (s, Inr c) \<Rightarrow>
          (let s = publish now CallCancelled c userID Map.empty s;
               s = publish now CallEnded c userID [''reason'' \<mapsto> PStr ''cancelled''] s
           in (s, Inr c)))"

definition Join ::
    "'s Store \<Rightarrow> ctx \<Rightarrow> gotime \<Rightarrow> string \<Rightarrow> string \<Rightarrow> string \<Rightarrow> 's Service \<Rightarrow>
     's Service \<times> (error + Call)" where
  "Join st ctx now callID userID deviceID s =
     (case run_update st ctx callID (join_fn now callID userID deviceID) s of
        (s, Inl err) \<Rightarrow> (s, Inl err)
      | (s, Inr c) \<Rightarrow> (publish now CallParticipantJoined c userID Map.empty s, Inr c))"

definition MarkConnected ::
    "'s Store \<Rightarrow> ctx \<Rightarrow> gotime \<Rightarrow> string \<Rightarrow> string \<Rightarrow> 's Service \<Rightarrow> 's Service \<times> (error + Call)" where
  "MarkConnected st ctx now callID userID s =
     (case run_update st ctx callID (connected_fn now userID) s of
        (s, Inl err) \<Rightarrow> (s, Inl err)
      | (s, Inr c) \<Rightarrow> (publish now CallConnected c userID Map.empty s, Inr c))"

definition endForUser ::
    "'s Store \<Rightarrow> ctx \<Rightarrow> gotime \<Rightarrow> string \<Rightarrow> string \<Rightarrow> string \<Rightarrow> bool \<Rightarrow> 's Service \<Rightarrow>
     's Service \<times> (error + Call)" where
  "endForUser st ctx now callID userID reason endCall s =
     (case run_update st ctx callID (end_fn now userID reason endCall) s of
        (s, Inl err) \<Rightarrow> (s, Inl err)
      | (s, Inr c) \<Rightarrow>
          (let s = publish now CallParticipantLeft c userID [''reason'' \<mapsto> PStr reason] s;
               s = (if IsTerminal c
                    then publish now CallEnded c userID [''reason'' \<mapsto> PStr reason] s else s)
           in (s, Inr c)))"

definition Leave ::
    "'s Store \<Rightarrow> ctx \<Rightarrow> gotime \<Rightarrow> string \<Rightarrow> string \<Rightarrow> 's Service \<Rightarrow> 's Service \<times> (error + Call)" where
  "Leave st ctx now callID userID = endForUser st ctx now callID userID ''left'' False"

definition Hangup ::
    "'s Store \<Rightarrow> ctx \<Rightarrow> gotime \<Rightarrow> string \<Rightarrow> string \<Rightarrow> 's Service \<Rightarrow> 's Service \<times> (error + Call)" where
  "Hangup st ctx now callID userID = endForUser st ctx now callID userID ''hangup'' True"

definition Fail ::
    "'s Store \<Rightarrow> ctx \<Rightarrow> gotime \<Rightarrow> string \<Rightarrow> string \<Rightarrow> 's Service \<Rightarrow> 's Service \<times> (error + Call)" where
  "Fail st ctx now callID reason s =
     (case run_update st ctx callID (fail_fn now reason) s of
        (s, Inl err) \<Rightarrow> (s, Inl err)
      | (s, Inr c) \<Rightarrow> (publish now CallFailed c '''' [''reason'' \<mapsto> PStr reason] s, Inr c))"

text \<open>
  \<open>Resume\<close> reads the call, decides, updates, and reads again, each under its own lock. The
  decision is a definition of its own, so that other operations can be interleaved after it.
\<close>

definition resume_check ::
    "'s Store \<Rightarrow> ctx \<Rightarrow> string \<Rightarrow> string \<Rightarrow> 's Service \<Rightarrow> error + Call" where
  "resume_check st ctx callID userID s =
     (case Get st ctx callID s of
        Inl err \<Rightarrow> Inl err
      | Inr c \<Rightarrow>
          (case FindParticipant userID c of
             None \<Rightarrow> Inl (Forbidden ''not a participant'')
           | Some _ \<Rightarrow> Inr c))"

definition resume_apply ::
    "'s Store \<Rightarrow> ctx \<Rightarrow> string \<Rightarrow> string \<Rightarrow> string \<Rightarrow> 's Service \<Rightarrow> 's Service \<times> (error + Call)" where
  "resume_apply st ctx callID userID deviceID s =
     (case run_update st ctx callID (resume_fn userID deviceID) s of
        (s, _) \<Rightarrow> (s, Get st ctx callID s))"

definition Resume ::
    "'s Store \<Rightarrow> ctx \<Rightarrow> string \<Rightarrow> string \<Rightarrow> string \<Rightarrow> 's Service \<Rightarrow> 's Service \<times> (error + Call)" where
  "Resume st ctx callID userID deviceID s =
     (case resume_check st ctx callID userID s of
        Inl err \<Rightarrow> (s, Inl err)
      | Inr c \<Rightarrow> if IsTerminal c then (s, Inr c) else resume_apply st ctx callID userID deviceID s)"

definition ListActiveForUser ::
    "'s Store \<Rightarrow> ctx \<Rightarrow> string \<Rightarrow> string \<Rightarrow> 's Service \<Rightarrow> Call list" where
  "ListActiveForUser st ctx appID userID s =
     concat (map (\<lambda>id. case Get st ctx id s of
                     Inr c \<Rightarrow> if \<not> IsTerminal c then [c] else []
                   | Inl _ \<Rightarrow> [])
       (st_ActiveCallIDsForUser st ctx appID userID (sv_store s)))"

end
