(* ===== verification/CallInvariant.thy ===== *)
theory CallInvariant
  imports CallService
begin

text \<open>
  What every closure of the call runtime does to one call: the closures are well behaved in
  the sense the store relies on, they keep the well-formedness of a call, and they move it
  along the edges of the state machine. The runtime as a transition system (one rule per
  operation, ring timers and the two halves of \<open>Resume\<close> as steps of their own) follows, with
  the lemmas that lift these facts to every reachable state, proved once for any store that
  keeps the contract.
\<close>

section \<open>Well-formed calls and the state machine\<close>

definition live :: "CallState \<Rightarrow> bool" where
  "live cs \<longleftrightarrow> cs \<in> {StateRinging, StateAccepted, StateConnecting, StateConnected}"

text \<open>The moves between states: all from live states, \<open>StateTimeout\<close> only from \<open>StateRinging\<close>.\<close>

fun call_edge :: "CallState \<Rightarrow> CallState \<Rightarrow> bool" where
  "call_edge StateRinging t \<longleftrightarrow> t \<notin> {StateCreated, StateRinging}"
| "call_edge StateAccepted t \<longleftrightarrow> t \<in> {StateConnecting, StateConnected, StateEnded, StateRejected, StateCancelled, StateFailed}"
| "call_edge StateConnecting t \<longleftrightarrow> t \<in> {StateAccepted, StateConnected, StateEnded, StateRejected, StateCancelled, StateFailed}"
| "call_edge StateConnected t \<longleftrightarrow> t \<in> {StateEnded, StateRejected, StateCancelled, StateFailed}"
| "call_edge _ t \<longleftrightarrow> False"

definition call_ok :: "Call \<Rightarrow> bool" where
  "call_ok c \<longleftrightarrow>
     (live (c_State c) \<or> IsTerminal c) \<and>
     (IsTerminal c \<longleftrightarrow> c_EndedAt c \<noteq> None) \<and>
     (c_State c = StateConnected \<longrightarrow> c_StartedAt c \<noteq> None) \<and>
     (c_StartedAt c \<noteq> None \<and> \<not> IsTerminal c \<longrightarrow> c_State c = StateConnected) \<and>
     (c_Type c = TypeAudio \<or> c_Type c = TypeVideo) \<and>
     (c_Mode c = ModeDirect \<and> c_Transport c = TransportP2P \<and> length (c_Participants c) \<le> 2 \<or>
      c_Mode c = ModeGroup \<and> c_Transport c = TransportSFU) \<and>
     c_CallerID c \<noteq> '''' \<and> c_CallerID c \<in> p_UserID ` set (c_Participants c) \<and>
     (\<forall>p \<in> set (c_Participants c). p_CallID p = c_ID c) \<and>
     (c_State c = StateRejected \<longrightarrow> c_Mode c = ModeDirect) \<and>
     (c_State c = StateTimeout \<or> c_State c = StateCancelled \<longrightarrow>
        (\<forall>p \<in> set (c_Participants c). p_State p \<noteq> ParticipantRinging \<and> p_State p \<noteq> ParticipantInvited))"

text \<open>How a call may differ from an earlier version of itself.\<close>

definition evolves :: "Call \<Rightarrow> Call \<Rightarrow> bool" where
  "evolves c c' \<longleftrightarrow>
     keeps_identity c c' \<and> c_RoomID c' = c_RoomID c \<and> c_CallerID c' = c_CallerID c \<and>
     c_Type c' = c_Type c \<and> c_Mode c' = c_Mode c \<and> c_Transport c' = c_Transport c \<and>
     c_CreatedAt c' = c_CreatedAt c \<and>
     (c_StartedAt c \<noteq> None \<longrightarrow> c_StartedAt c' = c_StartedAt c) \<and>
     (IsTerminal c \<longrightarrow> c_State c' = c_State c \<and> c_StartedAt c' = c_StartedAt c \<and>
        c_EndedAt c' = c_EndedAt c \<and> c_Reason c' = c_Reason c)"

section \<open>The closures\<close>

inductive runtime_fn :: "string \<Rightarrow> update_fn \<Rightarrow> bool" for cid where
  timeout: "runtime_fn cid (timeout_fn now)"
| accept: "runtime_fn cid (accept_fn now u d)"
| reject: "runtime_fn cid (reject_fn now u)"
| cancel: "runtime_fn cid (cancel_fn now u)"
| join: "runtime_fn cid (join_fn now cid u d)"
| connected: "runtime_fn cid (connected_fn now u)"
| fail: "runtime_fn cid (fail_fn now reason)"
| resume: "runtime_fn cid (resume_fn u d)"
| ends: "runtime_fn cid (end_fn now u reason endCall)"

lemmas fn_defs = timeout_fn_def accept_fn_def reject_fn_def cancel_fn_def join_fn_def
  connected_fn_def fail_fn_def resume_fn_def end_fn_def Let_def

lemma set_participant_set:
  "set (c_Participants (set_participant u f c)) \<subseteq> set (c_Participants c) \<union> f ` set (c_Participants c)"
  unfolding set_participant_def using set_upd_first_subset by fastforce

lemma set_participant_all:
  "\<forall>p \<in> set (c_Participants c). P p \<Longrightarrow> (\<And>p. P p \<Longrightarrow> P (f p)) \<Longrightarrow>
   \<forall>p \<in> set (c_Participants (set_participant u f c)). P p"
  using set_participant_set [of u f c] by blast

lemma set_participant_user_set:
  "(\<And>p. p_UserID (f p) = p_UserID p) \<Longrightarrow>
   p_UserID ` set (c_Participants (set_participant u f c)) = p_UserID ` set (c_Participants c)"
  by (metis image_set set_participant_users)

lemma set_participant_length [simp]:
  "length (c_Participants (set_participant u f c)) = length (c_Participants c)"
  by (simp add: set_participant_def)

lemma disconnect_all_users [simp]:
  "map p_UserID (map (disconnect_ringing now) ps) = map p_UserID ps"
  "(p_UserID \<circ> disconnect_ringing now) = p_UserID"
  by (simp_all add: fun_eq_iff)

lemma disconnect_others_fields [simp]:
  "c_ID (disconnect_others now u c) = c_ID c" "c_RoomID (disconnect_others now u c) = c_RoomID c"
  "c_AppID (disconnect_others now u c) = c_AppID c"
  "c_CallerID (disconnect_others now u c) = c_CallerID c"
  "c_Type (disconnect_others now u c) = c_Type c" "c_Mode (disconnect_others now u c) = c_Mode c"
  "c_State (disconnect_others now u c) = c_State c"
  "c_Transport (disconnect_others now u c) = c_Transport c"
  "c_CreatedAt (disconnect_others now u c) = c_CreatedAt c"
  "c_StartedAt (disconnect_others now u c) = c_StartedAt c"
  "c_EndedAt (disconnect_others now u c) = c_EndedAt c"
  "c_Reason (disconnect_others now u c) = c_Reason c"
  "length (c_Participants (disconnect_others now u c)) = length (c_Participants c)"
  "map p_UserID (c_Participants (disconnect_others now u c)) = map p_UserID (c_Participants c)"
  "map p_CallID (c_Participants (disconnect_others now u c)) = map p_CallID (c_Participants c)"
  by (simp_all add: disconnect_others_def)

text \<open>Facts about the set of users or of call ids follow from the lists of them.\<close>

lemma users_set: "p_UserID ` set ps = set (map p_UserID ps)"
  by simp

lemma all_callid: "(\<forall>p \<in> set ps. p_CallID p = i) \<longleftrightarrow> set (map p_CallID ps) \<subseteq> {i}"
  by auto

lemma set_participant_callids [simp]:
  "(\<And>p. p_CallID (f p) = p_CallID p) \<Longrightarrow>
   map p_CallID (c_Participants (set_participant u f c)) = map p_CallID (c_Participants c)"
  by (simp add: set_participant_def map_upd_first)

lemma runtime_fn_error:
  "runtime_fn cid fn \<Longrightarrow> fn c = (c', Some e) \<Longrightarrow> c' = c"
  by (erule runtime_fn.cases) (auto simp: fn_defs split: if_splits option.splits)

lemma runtime_fn_keeps:
  assumes "runtime_fn cid fn"
  shows "keeps_identity c (fst (fn c))"
  using assms unfolding keeps_identity_def users_set
  by (cases rule: runtime_fn.cases)
     (auto simp: fn_defs simp del: set_map split: option.splits)

lemma runtime_fn_well_behaved: "runtime_fn cid fn \<Longrightarrow> well_behaved fn"
  unfolding well_behaved_def
  by (metis not_None_eq prod.collapse runtime_fn_error runtime_fn_keeps)

lemma runtime_fn_evolves:
  assumes "runtime_fn cid fn" "fn c = (c', r)"
  shows "evolves c c'"
proof -
  have "keeps_identity c c'" using runtime_fn_keeps [OF assms(1), of c] assms(2) by simp
  with assms show ?thesis
    by (cases rule: runtime_fn.cases)
       (auto simp: fn_defs evolves_def IsTerminal_def split: option.splits if_splits CallState.splits)
qed

lemma runtime_fn_edge:
  assumes "runtime_fn cid fn" "fn c = (c', r)" "call_ok c"
  shows "c_State c' = c_State c \<or> call_edge (c_State c) (c_State c')"
proof (cases "IsTerminal c")
  case True
  with runtime_fn_evolves [OF assms(1,2)] show ?thesis by (simp add: evolves_def)
next
  case False
  with assms(3) have "live (c_State c)" by (auto simp: call_ok_def)
  with assms(1,2) False show ?thesis
    by (cases rule: runtime_fn.cases)
       (auto simp: fn_defs live_def split: option.splits if_splits)
qed

text \<open>Well-formedness with the participants seen through the lists of their users and call ids.\<close>

lemma call_okI:
  assumes "live (c_State c) \<or> IsTerminal c" "IsTerminal c \<longleftrightarrow> c_EndedAt c \<noteq> None"
    "c_State c = StateConnected \<longrightarrow> c_StartedAt c \<noteq> None"
    "c_StartedAt c \<noteq> None \<and> \<not> IsTerminal c \<longrightarrow> c_State c = StateConnected"
    "c_Type c = TypeAudio \<or> c_Type c = TypeVideo"
    "c_Mode c = ModeDirect \<and> c_Transport c = TransportP2P \<and> length (c_Participants c) \<le> 2 \<or>
     c_Mode c = ModeGroup \<and> c_Transport c = TransportSFU"
    "c_CallerID c \<noteq> ''''" "c_CallerID c \<in> set (map p_UserID (c_Participants c))"
    "set (map p_CallID (c_Participants c)) \<subseteq> {c_ID c}"
    "c_State c = StateRejected \<longrightarrow> c_Mode c = ModeDirect"
    "c_State c = StateTimeout \<or> c_State c = StateCancelled \<longrightarrow>
       (\<forall>p \<in> set (c_Participants c). p_State p \<noteq> ParticipantRinging \<and> p_State p \<noteq> ParticipantInvited)"
  shows "call_ok c"
  using assms unfolding call_ok_def by auto

lemma call_okD:
  assumes "call_ok c"
  shows "live (c_State c) \<or> IsTerminal c" "IsTerminal c \<longleftrightarrow> c_EndedAt c \<noteq> None"
    "c_State c = StateConnected \<longrightarrow> c_StartedAt c \<noteq> None"
    "c_StartedAt c \<noteq> None \<and> \<not> IsTerminal c \<longrightarrow> c_State c = StateConnected"
    "c_Type c = TypeAudio \<or> c_Type c = TypeVideo"
    "c_Mode c = ModeDirect \<and> c_Transport c = TransportP2P \<and> length (c_Participants c) \<le> 2 \<or>
     c_Mode c = ModeGroup \<and> c_Transport c = TransportSFU"
    "c_CallerID c \<noteq> ''''" "c_CallerID c \<in> set (map p_UserID (c_Participants c))"
    "set (map p_CallID (c_Participants c)) \<subseteq> {c_ID c}"
    "c_State c = StateRejected \<longrightarrow> c_Mode c = ModeDirect"
    "c_State c = StateTimeout \<or> c_State c = StateCancelled \<longrightarrow>
       (\<forall>p \<in> set (c_Participants c). p_State p \<noteq> ParticipantRinging \<and> p_State p \<noteq> ParticipantInvited)"
  using assms unfolding call_ok_def by auto

lemma call_ok_end:
  assumes "call_ok c" "\<not> IsTerminal c"
    "t \<in> {StateEnded, StateCancelled, StateTimeout, StateFailed} \<or> t = StateRejected \<and> c_Mode c = ModeDirect"
    "map p_UserID ps = map p_UserID (c_Participants c)" "map p_CallID ps = map p_CallID (c_Participants c)"
    "t = StateTimeout \<or> t = StateCancelled \<longrightarrow>
       (\<forall>p \<in> set ps. p_State p \<noteq> ParticipantRinging \<and> p_State p \<noteq> ParticipantInvited)"
  shows "call_ok (c\<lparr>c_State := t, c_EndedAt := Some now, c_Reason := r, c_Participants := ps\<rparr>)"
  using assms(3,6) call_okD(5-10) [OF assms(1)] assms(2) map_eq_imp_length_eq [OF assms(4)]
  by (intro call_okI)
     (auto simp: assms(4,5) IsTerminal_iff live_def simp del: set_map)

lemma IsTerminal_participants [simp]: "IsTerminal (c\<lparr>c_Participants := ps\<rparr>) = IsTerminal c"
  by (simp add: IsTerminal_def)

lemma call_ok_participants:
  assumes "call_ok c" "\<not> IsTerminal c"
    "map p_UserID ps = map p_UserID (c_Participants c)" "map p_CallID ps = map p_CallID (c_Participants c)"
  shows "call_ok (c\<lparr>c_Participants := ps\<rparr>)"
proof -
  note D = call_okD [OF assms(1)]
  have len: "length ps = length (c_Participants c)" using assms(3) by (rule map_eq_imp_length_eq)
  have "c_State c \<noteq> StateTimeout" "c_State c \<noteq> StateCancelled"
    using assms(2) by (auto simp: IsTerminal_iff)
  with D(1-10) len assms(2) show ?thesis
    by (intro call_okI) (simp_all add: assms(3,4) del: set_map)
qed

lemma set_participant_update: "set_participant u f c =
    c\<lparr>c_Participants := c_Participants (set_participant u f c)\<rparr>"
  by (simp add: set_participant_def)

lemma call_ok_set_participant:
  assumes "call_ok c" "\<not> IsTerminal c"
    "\<And>p. p_UserID (f p) = p_UserID p" "\<And>p. p_CallID (f p) = p_CallID p"
  shows "call_ok (set_participant u f c)"
  by (subst set_participant_update, rule call_ok_participants) (simp_all add: assms)

lemma call_ok_timeout: "call_ok c \<Longrightarrow> timeout_fn now c = (c', None) \<Longrightarrow> call_ok c'"
  by (auto simp: timeout_fn_def IsTerminal_iff split: if_splits intro!: call_ok_end)

lemma call_ok_cancel: "call_ok c \<Longrightarrow> cancel_fn now u c = (c', None) \<Longrightarrow> call_ok c'"
  by (auto simp: cancel_fn_def split: if_splits intro!: call_ok_end)

lemma call_ok_state:
  assumes "call_ok c" "\<not> IsTerminal c" "c_StartedAt c = None" "t = StateAccepted \<or> t = StateConnecting"
  shows "call_ok (c\<lparr>c_State := t\<rparr>)"
proof -
  note D = call_okD [OF assms(1)]
  have "\<not> IsTerminal (c\<lparr>c_State := t\<rparr>)" "live t" using assms(4) by (auto simp: IsTerminal_iff live_def)
  with D(1-10) assms(2-4) show ?thesis by (intro call_okI) auto
qed

lemma call_ok_connect:
  assumes "call_ok c" "\<not> IsTerminal c"
  shows "call_ok (c\<lparr>c_StartedAt := Some now, c_State := StateConnected\<rparr>)"
proof -
  note D = call_okD [OF assms(1)]
  have "\<not> IsTerminal (c\<lparr>c_StartedAt := Some now, c_State := StateConnected\<rparr>)" "live StateConnected"
    by (auto simp: IsTerminal_iff live_def)
  with D(1-10) assms(2) show ?thesis by (intro call_okI) auto
qed

lemma not_started:
  "call_ok c \<Longrightarrow> \<not> IsTerminal c \<Longrightarrow> c_State c \<noteq> StateConnected \<Longrightarrow> c_StartedAt c = None"
  using call_okD(4) by blast

lemma call_ok_disconnect_others:
  "call_ok c \<Longrightarrow> \<not> IsTerminal c \<Longrightarrow> call_ok (disconnect_others now u c)"
  unfolding disconnect_others_def by (rule call_ok_participants) auto

lemma IsTerminal_set_participant [simp]: "IsTerminal (set_participant u f c) = IsTerminal c"
  by (simp add: IsTerminal_def)

lemma call_ok_accept: "call_ok c \<Longrightarrow> accept_fn now u d c = (c', None) \<Longrightarrow> call_ok c'"
  by (auto simp: accept_fn_def Let_def IsTerminal_iff not_started split: if_splits option.splits
      intro!: call_ok_disconnect_others call_ok_state call_ok_set_participant)

lemma call_ok_end_participant:
  assumes "call_ok c" "\<not> IsTerminal c" "t = StateEnded \<or> t = StateRejected \<and> c_Mode c = ModeDirect"
    "\<And>p. p_UserID (f p) = p_UserID p" "\<And>p. p_CallID (f p) = p_CallID p"
  shows "call_ok ((set_participant u f c)\<lparr>c_State := t, c_EndedAt := Some now, c_Reason := r\<rparr>)"
proof -
  have "(set_participant u f c)\<lparr>c_State := t, c_EndedAt := Some now, c_Reason := r\<rparr> =
    c\<lparr>c_State := t, c_EndedAt := Some now, c_Reason := r, c_Participants := c_Participants (set_participant u f c)\<rparr>"
    by (simp add: set_participant_def)
  also have "call_ok \<dots>" by (rule call_ok_end) (use assms in auto)
  finally show ?thesis .
qed

lemma call_ok_reject: "call_ok c \<Longrightarrow> reject_fn now u c = (c', None) \<Longrightarrow> call_ok c'"
  by (auto simp: reject_fn_def Let_def split: if_splits option.splits
      intro!: call_ok_end_participant call_ok_set_participant)

lemma call_ok_ends: "call_ok c \<Longrightarrow> end_fn now u reason endCall c = (c', None) \<Longrightarrow> call_ok c'"
  by (auto simp: end_fn_def Let_def split: if_splits option.splits
      intro!: call_ok_end_participant call_ok_set_participant)

lemma call_ok_connected: "call_ok c \<Longrightarrow> connected_fn now u c = (c', None) \<Longrightarrow> call_ok c'"
  by (auto simp: connected_fn_def Let_def split: if_splits option.splits
      intro!: call_ok_connect call_ok_set_participant)

lemma call_ok_fail: "call_ok c \<Longrightarrow> fail_fn now r c = (c', None) \<Longrightarrow> call_ok c'"
  using call_ok_end [where c = c and t = StateFailed and ps = "c_Participants c"]
  by (auto simp: fail_fn_def split: if_splits)

lemma call_ok_add_participant:
  assumes "call_ok c" "\<not> IsTerminal c" "c_Mode c = ModeGroup" "p_CallID p = c_ID c"
  shows "call_ok (c\<lparr>c_Participants := c_Participants c @ [p]\<rparr>)"
proof -
  note D = call_okD [OF assms(1)]
  have "c_State c \<noteq> StateTimeout" "c_State c \<noteq> StateCancelled"
    using assms(2) by (auto simp: IsTerminal_iff)
  with D(1-10) assms show ?thesis by (intro call_okI) auto
qed

lemma call_ok_join:
  assumes "call_ok c" "join_fn now (c_ID c) u d c = (c', None)"
  shows "call_ok c'"
proof -
  define c1 where "c1 = (if FindParticipant u c = None
    then c\<lparr>c_Participants := c_Participants c @
      [\<lparr>p_CallID = c_ID c, p_UserID = u, p_DeviceID = '''', p_State = ParticipantInvited,
        p_JoinedAt = None, p_LeftAt = None, p_Role = ''participant''\<rparr>]\<rparr> else c)"
  define c2 where "c2 = set_participant u (\<lambda>p. p\<lparr>p_DeviceID := d, p_State := ParticipantConnecting,
       p_JoinedAt := (if p_JoinedAt p = None then Some now else p_JoinedAt p)\<rparr>) c1"
  from assms(2) have nt: "\<not> IsTerminal c" and mode: "FindParticipant u c \<noteq> None \<or> c_Mode c = ModeGroup"
    by (auto simp: join_fn_def split: if_splits)
  have c': "c' = (if c_State c2 = StateAccepted \<or> c_State c2 = StateRinging
                  then c2\<lparr>c_State := StateConnecting\<rparr> else c2)"
    using assms(2) nt mode unfolding join_fn_def Let_def c1_def c2_def
    by (cases "FindParticipant u c") (auto split: if_splits)
  have c1: "call_ok c1" "\<not> IsTerminal c1"
    using assms(1) nt mode by (auto simp: c1_def intro: call_ok_add_participant)
  then have c2: "call_ok c2" "\<not> IsTerminal c2"
    unfolding c2_def by (auto intro: call_ok_set_participant)
  then have "c_State c2 = StateAccepted \<or> c_State c2 = StateRinging \<Longrightarrow>
      call_ok (c2\<lparr>c_State := StateConnecting\<rparr>)"
    by (intro call_ok_state) (auto intro: not_started)
  with c2 c' show ?thesis by (simp split: if_splits)
qed

lemma call_ok_resume: "call_ok c \<Longrightarrow> resume_fn u d c = (c', r) \<Longrightarrow> call_ok c'"
proof -
  assume ok: "call_ok c" and res: "resume_fn u d c = (c', r)"
  note D = call_okD [OF ok]
  let ?f = "\<lambda>p. let p = p\<lparr>p_DeviceID := d\<rparr>
              in if p_State p = ParticipantDisconnected \<or> p_State p = ParticipantReconnecting \<or>
                    p_State p = ParticipantConnected
                 then p\<lparr>p_State := ParticipantReconnecting\<rparr> else p"
  have "\<forall>p \<in> set (c_Participants (set_participant u ?f c)).
          p_State p \<noteq> ParticipantRinging \<and> p_State p \<noteq> ParticipantInvited"
    if "c_State c = StateTimeout \<or> c_State c = StateCancelled"
    using D(11) that by (intro set_participant_all) (auto simp: Let_def)
  with D(1-10) have "call_ok (set_participant u ?f c)"
    by (intro call_okI) (simp_all add: Let_def del: set_map)
  then show ?thesis using res by (simp add: resume_fn_def)
qed

lemma runtime_fn_ok:
  assumes "runtime_fn cid fn" "fn c = (c', None)" "call_ok c" "c_ID c = cid"
  shows "call_ok c'"
  using assms
  by (cases rule: runtime_fn.cases)
     (auto intro: call_ok_timeout call_ok_accept call_ok_reject call_ok_cancel call_ok_connected
       call_ok_fail call_ok_ends call_ok_join call_ok_resume)

end
