(* ===== verification/CallRuntime.thy ===== *)
theory CallRuntime
  imports CallInvariant
begin

text \<open>
  The call runtime as a transition system. Requests of any number of users, the goroutines of
  the ring timers and the two halves of \<open>Resume\<close> interleave freely; each rule is one
  critical section of the store followed by the bus calls of its operation. A new identifier
  is assumed unused when a call is created, which is what the ULID generator provides.
\<close>

section \<open>Steps\<close>

record 's Runtime =
  rt_svc :: "'s Service"
  rt_resuming :: "(string \<times> string \<times> string) list"

definition new_runtime :: "'s \<Rightarrow> Bus option \<Rightarrow> duration \<Rightarrow> 's Runtime" where
  "new_runtime store bus ringTimeout =
     \<lparr>rt_svc = SetRingTimeoutHandler (NewService store bus ringTimeout), rt_resuming = []\<rparr>"

inductive call_step :: "'s Store \<Rightarrow> 's Runtime \<Rightarrow> 's Runtime \<Rightarrow> bool" for st where
  create: "Get st Background (''call_'' @ id1) (rt_svc r) = Inl CallNotFound \<Longrightarrow>
     call_step st r (r\<lparr>rt_svc := fst (Create st ctx now id1 id2 inp (rt_svc r))\<rparr>)"
| accept: "call_step st r (r\<lparr>rt_svc := fst (Accept st ctx now cid u d (rt_svc r))\<rparr>)"
| reject: "call_step st r (r\<lparr>rt_svc := fst (Reject st ctx now cid u (rt_svc r))\<rparr>)"
| cancel: "call_step st r (r\<lparr>rt_svc := fst (Cancel st ctx now cid u (rt_svc r))\<rparr>)"
| join: "call_step st r (r\<lparr>rt_svc := fst (Join st ctx now cid u d (rt_svc r))\<rparr>)"
| connected: "call_step st r (r\<lparr>rt_svc := fst (MarkConnected st ctx now cid u (rt_svc r))\<rparr>)"
| leave: "call_step st r (r\<lparr>rt_svc := fst (Leave st ctx now cid u (rt_svc r))\<rparr>)"
| hangup: "call_step st r (r\<lparr>rt_svc := fst (Hangup st ctx now cid u (rt_svc r))\<rparr>)"
| fail: "call_step st r (r\<lparr>rt_svc := fst (Fail st ctx now cid reason (rt_svc r))\<rparr>)"
| timeout: "(cid, due) \<in> set (sv_timers (rt_svc r)) \<Longrightarrow> due \<le> now \<Longrightarrow>
     call_step st r (r\<lparr>rt_svc := (fire_timeout st now cid (rt_svc r))
                                  \<lparr>sv_timers := remove1 (cid, due) (sv_timers (rt_svc r))\<rparr>\<rparr>)"
| resume_begin: "resume_check st ctx cid u (rt_svc r) = Inr c \<Longrightarrow> \<not> IsTerminal c \<Longrightarrow>
     call_step st r (r\<lparr>rt_resuming := (cid, u, d) # rt_resuming r\<rparr>)"
| resume_finish: "(cid, u, d) \<in> set (rt_resuming r) \<Longrightarrow>
     call_step st r (r\<lparr>rt_svc := fst (resume_apply st ctx cid u d (rt_svc r)),
                       rt_resuming := remove1 (cid, u, d) (rt_resuming r)\<rparr>)"

inductive call_steps :: "'s Store \<Rightarrow> 's Runtime \<Rightarrow> 's Runtime \<Rightarrow> bool" for st where
  steps_refl: "call_steps st r r"
| steps_step: "call_steps st r r' \<Longrightarrow> call_step st r' r'' \<Longrightarrow> call_steps st r r''"

text \<open>How often the end of a call was announced on the bus, and how often it should be.\<close>

definition ended_count :: "string \<Rightarrow> call_event list \<Rightarrow> nat" where
  "ended_count cid evs = length (filter (\<lambda>e. ev_Type e = CallEnded \<and> ev_CallID e = cid) evs)"

fun ended_due :: "Call option \<Rightarrow> nat" where
  "ended_due (Some c) = (if IsTerminal c \<and> c_State c \<noteq> StateFailed then 1 else 0)"
| "ended_due None = 0"

section \<open>Publishing\<close>

lemma publish_fields [simp]:
  "sv_store (publish now typ c u x s) = sv_store s" "sv_bus (publish now typ c u x s) = sv_bus s"
  "sv_timers (publish now typ c u x s) = sv_timers s"
  "sv_ringTimeout (publish now typ c u x s) = sv_ringTimeout s"
  "sv_onRingTimeout (publish now typ c u x s) = sv_onRingTimeout s"
  "sv_timeouts (publish now typ c u x s) = sv_timeouts s"
  by (simp_all add: publish_def split: option.splits)

lemma ended_count_append [simp]: "ended_count cid (xs @ ys) = ended_count cid xs + ended_count cid ys"
  by (simp add: ended_count_def)

lemma ended_count_publish:
  "sv_bus s \<noteq> None \<Longrightarrow>
   ended_count cid (sv_published (publish now typ c u x s)) =
     ended_count cid (sv_published s) + (if typ = CallEnded \<and> c_ID c = cid then 1 else 0)"
  by (auto simp: publish_def ended_count_def)

section \<open>What a step does to the store and to the announcements\<close>

text \<open>
  A step leaves every call alone, adds one well-formed call, or applies one closure to one call;
  it announces the end of exactly the calls whose end became due.
\<close>

definition announces ::
    "(string \<Rightarrow> Call option) \<Rightarrow> 's Service \<Rightarrow> (string \<Rightarrow> Call option) \<Rightarrow> 's Service \<Rightarrow> bool" where
  "announces L s L' s' \<longleftrightarrow> sv_bus s' = sv_bus s \<and>
     (sv_bus s \<noteq> None \<longrightarrow> (\<forall>i. ended_count i (sv_published s) = ended_due (L i) \<longrightarrow>
        ended_count i (sv_published s') = ended_due (L' i)))"

definition updates :: "(string \<Rightarrow> Call option) \<Rightarrow> (string \<Rightarrow> Call option) \<Rightarrow> bool" where
  "updates L L' \<longleftrightarrow> L' = L \<or>
     (\<exists>cid fn c c'. runtime_fn cid fn \<and> L cid = Some c \<and> fn c = (c', None) \<and> L' = L(cid \<mapsto> c'))"

definition changes :: "(string \<Rightarrow> Call option) \<Rightarrow> (string \<Rightarrow> Call option) \<Rightarrow> bool" where
  "changes L L' \<longleftrightarrow> updates L L' \<or>
     (\<exists>c. L (c_ID c) = None \<and> call_ok c \<and> c_State c = StateRinging \<and> L' = L(c_ID c \<mapsto> c))"

lemma updates_domain: "updates L L' \<Longrightarrow> L i = None \<Longrightarrow> L' i = None"
  by (auto simp: updates_def)

lemma new_call_ok:
  assumes "create_check inp = None"
  shows "call_ok (new_call now cid rid inp)"
proof -
  have "length (filter P xs) \<le> 1" if "length xs = 1" for P and xs :: "string list"
    using that length_filter_le [of P xs] by simp
  with assms show ?thesis
    by (intro call_okI)
       (auto simp: create_check_def new_call_def new_participants_def live_def IsTerminal_def
         split: if_splits)
qed

text \<open>What the success of a closure says about the states before and after.\<close>

lemma accept_states: "accept_fn now u d c = (c', None) \<Longrightarrow> \<not> IsTerminal c \<and> \<not> IsTerminal c'"
  by (auto simp: accept_fn_def Let_def IsTerminal_def split: if_splits option.splits CallState.splits)

lemma join_states: "join_fn now cid u d c = (c', None) \<Longrightarrow> \<not> IsTerminal c \<and> \<not> IsTerminal c'"
  by (auto simp: join_fn_def Let_def IsTerminal_def split: if_splits CallState.splits)

lemma connected_states: "connected_fn now u c = (c', None) \<Longrightarrow> \<not> IsTerminal c \<and> \<not> IsTerminal c'"
  by (auto simp: connected_fn_def Let_def IsTerminal_def split: if_splits option.splits CallState.splits)

lemma reject_states:
  "reject_fn now u c = (c', None) \<Longrightarrow> \<not> IsTerminal c \<and> (IsTerminal c' \<longleftrightarrow> c_State c' = StateRejected)"
  by (auto simp: reject_fn_def Let_def IsTerminal_def split: if_splits option.splits CallState.splits)

lemma end_states:
  "end_fn now u reason e c = (c', None) \<Longrightarrow> \<not> IsTerminal c \<and> (IsTerminal c' \<longleftrightarrow> c_State c' = StateEnded)"
  by (auto simp: end_fn_def Let_def IsTerminal_def split: if_splits option.splits CallState.splits)

lemma cancel_states:
  "cancel_fn now u c = (c', None) \<Longrightarrow> \<not> IsTerminal c \<and> c_State c' = StateCancelled \<and> IsTerminal c'"
  by (auto simp: cancel_fn_def IsTerminal_def split: if_splits)

lemma timeout_states:
  "timeout_fn now c = (c', None) \<Longrightarrow> \<not> IsTerminal c \<and> c_State c' = StateTimeout \<and> IsTerminal c'"
  by (auto simp: timeout_fn_def IsTerminal_def split: if_splits)

lemma fail_states: "fail_fn now reason c = (c', None) \<Longrightarrow> ended_due (Some c') = ended_due (Some c)"
  by (auto simp: fail_fn_def IsTerminal_def split: if_splits)

lemma resume_states: "resume_fn u d c = (c', None) \<Longrightarrow> ended_due (Some c') = ended_due (Some c)"
  by (auto simp: resume_fn_def IsTerminal_def)

lemmas closure_states = accept_states join_states connected_states reject_states end_states
  cancel_states timeout_states

context call_store
begin

lemma run_update_cases:
  assumes "invar (sv_store s)" "runtime_fn cid fn" "run_update st ctx cid fn s = (s', r)"
  obtains (ok) c c' where "r = Inr c'" "lookup (sv_store s) cid = Some c" "fn c = (c', None)"
      "s' = s\<lparr>sv_store := sv_store s'\<rparr>" "lookup (sv_store s') = (lookup (sv_store s))(cid \<mapsto> c')"
      "invar (sv_store s')" "c_ID c' = cid" "c_ID c = cid"
    | (err) e where "r = Inl e" "s' = s\<lparr>sv_store := sv_store s'\<rparr>"
      "lookup (sv_store s') = lookup (sv_store s)" "invar (sv_store s')"
proof -
  obtain sto where u: "st_Update st ctx cid fn (sv_store s) = (sto, r)" and s': "s' = s\<lparr>sv_store := sto\<rparr>"
    using assms(3) by (auto simp: run_update_def split: prod.splits)
  show thesis
  proof (cases rule: update_cases [OF assms(1) runtime_fn_well_behaved [OF assms(2)] u])
    case (1 c c')
    moreover from 1 have "c_ID c = cid" using lookup_id [OF assms(1)] by blast
    moreover have "c_ID c' = cid" using 1 lookup_id [of sto cid c'] by simp
    ultimately show thesis using s' by (intro ok [where c = c and c' = c']) auto
  next
    case (2 e)
    with s' show thesis by (intro err) auto
  qed
qed

text \<open>The shape all operations share: a closure, and on success some bus calls.\<close>

lemma update_op:
  assumes inv: "invar (sv_store s)" and fn: "runtime_fn cid fn"
    and op: "case run_update st ctx cid fn s of (t, Inl e) \<Rightarrow> s' = t | (t, Inr c) \<Rightarrow> s' = pub c t"
    and pub: "\<And>c t. sv_store (pub c t) = sv_store t \<and> sv_bus (pub c t) = sv_bus t"
    and ann: "\<And>c c' t i. fn c = (c', None) \<Longrightarrow> sv_bus t \<noteq> None \<Longrightarrow> c_ID c = cid \<Longrightarrow> c_ID c' = cid \<Longrightarrow>
       ended_count i (sv_published (pub c' t)) + (if i = cid then ended_due (Some c) else 0) =
       ended_count i (sv_published t) + (if i = cid then ended_due (Some c') else 0)"
  shows "invar (sv_store s') \<and> updates (lookup (sv_store s)) (lookup (sv_store s')) \<and>
     announces (lookup (sv_store s)) s (lookup (sv_store s')) s'"
proof -
  obtain t r where u: "run_update st ctx cid fn s = (t, r)" by fastforce
  show ?thesis
  proof (cases rule: run_update_cases [OF inv fn u])
    case (1 c c')
    with op u have s': "s' = pub c' t" by simp
    have pt: "sv_published t = sv_published s" "sv_bus t = sv_bus s" by (subst 1(4), simp)+
    have "updates (lookup (sv_store s)) (lookup (sv_store t))"
      using 1 fn unfolding updates_def by blast
    moreover have "announces (lookup (sv_store s)) s (lookup (sv_store t)) (pub c' t)"
      unfolding announces_def
    proof (intro conjI impI allI)
      show "sv_bus (pub c' t) = sv_bus s" using pub pt by simp
    next
      fix i
      assume "sv_bus s \<noteq> None" and "ended_count i (sv_published s) = ended_due (lookup (sv_store s) i)"
      with ann [OF 1(3), of t i] 1(2,5,7,8) pt
      show "ended_count i (sv_published (pub c' t)) = ended_due (lookup (sv_store t) i)"
        by (simp del: ended_due.simps split: if_splits)
    qed
    ultimately show ?thesis using 1 s' pub by simp
  next
    case (2 e)
    with op u have s': "s' = t" by simp
    have "sv_published t = sv_published s" "sv_bus t = sv_bus s" by (subst 2(2), simp)+
    with 2 s' show ?thesis by (simp add: updates_def announces_def)
  qed
qed

end

context call_store
begin

lemma step_accept:
  "invar (sv_store s) \<Longrightarrow> s' = fst (Accept st ctx now cid u d s) \<Longrightarrow>
   invar (sv_store s') \<and> updates (lookup (sv_store s)) (lookup (sv_store s')) \<and>
   announces (lookup (sv_store s)) s (lookup (sv_store s')) s'"
  by (rule update_op [OF _ runtime_fn.accept [of cid now u d], where ctx = ctx and pub = "\<lambda>c t. publish now CallAccepted c u
        [''accepted_device_id'' \<mapsto> PStr d, ''stop_ringing'' \<mapsto> PBool True] t"])
     (auto simp: Accept_def ended_count_publish dest: accept_states split: prod.splits sum.splits)

lemma step_join:
  "invar (sv_store s) \<Longrightarrow> s' = fst (Join st ctx now cid u d s) \<Longrightarrow>
   invar (sv_store s') \<and> updates (lookup (sv_store s)) (lookup (sv_store s')) \<and>
   announces (lookup (sv_store s)) s (lookup (sv_store s')) s'"
  by (rule update_op [OF _ runtime_fn.join [of cid now u d], where ctx = ctx and
        pub = "\<lambda>c t. publish now CallParticipantJoined c u Map.empty t"])
     (auto simp: Join_def ended_count_publish dest: join_states split: prod.splits sum.splits)

lemma step_connected:
  "invar (sv_store s) \<Longrightarrow> s' = fst (MarkConnected st ctx now cid u s) \<Longrightarrow>
   invar (sv_store s') \<and> updates (lookup (sv_store s)) (lookup (sv_store s')) \<and>
   announces (lookup (sv_store s)) s (lookup (sv_store s')) s'"
  by (rule update_op [OF _ runtime_fn.connected [of cid now u], where ctx = ctx and
        pub = "\<lambda>c t. publish now CallConnected c u Map.empty t"])
     (auto simp: MarkConnected_def ended_count_publish dest: connected_states
       split: prod.splits sum.splits)

lemma step_reject:
  "invar (sv_store s) \<Longrightarrow> s' = fst (Reject st ctx now cid u s) \<Longrightarrow>
   invar (sv_store s') \<and> updates (lookup (sv_store s)) (lookup (sv_store s')) \<and>
   announces (lookup (sv_store s)) s (lookup (sv_store s')) s'"
  by (rule update_op [OF _ runtime_fn.reject [of cid now u], where ctx = ctx and
        pub = "\<lambda>c t. let t = publish now CallRejected c u Map.empty t
           in if c_State c = StateRejected
              then publish now CallEnded c u [''reason'' \<mapsto> PStr ''rejected''] t else t"])
     (auto simp: Reject_def Let_def ended_count_publish dest: reject_states
       split: prod.splits sum.splits)

lemma step_cancel:
  "invar (sv_store s) \<Longrightarrow> s' = fst (Cancel st ctx now cid u s) \<Longrightarrow>
   invar (sv_store s') \<and> updates (lookup (sv_store s)) (lookup (sv_store s')) \<and>
   announces (lookup (sv_store s)) s (lookup (sv_store s')) s'"
  by (rule update_op [OF _ runtime_fn.cancel [of cid now u], where ctx = ctx and
        pub = "\<lambda>c t. publish now CallEnded c u [''reason'' \<mapsto> PStr ''cancelled'']
                 (publish now CallCancelled c u Map.empty t)"])
     (auto simp: Cancel_def Let_def ended_count_publish dest: cancel_states
       split: prod.splits sum.splits)

lemma step_end:
  "invar (sv_store s) \<Longrightarrow> s' = fst (endForUser st ctx now cid u reason e s) \<Longrightarrow>
   invar (sv_store s') \<and> updates (lookup (sv_store s)) (lookup (sv_store s')) \<and>
   announces (lookup (sv_store s)) s (lookup (sv_store s')) s'"
  by (rule update_op [OF _ runtime_fn.ends [of cid now u reason e], where ctx = ctx and
        pub = "\<lambda>c t. let t = publish now CallParticipantLeft c u [''reason'' \<mapsto> PStr reason] t
           in if IsTerminal c then publish now CallEnded c u [''reason'' \<mapsto> PStr reason] t else t"])
     (auto simp: endForUser_def Let_def ended_count_publish dest: end_states
       split: prod.splits sum.splits)

lemma step_fail:
  "invar (sv_store s) \<Longrightarrow> s' = fst (Fail st ctx now cid reason s) \<Longrightarrow>
   invar (sv_store s') \<and> updates (lookup (sv_store s)) (lookup (sv_store s')) \<and>
   announces (lookup (sv_store s)) s (lookup (sv_store s')) s'"
  by (rule update_op [OF _ runtime_fn.fail [of cid now reason], where ctx = ctx and
        pub = "\<lambda>c t. publish now CallFailed c '''' [''reason'' \<mapsto> PStr reason] t"])
     (auto simp: Fail_def ended_count_publish simp del: ended_due.simps dest: fail_states
       split: prod.splits sum.splits)

lemma step_resume:
  "invar (sv_store s) \<Longrightarrow> s' = fst (resume_apply st ctx cid u d s) \<Longrightarrow>
   invar (sv_store s') \<and> updates (lookup (sv_store s)) (lookup (sv_store s')) \<and>
   announces (lookup (sv_store s)) s (lookup (sv_store s')) s'"
  by (rule update_op [OF _ runtime_fn.resume [of cid u d], where ctx = ctx and pub = "\<lambda>c t. t"])
     (auto simp: resume_apply_def simp del: ended_due.simps dest: resume_states
       split: prod.splits sum.splits)

end

lemma evolves_refl [simp]: "evolves c c"
  by (simp add: evolves_def keeps_identity_def)

lemma keeps_identity_trans:
  "keeps_identity c c' \<Longrightarrow> keeps_identity c' c'' \<Longrightarrow> keeps_identity c c''"
  unfolding keeps_identity_def by (metis subset_trans)

lemma evolves_trans: "evolves c c' \<Longrightarrow> evolves c' c'' \<Longrightarrow> evolves c c''"
  unfolding evolves_def using keeps_identity_trans [of c c' c''] IsTerminal_cong [of c' c] by auto

lemma changes_evolves:
  assumes "changes L L'" "L cid = Some c"
  shows "\<exists>c'. L' cid = Some c' \<and> evolves c c'"
  using assms(1) unfolding changes_def updates_def
proof (elim disjE exE conjE)
  fix cid' fn c1 c2
  assume "runtime_fn cid' fn" "L cid' = Some c1" "fn c1 = (c2, None)" "L' = L(cid' \<mapsto> c2)"
  with assms(2) runtime_fn_evolves [of cid' fn c1 c2 None] show ?thesis by (cases "cid = cid'") auto
qed (use assms(2) in auto)

lemma changes_edge:
  assumes "changes L L'" "L cid = Some c" "call_ok c" "L' cid = Some c'"
  shows "c_State c' = c_State c \<or> call_edge (c_State c) (c_State c')"
  using assms(1) unfolding changes_def updates_def
proof (elim disjE exE conjE)
  fix cid' fn c1 c2
  assume "runtime_fn cid' fn" "L cid' = Some c1" "fn c1 = (c2, None)" "L' = L(cid' \<mapsto> c2)"
  with assms(2-4) runtime_fn_edge [of cid' fn c1 c2 None] show ?thesis by (cases "cid = cid'") auto
qed (use assms(2,4) in \<open>auto split: if_splits\<close>)

lemma changes_ok:
  assumes "changes L L'" "\<forall>cid c. L cid = Some c \<longrightarrow> call_ok c \<and> c_ID c = cid"
  shows "\<forall>cid c. L' cid = Some c \<longrightarrow> call_ok c"
  using assms(1) unfolding changes_def updates_def
proof (elim disjE exE conjE)
  fix cid' fn c1 c2
  assume "runtime_fn cid' fn" "L cid' = Some c1" "fn c1 = (c2, None)" "L' = L(cid' \<mapsto> c2)"
  with assms(2) runtime_fn_ok [of cid' fn c1 c2] show ?thesis by auto
qed (use assms(2) in auto)

context call_store
begin

definition runtime_inv :: "'s Runtime \<Rightarrow> bool" where
  "runtime_inv r \<longleftrightarrow> invar (sv_store (rt_svc r)) \<and>
     (\<forall>cid c. lookup (sv_store (rt_svc r)) cid = Some c \<longrightarrow> call_ok c) \<and>
     (sv_bus (rt_svc r) \<noteq> None \<longrightarrow> (\<forall>i. ended_count i (sv_published (rt_svc r)) =
        ended_due (lookup (sv_store (rt_svc r)) i)))"

lemma step_timeout:
  assumes "invar (sv_store s)" "s' = fire_timeout st now cid s"
  shows "invar (sv_store s') \<and> updates (lookup (sv_store s)) (lookup (sv_store s')) \<and>
   announces (lookup (sv_store s)) s (lookup (sv_store s')) s'"
proof (rule update_op [OF assms(1) runtime_fn.timeout [of cid now], where ctx = Background and
        pub = "\<lambda>c t. (let t = publish now CallEnded c '''' [''reason'' \<mapsto> PStr ''ring_timeout''] t
                      in if sv_onRingTimeout t then t\<lparr>sv_timeouts := sv_timeouts t @ [cid]\<rparr> else t)"])
  obtain t r where u: "run_update st Background cid (timeout_fn now) s = (t, r)" by fastforce
  show "case run_update st Background cid (timeout_fn now) s of
      (t, Inl e) \<Rightarrow> s' = t
    | (t, Inr c) \<Rightarrow> s' = (let t = publish now CallEnded c '''' [''reason'' \<mapsto> PStr ''ring_timeout''] t
                      in if sv_onRingTimeout t then t\<lparr>sv_timeouts := sv_timeouts t @ [cid]\<rparr> else t)"
  proof (cases rule: run_update_cases [OF assms(1) runtime_fn.timeout u])
    case (1 c c')
    then have "Get st Background cid t = Inr c'" by (simp add: Get_def get_background)
    with assms(2) u 1(1) show ?thesis by (simp add: fire_timeout_def)
  next
    case (2 e)
    with assms(2) u show ?thesis by (simp add: fire_timeout_def)
  qed
qed (auto simp: Let_def ended_count_publish dest: timeout_states)

lemma create_cases:
  assumes "invar (sv_store s)" "Get st Background (''call_'' @ id1) s = Inl CallNotFound"
    "s' = fst (Create st ctx now id1 id2 inp s)"
  obtains (unchanged) "s' = s"
  | (created) c where "c = new_call now (''call_'' @ id1) (''room_'' @ id2) inp" "create_check inp = None"
      "lookup (sv_store s) (c_ID c) = None" "lookup (sv_store s') = (lookup (sv_store s))(c_ID c \<mapsto> c)"
      "invar (sv_store s')" "sv_timers s' = sv_timers s @ [(c_ID c, now + sv_ringTimeout s)]"
      "sv_bus s' = sv_bus s" "\<And>i. sv_bus s \<noteq> None \<Longrightarrow> ended_count i (sv_published s') = ended_count i (sv_published s)"
proof (cases "create_check inp")
  case (Some e)
  with assms(3) unchanged show ?thesis by (simp add: Create_def)
next
  case None
  define c where "c = new_call now (''call_'' @ id1) (''room_'' @ id2) inp"
  have id: "c_ID c = ''call_'' @ id1" by (simp add: c_def new_call_def)
  have fresh: "lookup (sv_store s) (c_ID c) = None"
    using assms(2) by (simp add: Get_def get_background id split: option.splits)
  obtain sto r where p: "st_Put st ctx c (sv_store s) = (sto, r)" by fastforce
  show ?thesis
  proof (cases r)
    case (Some e)
    with p put_err have "sto = sv_store s" by blast
    with assms(3) None p Some unchanged show ?thesis by (simp add: Create_def Let_def c_def)
  next
    case ok: None
    with p put_ok [OF assms(1) fresh]
    have sto: "lookup sto = (lookup (sv_store s))(c_ID c \<mapsto> c)" "invar sto" by blast+
    show ?thesis
      by (rule created [OF c_def None fresh])
         (use assms(3) None p ok sto id in \<open>auto simp: Create_def Let_def c_def ended_count_publish\<close>)
  qed
qed

lemma step_create:
  assumes "invar (sv_store s)" "Get st Background (''call_'' @ id1) s = Inl CallNotFound"
    "s' = fst (Create st ctx now id1 id2 inp s)"
  shows "invar (sv_store s') \<and> changes (lookup (sv_store s)) (lookup (sv_store s')) \<and>
   announces (lookup (sv_store s)) s (lookup (sv_store s')) s'"
proof (cases rule: create_cases [OF assms])
  case 1
  with assms(1) show ?thesis by (simp add: changes_def updates_def announces_def)
next
  case (2 c)
  have st: "call_ok c" "c_State c = StateRinging" "\<not> IsTerminal c"
    using new_call_ok [OF 2(2)] by (simp_all add: 2(1) new_call_def IsTerminal_def)
  then have "changes (lookup (sv_store s)) (lookup (sv_store s'))"
    unfolding changes_def using 2(3,4) by blast
  moreover have "announces (lookup (sv_store s)) s (lookup (sv_store s')) s'"
    using 2(3,4,7,8) st(3) by (auto simp: announces_def)
  ultimately show ?thesis using 2(5) by simp
qed

lemma call_step_effect:
  assumes "call_step st r r'" "invar (sv_store (rt_svc r))"
  shows "invar (sv_store (rt_svc r')) \<and>
    changes (lookup (sv_store (rt_svc r))) (lookup (sv_store (rt_svc r'))) \<and>
    announces (lookup (sv_store (rt_svc r))) (rt_svc r) (lookup (sv_store (rt_svc r'))) (rt_svc r')"
  using assms(1)
proof cases
  case (create id1 ctx now id2 inp)
  then show ?thesis using step_create [OF assms(2) create(2) refl, of ctx now id2 inp] by simp
next
  case (timeout cid due now)
  then show ?thesis using step_timeout [OF assms(2) refl, of now cid] by (simp add: announces_def changes_def)
next
  case (resume_begin ctx cid u c d)
  then show ?thesis using assms(2) by (simp add: changes_def updates_def announces_def)
next
  case (accept ctx now cid u d)
  then show ?thesis using step_accept [OF assms(2) refl] by (simp add: changes_def)
next
  case (reject ctx now cid u)
  then show ?thesis using step_reject [OF assms(2) refl] by (simp add: changes_def)
next
  case (cancel ctx now cid u)
  then show ?thesis using step_cancel [OF assms(2) refl] by (simp add: changes_def)
next
  case (join ctx now cid u d)
  then show ?thesis using step_join [OF assms(2) refl] by (simp add: changes_def)
next
  case (connected ctx now cid u)
  then show ?thesis using step_connected [OF assms(2) refl] by (simp add: changes_def)
next
  case (leave ctx now cid u)
  then show ?thesis using step_end [OF assms(2) refl] by (simp add: Leave_def changes_def)
next
  case (hangup ctx now cid u)
  then show ?thesis using step_end [OF assms(2) refl] by (simp add: Hangup_def changes_def)
next
  case (fail ctx now cid reason)
  then show ?thesis using step_fail [OF assms(2) refl] by (simp add: changes_def)
next
  case (resume_finish cid u d ctx)
  then show ?thesis using step_resume [OF assms(2) refl] by (simp add: changes_def)
qed

lemma call_step_inv:
  assumes "call_step st r r'" "runtime_inv r"
  shows "runtime_inv r'"
proof -
  from assms(2) have inv: "invar (sv_store (rt_svc r))" by (simp add: runtime_inv_def)
  note eff = call_step_effect [OF assms(1) inv]
  have "\<forall>cid c. lookup (sv_store (rt_svc r)) cid = Some c \<longrightarrow> call_ok c \<and> c_ID c = cid"
    using assms(2) lookup_id [OF inv] by (auto simp: runtime_inv_def)
  with eff changes_ok have "\<forall>cid c. lookup (sv_store (rt_svc r')) cid = Some c \<longrightarrow> call_ok c" by blast
  with eff assms(2) show ?thesis by (simp add: runtime_inv_def announces_def)
qed

lemma call_steps_inv: "call_steps st r r' \<Longrightarrow> runtime_inv r \<Longrightarrow> runtime_inv r'"
  by (induction rule: call_steps.induct) (auto intro: call_step_inv)

lemma call_steps_evolves:
  assumes "call_steps st r r'" "runtime_inv r" "lookup (sv_store (rt_svc r)) cid = Some c"
  shows "\<exists>c'. lookup (sv_store (rt_svc r')) cid = Some c' \<and> evolves c c'"
  using assms
proof (induction rule: call_steps.induct)
  case (steps_step r r' r'')
  then obtain c' where c': "lookup (sv_store (rt_svc r')) cid = Some c'" "evolves c c'" by blast
  have "runtime_inv r'" using steps_step.hyps(1) steps_step.prems(1) by (rule call_steps_inv)
  then have "changes (lookup (sv_store (rt_svc r'))) (lookup (sv_store (rt_svc r'')))"
    using call_step_effect [OF steps_step.hyps(2)] by (simp add: runtime_inv_def)
  from changes_evolves [OF this c'(1)] c'(2) show ?case by (blast intro: evolves_trans)
qed auto

lemma call_step_edge:
  assumes "call_step st r r'" "runtime_inv r" "lookup (sv_store (rt_svc r)) cid = Some c"
    "lookup (sv_store (rt_svc r')) cid = Some c'"
  shows "c_State c' = c_State c \<or> call_edge (c_State c) (c_State c')"
proof -
  have "changes (lookup (sv_store (rt_svc r))) (lookup (sv_store (rt_svc r')))" and "call_ok c"
    using call_step_effect [OF assms(1)] assms(2,3) by (auto simp: runtime_inv_def)
  then show ?thesis using assms(3,4) by (intro changes_edge)
qed

end

section \<open>Ring timers\<close>

lemma run_update_frame:
  "run_update st ctx cid fn s = (s', r) \<Longrightarrow>
   sv_timers s' = sv_timers s \<and> sv_ringTimeout s' = sv_ringTimeout s"
  by (auto simp: run_update_def split: prod.splits)

lemma op_timers [simp]:
  "sv_timers (fst (Accept st ctx now cid u d s)) = sv_timers s"
  "sv_timers (fst (Reject st ctx now cid u s)) = sv_timers s"
  "sv_timers (fst (Cancel st ctx now cid u s)) = sv_timers s"
  "sv_timers (fst (Join st ctx now cid u d s)) = sv_timers s"
  "sv_timers (fst (MarkConnected st ctx now cid u s)) = sv_timers s"
  "sv_timers (fst (endForUser st ctx now cid u reason e s)) = sv_timers s"
  "sv_timers (fst (Fail st ctx now cid reason s)) = sv_timers s"
  "sv_timers (fst (resume_apply st ctx cid u d s)) = sv_timers s"
  by (auto simp: Accept_def Reject_def Cancel_def Join_def MarkConnected_def endForUser_def
      Fail_def resume_apply_def Let_def split: prod.splits sum.splits dest!: run_update_frame)

lemma op_ringTimeout [simp]:
  "sv_ringTimeout (fst (Accept st ctx now cid u d s)) = sv_ringTimeout s"
  "sv_ringTimeout (fst (Reject st ctx now cid u s)) = sv_ringTimeout s"
  "sv_ringTimeout (fst (Cancel st ctx now cid u s)) = sv_ringTimeout s"
  "sv_ringTimeout (fst (Join st ctx now cid u d s)) = sv_ringTimeout s"
  "sv_ringTimeout (fst (MarkConnected st ctx now cid u s)) = sv_ringTimeout s"
  "sv_ringTimeout (fst (endForUser st ctx now cid u reason e s)) = sv_ringTimeout s"
  "sv_ringTimeout (fst (Fail st ctx now cid reason s)) = sv_ringTimeout s"
  "sv_ringTimeout (fst (resume_apply st ctx cid u d s)) = sv_ringTimeout s"
  "sv_ringTimeout (fst (Create st ctx now id1 id2 inp s)) = sv_ringTimeout s"
  "sv_ringTimeout (fire_timeout st now cid s) = sv_ringTimeout s"
  by (auto simp: Accept_def Reject_def Cancel_def Join_def MarkConnected_def endForUser_def
      Fail_def resume_apply_def Create_def fire_timeout_def Let_def
      split: prod.splits sum.splits option.splits dest!: run_update_frame)

lemma changes_ringing:
  assumes "changes L L'" "\<forall>cid c. L cid = Some c \<longrightarrow> call_ok c" "L' cid = Some c'" "c_State c' = StateRinging"
  shows "L cid = None \<or> (\<exists>c. L cid = Some c \<and> c_State c = StateRinging \<and> c_CreatedAt c = c_CreatedAt c')"
proof (cases "L cid")
  case (Some c)
  with changes_edge [OF assms(1) Some _ assms(3)] changes_evolves [OF assms(1) Some] assms(2-4)
  have "c_State c = StateRinging" "c_CreatedAt c = c_CreatedAt c'"
    by (cases "c_State c"; force simp: evolves_def)+
  with Some show ?thesis by blast
qed simp

definition guarded :: "duration \<Rightarrow> (string \<times> gotime) list \<Rightarrow> (string \<Rightarrow> Call option) \<Rightarrow> bool" where
  "guarded ring timers L \<longleftrightarrow> (\<forall>cid c. L cid = Some c \<and> c_State c = StateRinging \<longrightarrow>
     (cid, c_CreatedAt c + ring) \<in> set timers)"

lemma guarded_changes:
  assumes "guarded ring timers L" "changes L L'" "\<forall>cid c. L cid = Some c \<longrightarrow> call_ok c"
    "\<And>cid c'. L cid = None \<Longrightarrow> L' cid = Some c' \<Longrightarrow> (cid, c_CreatedAt c' + ring) \<in> set timers'"
    "\<And>cid c' due. L' cid = Some c' \<Longrightarrow> c_State c' = StateRinging \<Longrightarrow>
       (cid, due) \<in> set timers \<Longrightarrow> (cid, due) \<in> set timers'"
  shows "guarded ring timers' L'"
  unfolding guarded_def
proof (intro allI impI)
  fix cid c'
  assume c': "L' cid = Some c' \<and> c_State c' = StateRinging"
  then have "L cid = None \<or> (\<exists>c. L cid = Some c \<and> c_State c = StateRinging \<and> c_CreatedAt c = c_CreatedAt c')"
    by (intro changes_ringing [OF assms(2,3)]) auto
  then show "(cid, c_CreatedAt c' + ring) \<in> set timers'"
  proof (elim disjE exE conjE)
    assume "L cid = None"
    with c' show ?thesis by (intro assms(4)) auto
  next
    fix c
    assume "L cid = Some c" "c_State c = StateRinging" "c_CreatedAt c = c_CreatedAt c'"
    with assms(1) have "(cid, c_CreatedAt c' + ring) \<in> set timers"
      unfolding guarded_def by metis
    with c' show ?thesis by (intro assms(5) [of cid c']) auto
  qed
qed

lemma guarded_updates:
  assumes "guarded ring timers L" "updates L L'" "\<forall>cid c. L cid = Some c \<longrightarrow> call_ok c"
  shows "guarded ring timers L'"
  using assms(1) _ assms(3)
proof (rule guarded_changes)
  show "changes L L'" using assms(2) by (simp add: changes_def)
qed (use updates_domain [OF assms(2)] in auto)

context call_store
begin

abbreviation guarded_runtime :: "'s Runtime \<Rightarrow> bool" where
  "guarded_runtime r \<equiv>
     guarded (sv_ringTimeout (rt_svc r)) (sv_timers (rt_svc r)) (lookup (sv_store (rt_svc r)))"

lemma fire_timeout_not_ringing:
  assumes "invar (sv_store s)" "lookup (sv_store (fire_timeout st now cid s)) cid = Some c"
  shows "c_State c \<noteq> StateRinging"
proof -
  obtain t r where u: "run_update st Background cid (timeout_fn now) s = (t, r)" by fastforce
  have sto: "sv_store (fire_timeout st now cid s) = sv_store t"
    using u by (auto simp: fire_timeout_def Let_def split: sum.splits)
  show ?thesis
  proof (cases rule: run_update_cases [OF assms(1) runtime_fn.timeout u])
    case (1 c0 c')
    with assms(2) sto timeout_states [OF 1(3)] show ?thesis by auto
  next
    case (2 e)
    with assms(2) sto have l: "lookup (sv_store s) cid = Some c" by simp
    obtain c1 r1 where f: "timeout_fn now c = (c1, r1)" by fastforce
    have "r = (case r1 of None \<Rightarrow> Inr c1 | Some e \<Rightarrow> Inl e)"
      using u update_background [where fn = "timeout_fn now", OF l f] by (auto simp: run_update_def split: prod.splits)
    with 2(1) f show ?thesis by (auto simp: timeout_fn_def split: if_splits option.splits)
  qed
qed

lemma create_guarded:
  assumes "invar (sv_store s)" "Get st Background (''call_'' @ id1) s = Inl CallNotFound"
    "s' = fst (Create st ctx now id1 id2 inp s)"
    "\<forall>cid c. lookup (sv_store s) cid = Some c \<longrightarrow> call_ok c"
    "guarded (sv_ringTimeout s) (sv_timers s) (lookup (sv_store s))"
  shows "guarded (sv_ringTimeout s) (sv_timers s') (lookup (sv_store s'))"
proof (cases rule: create_cases [OF assms(1-3)])
  case 1
  with assms(5) show ?thesis by simp
next
  case (2 c)
  have "c_CreatedAt c = now" by (simp add: 2(1) new_call_def)
  with 2(3,4,6) show ?thesis
    using step_create [OF assms(1-3)]
    by (intro guarded_changes [OF assms(5) _ assms(4)]) (auto split: if_splits)
qed

lemma timeout_guarded:
  assumes "invar (sv_store s)" "s' = fire_timeout st now cid s"
    "\<forall>cid c. lookup (sv_store s) cid = Some c \<longrightarrow> call_ok c"
    "guarded (sv_ringTimeout s) (sv_timers s) (lookup (sv_store s))"
  shows "guarded (sv_ringTimeout s) (remove1 (cid, due) (sv_timers s)) (lookup (sv_store s'))"
proof (rule guarded_changes [OF assms(4) _ assms(3)])
  note eff = step_timeout [OF assms(1,2)]
  then show "changes (lookup (sv_store s)) (lookup (sv_store s'))" by (simp add: changes_def)
  fix i c' due'
  show "lookup (sv_store s) i = None \<Longrightarrow> lookup (sv_store s') i = Some c' \<Longrightarrow>
      (i, c_CreatedAt c' + sv_ringTimeout s) \<in> set (remove1 (cid, due) (sv_timers s))"
    using updates_domain [of "lookup (sv_store s)" "lookup (sv_store s')" i] eff by simp
  assume "lookup (sv_store s') i = Some c'" "c_State c' = StateRinging" "(i, due') \<in> set (sv_timers s)"
  moreover from this have "i \<noteq> cid" using fire_timeout_not_ringing [OF assms(1)] assms(2) by blast
  ultimately show "(i, due') \<in> set (remove1 (cid, due) (sv_timers s))"
    using in_set_remove1 [of "(i, due')" "(cid, due)"] by simp
qed

lemma call_step_guarded:
  assumes "call_step st r r'" "runtime_inv r" "guarded_runtime r"
  shows "guarded_runtime r'"
proof -
  let ?L = "lookup (sv_store (rt_svc r))"
  from assms(2) have inv: "invar (sv_store (rt_svc r))" and ok: "\<forall>cid c. ?L cid = Some c \<longrightarrow> call_ok c"
    by (auto simp: runtime_inv_def)
  have upd: "guarded ring timers L'" if "updates ?L L'"
      "ring = sv_ringTimeout (rt_svc r)" "timers = sv_timers (rt_svc r)" for L' ring timers
    using guarded_updates [OF assms(3) that(1) ok] that(2,3) by simp
  from assms(1) show ?thesis
  proof cases
    case (create id1 ctx now id2 inp)
    then show ?thesis using create_guarded [OF inv create(2) refl ok assms(3)] by simp
  next
    case (timeout cid due now)
    then show ?thesis using timeout_guarded [OF inv refl ok assms(3)] by simp
  next
    case (resume_begin ctx cid u c d)
    then show ?thesis using assms(3) by simp
  next
    case (accept ctx now cid u d)
    then show ?thesis using step_accept [OF inv refl] by (auto intro: upd)
  next
    case (reject ctx now cid u)
    then show ?thesis using step_reject [OF inv refl] by (auto intro: upd)
  next
    case (cancel ctx now cid u)
    then show ?thesis using step_cancel [OF inv refl] by (auto intro: upd)
  next
    case (join ctx now cid u d)
    then show ?thesis using step_join [OF inv refl] by (auto intro: upd)
  next
    case (connected ctx now cid u)
    then show ?thesis using step_connected [OF inv refl] by (auto intro: upd)
  next
    case (leave ctx now cid u)
    then show ?thesis using step_end [OF inv refl] by (auto simp: Leave_def intro: upd)
  next
    case (hangup ctx now cid u)
    then show ?thesis using step_end [OF inv refl] by (auto simp: Hangup_def intro: upd)
  next
    case (fail ctx now cid reason)
    then show ?thesis using step_fail [OF inv refl] by (auto intro: upd)
  next
    case (resume_finish cid u d ctx)
    then show ?thesis using step_resume [OF inv refl] by (auto intro: upd)
  qed
qed

end

context call_store
begin

lemma call_steps_guarded:
  "call_steps st r r' \<Longrightarrow> runtime_inv r \<Longrightarrow> guarded_runtime r \<Longrightarrow> guarded_runtime r'"
  by (induction rule: call_steps.induct) (auto intro: call_step_guarded call_steps_inv)

lemma runtime_inv_new:
  "invar store \<Longrightarrow> (\<And>i. lookup store i = None) \<Longrightarrow>
   runtime_inv (new_runtime store bus ring) \<and> guarded_runtime (new_runtime store bus ring)"
  by (simp add: runtime_inv_def guarded_def new_runtime_def NewService_def SetRingTimeoutHandler_def
      ended_count_def Let_def)

end

lemma ringTimeout_step: "call_step st r r' \<Longrightarrow> sv_ringTimeout (rt_svc r') = sv_ringTimeout (rt_svc r)"
  by (erule call_step.cases) (simp_all add: Leave_def Hangup_def)

lemma ringTimeout_steps:
  "call_steps st r r' \<Longrightarrow> sv_ringTimeout (rt_svc r') = sv_ringTimeout (rt_svc r)"
  by (induction rule: call_steps.induct) (auto dest: ringTimeout_step)

lemma new_runtime_bus: "sv_bus (rt_svc (new_runtime store bus ring)) = bus"
  and new_runtime_ringTimeout: "sv_ringTimeout (rt_svc (new_runtime store bus ring)) =
    (if ring \<le> 0 then 45 * Second else ring)"
  and new_runtime_onRingTimeout: "sv_onRingTimeout (rt_svc (new_runtime store bus ring))"
  by (simp_all add: new_runtime_def NewService_def SetRingTimeoutHandler_def Let_def)

lemma run_update_handler:
  "run_update st ctx cid fn s = (s', r) \<Longrightarrow> sv_onRingTimeout s' = sv_onRingTimeout s"
  by (auto simp: run_update_def split: prod.splits)

lemma onRingTimeout_step: "call_step st r r' \<Longrightarrow> sv_onRingTimeout (rt_svc r') = sv_onRingTimeout (rt_svc r)"
  by (erule call_step.cases)
     (auto simp: Leave_def Hangup_def Accept_def Reject_def Cancel_def Join_def MarkConnected_def endForUser_def
      Fail_def resume_apply_def Create_def fire_timeout_def Let_def
      split: prod.splits sum.splits option.splits dest!: run_update_handler)

lemma onRingTimeout_steps:
  "call_steps st r r' \<Longrightarrow> sv_onRingTimeout (rt_svc r') = sv_onRingTimeout (rt_svc r)"
  by (induction rule: call_steps.induct) (auto dest: onRingTimeout_step)

context call_store
begin

lemma call_steps_bus:
  "call_steps st r r' \<Longrightarrow> runtime_inv r \<Longrightarrow> sv_bus (rt_svc r') = sv_bus (rt_svc r)"
proof (induction rule: call_steps.induct)
  case (steps_step r r' r'')
  then have "runtime_inv r'" by (blast intro: call_steps_inv)
  with call_step_effect [OF steps_step.hyps(2)] steps_step show ?case
    by (simp add: runtime_inv_def announces_def)
qed simp

end

end
