(* ===== verification/CallProps.thy ===== *)
theory CallProps
  imports CallRuntime
begin

text \<open>
  The properties of the call runtime on the in-process store: what holds in every reachable
  state of the transition system, and what each operation does. The proofs are the locale's
  lemmas at the interpretation \<open>mem\<close>.
\<close>

section \<open>A small run, used to show that the hypotheses below are met\<close>

definition demo_input :: CreateInput where
  "demo_input = \<lparr>in_AppID = ''app'', in_CallerID = ''a'', in_CallerDevice = ''da'',
     in_CalleeIDs = [''b''], in_Type = '''', in_Mode = '''', in_CallerName = ''''\<rparr>"

definition demo_start :: "MemoryStore Runtime" where
  "demo_start = new_runtime NewMemoryStore (Some (NewBus 0)) 0"

definition demo_call :: Call where
  "demo_call = new_call 100 ''call_1'' ''room_1'' demo_input"

definition demo_ringing :: "MemoryStore Runtime" where
  "demo_ringing = demo_start\<lparr>rt_svc := fst (Create memory_store Background 100 ''1'' ''1'' demo_input (rt_svc demo_start))\<rparr>"

definition demo_resuming :: "MemoryStore Runtime" where
  "demo_resuming = demo_ringing\<lparr>rt_resuming := [(''call_1'', ''b'', ''db'')]\<rparr>"

definition demo_cancelled :: "MemoryStore Runtime" where
  "demo_cancelled = demo_resuming\<lparr>rt_svc := fst (Cancel memory_store Background 200 ''call_1'' ''a'' (rt_svc demo_resuming))\<rparr>"

lemmas demo_defs = demo_start_def demo_ringing_def demo_resuming_def demo_cancelled_def demo_input_def
  new_runtime_def NewService_def SetRingTimeoutHandler_def NewMemoryStore_def Let_def

lemmas mem_op_defs = memory_store_def mem_Put_def mem_Get_def mem_Update_def Get_def run_update_def

lemma demo_check: "create_check demo_input = None"
  by (simp add: demo_input_def create_check_def create_type_def create_mode_def)

lemma demo_ringing_store: "ms_calls (sv_store (rt_svc demo_ringing)) ''call_1'' = Some demo_call"
  using demo_check
  by (simp add: demo_ringing_def Create_def mem_op_defs Let_def demo_call_def)
     (simp add: new_call_def)

lemma demo_call_fields: "c_State demo_call = StateRinging" "c_ID demo_call = ''call_1''"
  "c_CallerID demo_call = ''a''" "c_CreatedAt demo_call = 100" "\<not> IsTerminal demo_call"
  "FindParticipant ''b'' demo_call \<noteq> None" "c_Mode demo_call = ModeDirect"
  by (simp_all add: demo_call_def new_call_def demo_input_def IsTerminal_def FindParticipant_def
      new_participants_def create_mode_def)

lemma demo_ringing_step: "call_step memory_store demo_start demo_ringing"
  unfolding demo_ringing_def
  by (rule call_step.create) (simp add: demo_defs mem_op_defs)

lemma demo_ringing_reachable: "call_steps memory_store demo_start demo_ringing"
  by (rule steps_step [OF steps_refl demo_ringing_step])

lemma demo_resuming_step: "call_step memory_store demo_ringing demo_resuming"
proof -
  have "resume_check memory_store Background ''call_1'' ''b'' (rt_svc demo_ringing) = Inr demo_call"
    using demo_call_fields(6)
    by (auto simp: resume_check_def mem_op_defs demo_ringing_store)
  from call_step.resume_begin [OF this demo_call_fields(5), of "''db''"]
  show ?thesis by (simp add: demo_resuming_def demo_ringing_def demo_start_def new_runtime_def)
qed

lemma demo_cancelled_step: "call_step memory_store demo_resuming demo_cancelled"
  unfolding demo_cancelled_def by (rule call_step.cancel)

lemma demo_cancelled_steps: "call_steps memory_store demo_ringing demo_cancelled"
  by (blast intro: steps_step steps_refl demo_resuming_step demo_cancelled_step)

lemma demo_cancelled_store:
  "ms_calls (sv_store (rt_svc demo_cancelled)) ''call_1'' = Some (fst (cancel_fn 200 ''a'' demo_call))"
  by (simp add: demo_cancelled_def demo_resuming_def Cancel_def mem_op_defs demo_ringing_store
      cancel_fn_def demo_call_fields Let_def)

section \<open>Reachable states\<close>

lemma mem_start: "mem.runtime_inv (new_runtime NewMemoryStore bus ring) \<and>
    mem.guarded_runtime (new_runtime NewMemoryStore bus ring)"
  by (rule mem.runtime_inv_new) (simp_all add: NewMemoryStore_def mem_invar_New [unfolded NewMemoryStore_def])

lemma mem_reachable_inv:
  "call_steps memory_store (new_runtime NewMemoryStore bus ring) r \<Longrightarrow> mem.runtime_inv r"
  using mem.call_steps_inv mem_start by blast

lemma call_steps_trans: "call_steps st r r' \<Longrightarrow> call_steps st r' r'' \<Longrightarrow> call_steps st r r''"
  by (rotate_tac, induction rule: call_steps.induct) (auto intro: call_steps.intros)

text \<open>
  C1. In every state the call runtime reaches on the in-process store, whatever requests,
  timers and resumes were interleaved: each call is filed under its own id; the user index
  holds exactly the participants; and each call is well formed: it is live or terminal and
  has an end time exactly when it is terminal, it has a start time when it is connected and
  is connected when it has started and not ended, its type, mode and transport agree, a direct
  call has at most two participants, the caller is a participant, only direct calls are rejected,
  and nobody is left ringing in a call that timed out or was cancelled.
\<close>

theorem reachable_calls_well_formed:
  assumes "call_steps memory_store (new_runtime NewMemoryStore bus ring) r"
  shows "mem_invar (sv_store (rt_svc r)) \<and>
    (\<forall>cid c. ms_calls (sv_store (rt_svc r)) cid = Some c \<longrightarrow> call_ok c)"
  using mem_reachable_inv [OF assms] unfolding mem.runtime_inv_def by blast

theorem reachable_calls_well_formed_witness:
  "call_steps memory_store (new_runtime NewMemoryStore (Some (NewBus 0)) 0) demo_ringing \<and>
   ms_calls (sv_store (rt_svc demo_ringing)) ''call_1'' = Some demo_call \<and> call_ok demo_call"
  using reachable_calls_well_formed [of "Some (NewBus 0)" 0 demo_ringing] demo_ringing_reachable
    demo_ringing_store by (simp add: demo_start_def)

text \<open>
  C2. A call that has ended stays as it ended: whatever steps follow, it remains in the store
  with the same terminal state, end time, start time and reason, and none of its participants is
  removed.
\<close>

theorem ended_calls_stay_ended:
  assumes "call_steps memory_store (new_runtime NewMemoryStore bus ring) r" "call_steps memory_store r r'"
    and "ms_calls (sv_store (rt_svc r)) cid = Some c" "IsTerminal c"
  shows "\<exists>c'. ms_calls (sv_store (rt_svc r')) cid = Some c' \<and> c_State c' = c_State c \<and>
    c_EndedAt c' = c_EndedAt c \<and> c_StartedAt c' = c_StartedAt c \<and> c_Reason c' = c_Reason c \<and>
    p_UserID ` set (c_Participants c) \<subseteq> p_UserID ` set (c_Participants c')"
  using mem.call_steps_evolves [OF assms(2) mem_reachable_inv [OF assms(1)] assms(3)] assms(4)
  by (auto simp: evolves_def keeps_identity_def)

theorem ended_calls_stay_ended_witness:
  "\<exists>c'. ms_calls (sv_store (rt_svc demo_cancelled)) ''call_1'' = Some c' \<and> c_State c' = StateCancelled \<and>
     c_EndedAt c' = Some 200"
proof -
  let ?c = "fst (cancel_fn 200 ''a'' demo_call)"
  have "IsTerminal ?c" "c_State ?c = StateCancelled" "c_EndedAt ?c = Some 200"
    by (simp_all add: cancel_fn_def demo_call_fields IsTerminal_def)
  then show ?thesis
    using ended_calls_stay_ended [of "Some (NewBus 0)" 0 demo_cancelled demo_cancelled "''call_1''" ?c]
      call_steps_trans [OF demo_ringing_reachable demo_cancelled_steps] steps_refl demo_cancelled_store
    by (auto simp: demo_start_def)
qed

text \<open>
  C3. The state machine: a step never loses a call, and it leaves the state of every call alone
  or moves it along an edge of \<open>call_edge\<close>: only live states are left, \<open>StateTimeout\<close>
  is entered only from \<open>StateRinging\<close>, and no live state is re-entered except
  \<open>StateAccepted\<close> from \<open>StateConnecting\<close>.
\<close>

theorem call_states_follow_edges:
  assumes "call_steps memory_store (new_runtime NewMemoryStore bus ring) r" "call_step memory_store r r'"
    and "ms_calls (sv_store (rt_svc r)) cid = Some c"
  shows "\<exists>c'. ms_calls (sv_store (rt_svc r')) cid = Some c' \<and>
    (c_State c' = c_State c \<or> call_edge (c_State c) (c_State c')) \<and> evolves c c'"
proof -
  note inv = mem_reachable_inv [OF assms(1)]
  from mem.call_steps_evolves [OF steps_step [OF steps_refl assms(2)] inv assms(3)]
  obtain c' where c': "ms_calls (sv_store (rt_svc r')) cid = Some c'" "evolves c c'" by blast
  with mem.call_step_edge [OF assms(2) inv assms(3) c'(1)] show ?thesis by blast
qed

theorem call_states_follow_edges_witness:
  "\<exists>c'. ms_calls (sv_store (rt_svc demo_cancelled)) ''call_1'' = Some c' \<and>
    (c_State c' = StateRinging \<or> call_edge StateRinging (c_State c')) \<and> evolves demo_call c'"
proof -
  have "call_steps memory_store (new_runtime NewMemoryStore (Some (NewBus 0)) 0) demo_resuming"
    using steps_step [OF demo_ringing_reachable demo_resuming_step] by (simp add: demo_start_def)
  moreover have "ms_calls (sv_store (rt_svc demo_resuming)) ''call_1'' = Some demo_call"
    using demo_ringing_store by (simp add: demo_resuming_def)
  ultimately show ?thesis
    using call_states_follow_edges [of "Some (NewBus 0)" 0 demo_resuming demo_cancelled "''call_1''" demo_call]
      demo_cancelled_step demo_call_fields(1) by simp
qed

text \<open>
  C4. With a bus attached, the end of every call is announced exactly once: in every reachable
  state the number of \<open>call.ended\<close> events handed to the bus for an id is one if the call has
  ended other than by failing, and zero if it is live, failed or unknown.
\<close>

theorem end_announced_exactly_once:
  assumes "call_steps memory_store (new_runtime NewMemoryStore (Some bus) ring) r"
  shows "length (filter (\<lambda>e. ev_Type e = CallEnded \<and> ev_CallID e = cid) (sv_published (rt_svc r))) =
    (case ms_calls (sv_store (rt_svc r)) cid of
       Some c \<Rightarrow> if IsTerminal c \<and> c_State c \<noteq> StateFailed then 1 else 0
     | None \<Rightarrow> 0)"
proof -
  have "sv_bus (rt_svc r) = Some bus"
    using mem.call_steps_bus [OF assms] mem_start by (simp add: new_runtime_bus)
  with mem_reachable_inv [OF assms]
  have "ended_count cid (sv_published (rt_svc r)) = ended_due (ms_calls (sv_store (rt_svc r)) cid)"
    by (simp add: mem.runtime_inv_def)
  then show ?thesis by (simp add: ended_count_def split: option.splits)
qed

theorem end_announced_exactly_once_witness:
  "length (filter (\<lambda>e. ev_Type e = CallEnded \<and> ev_CallID e = ''call_1'') (sv_published (rt_svc demo_cancelled))) = 1"
  using end_announced_exactly_once [of "NewBus 0" 0 demo_cancelled "''call_1''"]
    call_steps_trans [OF demo_ringing_reachable demo_cancelled_steps] demo_cancelled_store
  by (simp add: demo_start_def cancel_fn_def demo_call_fields IsTerminal_def)

text \<open>
  C6. No call rings for ever: in every reachable state a call in \<open>StateRinging\<close> has a
  waiting timer due one ring timeout after its creation (45 seconds when the configured timeout is
  not positive), and when a timer that is due fires, the call is in \<open>StateTimeout\<close>, ended at
  that instant for the reason \<open>ring_timeout\<close>, and the ring-timeout handler is told.
\<close>

theorem ringing_calls_time_out:
  assumes "call_steps memory_store (new_runtime NewMemoryStore bus ring) r"
    and "ms_calls (sv_store (rt_svc r)) cid = Some c" "c_State c = StateRinging"
    and "c_CreatedAt c + (if ring \<le> 0 then 45 * Second else ring) \<le> now"
  shows "\<exists>r' c'. call_step memory_store r r' \<and> ms_calls (sv_store (rt_svc r')) cid = Some c' \<and>
    c_State c' = StateTimeout \<and> c_EndedAt c' = Some now \<and> c_Reason c' = ''ring_timeout'' \<and>
    (\<forall>p \<in> set (c_Participants c'). p_State p \<noteq> ParticipantRinging \<and> p_State p \<noteq> ParticipantInvited) \<and>
    sv_timeouts (rt_svc r') = sv_timeouts (rt_svc r) @ [cid]"
proof -
  let ?due = "c_CreatedAt c + (if ring \<le> 0 then 45 * Second else ring)"
  let ?s = "rt_svc r"
  let ?r' = "r\<lparr>rt_svc := (fire_timeout memory_store now cid ?s)\<lparr>sv_timers := remove1 (cid, ?due) (sv_timers ?s)\<rparr>\<rparr>"
  have ring: "sv_ringTimeout ?s = (if ring \<le> 0 then 45 * Second else ring)"
    using ringTimeout_steps [OF assms(1)] by (simp add: new_runtime_ringTimeout)
  have "mem.guarded_runtime r"
    using mem.call_steps_guarded [OF assms(1)] mem_start by blast
  then have "(cid, ?due) \<in> set (sv_timers ?s)"
    using assms(2,3) ring by (auto simp: guarded_def)
  then have step: "call_step memory_store r ?r'"
    using assms(4) by (intro call_step.timeout) auto
  have onR: "sv_onRingTimeout ?s" using onRingTimeout_steps [OF assms(1)] by (simp add: new_runtime_onRingTimeout)
  have "\<exists>c'. ms_calls (sv_store (rt_svc ?r')) cid = Some c' \<and>
    c_State c' = StateTimeout \<and> c_EndedAt c' = Some now \<and> c_Reason c' = ''ring_timeout'' \<and>
    (\<forall>p \<in> set (c_Participants c'). p_State p \<noteq> ParticipantRinging \<and> p_State p \<noteq> ParticipantInvited) \<and>
    sv_timeouts (rt_svc ?r') = sv_timeouts ?s @ [cid]"
    using assms(2,3) onR by (simp add: fire_timeout_def mem_op_defs timeout_fn_def Let_def)
  with step show ?thesis by blast
qed

theorem ringing_calls_time_out_witness:
  "\<exists>r' c'. call_step memory_store demo_ringing r' \<and> ms_calls (sv_store (rt_svc r')) ''call_1'' = Some c' \<and>
    c_State c' = StateTimeout \<and> c_EndedAt c' = Some (100 + 45 * Second)"
  using ringing_calls_time_out [of "Some (NewBus 0)" 0 demo_ringing "''call_1''" demo_call "100 + 45 * Second"]
    demo_ringing_reachable demo_ringing_store demo_call_fields(1,4) by (auto simp: demo_start_def)

section \<open>Operations\<close>

text \<open>An update on the in-process store, by cases.\<close>

lemma mem_run_update:
  "run_update memory_store ctx cid fn s =
     (case ctx of
        Some e \<Rightarrow> (s, Inl e)
      | None \<Rightarrow> (case ms_calls (sv_store s) cid of
          None \<Rightarrow> (s, Inl CallNotFound)
        | Some c \<Rightarrow> (case fn c of
            (c', Some e) \<Rightarrow> (s\<lparr>sv_store := (sv_store s)\<lparr>ms_calls := (ms_calls (sv_store s))(cid \<mapsto> c')\<rparr>\<rparr>, Inl e)
          | (c', None) \<Rightarrow> (s\<lparr>sv_store := (sv_store s)\<lparr>ms_calls := (ms_calls (sv_store s))(cid \<mapsto> c'),
                 ms_byUser := index_participants c' (ms_byUser (sv_store s))\<rparr>\<rparr>, Inr c'))))"
  by (simp add: run_update_def memory_store_def mem_Update_def split: option.splits prod.splits)

lemma mem_run_update_err:
  assumes "run_update memory_store ctx cid fn s = (s', Inl e)" "runtime_fn cid fn"
  shows "s' = s"
  using assms(1) runtime_fn_error [OF assms(2)]
  by (force simp: mem_run_update fun_upd_idem split: option.splits prod.splits)

lemma mem_run_update_ok:
  assumes "run_update memory_store ctx cid fn s = (s', Inr c')"
  shows "\<exists>c. ms_calls (sv_store s) cid = Some c \<and> fn c = (c', None) \<and>
    ms_calls (sv_store s') = (ms_calls (sv_store s))(cid \<mapsto> c')"
  using assms by (auto simp: mem_run_update split: option.splits prod.splits)

lemmas service_op_defs = Accept_def Reject_def Cancel_def Join_def MarkConnected_def endForUser_def Fail_def Let_def

lemma op_errorD:
  "(s', Inl e) = Accept st ctx now cid u d s \<Longrightarrow> run_update st ctx cid (accept_fn now u d) s = (s', Inl e)"
  "(s', Inl e) = Reject st ctx now cid u s \<Longrightarrow> run_update st ctx cid (reject_fn now u) s = (s', Inl e)"
  "(s', Inl e) = Cancel st ctx now cid u s \<Longrightarrow> run_update st ctx cid (cancel_fn now u) s = (s', Inl e)"
  "(s', Inl e) = Join st ctx now cid u d s \<Longrightarrow> run_update st ctx cid (join_fn now cid u d) s = (s', Inl e)"
  "(s', Inl e) = MarkConnected st ctx now cid u s \<Longrightarrow> run_update st ctx cid (connected_fn now u) s = (s', Inl e)"
  "(s', Inl e) = Leave st ctx now cid u s \<Longrightarrow> run_update st ctx cid (end_fn now u ''left'' False) s = (s', Inl e)"
  "(s', Inl e) = Hangup st ctx now cid u s \<Longrightarrow> run_update st ctx cid (end_fn now u ''hangup'' True) s = (s', Inl e)"
  "(s', Inl e) = Fail st ctx now cid reason s \<Longrightarrow> run_update st ctx cid (fail_fn now reason) s = (s', Inl e)"
  by (auto simp: service_op_defs Leave_def Hangup_def split: prod.splits sum.splits)

lemma mem_create_err:
  "(s', Inl e) = Create memory_store ctx now id1 id2 inp s \<Longrightarrow> s' = s"
  by (auto simp: Create_def memory_store_def mem_Put_def Let_def split: option.splits)

text \<open>
  C7. An operation that fails on the in-process store leaves the whole service as it was: the
  store, the index, the events handed to the bus and the timers. The store applies the closures of
  the operations to the stored call in place and does not roll back, so this rests on every closure
  returning its errors before its first write.
\<close>

theorem failed_operation_changes_nothing:
  assumes "(s', Inl e) \<in>
    {Create memory_store ctx now id1 id2 inp s, Accept memory_store ctx now cid u d s,
     Reject memory_store ctx now cid u s, Cancel memory_store ctx now cid u s,
     Join memory_store ctx now cid u d s, MarkConnected memory_store ctx now cid u s,
     Leave memory_store ctx now cid u s, Hangup memory_store ctx now cid u s,
     Fail memory_store ctx now cid reason s}"
  shows "s' = s"
  using assms
  by (elim insertE emptyE)
     (blast dest: mem_create_err op_errorD intro: mem_run_update_err runtime_fn.intros)+

theorem failed_operation_changes_nothing_witness:
  "fst (Cancel memory_store Background 200 ''call_1'' ''b'' (rt_svc demo_ringing)) = rt_svc demo_ringing"
proof -
  let ?x = "Cancel memory_store Background 200 ''call_1'' ''b'' (rt_svc demo_ringing)"
  have "snd ?x = Inl (Forbidden ''only caller can cancel'')"
    by (simp add: Cancel_def mem_run_update demo_ringing_store cancel_fn_def demo_call_fields)
  then have "(fst ?x, Inl (Forbidden ''only caller can cancel'')) = ?x" by (metis prod.collapse)
  then show ?thesis
    using failed_operation_changes_nothing [of "fst ?x" "Forbidden ''only caller can cancel''"
      Background 200 "[]" "[]" demo_input "rt_svc demo_ringing" "''call_1''" "''b''" "[]" "[]"]
    by simp
qed

lemma FindParticipant_disconnect_others:
  "FindParticipant v (disconnect_others now u c) =
     (if v \<noteq> u \<and> v \<noteq> c_CallerID c then map_option (disconnect_ringing now) (FindParticipant v c)
      else FindParticipant v c)"
proof (cases "FindParticipant v c")
  case None
  then show ?thesis by (simp add: FindParticipant_def disconnect_others_def find_map_preserve)
next
  case (Some p)
  with FindParticipant_SomeD [OF Some] show ?thesis
    by (simp add: FindParticipant_def disconnect_others_def find_map_preserve)
qed

text \<open>
  Accepting: a participant of a call that is ringing, accepted or connecting accepts it, and
  then the call is accepted, the participant is marked accepted on the accepting device from now on;
  in a direct call everyone else but the caller stops ringing, in a group call nobody else is
  touched; no other call changes; and one \<open>call.accepted\<close> event with the device and the
  instruction to stop ringing goes to the bus.
\<close>

theorem Accept_effect:
  assumes "ms_calls (sv_store s) cid = Some c" "FindParticipant u c = Some p"
    and "c_State c \<in> {StateRinging, StateAccepted, StateConnecting}" "sv_bus s = Some bus"
  shows "\<exists>s' c'. Accept memory_store Background now cid u d s = (s', Inr c') \<and>
    ms_calls (sv_store s') = (ms_calls (sv_store s))(cid \<mapsto> c') \<and> c_State c' = StateAccepted \<and>
    FindParticipant u c' = Some (p\<lparr>p_State := ParticipantAccepted, p_DeviceID := d, p_JoinedAt := Some now\<rparr>) \<and>
    (\<forall>v. v \<noteq> u \<longrightarrow> FindParticipant v c' =
       (if c_Mode c = ModeDirect \<and> v \<noteq> c_CallerID c
        then map_option (disconnect_ringing now) (FindParticipant v c) else FindParticipant v c)) \<and>
    sv_published s' = sv_published s @
      [\<lparr>ev_Type = CallAccepted, ev_AppID = c_AppID c, ev_UserID = u, ev_DeviceID = '''', ev_CallID = c_ID c,
        ev_Timestamp = now, ev_Payload = [''call'' \<mapsto> PCall c'] ++
          [''accepted_device_id'' \<mapsto> PStr d, ''stop_ringing'' \<mapsto> PBool True]\<rparr>]"
proof -
  let ?f = "\<lambda>p. p\<lparr>p_State := ParticipantAccepted, p_DeviceID := d, p_JoinedAt := Some now\<rparr>"
  let ?c1 = "(set_participant u ?f c)\<lparr>c_State := StateAccepted\<rparr>"
  let ?c' = "if c_Mode c = ModeDirect then disconnect_others now u ?c1 else ?c1"
  have fn: "accept_fn now u d c = (?c', None)"
    using assms(2,3) by (auto simp: accept_fn_def Let_def IsTerminal_iff)
  have find1: "FindParticipant v ?c1 = (if v = u then Some (?f p) else FindParticipant v c)" for v
    using FindParticipant_set_same [OF assms(2), of ?f] FindParticipant_set_other [of v u ?f c]
    by (simp add: FindParticipant_def)
  have find2: "FindParticipant v ?c' = (if v \<noteq> u \<and> v \<noteq> c_CallerID c \<and> c_Mode c = ModeDirect
      then map_option (disconnect_ringing now) (FindParticipant v ?c1) else FindParticipant v ?c1)" for v
    by (simp add: FindParticipant_disconnect_others)
  have st: "c_State ?c' = StateAccepted" "c_AppID ?c' = c_AppID c" "c_ID ?c' = c_ID c" by simp_all
  show ?thesis
    using assms(1,4) fn find1 find2 st
    by (simp add: Accept_def mem_run_update publish_def stamp_event_def IsZero_def del: Map.map_add_upd)
qed

theorem Accept_effect_witness:
  "\<exists>s' c'. Accept memory_store Background 200 ''call_1'' ''b'' ''db'' (rt_svc demo_ringing) = (s', Inr c') \<and>
    c_State c' = StateAccepted \<and> map_option p_State (FindParticipant ''b'' c') = Some ParticipantAccepted"
proof -
  obtain p where p: "FindParticipant ''b'' demo_call = Some p" using demo_call_fields(6) by blast
  have "sv_bus (rt_svc demo_ringing) = Some (NewBus 0)"
    using mem.call_steps_bus [OF demo_ringing_reachable] mem_start by (simp add: demo_start_def new_runtime_bus)
  with Accept_effect [OF demo_ringing_store p, of "NewBus 0" 200 "''db''"] demo_call_fields(1)
  show ?thesis by auto
qed

text \<open>The call an operation acted on was live, and it is the only one that changed.\<close>

definition acted_on :: "MemoryStore Service \<Rightarrow> MemoryStore Service \<Rightarrow> string \<Rightarrow> Call \<Rightarrow> Call \<Rightarrow> bool" where
  "acted_on s s' cid c c' \<longleftrightarrow> ms_calls (sv_store s) cid = Some c \<and> \<not> IsTerminal c \<and>
     ms_calls (sv_store s') = (ms_calls (sv_store s))(cid \<mapsto> c')"

lemma op_okD:
  "(s', Inr c') = Accept st ctx now cid u d s \<Longrightarrow>
     \<exists>t. run_update st ctx cid (accept_fn now u d) s = (t, Inr c') \<and> sv_store s' = sv_store t"
  "(s', Inr c') = Reject st ctx now cid u s \<Longrightarrow>
     \<exists>t. run_update st ctx cid (reject_fn now u) s = (t, Inr c') \<and> sv_store s' = sv_store t"
  "(s', Inr c') = Cancel st ctx now cid u s \<Longrightarrow>
     \<exists>t. run_update st ctx cid (cancel_fn now u) s = (t, Inr c') \<and> sv_store s' = sv_store t"
  "(s', Inr c') = Join st ctx now cid u d s \<Longrightarrow>
     \<exists>t. run_update st ctx cid (join_fn now cid u d) s = (t, Inr c') \<and> sv_store s' = sv_store t"
  "(s', Inr c') = MarkConnected st ctx now cid u s \<Longrightarrow>
     \<exists>t. run_update st ctx cid (connected_fn now u) s = (t, Inr c') \<and> sv_store s' = sv_store t"
  "(s', Inr c') = endForUser st ctx now cid u reason endCall s \<Longrightarrow>
     \<exists>t. run_update st ctx cid (end_fn now u reason endCall) s = (t, Inr c') \<and> sv_store s' = sv_store t"
  by (auto simp: service_op_defs split: prod.splits sum.splits if_splits)

lemma fn_guards:
  "accept_fn now u d c = (c', None) \<Longrightarrow> \<not> IsTerminal c \<and> FindParticipant u c \<noteq> None"
  "reject_fn now u c = (c', None) \<Longrightarrow> \<not> IsTerminal c \<and> FindParticipant u c \<noteq> None"
  "cancel_fn now u c = (c', None) \<Longrightarrow> \<not> IsTerminal c \<and> c_CallerID c = u"
  "join_fn now cid u d c = (c', None) \<Longrightarrow>
     \<not> IsTerminal c \<and> (FindParticipant u c \<noteq> None \<or> c_Mode c = ModeGroup)"
  "connected_fn now u c = (c', None) \<Longrightarrow> \<not> IsTerminal c \<and> FindParticipant u c \<noteq> None"
  "end_fn now u reason endCall c = (c', None) \<Longrightarrow> \<not> IsTerminal c \<and> FindParticipant u c \<noteq> None"
  by (auto simp: fn_defs split: if_splits option.splits)

lemma acted_onI:
  assumes "\<exists>t. run_update memory_store ctx cid fn s = (t, Inr c') \<and> sv_store s' = sv_store t"
    and "\<And>c. fn c = (c', None) \<Longrightarrow> \<not> IsTerminal c \<and> P c"
  shows "\<exists>c. acted_on s s' cid c c' \<and> P c"
  using assms mem_run_update_ok [of ctx cid fn s _ c'] unfolding acted_on_def by metis

text \<open>
  C8. Who may do what: if an operation of a user succeeds then the call existed and was live and
  only that call changed; the user was one of its participants, except that the user who cancels is
  the caller and that a group call may be joined by someone who was not invited.
\<close>

theorem operations_are_authorized:
  "((s', Inr c') \<in> {Accept memory_store ctx now cid u d s, Reject memory_store ctx now cid u s,
        MarkConnected memory_store ctx now cid u s, Leave memory_store ctx now cid u s,
        Hangup memory_store ctx now cid u s} \<longrightarrow>
      (\<exists>c. acted_on s s' cid c c' \<and> FindParticipant u c \<noteq> None)) \<and>
   ((s', Inr c') = Cancel memory_store ctx now cid u s \<longrightarrow>
      (\<exists>c. acted_on s s' cid c c' \<and> c_CallerID c = u)) \<and>
   ((s', Inr c') = Join memory_store ctx now cid u d s \<longrightarrow>
      (\<exists>c. acted_on s s' cid c c' \<and> (FindParticipant u c \<noteq> None \<or> c_Mode c = ModeGroup)))"
proof (intro conjI impI)
  assume "(s', Inr c') \<in> {Accept memory_store ctx now cid u d s, Reject memory_store ctx now cid u s,
        MarkConnected memory_store ctx now cid u s, Leave memory_store ctx now cid u s,
        Hangup memory_store ctx now cid u s}"
  then show "\<exists>c. acted_on s s' cid c c' \<and> FindParticipant u c \<noteq> None"
    unfolding Leave_def Hangup_def
    by (elim insertE emptyE) (erule acted_onI [OF op_okD(1)] acted_onI [OF op_okD(2)] acted_onI [OF op_okD(5)]
        acted_onI [OF op_okD(6)], erule fn_guards)+
next
  assume "(s', Inr c') = Cancel memory_store ctx now cid u s"
  then show "\<exists>c. acted_on s s' cid c c' \<and> c_CallerID c = u"
    by (rule acted_onI [OF op_okD(3)]) (rule fn_guards)
next
  assume "(s', Inr c') = Join memory_store ctx now cid u d s"
  then show "\<exists>c. acted_on s s' cid c c' \<and> (FindParticipant u c \<noteq> None \<or> c_Mode c = ModeGroup)"
    by (rule acted_onI [OF op_okD(4)]) (rule fn_guards)
qed

theorem operations_are_authorized_witness:
  "\<exists>c. acted_on (rt_svc demo_ringing) (fst (Cancel memory_store Background 200 ''call_1'' ''a'' (rt_svc demo_ringing)))
     ''call_1'' c (fst (cancel_fn 200 ''a'' demo_call)) \<and> c_CallerID c = ''a''"
proof -
  let ?x = "Cancel memory_store Background 200 ''call_1'' ''a'' (rt_svc demo_ringing)"
  have "snd ?x = Inr (fst (cancel_fn 200 ''a'' demo_call))"
    by (simp add: Cancel_def mem_run_update demo_ringing_store cancel_fn_def demo_call_fields Let_def)
  then have "(fst ?x, Inr (fst (cancel_fn 200 ''a'' demo_call))) = ?x" by (metis prod.collapse)
  then show ?thesis using operations_are_authorized by blast
qed

text \<open>
  The list of the live calls of a user is exact when application ids do not contain the
  separator of the index keys: in every reachable state it consists of the calls of that application
  that have not ended and have the user among their participants.
\<close>

theorem ListActiveForUser_exact:
  assumes "call_steps memory_store (new_runtime NewMemoryStore bus ring) r"
    and "CHR ''|'' \<notin> set app" "\<forall>c \<in> ran (ms_calls (sv_store (rt_svc r))). CHR ''|'' \<notin> set (c_AppID c)"
  shows "set (ListActiveForUser memory_store Background app u (rt_svc r)) =
    {c \<in> ran (ms_calls (sv_store (rt_svc r))). \<not> IsTerminal c \<and> c_AppID c = app \<and> FindParticipant u c \<noteq> None}"
proof -
  let ?m = "sv_store (rt_svc r)"
  have inv: "mem_invar ?m" using mem_reachable_inv [OF assms(1)] by (simp add: mem.runtime_inv_def)
  have key: "has_user user_key (user_key app u) c \<longleftrightarrow> c_AppID c = app \<and> FindParticipant u c \<noteq> None"
    if "c \<in> ran (ms_calls ?m)" for c
  proof -
    have "user_key (c_AppID c) v = user_key app u \<longleftrightarrow> c_AppID c = app \<and> v = u" for v
      unfolding user_key_def using assms(2,3) that join_key_inj by blast
    then show ?thesis by (auto simp: has_user_def FindParticipant_None)
  qed
  have "set (ListActiveForUser memory_store Background app u (rt_svc r)) =
      {c. \<exists>cid \<in> set (st_ActiveCallIDsForUser memory_store Background app u ?m).
          ms_calls ?m cid = Some c \<and> \<not> IsTerminal c}"
    unfolding ListActiveForUser_def Get_def
    by (auto simp: mem.get_background split: option.splits if_splits)
  also have "\<dots> = {c \<in> ran (ms_calls ?m). \<not> IsTerminal c \<and> has_user user_key (user_key app u) c}"
    using mem.active [OF inv, of app u] by (auto simp: ran_def)
  finally show ?thesis using key by blast
qed

lemma demo_ringing_calls: "ms_calls (sv_store (rt_svc demo_ringing)) = [''call_1'' \<mapsto> demo_call]"
  using demo_check
  by (simp add: demo_ringing_def Create_def mem_op_defs Let_def demo_call_def)
     (simp add: new_call_def demo_start_def new_runtime_def NewService_def SetRingTimeoutHandler_def
       NewMemoryStore_def Let_def)

theorem ListActiveForUser_exact_witness:
  "set (ListActiveForUser memory_store Background ''app'' ''b'' (rt_svc demo_ringing)) = {demo_call}"
proof -
  have "c_AppID demo_call = ''app''" by (simp add: demo_call_def new_call_def demo_input_def)
  then show ?thesis
    using ListActiveForUser_exact [of "Some (NewBus 0)" 0 demo_ringing "''app''" "''b''"]
      demo_ringing_reachable demo_call_fields(5,6) demo_ringing_calls by (auto simp: demo_start_def)
qed

lemma mem_endForUser_ok:
  assumes "ms_calls (sv_store s) cid = Some c" "end_fn now u reason endCall c = (c', None)"
  shows "\<exists>s'. endForUser memory_store Background now cid u reason endCall s = (s', Inr c') \<and>
    ms_calls (sv_store s') = (ms_calls (sv_store s))(cid \<mapsto> c')"
  using assms by (simp add: endForUser_def mem_run_update Let_def)

text \<open>
  Leaving: a participant of a live call who leaves is marked as having left; the call ends
  (state ended, now, reason \<open>left\<close>) exactly if it is a direct call or nobody in it is
  connected, connecting, accepted or reconnecting any more; otherwise its state is unchanged.
\<close>

theorem Leave_effect:
  assumes "ms_calls (sv_store s) cid = Some c" "\<not> IsTerminal c" "FindParticipant u c = Some p"
  shows "\<exists>s' c'. Leave memory_store Background now cid u s = (s', Inr c') \<and>
    ms_calls (sv_store s') = (ms_calls (sv_store s))(cid \<mapsto> c') \<and>
    FindParticipant u c' = Some (p\<lparr>p_State := ParticipantLeft, p_LeftAt := Some now\<rparr>) \<and>
    (\<forall>v. v \<noteq> u \<longrightarrow> FindParticipant v c' = FindParticipant v c) \<and>
    (if c_Mode c = ModeDirect \<or> (\<forall>q \<in> set (c_Participants c'). \<not> is_active (p_State q))
     then c_State c' = StateEnded \<and> c_EndedAt c' = Some now \<and> c_Reason c' = ''left''
     else c_State c' = c_State c \<and> c_EndedAt c' = c_EndedAt c)"
proof -
  let ?f = "\<lambda>p. p\<lparr>p_State := ParticipantLeft, p_LeftAt := Some now\<rparr>"
  let ?c1 = "set_participant u ?f c"
  let ?over = "c_Mode c = ModeDirect \<or> (\<forall>q \<in> set (c_Participants ?c1). \<not> is_active (p_State q))"
  let ?c' = "if ?over then ?c1\<lparr>c_State := StateEnded, c_EndedAt := Some now, c_Reason := ''left''\<rparr> else ?c1"
  have "end_fn now u ''left'' False c = (?c', None)"
    using assms(2,3) by (auto simp: end_fn_def Let_def filter_empty_conv)
  from mem_endForUser_ok [OF assms(1) this] obtain s' where
    "Leave memory_store Background now cid u s = (s', Inr ?c')"
    "ms_calls (sv_store s') = (ms_calls (sv_store s))(cid \<mapsto> ?c')" unfolding Leave_def by blast
  moreover have "FindParticipant v ?c' = (if v = u then Some (?f p) else FindParticipant v c)" for v
    using FindParticipant_set_same [OF assms(3), of ?f] FindParticipant_set_other [of v u ?f c]
    by (simp add: FindParticipant_def)
  moreover have "c_Participants ?c' = c_Participants ?c1" by simp
  ultimately show ?thesis by (intro exI [of _ s'] exI [of _ ?c'] conjI) simp_all
qed

theorem Leave_effect_witness:
  "\<exists>s' c'. Leave memory_store Background 200 ''call_1'' ''b'' (rt_svc demo_ringing) = (s', Inr c') \<and>
     c_State c' = StateEnded"
proof -
  obtain p where p: "FindParticipant ''b'' demo_call = Some p" using demo_call_fields(6) by blast
  from Leave_effect [OF demo_ringing_store demo_call_fields(5) p, of 200] demo_call_fields(7)
  show ?thesis by auto
qed

text \<open>
  The check of \<open>Resume\<close> and its update are not atomic: a call that is cancelled in
  between has ended with its callee disconnected, and the update then marks that callee of the ended
  call as reconnecting.
\<close>

theorem resume_revives_participant_of_ended_call:
  "\<exists>r r' c c'. call_steps memory_store (new_runtime NewMemoryStore (Some (NewBus 0)) 0) r \<and>
     call_step memory_store r r' \<and>
     ms_calls (sv_store (rt_svc r)) ''call_1'' = Some c \<and> IsTerminal c \<and>
     map_option p_State (FindParticipant ''b'' c) = Some ParticipantDisconnected \<and>
     ms_calls (sv_store (rt_svc r')) ''call_1'' = Some c' \<and> IsTerminal c' \<and>
     map_option p_State (FindParticipant ''b'' c') = Some ParticipantReconnecting"
proof -
  let ?c = "fst (cancel_fn 200 ''a'' demo_call)"
  let ?r' = "demo_cancelled\<lparr>rt_svc := fst (resume_apply memory_store Background ''call_1'' ''b'' ''db'' (rt_svc demo_cancelled)),
       rt_resuming := remove1 (''call_1'', ''b'', ''db'') (rt_resuming demo_cancelled)\<rparr>"
  have "(''call_1'', ''b'', ''db'') \<in> set (rt_resuming demo_cancelled)"
    by (simp add: demo_cancelled_def demo_resuming_def)
  then have "call_step memory_store demo_cancelled ?r'" by (rule call_step.resume_finish)
  moreover have "ms_calls (sv_store (rt_svc ?r')) ''call_1'' = Some (fst (resume_fn ''b'' ''db'' ?c))"
    by (simp add: resume_apply_def mem_run_update demo_cancelled_store resume_fn_def)
  moreover have "map_option p_State (FindParticipant ''b'' ?c) = Some ParticipantDisconnected"
    "map_option p_State (FindParticipant ''b'' (fst (resume_fn ''b'' ''db'' ?c))) = Some ParticipantReconnecting"
    by (simp_all add: cancel_fn_def resume_fn_def FindParticipant_def set_participant_def demo_call_def new_call_def
        demo_input_def new_participants_def IsTerminal_def disconnect_ringing_def Let_def)
  moreover have "IsTerminal ?c" "IsTerminal (fst (resume_fn ''b'' ''db'' ?c))"
    by (simp_all add: resume_fn_def cancel_fn_def demo_call_fields IsTerminal_def)
  ultimately show ?thesis
    using call_steps_trans [OF demo_ringing_reachable demo_cancelled_steps] demo_cancelled_store
    unfolding demo_start_def by blast
qed

text \<open>
  Without that restriction the index mixes up applications: a call of application
  \<open>a|b\<close> with the participant \<open>c\<close> is listed as a live call of the user
  \<open>b|c\<close> of application \<open>a\<close>, who is no participant of it.
\<close>

theorem ListActiveForUser_key_collision:
  "\<exists>r c. call_steps memory_store (new_runtime NewMemoryStore bus ring) r \<and>
     c \<in> set (ListActiveForUser memory_store Background ''a'' ''b|c'' (rt_svc r)) \<and>
     c_AppID c = ''a|b'' \<and> FindParticipant ''b|c'' c = None"
proof -
  let ?inp = "demo_input\<lparr>in_AppID := ''a|b'', in_CalleeIDs := [''c'']\<rparr>"
  let ?init = "new_runtime NewMemoryStore bus ring"
  let ?r = "?init\<lparr>rt_svc := fst (Create memory_store Background 100 ''1'' ''1'' ?inp (rt_svc ?init))\<rparr>"
  let ?c = "new_call 100 ''call_1'' ''room_1'' ?inp"
  have "call_step memory_store ?init ?r"
    by (rule call_step.create) (simp add: demo_defs mem_op_defs)
  then have steps: "call_steps memory_store ?init ?r" by (blast intro: steps_step steps_refl)
  have c: "ms_calls (sv_store (rt_svc ?r)) ''call_1'' = Some ?c"
    by (simp add: Create_def mem_op_defs create_check_def create_type_def create_mode_def demo_input_def Let_def)
       (simp add: new_call_def)
  have live: "\<not> IsTerminal ?c" by (simp add: new_call_def IsTerminal_def)
  have "has_user user_key (user_key ''a'' ''b|c'') ?c"
    by (simp add: has_user_def user_key_def join_key_def new_call_def new_participants_def demo_input_def)
  with live c have "''call_1'' \<in> set (st_ActiveCallIDsForUser memory_store Background ''a'' ''b|c'' (sv_store (rt_svc ?r)))"
    using mem_reachable_inv [OF steps] by (simp add: mem.active mem.runtime_inv_def)
  with live c have "?c \<in> set (ListActiveForUser memory_store Background ''a'' ''b|c'' (rt_svc ?r))"
    by (force simp: ListActiveForUser_def Get_def mem.get_background)
  moreover have "c_AppID ?c = ''a|b''" "FindParticipant ''b|c'' ?c = None"
    by (simp_all add: new_call_def FindParticipant_def new_participants_def demo_input_def)
  ultimately show ?thesis using steps by blast
qed

end
