(* ===== verification/Repository.thy ===== *)
theory Repository
  imports Domain
begin

text \<open>
  The package \<open>internal/repository\<close>: the SQL statements of the server over the tables of
  \<open>migrations/*.sql\<close>. A table is the list of its rows; a NULL text column reads back as the
  empty string (\<open>nullStr\<close>, \<open>deref\<close>), so rows are the domain records; the theory \<open>Rows\<close> has
  the statements on nullable columns and shows that they answer the same. A statement may
  fail for reasons outside the program: \<open>db_faults\<close> lists what happens to the statements to
  come, in order (an exhausted list means success), and a statement that fails has no effect.
  Column widths and the rounding of timestamps to microseconds are left out. Where the SQL leaves the
  order of rows open, the order is that of the table, and no theorem depends on it.
\<close>

section \<open>The database\<close>

record Db =
  db_devices :: "Device list"
  db_messages :: "Message list"
  db_deliveries :: "Delivery list"
  db_keys :: "(string \<times> string) \<rightharpoonup> string"
  db_faults :: "error option list"

definition stmt :: "Db \<Rightarrow> error option \<times> Db" where
  "stmt db = (case db_faults db of [] \<Rightarrow> (None, db) | f # fs \<Rightarrow> (f, db\<lparr>db_faults := fs\<rparr>))"

text \<open>The error of the driver for SQLSTATE 23505.\<close>

definition unique_violation :: error where
  "unique_violation = Other ''23505''"

definition isUniqueViolation :: "error \<Rightarrow> bool" where
  "isUniqueViolation err \<longleftrightarrow> err = unique_violation"

definition update_where :: "('r \<Rightarrow> bool) \<Rightarrow> ('r \<Rightarrow> 'r) \<Rightarrow> 'r list \<Rightarrow> 'r list" where
  "update_where P f rows = map (\<lambda>r. if P r then f r else r) rows"

section \<open>Devices (repository/device.go)\<close>

definition device_defaults :: "gotime \<Rightarrow> string \<Rightarrow> Device \<Rightarrow> Device" where
  "device_defaults now newID d =
     d\<lparr>d_ID := (if d_ID d = '''' then newID else d_ID d),
       d_Status := (if d_Status d = '''' then DeviceStatusActive else d_Status d),
       d_CreatedAt := now, d_UpdatedAt := now, d_LastSeenAt := now\<rparr>"

text \<open>\<open>DO UPDATE SET\<close>: the row keeps its id and its creation time; \<open>COALESCE\<close> keeps the user.\<close>

definition merge_device :: "Device \<Rightarrow> Device \<Rightarrow> Device" where
  "merge_device ex old =
     old\<lparr>d_UserID := (if d_UserID ex = '''' then d_UserID old else d_UserID ex),
         d_Platform := d_Platform ex, d_Token := d_Token ex, d_AppID := d_AppID ex,
         d_AppVersion := d_AppVersion ex, d_OSVersion := d_OSVersion ex,
         d_DeviceModel := d_DeviceModel ex, d_Locale := d_Locale ex, d_Timezone := d_Timezone ex,
         d_Status := DeviceStatusActive, d_UpdatedAt := d_UpdatedAt ex, d_LastSeenAt := d_LastSeenAt ex\<rparr>"

definition same_device :: "Device \<Rightarrow> Device \<Rightarrow> bool" where
  "same_device d r \<longleftrightarrow> d_InstallationID r = d_InstallationID d \<and> d_Provider r = d_Provider d"

definition dev_Upsert :: "gotime \<Rightarrow> string \<Rightarrow> Device \<Rightarrow> Db \<Rightarrow> Db \<times> (error + Device)" where
  "dev_Upsert now newID d0 db =
     (let d = device_defaults now newID d0
      in case stmt db of
           (Some err, db) \<Rightarrow> (db, Inl err)
         | (None, db) \<Rightarrow>
             (case find (same_device d) (db_devices db) of
                Some old \<Rightarrow>
                  (db\<lparr>db_devices := upd_first (same_device d) (merge_device d) (db_devices db)\<rparr>,
                   Inr (merge_device d old))
              | None \<Rightarrow>
                  if d_ID d \<in> d_ID ` set (db_devices db) then (db, Inl unique_violation)
                  else (db\<lparr>db_devices := db_devices db @ [d]\<rparr>, Inr d)))"

definition of_installation :: "string \<Rightarrow> string \<Rightarrow> Device \<Rightarrow> bool" where
  "of_installation appID installationID r \<longleftrightarrow>
     d_InstallationID r = installationID \<and> d_AppID r = appID"

definition dev_FindByInstallationID :: "string \<Rightarrow> string \<Rightarrow> Db \<Rightarrow> Db \<times> (error + Device)" where
  "dev_FindByInstallationID appID installationID db =
     (case stmt db of
        (Some err, db) \<Rightarrow> (db, Inl err)
      | (None, db) \<Rightarrow>
          (case sort_key (\<lambda>r. if d_Provider r = ProviderAPNsVoIP then 1 else 0 :: int)
                  (sort_key (\<lambda>r. - d_UpdatedAt r)
                     (filter (of_installation appID installationID) (db_devices db))) of
             [] \<Rightarrow> (db, Inl DeviceNotFound)
           | d # _ \<Rightarrow> (db, Inr d)))"

definition set_token :: "gotime \<Rightarrow> string \<Rightarrow> Device \<Rightarrow> Device" where
  "set_token now token r =
     r\<lparr>d_Token := token, d_Status := DeviceStatusActive, d_UpdatedAt := now, d_LastSeenAt := now\<rparr>"

definition dev_UpdateToken ::
    "gotime \<Rightarrow> string \<Rightarrow> string \<Rightarrow> string \<Rightarrow> string \<Rightarrow> Db \<Rightarrow> Db \<times> (error + Device)" where
  "dev_UpdateToken now appID installationID provider token db =
     (let P = (\<lambda>r. of_installation appID installationID r \<and> (provider = '''' \<or> d_Provider r = provider))
      in case stmt db of
           (Some err, db) \<Rightarrow> (db, Inl err)
         | (None, db) \<Rightarrow>
             (case find P (db_devices db) of
                None \<Rightarrow> (db, Inl DeviceNotFound)
              | Some r \<Rightarrow>
                  (db\<lparr>db_devices := update_where P (set_token now token) (db_devices db)\<rparr>,
                   Inr (set_token now token r))))"

text \<open>\<open>Exec\<close> of an update of the rows of an installation; no row affected is \<open>DeviceNotFound\<close>.\<close>

definition dev_exec :: "string \<Rightarrow> string \<Rightarrow> (Device \<Rightarrow> Device) \<Rightarrow> Db \<Rightarrow> Db \<times> error option" where
  "dev_exec appID installationID f db =
     (case stmt db of
        (Some err, db) \<Rightarrow> (db, Some err)
      | (None, db) \<Rightarrow>
          if list_ex (of_installation appID installationID) (db_devices db)
          then (db\<lparr>db_devices := update_where (of_installation appID installationID) f (db_devices db)\<rparr>, None)
          else (db, Some DeviceNotFound))"

definition dev_SetUserID :: "gotime \<Rightarrow> string \<Rightarrow> string \<Rightarrow> string \<Rightarrow> Db \<Rightarrow> Db \<times> error option" where
  "dev_SetUserID now appID installationID userID =
     dev_exec appID installationID (\<lambda>r. r\<lparr>d_UserID := userID, d_UpdatedAt := now, d_LastSeenAt := now\<rparr>)"

definition dev_ClearUserID :: "gotime \<Rightarrow> string \<Rightarrow> string \<Rightarrow> Db \<Rightarrow> Db \<times> error option" where
  "dev_ClearUserID now appID installationID =
     dev_exec appID installationID (\<lambda>r. r\<lparr>d_UserID := '''', d_UpdatedAt := now, d_LastSeenAt := now\<rparr>)"

definition dev_Unregister :: "gotime \<Rightarrow> string \<Rightarrow> string \<Rightarrow> Db \<Rightarrow> Db \<times> error option" where
  "dev_Unregister now appID installationID =
     dev_exec appID installationID (\<lambda>r. r\<lparr>d_Status := DeviceStatusDisabled, d_UpdatedAt := now\<rparr>)"

definition dev_MarkInvalid :: "gotime \<Rightarrow> string \<Rightarrow> Db \<Rightarrow> Db \<times> error option" where
  "dev_MarkInvalid now deviceID db =
     (case stmt db of
        (Some err, db) \<Rightarrow> (db, Some err)
      | (None, db) \<Rightarrow>
          (db\<lparr>db_devices := update_where (\<lambda>r. d_ID r = deviceID)
                (\<lambda>r. r\<lparr>d_Status := DeviceStatusInvalid, d_UpdatedAt := now\<rparr>) (db_devices db)\<rparr>, None))"

definition dev_ListActiveByUserIDs :: "string \<Rightarrow> string list \<Rightarrow> Db \<Rightarrow> Db \<times> (error + Device list)" where
  "dev_ListActiveByUserIDs appID userIDs db =
     (if userIDs = [] then (db, Inr [])
      else case stmt db of
             (Some err, db) \<Rightarrow> (db, Inl err)
           | (None, db) \<Rightarrow>
               (db, Inr (filter (\<lambda>r. d_AppID r = appID \<and> d_Status r = DeviceStatusActive \<and>
                             d_UserID r \<noteq> '''' \<and> d_UserID r \<in> set userIDs) (db_devices db))))"

definition dev_ListActiveByInstallationIDs ::
    "string \<Rightarrow> string list \<Rightarrow> Db \<Rightarrow> Db \<times> (error + Device list)" where
  "dev_ListActiveByInstallationIDs appID ids db =
     (if ids = [] then (db, Inr [])
      else case stmt db of
             (Some err, db) \<Rightarrow> (db, Inl err)
           | (None, db) \<Rightarrow>
               (db, Inr (filter (\<lambda>r. d_AppID r = appID \<and> d_Status r = DeviceStatusActive \<and>
                             d_InstallationID r \<in> set ids) (db_devices db))))"

definition dev_FindByID :: "string \<Rightarrow> Db \<Rightarrow> Db \<times> (error + Device)" where
  "dev_FindByID rowID db =
     (case stmt db of
        (Some err, db) \<Rightarrow> (db, Inl err)
      | (None, db) \<Rightarrow>
          (case find (\<lambda>r. d_ID r = rowID) (db_devices db) of
             None \<Rightarrow> (db, Inl DeviceNotFound)
           | Some d \<Rightarrow> (db, Inr d)))"

section \<open>Messages (repository/message.go)\<close>

definition message_defaults :: "gotime \<Rightarrow> string \<Rightarrow> Message \<Rightarrow> Message" where
  "message_defaults now newID m =
     m\<lparr>m_ID := (if m_ID m = '''' then newID else m_ID m),
       m_Status := (if m_Status m = '''' then MessageStatusCreated else m_Status m),
       m_Priority := (if m_Priority m = '''' then PriorityNormal else m_Priority m),
       m_Type := (if m_Type m = '''' then MessageNotification else m_Type m),
       m_CreatedAt := now\<rparr>"

text \<open>
  The row that is written and read back: the time to live in whole seconds, no queueing or
  completion time. The data column goes through JSON and comes back as the same map.
\<close>

definition message_row :: "Message \<Rightarrow> Message" where
  "message_row m =
     m\<lparr>m_TTL := (if m_TTL m > 0 then whole_seconds (m_TTL m) * Second else 0),
       m_QueuedAt := None, m_CompletedAt := None\<rparr>"

definition msg_create :: "gotime \<Rightarrow> string \<Rightarrow> Message \<Rightarrow> Db \<Rightarrow> Db \<times> (error + Message)" where
  "msg_create now newID m0 db =
     (let m = message_defaults now newID m0
      in case stmt db of
           (Some err, db) \<Rightarrow> (db, Inl err)
         | (None, db) \<Rightarrow>
             if m_ID m \<in> m_ID ` set (db_messages db) then (db, Inl unique_violation)
             else (db\<lparr>db_messages := db_messages db @ [message_row m]\<rparr>, Inr (message_row m)))"

definition msg_FindByIdempotencyKey :: "string \<Rightarrow> string \<Rightarrow> Db \<Rightarrow> Db \<times> (error + string)" where
  "msg_FindByIdempotencyKey appID key db =
     (case stmt db of
        (Some err, db) \<Rightarrow> (db, Inl err)
      | (None, db) \<Rightarrow> (case db_keys db (appID, key) of None \<Rightarrow> (db, Inr '''') | Some i \<Rightarrow> (db, Inr i)))"

text \<open>
  The transaction of \<open>CreateWithMessageAndIdempotency\<close> up to and including the look-up of the
  key; a share lock on a row that does not exist holds nobody off. The statements are \<open>BEGIN\<close>
  and the query.
\<close>

definition idem_lookup :: "string \<Rightarrow> string \<Rightarrow> Db \<Rightarrow> Db \<times> (error + string option)" where
  "idem_lookup appID key db =
     (case stmt db of
        (Some err, db) \<Rightarrow> (db, Inl err)
      | (None, db) \<Rightarrow>
          (case stmt db of
             (Some err, db) \<Rightarrow> (db, Inl err)
           | (None, db) \<Rightarrow> (db, Inr (db_keys db (appID, key)))))"

text \<open>
  The rest of the transaction: insert the message, insert the key, commit. Rolling back restores the
  tables; the statements consumed stay consumed.
\<close>

definition rollback :: "Db \<Rightarrow> Db \<Rightarrow> Db" where
  "rollback before db = before\<lparr>db_faults := db_faults db\<rparr>"

text \<open>The insert of the key, with the primary key \<open>(app_id, idempotency_key)\<close> checked.\<close>

definition key_insert :: "string \<Rightarrow> string \<Rightarrow> string \<Rightarrow> Db \<Rightarrow> Db \<times> error option" where
  "key_insert appID key messageID db =
     (case stmt db of
        (Some err, db) \<Rightarrow> (db, Some err)
      | (None, db) \<Rightarrow>
          if db_keys db (appID, key) \<noteq> None then (db, Some unique_violation)
          else (db\<lparr>db_keys := (db_keys db)((appID, key) \<mapsto> messageID)\<rparr>, None))"

definition idem_insert ::
    "gotime \<Rightarrow> string \<Rightarrow> Message \<Rightarrow> string \<Rightarrow> Db \<Rightarrow> Db \<times> (error + string \<times> bool)" where
  "idem_insert now newID m key db0 =
     (case msg_create now newID m db0 of
        (db, Inl err) \<Rightarrow> (rollback db0 db, Inl err)
      | (db, Inr created) \<Rightarrow>
          (case key_insert (m_AppID m) key (m_ID created) db of
             (db, Some err) \<Rightarrow>
               if isUniqueViolation err then
                 (case msg_FindByIdempotencyKey (m_AppID m) key (rollback db0 db) of
                    (db, Inl findErr) \<Rightarrow> (db, Inl findErr)
                  | (db, Inr existingID) \<Rightarrow>
                      if existingID = '''' then (db, Inl err) else (db, Inr (existingID, False)))
               else (rollback db0 db, Inl err)
           | (db, None) \<Rightarrow>
               (case stmt db of
                  (Some err, db) \<Rightarrow> (rollback db0 db, Inl err)
                | (None, db) \<Rightarrow> (db, Inr (m_ID created, True)))))"

definition CreateWithMessageAndIdempotency ::
    "gotime \<Rightarrow> string \<Rightarrow> Message \<Rightarrow> string \<Rightarrow> Db \<Rightarrow> Db \<times> (error + string \<times> bool)" where
  "CreateWithMessageAndIdempotency now newID m key db =
     (case idem_lookup (m_AppID m) key db of
        (db, Inl err) \<Rightarrow> (db, Inl err)
      | (db, Inr (Some existingMessageID)) \<Rightarrow> (db, Inr (existingMessageID, False))
      | (db, Inr None) \<Rightarrow> idem_insert now newID m key db)"

definition msg_update :: "string \<Rightarrow> (Message \<Rightarrow> Message) \<Rightarrow> Db \<Rightarrow> Db \<times> error option" where
  "msg_update rowID f db =
     (case stmt db of
        (Some err, db) \<Rightarrow> (db, Some err)
      | (None, db) \<Rightarrow> (db\<lparr>db_messages := update_where (\<lambda>r. m_ID r = rowID) f (db_messages db)\<rparr>, None))"

definition msg_MarkQueued :: "gotime \<Rightarrow> string \<Rightarrow> Db \<Rightarrow> Db \<times> error option" where
  "msg_MarkQueued now rowID =
     msg_update rowID (\<lambda>r. r\<lparr>m_Status := MessageStatusQueued, m_QueuedAt := Some now\<rparr>)"

definition msg_MarkCompleted :: "gotime \<Rightarrow> string \<Rightarrow> Db \<Rightarrow> Db \<times> error option" where
  "msg_MarkCompleted now rowID =
     msg_update rowID (\<lambda>r. r\<lparr>m_Status := MessageStatusCompleted, m_CompletedAt := Some now\<rparr>)"

definition msg_MarkFailed :: "gotime \<Rightarrow> string \<Rightarrow> Db \<Rightarrow> Db \<times> error option" where
  "msg_MarkFailed now rowID =
     msg_update rowID (\<lambda>r. r\<lparr>m_Status := MessageStatusFailed, m_CompletedAt := Some now\<rparr>)"

definition msg_FindByID :: "string \<Rightarrow> string \<Rightarrow> Db \<Rightarrow> Db \<times> (error + Message)" where
  "msg_FindByID appID rowID db =
     (case stmt db of
        (Some err, db) \<Rightarrow> (db, Inl err)
      | (None, db) \<Rightarrow>
          (case find (\<lambda>r. m_ID r = rowID \<and> (appID = '''' \<or> m_AppID r = appID)) (db_messages db) of
             None \<Rightarrow> (db, Inl MessageNotFound)
           | Some m \<Rightarrow> (db, Inr m)))"

definition msg_ClaimQueued :: "nat \<Rightarrow> Db \<Rightarrow> Db \<times> (error + Message list)" where
  "msg_ClaimQueued limit db =
     (case stmt db of
        (Some err, db) \<Rightarrow> (db, Inl err)
      | (None, db) \<Rightarrow>
          (let ids = map m_ID (take limit (sort_key m_CreatedAt
                       (filter (\<lambda>r. m_Status r = MessageStatusQueued) (db_messages db))));
               rows = update_where (\<lambda>r. m_ID r \<in> set ids) (\<lambda>r. r\<lparr>m_Status := MessageStatusSending\<rparr>)
                        (db_messages db)
           in (db\<lparr>db_messages := rows\<rparr>, Inr (filter (\<lambda>r. m_ID r \<in> set ids) rows))))"

section \<open>Deliveries (repository/delivery.go)\<close>

definition delivery_defaults :: "gotime \<Rightarrow> string \<Rightarrow> Delivery \<Rightarrow> Delivery" where
  "delivery_defaults now newID d =
     d\<lparr>dl_ID := (if dl_ID d = '''' then newID else dl_ID d),
       dl_Status := (if dl_Status d = '''' then DeliveryStatusPending else dl_Status d),
       dl_CreatedAt := now\<rparr>"

text \<open>
  One turn of the loop of \<open>CreateMany\<close>. Columns that are not inserted are NULL. The primary
  key and the references to a message and a device are checked by the database.
\<close>

definition foreign_key_violation :: error where
  "foreign_key_violation = Other ''23503''"

definition del_insert :: "gotime \<Rightarrow> string \<Rightarrow> Delivery \<Rightarrow> Db \<Rightarrow> Db \<times> error option" where
  "del_insert now newID d0 db =
     (let d = delivery_defaults now newID d0;
          row = d\<lparr>dl_ProviderMessageID := '''', dl_ErrorCode := '''', dl_ErrorMessage := '''',
                  dl_SentAt := None, dl_DeliveredAt := None, dl_OpenedAt := None\<rparr>
      in case stmt db of
           (Some err, db) \<Rightarrow> (db, Some err)
         | (None, db) \<Rightarrow>
             if dl_ID d \<in> dl_ID ` set (db_deliveries db) then (db, Some unique_violation)
             else if dl_MessageID d \<notin> m_ID ` set (db_messages db) \<or> dl_DeviceID d \<notin> d_ID ` set (db_devices db)
             then (db, Some foreign_key_violation)
             else (db\<lparr>db_deliveries := db_deliveries db @ [row]\<rparr>, None))"

text \<open>Each delivery comes with the id that \<open>idgen.New\<close> returns for it.\<close>

fun del_CreateMany :: "gotime \<Rightarrow> (string \<times> Delivery) list \<Rightarrow> Db \<Rightarrow> Db \<times> error option" where
  "del_CreateMany now [] db = (db, None)"
| "del_CreateMany now ((newID, d) # ds) db =
     (case del_insert now newID d db of
        (db, Some err) \<Rightarrow> (db, Some err)
      | (db, None) \<Rightarrow> del_CreateMany now ds db)"

definition ready :: "gotime \<Rightarrow> Delivery \<Rightarrow> bool" where
  "ready now r \<longleftrightarrow> (dl_Status r = DeliveryStatusPending \<or> dl_Status r = DeliveryStatusRetrying) \<and>
     (case dl_NextRetryAt r of None \<Rightarrow> True | Some t \<Rightarrow> t \<le> now)"

definition claim :: "Delivery \<Rightarrow> Delivery" where
  "claim r = r\<lparr>dl_Status := DeliveryStatusSending, dl_Attempts := dl_Attempts r + 1\<rparr>"

definition del_ClaimReady :: "gotime \<Rightarrow> nat \<Rightarrow> Db \<Rightarrow> Db \<times> (error + Delivery list)" where
  "del_ClaimReady now limit db =
     (case stmt db of
        (Some err, db) \<Rightarrow> (db, Inl err)
      | (None, db) \<Rightarrow>
          (let ids = map dl_ID (take limit (sort_key dl_CreatedAt (filter (ready now) (db_deliveries db))));
               rows = update_where (\<lambda>r. dl_ID r \<in> set ids) claim (db_deliveries db)
           in (db\<lparr>db_deliveries := rows\<rparr>, Inr (filter (\<lambda>r. dl_ID r \<in> set ids) rows))))"

definition del_update :: "string \<Rightarrow> (Delivery \<Rightarrow> Delivery) \<Rightarrow> Db \<Rightarrow> Db \<times> error option" where
  "del_update rowID f db =
     (case stmt db of
        (Some err, db) \<Rightarrow> (db, Some err)
      | (None, db) \<Rightarrow> (db\<lparr>db_deliveries := update_where (\<lambda>r. dl_ID r = rowID) f (db_deliveries db)\<rparr>, None))"

definition del_MarkAccepted :: "gotime \<Rightarrow> string \<Rightarrow> string \<Rightarrow> Db \<Rightarrow> Db \<times> error option" where
  "del_MarkAccepted now rowID providerMessageID =
     del_update rowID (\<lambda>r. r\<lparr>dl_Status := DeliveryStatusAccepted, dl_ProviderMessageID := providerMessageID,
       dl_SentAt := Some now, dl_ErrorCode := '''', dl_ErrorMessage := '''', dl_NextRetryAt := None\<rparr>)"

definition del_MarkFailed :: "string \<Rightarrow> string \<Rightarrow> string \<Rightarrow> Db \<Rightarrow> Db \<times> error option" where
  "del_MarkFailed rowID code message =
     del_update rowID (\<lambda>r. r\<lparr>dl_Status := DeliveryStatusFailed, dl_ErrorCode := code,
       dl_ErrorMessage := message, dl_NextRetryAt := None\<rparr>)"

definition del_MarkRetrying :: "string \<Rightarrow> string \<Rightarrow> string \<Rightarrow> gotime \<Rightarrow> Db \<Rightarrow> Db \<times> error option" where
  "del_MarkRetrying rowID code message nextRetryAt =
     del_update rowID (\<lambda>r. r\<lparr>dl_Status := DeliveryStatusRetrying, dl_ErrorCode := code,
       dl_ErrorMessage := message, dl_NextRetryAt := Some nextRetryAt\<rparr>)"

definition terminal_status :: "string \<Rightarrow> bool" where
  "terminal_status st \<longleftrightarrow> st = DeliveryStatusAccepted \<or> st = DeliveryStatusFailed \<or>
     st = DeliveryStatusDelivered \<or> st = DeliveryStatusOpened"

definition pending_status :: "string \<Rightarrow> bool" where
  "pending_status st \<longleftrightarrow> st = DeliveryStatusPending \<or> st = DeliveryStatusSending \<or>
     st = DeliveryStatusRetrying"

definition of_message :: "string \<Rightarrow> Db \<Rightarrow> Delivery list" where
  "of_message messageID db = filter (\<lambda>r. dl_MessageID r = messageID) (db_deliveries db)"

definition del_CountByMessage :: "string \<Rightarrow> Db \<Rightarrow> Db \<times> (error + nat \<times> nat)" where
  "del_CountByMessage messageID db =
     (case stmt db of
        (Some err, db) \<Rightarrow> (db, Inl err)
      | (None, db) \<Rightarrow>
          (db, Inr (length (of_message messageID db),
                    length (filter (\<lambda>r. terminal_status (dl_Status r)) (of_message messageID db)))))"

definition del_HasPending :: "string \<Rightarrow> Db \<Rightarrow> Db \<times> (error + bool)" where
  "del_HasPending messageID db =
     (case stmt db of
        (Some err, db) \<Rightarrow> (db, Inl err)
      | (None, db) \<Rightarrow>
          (db, Inr (length (filter (\<lambda>r. pending_status (dl_Status r)) (of_message messageID db)) > 0)))"

section \<open>Lemmas\<close>

lemma stmt_tables:
  assumes "stmt db = (f, db')"
  shows "db_devices db' = db_devices db" "db_messages db' = db_messages db"
    "db_deliveries db' = db_deliveries db" "db_keys db' = db_keys db"
  using assms by (auto simp: stmt_def split: list.splits)

text \<open>With no faults to come every statement succeeds.\<close>

lemma stmt_ok [simp]: "db_faults db = [] \<Longrightarrow> stmt db = (None, db)"
  by (simp add: stmt_def)

lemma set_update_where: "set (update_where P f rows) = {r \<in> set rows. \<not> P r} \<union> f ` {r \<in> set rows. P r}"
  by (auto simp: update_where_def)

lemma map_update_where: "(\<And>r. g (f r) = g r) \<Longrightarrow> map g (update_where P f rows) = map g rows"
  by (simp add: update_where_def comp_def)

lemma update_where_id: "(\<And>r. r \<in> set rows \<Longrightarrow> P r \<Longrightarrow> f r = r) \<Longrightarrow> update_where P f rows = rows"
  by (simp add: update_where_def map_idI)

lemma find_update_where:
  "(\<And>r. Q (f r) = Q r) \<Longrightarrow> find Q (update_where P f rows) =
     map_option (\<lambda>r. if P r then f r else r) (find Q rows)"
  unfolding update_where_def by (rule find_map_preserve) simp

lemma device_ops_tables:
  "dev_Upsert now i d db = (db', r) \<Longrightarrow> db_messages db' = db_messages db \<and> db_deliveries db' = db_deliveries db \<and> db_keys db' = db_keys db"
  "dev_FindByID i db = (db', r) \<Longrightarrow> db_messages db' = db_messages db \<and> db_deliveries db' = db_deliveries db \<and>
     db_keys db' = db_keys db \<and> db_devices db' = db_devices db"
  "dev_MarkInvalid now i db = (db', e) \<Longrightarrow> db_messages db' = db_messages db \<and> db_deliveries db' = db_deliveries db \<and> db_keys db' = db_keys db"
  by (auto simp: dev_Upsert_def dev_FindByID_def dev_MarkInvalid_def Let_def
      split: prod.splits option.splits if_splits dest: stmt_tables)

lemma msg_ops_tables:
  "msg_FindByID a i db = (db', r) \<Longrightarrow> db_messages db' = db_messages db \<and> db_deliveries db' = db_deliveries db \<and>
     db_keys db' = db_keys db \<and> db_devices db' = db_devices db"
  "msg_update i f db = (db', e) \<Longrightarrow> db_deliveries db' = db_deliveries db \<and> db_devices db' = db_devices db \<and> db_keys db' = db_keys db"
  "msg_create now i m db = (db', r') \<Longrightarrow> db_deliveries db' = db_deliveries db \<and> db_devices db' = db_devices db \<and> db_keys db' = db_keys db"
  by (auto simp: msg_FindByID_def msg_update_def msg_create_def Let_def
      split: prod.splits option.splits if_splits dest: stmt_tables)

lemma count_ops_tables:
  "del_HasPending i db = (db', p) \<Longrightarrow> db_messages db' = db_messages db \<and> db_deliveries db' = db_deliveries db \<and>
     db_keys db' = db_keys db \<and> db_devices db' = db_devices db"
  "del_CountByMessage i db = (db', c) \<Longrightarrow> db_messages db' = db_messages db \<and> db_deliveries db' = db_deliveries db \<and>
     db_keys db' = db_keys db \<and> db_devices db' = db_devices db"
  by (auto simp: del_HasPending_def del_CountByMessage_def split: prod.splits option.splits dest: stmt_tables)

lemma msg_update_cases:
  assumes "msg_update i f db = (db', e)"
  shows "e = None \<and> db_messages db' = update_where (\<lambda>r. m_ID r = i) f (db_messages db) \<or>
    e \<noteq> None \<and> db_messages db' = db_messages db"
  using assms by (auto simp: msg_update_def split: prod.splits option.splits dest: stmt_tables)

lemma del_update_tables:
  assumes "del_update i f db = (db', e)"
  shows "db_messages db' = db_messages db \<and> db_devices db' = db_devices db \<and> db_keys db' = db_keys db \<and>
    (e = None \<and> db_deliveries db' = update_where (\<lambda>r. dl_ID r = i) f (db_deliveries db) \<or>
     e \<noteq> None \<and> db_deliveries db' = db_deliveries db)"
  using assms by (auto simp: del_update_def split: prod.splits option.splits dest: stmt_tables)

lemma of_message_cong: "db_deliveries db' = db_deliveries db \<Longrightarrow> of_message i db' = of_message i db"
  by (simp add: of_message_def)

lemma del_insert_cases:
  assumes "del_insert now i d db = (db', e)"
  shows "db_messages db' = db_messages db \<and> db_devices db' = db_devices db \<and> db_keys db' = db_keys db \<and>
    (e \<noteq> None \<and> db_deliveries db' = db_deliveries db \<or>
     e = None \<and> (\<exists>row. db_deliveries db' = db_deliveries db @ [row] \<and> dl_ID row \<notin> dl_ID ` set (db_deliveries db) \<and>
       dl_ID row = (if dl_ID d = '''' then i else dl_ID d) \<and>
       dl_MessageID row = dl_MessageID d \<and> dl_DeviceID row = dl_DeviceID d \<and> dl_Provider row = dl_Provider d \<and>
       dl_Status row = (if dl_Status d = '''' then DeliveryStatusPending else dl_Status d) \<and>
       dl_Attempts row = dl_Attempts d \<and> dl_NextRetryAt row = dl_NextRetryAt d \<and> dl_CreatedAt row = now))"
  using assms by (auto simp: del_insert_def delivery_defaults_def Let_def
      split: prod.splits option.splits if_splits dest: stmt_tables)

lemma claim_cases:
  assumes "del_ClaimReady now n db = (db', r)"
  shows "db_messages db' = db_messages db \<and> db_devices db' = db_devices db \<and> db_keys db' = db_keys db \<and>
    (case r of
       Inl _ \<Rightarrow> db_deliveries db' = db_deliveries db
     | Inr rows \<Rightarrow> \<exists>ids. set ids \<subseteq> dl_ID ` {d \<in> set (db_deliveries db). ready now d} \<and> length ids \<le> n \<and>
         db_deliveries db' = update_where (\<lambda>r. dl_ID r \<in> set ids) claim (db_deliveries db) \<and>
         rows = filter (\<lambda>r. dl_ID r \<in> set ids) (db_deliveries db'))"
proof (cases "stmt db")
  case (Pair f db1)
  note t = stmt_tables [OF this]
  show ?thesis
  proof (cases f)
    case None
    let ?ids = "map dl_ID (take n (sort_key dl_CreatedAt (filter (ready now) (db_deliveries db))))"
    have ids: "set ?ids \<subseteq> dl_ID ` {d \<in> set (db_deliveries db). ready now d}" "length ?ids \<le> n"
      by (auto dest: in_set_takeD)
    have eq: "db_deliveries db' = update_where (\<lambda>r. dl_ID r \<in> set ?ids) claim (db_deliveries db)"
      "r = Inr (filter (\<lambda>r. dl_ID r \<in> set ?ids) (db_deliveries db'))"
      "db_messages db' = db_messages db" "db_devices db' = db_devices db" "db_keys db' = db_keys db"
      using assms None Pair t by (auto simp: del_ClaimReady_def Let_def)
    show ?thesis using ids eq by (auto intro!: exI [of _ ?ids])
  next
    case (Some e)
    with assms Pair t show ?thesis by (simp add: del_ClaimReady_def) auto
  qed
qed

end
