(* ===== verification/DeviceService.thy ===== *)
theory DeviceService
  imports Repository
begin

text \<open>
  The device service (\<open>internal/service/device.go\<close>): validation of a registration, the
  refresh of a token with its fall-back registration, binding a device to a user, and the masking of
  tokens in logs. The state is the database.
\<close>

section \<open>Model\<close>

definition allowedProviders :: "string list" where
  "allowedProviders = [ProviderHuawei, ProviderXiaomi, ProviderOppo, ProviderVivo, ProviderFCM,
     ProviderAPNs, ProviderAPNsVoIP]"

definition allowedPlatforms :: "string list" where
  "allowedPlatforms = [PlatformAndroid, PlatformIOS]"

record RegisterDeviceInput =
  rd_InstallationID :: string
  rd_UserID :: string
  rd_Platform :: string
  rd_Provider :: string
  rd_Token :: string
  rd_AppID :: string
  rd_AppVersion :: string
  rd_OSVersion :: string
  rd_DeviceModel :: string
  rd_Locale :: string
  rd_Timezone :: string

definition validateRegister :: "RegisterDeviceInput \<Rightarrow> error option" where
  "validateRegister inp =
     (if rd_InstallationID inp = '''' then Some (InvalidRequest ''installation_id is required'')
      else if rd_Platform inp = '''' \<or> rd_Platform inp \<notin> set allowedPlatforms
      then Some (InvalidRequest ''platform must be android or ios'')
      else if rd_Provider inp = '''' \<or> rd_Provider inp \<notin> set allowedProviders
      then Some (InvalidRequest ''invalid provider'')
      else if rd_Token inp = '''' then Some (InvalidRequest ''token is required'')
      else if rd_AppID inp = '''' then Some (InvalidRequest ''app_id is required'')
      else if RuneCountInString (rd_Token inp) > 4096 then Some (InvalidRequest ''token too long'')
      else None)"

definition register_device :: "RegisterDeviceInput \<Rightarrow> Device" where
  "register_device inp =
     \<lparr>d_ID = '''', d_UserID = rd_UserID inp, d_InstallationID = rd_InstallationID inp,
       d_Platform = rd_Platform inp, d_Provider = rd_Provider inp, d_Token = rd_Token inp,
       d_AppID = rd_AppID inp, d_AppVersion = rd_AppVersion inp, d_OSVersion = rd_OSVersion inp,
       d_DeviceModel = rd_DeviceModel inp, d_Locale = rd_Locale inp, d_Timezone = rd_Timezone inp,
       d_Status = DeviceStatusActive, d_CreatedAt = 0, d_UpdatedAt = 0, d_LastSeenAt = 0\<rparr>"

definition device_Register ::
    "gotime \<Rightarrow> string \<Rightarrow> RegisterDeviceInput \<Rightarrow> Db \<Rightarrow> Db \<times> (error + Device)" where
  "device_Register now newID inp db =
     (case validateRegister inp of
        Some err \<Rightarrow> (db, Inl err)
      | None \<Rightarrow> dev_Upsert now newID (register_device inp) db)"

text \<open>The registration that a refresh of an unknown provider row falls back to.\<close>

definition refresh_input ::
    "string \<Rightarrow> string \<Rightarrow> string \<Rightarrow> string \<Rightarrow> error + Device \<Rightarrow> RegisterDeviceInput" where
  "refresh_input appID installationID provider token found =
     (case found of
        Inr existing \<Rightarrow>
          \<lparr>rd_InstallationID = installationID, rd_UserID = d_UserID existing,
            rd_Platform = d_Platform existing, rd_Provider = provider, rd_Token = token,
            rd_AppID = appID, rd_AppVersion = d_AppVersion existing,
            rd_OSVersion = d_OSVersion existing, rd_DeviceModel = d_DeviceModel existing,
            rd_Locale = d_Locale existing, rd_Timezone = d_Timezone existing\<rparr>
      | Inl _ \<Rightarrow>
          \<lparr>rd_InstallationID = installationID, rd_UserID = '''', rd_Platform = PlatformIOS,
            rd_Provider = provider, rd_Token = token, rd_AppID = appID, rd_AppVersion = '''',
            rd_OSVersion = '''', rd_DeviceModel = '''', rd_Locale = '''', rd_Timezone = ''''\<rparr>)"

definition device_UpdateToken ::
    "gotime \<Rightarrow> string \<Rightarrow> string \<Rightarrow> string \<Rightarrow> string \<Rightarrow> string \<Rightarrow> Db \<Rightarrow> Db \<times> (error + Device)" where
  "device_UpdateToken now newID appID installationID provider token db =
     (if installationID = '''' \<or> token = ''''
      then (db, Inl (InvalidRequest ''installation_id and token are required''))
      else if provider \<noteq> '''' \<and> provider \<notin> set allowedProviders
      then (db, Inl (InvalidRequest ''invalid provider''))
      else case dev_UpdateToken now appID installationID provider token db of
             (db, Inr d) \<Rightarrow> (db, Inr d)
           | (db, Inl err) \<Rightarrow>
               if \<not> IsNotFound err \<or> provider = '''' then (db, Inl err)
               else case dev_FindByInstallationID appID installationID db of
                      (db, found) \<Rightarrow>
                        device_Register now newID (refresh_input appID installationID provider token found) db)"

definition device_SetUserID :: "gotime \<Rightarrow> string \<Rightarrow> string \<Rightarrow> string \<Rightarrow> Db \<Rightarrow> Db \<times> error option" where
  "device_SetUserID now appID installationID userID db =
     (if installationID = '''' \<or> userID = ''''
      then (db, Some (InvalidRequest ''installation_id and user_id are required''))
      else dev_SetUserID now appID installationID userID db)"

definition device_ClearUserID :: "gotime \<Rightarrow> string \<Rightarrow> string \<Rightarrow> Db \<Rightarrow> Db \<times> error option" where
  "device_ClearUserID now appID installationID db =
     (if installationID = '''' then (db, Some (InvalidRequest ''installation_id is required''))
      else dev_ClearUserID now appID installationID db)"

definition device_Unregister :: "gotime \<Rightarrow> string \<Rightarrow> string \<Rightarrow> Db \<Rightarrow> Db \<times> error option" where
  "device_Unregister now appID installationID db =
     (if installationID = '''' then (db, Some (InvalidRequest ''installation_id is required''))
      else dev_Unregister now appID installationID db)"

definition device_Get :: "string \<Rightarrow> string \<Rightarrow> Db \<Rightarrow> Db \<times> (error + Device)" where
  "device_Get appID installationID = dev_FindByInstallationID appID installationID"

definition MaskToken :: "string \<Rightarrow> string" where
  "MaskToken token =
     (if length token \<le> 8 then ''***''
      else take 5 token @ ''...'' @ drop (length token - 3) token)"

end
