(* ===== verification/MessageService.thy ===== *)
theory MessageService
  imports DeviceService
begin

text \<open>
  The message service (\<open>internal/service/message.go\<close>): validation, the resolution of the
  targets to devices, the choice between the APNs and the VoIP row of an iOS installation, the
  idempotent creation of the message and the creation of its deliveries, and the two kinds of call
  pushes built on it. \<open>newID n\<close> is what the n-th call of \<open>idgen.New\<close> in an operation
  returns. Counting in metrics is left out.
\<close>

section \<open>Model\<close>

abbreviation maxDataEntries :: nat where "maxDataEntries \<equiv> 32"
abbreviation maxDataValueLen :: nat where "maxDataValueLen \<equiv> 1024"

record SendMessageInput =
  sm_AppID :: string
  sm_Type :: MessageType
  sm_UserIDs :: "string list"
  sm_InstallationIDs :: "string list"
  sm_Provider :: string
  sm_Token :: string
  sm_Title :: string
  sm_Body :: string
  sm_Data :: "(string \<times> string) list"
  sm_ImageURL :: string
  sm_Priority :: string
  sm_TTLSeconds :: "int option"
  sm_CollapseKey :: string
  sm_Sound :: string
  sm_Badge :: "int option"
  sm_DeepLink :: string
  sm_Category :: string
  sm_IdempotencyKey :: string

record SendIncomingCallInput =
  si_AppID :: string
  si_UserIDs :: "string list"
  si_InstallationIDs :: "string list"
  si_Call :: IncomingCall
  si_IdempotencyKey :: string

record SendCallSignalInput =
  sc_AppID :: string
  sc_Type :: MessageType
  sc_CallID :: string
  sc_UserIDs :: "string list"
  sc_InstallationIDs :: "string list"
  sc_Reason :: string
  sc_IdempotencyKey :: string

record SendMessageResult =
  sr_MessageID :: string
  sr_MessageAccepted :: bool
  sr_Duplicate :: bool

definition validateSend :: "SendMessageInput \<Rightarrow> error option" where
  "validateSend inp =
     (if sm_AppID inp = '''' then Some (InvalidRequest ''app_id is required'')
      else if \<not> (sm_UserIDs inp \<noteq> [] \<or> sm_InstallationIDs inp \<noteq> [] \<or>
                 sm_Provider inp \<noteq> '''' \<and> sm_Token inp \<noteq> '''')
      then Some (InvalidRequest ''user_ids, installation_ids, or provider+token required'')
      else if sm_Type inp \<notin> {MessageNotification, MessageSilent, MessageBackground,
                MessageIncomingCall, MessageCallCancelled, MessageCallEnded}
      then Some (InvalidRequest ''invalid message type'')
      else if sm_Type inp = MessageNotification \<and> sm_Title inp = '''' \<and> sm_Body inp = '''' \<and> sm_Data inp = []
      then Some (InvalidRequest ''notification or data required'')
      else if IsDataOnly (sm_Type inp) \<and> sm_Data inp = []
      then Some (InvalidRequest ''data required for this message type'')
      else if sm_Priority inp \<noteq> '''' \<and> sm_Priority inp \<noteq> PriorityNormal \<and> sm_Priority inp \<noteq> PriorityHigh
      then Some (InvalidRequest ''priority must be normal or high'')
      else if sm_Provider inp \<noteq> '''' \<and> sm_Provider inp \<notin> set allowedProviders
      then Some (InvalidRequest ''invalid provider'')
      else if length (sm_Data inp) > maxDataEntries then Some (InvalidRequest ''data has too many keys'')
      else if list_ex (\<lambda>(k, v). k = '''' \<or> RuneCountInString v > maxDataValueLen) (sm_Data inp)
      then Some (InvalidRequest ''invalid data payload'')
      else None)"

definition platformForProvider :: "string \<Rightarrow> string" where
  "platformForProvider p = (if p = ProviderAPNs \<or> p = ProviderAPNsVoIP then PlatformIOS else PlatformAndroid)"

definition joinIDs :: "string list \<Rightarrow> string list \<Rightarrow> string" where
  "joinIDs userIDs installationIDs =
     (case userIDs of
        u # _ \<Rightarrow> u
      | [] \<Rightarrow> (case installationIDs of i # _ \<Rightarrow> i | [] \<Rightarrow> ''all''))"

subsection \<open>Devices\<close>

text \<open>The loop that drops devices already seen; \<open>seen\<close> is the set of their ids.\<close>

fun dedup :: "string list \<Rightarrow> Device list \<Rightarrow> string list \<times> Device list" where
  "dedup seen [] = (seen, [])"
| "dedup seen (d # ds) =
     (if d_ID d \<in> set seen then dedup seen ds
      else (case dedup (d_ID d # seen) ds of (seen, out) \<Rightarrow> (seen, d # out)))"

definition resolveDevices ::
    "string \<Rightarrow> string list \<Rightarrow> string list \<Rightarrow> Db \<Rightarrow> Db \<times> (error + Device list)" where
  "resolveDevices appID userIDs installationIDs db =
     (case (if userIDs = [] then (db, Inr []) else dev_ListActiveByUserIDs appID userIDs db) of
        (db, Inl err) \<Rightarrow> (db, Inl err)
      | (db, Inr ds) \<Rightarrow>
          (case dedup [] ds of
             (seen, out) \<Rightarrow>
               (case (if installationIDs = [] then (db, Inr [])
                      else dev_ListActiveByInstallationIDs appID installationIDs db) of
                  (db, Inl err) \<Rightarrow> (db, Inl err)
                | (db, Inr ds) \<Rightarrow> (db, Inr (out @ snd (dedup seen ds))))))"

definition install_key :: "Device \<Rightarrow> string" where
  "install_key d = join_key ''|'' (d_AppID d) (d_InstallationID d)"

text \<open>The grouping loop: the groups by key, and the keys in the order of their first device.\<close>

fun group_devices ::
    "Device list \<Rightarrow> (string \<rightharpoonup> Device list) \<times> string list \<Rightarrow> (string \<rightharpoonup> Device list) \<times> string list" where
  "group_devices [] acc = acc"
| "group_devices (d # ds) (byInstall, order) =
     (let key = install_key d;
          order = (if byInstall key = None then order @ [key] else order);
          grp = (case byInstall key of None \<Rightarrow> [] | Some g \<Rightarrow> g)
      in group_devices ds (byInstall(key \<mapsto> grp @ [d]), order))"

definition choose_devices :: "bool \<Rightarrow> Device list \<Rightarrow> Device list" where
  "choose_devices incoming grp =
     (if length grp = 1 \<or> d_Platform (hd grp) \<noteq> PlatformIOS then grp
      else
        (let voip = filter (\<lambda>d. d_Provider d = ProviderAPNsVoIP) grp;
             apns = filter (\<lambda>d. d_Provider d = ProviderAPNs) grp;
             other = filter (\<lambda>d. d_Provider d \<noteq> ProviderAPNsVoIP \<and> d_Provider d \<noteq> ProviderAPNs) grp
         in if incoming then (if voip \<noteq> [] then voip else apns @ other)
            else if apns \<noteq> [] then apns else if other \<noteq> [] then other else voip))"

definition filterDevicesForMessage :: "Device list \<Rightarrow> MessageType \<Rightarrow> Device list" where
  "filterDevicesForMessage devices msgType =
     (let incoming = (msgType = MessageIncomingCall \<or> msgType = MessageCallCancelled \<or>
                      msgType = MessageCallEnded)
      in case group_devices devices (Map.empty, []) of
           (byInstall, order) \<Rightarrow>
             concat (map (\<lambda>key. case byInstall key of
                               None \<Rightarrow> [] | Some grp \<Rightarrow> choose_devices incoming grp) order))"

definition selectProviderForMessage :: "Device \<Rightarrow> Message \<Rightarrow> string" where
  "selectProviderForMessage d msg =
     (if d_Platform d = PlatformIOS \<and> m_Type msg = MessageIncomingCall
      then if d_Provider d = ProviderAPNsVoIP then ProviderAPNsVoIP else ProviderAPNs
      else d_Provider d)"

subsection \<open>Sending\<close>

definition enrichEventData :: "gotime \<Rightarrow> Message \<Rightarrow> Message" where
  "enrichEventData now msg =
     msg\<lparr>m_Data :=
       AList.update ''mgl_timestamp'' (FormatInt (Unix now))
         (AList.update ''mgl_event_type'' (m_Type msg)
           (AList.update ''mgl_event_id'' (m_ID msg)
             (AList.update ''mgl_message_id'' (m_ID msg) (m_Data msg))))\<rparr>"

definition new_delivery :: "Message \<Rightarrow> Device \<Rightarrow> Delivery" where
  "new_delivery msg d =
     \<lparr>dl_ID = '''', dl_MessageID = m_ID msg, dl_DeviceID = d_ID d,
       dl_Provider = selectProviderForMessage d msg, dl_Status = DeliveryStatusPending,
       dl_ProviderMessageID = '''', dl_ErrorCode = '''', dl_ErrorMessage = '''', dl_Attempts = 0,
       dl_CreatedAt = 0, dl_SentAt = None, dl_DeliveredAt = None, dl_OpenedAt = None,
       dl_NextRetryAt = None\<rparr>"

definition new_deliveries :: "(nat \<Rightarrow> string) \<Rightarrow> Message \<Rightarrow> Device list \<Rightarrow> (string \<times> Delivery) list" where
  "new_deliveries newID msg devices =
     (let devices = filterDevicesForMessage devices (m_Type msg)
      in zip (map newID [0..<length devices]) (map (new_delivery msg) devices))"

definition enqueueDeliveries ::
    "gotime \<Rightarrow> (nat \<Rightarrow> string) \<Rightarrow> Message \<Rightarrow> Device list \<Rightarrow> Db \<Rightarrow> Db \<times> error option" where
  "enqueueDeliveries now newID created devices db =
     (case del_CreateMany now (new_deliveries newID created devices) db of
        (db, Some err) \<Rightarrow> (db, Some err)
      | (db, None) \<Rightarrow> msg_MarkQueued now (m_ID created) db)"

definition send_type :: "SendMessageInput \<Rightarrow> SendMessageInput" where
  "send_type inp =
     (if sm_Type inp = '''' then
        if sm_Title inp = '''' \<and> sm_Body inp = '''' \<and> length (sm_Data inp) > 0
        then inp\<lparr>sm_Type := MessageSilent\<rparr> else inp\<lparr>sm_Type := MessageNotification\<rparr>
      else inp)"

definition new_message :: "gotime \<Rightarrow> string \<Rightarrow> SendMessageInput \<Rightarrow> Message" where
  "new_message now newID inp =
     enrichEventData now
       \<lparr>m_ID = newID, m_Type = sm_Type inp, m_Title = sm_Title inp, m_Body = sm_Body inp,
         m_Data = sm_Data inp, m_ImageURL = sm_ImageURL inp,
         m_Priority =
           (if sm_Priority inp = '''' then
              if IsCallRelated (sm_Type inp) then PriorityHigh else PriorityNormal
            else sm_Priority inp),
         m_TTL = (case sm_TTLSeconds inp of None \<Rightarrow> 0 | Some n \<Rightarrow> int64 (n * Second)),
         m_CollapseKey = sm_CollapseKey inp, m_Sound = sm_Sound inp, m_Badge = sm_Badge inp,
         m_DeepLink = sm_DeepLink inp, m_Category = sm_Category inp, m_AppID = sm_AppID inp,
         m_Status = MessageStatusCreated, m_CreatedAt = 0, m_QueuedAt = None, m_CompletedAt = None\<rparr>"

text \<open>Persisting: the id of the message and whether it is new.\<close>

definition persist_message ::
    "gotime \<Rightarrow> SendMessageInput \<Rightarrow> Message \<Rightarrow> Db \<Rightarrow> Db \<times> (error + string \<times> bool)" where
  "persist_message now inp msg db =
     (if sm_IdempotencyKey inp \<noteq> ''''
      then CreateWithMessageAndIdempotency now (m_ID msg) msg (sm_IdempotencyKey inp) db
      else case msg_create now (m_ID msg) msg db of
             (db, Inl err) \<Rightarrow> (db, Inl err)
           | (db, Inr created) \<Rightarrow> (db, Inr (m_ID created, True)))"

text \<open>A push to a provider token directly creates a device row for it, which replaces the targets.\<close>

definition direct_device :: "string \<Rightarrow> SendMessageInput \<Rightarrow> Device" where
  "direct_device newID inp =
     \<lparr>d_ID = '''', d_UserID = '''', d_InstallationID = ''direct-'' @ newID,
       d_Platform = platformForProvider (sm_Provider inp), d_Provider = sm_Provider inp,
       d_Token = sm_Token inp, d_AppID = sm_AppID inp, d_AppVersion = '''', d_OSVersion = '''',
       d_DeviceModel = '''', d_Locale = '''', d_Timezone = '''', d_Status = DeviceStatusActive,
       d_CreatedAt = 0, d_UpdatedAt = 0, d_LastSeenAt = 0\<rparr>"

definition target_devices ::
    "gotime \<Rightarrow> (nat \<Rightarrow> string) \<Rightarrow> SendMessageInput \<Rightarrow> Device list \<Rightarrow> Db \<Rightarrow> Db \<times> (error + Device list)" where
  "target_devices now newID inp devices db =
     (if sm_Provider inp \<noteq> '''' \<and> sm_Token inp \<noteq> '''' then
        (case dev_Upsert now (newID 2) (direct_device (newID 1) inp) db of
           (db, Inl err) \<Rightarrow> (db, Inl err)
         | (db, Inr tmp) \<Rightarrow> (db, Inr [tmp]))
      else (db, Inr devices))"

definition Send ::
    "gotime \<Rightarrow> (nat \<Rightarrow> string) \<Rightarrow> SendMessageInput \<Rightarrow> Db \<Rightarrow> Db \<times> (error + SendMessageResult)" where
  "Send now newID inp0 db =
     (let inp = send_type inp0
      in case validateSend inp of
           Some err \<Rightarrow> (db, Inl err)
         | None \<Rightarrow>
             (case resolveDevices (sm_AppID inp) (sm_UserIDs inp) (sm_InstallationIDs inp) db of
                (db, Inl err) \<Rightarrow> (db, Inl err)
              | (db, Inr devices) \<Rightarrow>
                  if devices = [] \<and> sm_Provider inp = ''''
                  then (db, Inl (InvalidRequest ''no active devices found for targets''))
                  else
                    (let msg = new_message now (newID 0) inp
                     in case persist_message now inp msg db of
                          (db, Inl err) \<Rightarrow> (db, Inl err)
                        | (db, Inr (messageID, False)) \<Rightarrow>
                            (db, Inr \<lparr>sr_MessageID = messageID, sr_MessageAccepted = True, sr_Duplicate = True\<rparr>)
                        | (db, Inr (messageID, True)) \<Rightarrow>
                            (case target_devices now newID inp devices db of
                               (db, Inl err) \<Rightarrow> (db, Inl err)
                             | (db, Inr devices) \<Rightarrow>
                                 (case enqueueDeliveries now (\<lambda>n. newID (n + 3)) (msg\<lparr>m_ID := messageID\<rparr>) devices db of
                                    (db, Some err) \<Rightarrow> (db, Inl err)
                                  | (db, None) \<Rightarrow>
                                      (db, Inr \<lparr>sr_MessageID = messageID, sr_MessageAccepted = True,
                                                sr_Duplicate = False\<rparr>))))))"

subsection \<open>Call pushes\<close>

definition incoming_defaults :: "gotime \<Rightarrow> IncomingCall \<Rightarrow> IncomingCall" where
  "incoming_defaults now c =
     c\<lparr>ic_MediaType := (if ic_MediaType c = '''' then ''audio'' else ic_MediaType c),
       ic_Timestamp := (if IsZero (ic_Timestamp c) then now else ic_Timestamp c),
       ic_ExpiresAt := (if IsZero (ic_ExpiresAt c) then now + DefaultIncomingCallTTL else ic_ExpiresAt c)\<rparr>"

definition incoming_data :: "IncomingCall \<Rightarrow> (string \<times> string) list" where
  "incoming_data c =
     [(''call_id'', ic_CallID c), (''caller_id'', ic_CallerID c), (''callee_id'', ic_CalleeID c),
      (''media_type'', ic_MediaType c), (''timestamp'', FormatInt (Unix (ic_Timestamp c))),
      (''expires_at'', FormatInt (Unix (ic_ExpiresAt c)))] @
     (if ic_CallerName c \<noteq> '''' then [(''caller_display_name'', ic_CallerName c)] else [])"

definition push_input ::
    "string \<Rightarrow> MessageType \<Rightarrow> string list \<Rightarrow> string list \<Rightarrow> (string \<times> string) list \<Rightarrow> int \<Rightarrow> string \<Rightarrow> SendMessageInput" where
  "push_input appID typ userIDs installationIDs data ttl key =
     \<lparr>sm_AppID = appID, sm_Type = typ, sm_UserIDs = userIDs, sm_InstallationIDs = installationIDs,
       sm_Provider = '''', sm_Token = '''', sm_Title = '''', sm_Body = '''', sm_Data = data,
       sm_ImageURL = '''', sm_Priority = PriorityHigh, sm_TTLSeconds = Some ttl, sm_CollapseKey = '''',
       sm_Sound = '''', sm_Badge = None, sm_DeepLink = '''', sm_Category = '''', sm_IdempotencyKey = key\<rparr>"

definition SendIncomingCall ::
    "gotime \<Rightarrow> (nat \<Rightarrow> string) \<Rightarrow> SendIncomingCallInput \<Rightarrow> Db \<Rightarrow> Db \<times> (error + SendMessageResult)" where
  "SendIncomingCall now newID inp db =
     (if ic_CallID (si_Call inp) = '''' \<or> ic_CallerID (si_Call inp) = '''' \<or> ic_CalleeID (si_Call inp) = ''''
      then (db, Inl (InvalidRequest ''call_id, caller_id, and callee_id are required''))
      else
        (let c = incoming_defaults now (si_Call inp);
             ttl = whole_seconds (time_Sub (ic_ExpiresAt c) now)
         in if ttl < 1 then (db, Inl (InvalidRequest ''call already expired''))
            else
              (let key = (if si_IdempotencyKey inp = ''''
                          then ''incoming:'' @ ic_CallID c @ '':'' @ joinIDs (si_UserIDs inp) (si_InstallationIDs inp)
                          else si_IdempotencyKey inp)
               in Send now newID
                    (push_input (si_AppID inp) MessageIncomingCall (si_UserIDs inp) (si_InstallationIDs inp)
                       (incoming_data c) ttl key) db)))"

definition SendCallSignal ::
    "gotime \<Rightarrow> (nat \<Rightarrow> string) \<Rightarrow> SendCallSignalInput \<Rightarrow> Db \<Rightarrow> Db \<times> (error + SendMessageResult)" where
  "SendCallSignal now newID inp db =
     (if sc_Type inp \<noteq> MessageCallCancelled \<and> sc_Type inp \<noteq> MessageCallEnded
      then (db, Inl (InvalidRequest ''type must be call_cancelled or call_ended''))
      else if sc_CallID inp = '''' then (db, Inl (InvalidRequest ''call_id is required''))
      else
        (let data = (''call_id'', sc_CallID inp) #
                    (if sc_Reason inp \<noteq> '''' then [(''reason'', sc_Reason inp)] else []);
             key = (if sc_IdempotencyKey inp = ''''
                    then sc_Type inp @ '':'' @ sc_CallID inp @ '':'' @ joinIDs (sc_UserIDs inp) (sc_InstallationIDs inp)
                    else sc_IdempotencyKey inp)
         in Send now newID
              (push_input (sc_AppID inp) (sc_Type inp) (sc_UserIDs inp) (sc_InstallationIDs inp) data 30 key) db))"

end
