(* ===== verification/Retry.thy ===== *)
theory Retry
  imports Domain
begin

text \<open>
  The packages \<open>internal/retry\<close> (the delays between attempts) and \<open>internal/provider\<close>
  (what a provider answers, and the registry the worker looks providers up in). A provider is a
  record of the functions of its Go interface; what its service answers at an instant is a parameter.
\<close>

section \<open>Delays (retry/retry.go)\<close>

definition DelayForAttempt :: "int \<Rightarrow> duration" where
  "DelayForAttempt attempt =
     (if attempt = 1 then 0
      else if attempt = 2 then 5 * Second
      else if attempt = 3 then 30 * Second
      else if attempt = 4 then 5 * Minute
      else 30 * Minute)"

definition ShouldRetry :: "bool \<Rightarrow> int \<Rightarrow> int \<Rightarrow> bool" where
  "ShouldRetry retryable attempts maxAttempts \<longleftrightarrow> retryable \<and> attempts < maxAttempts"

section \<open>Providers (provider/provider.go, provider/named.go)\<close>

record SendResult =
  sr_Accepted :: bool
  sr_ProviderMessageID :: string
  sr_Retryable :: bool
  sr_ErrorCode :: string
  sr_ErrorMessage :: string
  sr_InvalidToken :: bool

text \<open>A send returns an error or a result, and the result may be nil.\<close>

record Provider =
  pv_Name :: string
  pv_Send :: "gotime \<Rightarrow> Message \<Rightarrow> Device \<Rightarrow> error + SendResult option"
  pv_ValidateToken :: "string \<Rightarrow> error option"
  pv_Close :: "error option"

type_synonym Registry = "string \<rightharpoonup> Provider"

definition NewRegistry :: Registry where
  "NewRegistry = Map.empty"

definition Register :: "Provider \<Rightarrow> Registry \<Rightarrow> Registry" where
  "Register p r = r(pv_Name p \<mapsto> p)"

text \<open>The verb \<open>%q\<close> on a provider name, which has nothing to escape.\<close>

definition quoted :: "string \<Rightarrow> string" where
  "quoted s = [CHR 0x22] @ s @ [CHR 0x22]"

definition registry_Get :: "string \<Rightarrow> Registry \<Rightarrow> error + Provider" where
  "registry_Get name r =
     (case r name of
        None \<Rightarrow> Inl (Prov \<lparr>pe_Provider = name, pe_Code = ErrCodeProviderNotAvailable,
                  pe_Message = ''provider '' @ quoted name @ '' not registered'',
                  pe_Retryable = False, pe_InvalidToken = False\<rparr>)
      | Some p \<Rightarrow> Inr p)"

definition NewNamed :: "string \<Rightarrow> Provider \<Rightarrow> Provider" where
  "NewNamed name inner = inner\<lparr>pv_Name := name, pv_Close := None\<rparr>"

section \<open>Lemmas\<close>

lemma DelayForAttempt_bounds: "0 \<le> DelayForAttempt n \<and> DelayForAttempt n \<le> 30 * Minute"
  by (simp add: DelayForAttempt_def)

lemma DelayForAttempt_mono: "1 \<le> m \<Longrightarrow> m \<le> n \<Longrightarrow> DelayForAttempt m \<le> DelayForAttempt n"
  by (auto simp: DelayForAttempt_def)

lemma registry_Get_Register:
  "registry_Get n (Register p r) = (if n = pv_Name p then Inr p else registry_Get n r)"
  by (simp add: registry_Get_def Register_def)

end
