(* ===== verification/Worker.thy ===== *)
theory Worker
  imports MessageService Retry
begin

text \<open>
  The delivery worker (\<open>internal/queue/worker.go\<close>): a tick claims deliveries that are ready,
  hands each to its provider and records the outcome. The errors of the statements that record are
  ignored, as in the source. \<open>processDelivery\<close> also returns what was handed to a provider, so
  that sends can be counted; logging and metrics are left out. The second part is the push pipeline
  as a transition system: requests that enqueue deliveries one statement at a time, any number of
  workers, device changes by other requests, failing statements and crashes.
\<close>

section \<open>Model\<close>

record Worker =
  w_registry :: Registry
  w_batchSize :: nat
  w_maxAttempt :: int

definition maybeCompleteMessage :: "gotime \<Rightarrow> string \<Rightarrow> Db \<Rightarrow> Db" where
  "maybeCompleteMessage now messageID db =
     (case del_HasPending messageID db of
        (db, Inl _) \<Rightarrow> db
      | (db, Inr pending) \<Rightarrow>
          if pending then db
          else case del_CountByMessage messageID db of
                 (db, Inl _) \<Rightarrow> db
               | (db, Inr (count, terminal)) \<Rightarrow>
                   if count = 0 then db
                   else if terminal < count then db
                   else fst (msg_MarkCompleted now messageID db))"

definition handleError ::
    "int \<Rightarrow> gotime \<Rightarrow> Delivery \<Rightarrow> Device \<Rightarrow> Message \<Rightarrow> error \<Rightarrow> Db \<Rightarrow> Db" where
  "handleError maxAttempt now d device msg sendErr db =
     (let (code, retryable, invalid) =
            (case sendErr of
               Prov pe \<Rightarrow> (pe_Code pe, pe_Retryable pe, pe_InvalidToken pe)
             | _ \<Rightarrow> (ErrCodeProviderTempError, True, False))
      in if invalid then
           (let db = fst (dev_MarkInvalid now (d_ID device) db);
                db = fst (del_MarkFailed (dl_ID d) ErrCodeInvalidToken (Error sendErr) db)
            in maybeCompleteMessage now (m_ID msg) db)
         else if ShouldRetry retryable (dl_Attempts d) maxAttempt then
           fst (del_MarkRetrying (dl_ID d) code (Error sendErr)
                  (now + DelayForAttempt (dl_Attempts d + 1)) db)
         else
           (let db = fst (del_MarkFailed (dl_ID d) code (Error sendErr) db)
            in maybeCompleteMessage now (m_ID msg) db))"

definition handleResult ::
    "int \<Rightarrow> gotime \<Rightarrow> Delivery \<Rightarrow> Device \<Rightarrow> Message \<Rightarrow> SendResult option \<Rightarrow> Db \<Rightarrow> Db" where
  "handleResult maxAttempt now d device msg result db =
     (case result of
        None \<Rightarrow>
          (let db = fst (del_MarkFailed (dl_ID d) ErrCodeInternalError ''nil result'' db)
           in maybeCompleteMessage now (m_ID msg) db)
      | Some result \<Rightarrow>
          if sr_InvalidToken result then
            (let db = fst (dev_MarkInvalid now (d_ID device) db);
                 db = fst (del_MarkFailed (dl_ID d) ErrCodeInvalidToken (sr_ErrorMessage result) db)
             in maybeCompleteMessage now (m_ID msg) db)
          else if \<not> sr_Accepted result then
            if ShouldRetry (sr_Retryable result) (dl_Attempts d) maxAttempt then
              fst (del_MarkRetrying (dl_ID d) (sr_ErrorCode result) (sr_ErrorMessage result)
                     (now + DelayForAttempt (dl_Attempts d + 1)) db)
            else
              (let db = fst (del_MarkFailed (dl_ID d) (sr_ErrorCode result) (sr_ErrorMessage result) db)
               in maybeCompleteMessage now (m_ID msg) db)
          else
            (let db = fst (del_MarkAccepted now (dl_ID d) (sr_ProviderMessageID result) db)
             in maybeCompleteMessage now (m_ID msg) db))"

definition processDelivery :: "Worker \<Rightarrow> gotime \<Rightarrow> Delivery \<Rightarrow> Db \<Rightarrow> Db \<times> (Message \<times> Device) list" where
  "processDelivery w now d db =
     (case dev_FindByID (dl_DeviceID d) db of
        (db, Inl err) \<Rightarrow> (fst (del_MarkFailed (dl_ID d) ErrCodeDeviceNotFound (Error err) db), [])
      | (db, Inr device) \<Rightarrow>
          (case msg_FindByID (d_AppID device) (dl_MessageID d) db of
             (db, Inl err) \<Rightarrow> (fst (del_MarkFailed (dl_ID d) ErrCodeMessageNotFound (Error err) db), [])
           | (db, Inr msg) \<Rightarrow>
               (case registry_Get (dl_Provider d) (w_registry w) of
                  Inl err \<Rightarrow>
                    (let db = fst (del_MarkFailed (dl_ID d) ErrCodeProviderNotAvailable (Error err) db)
                     in (maybeCompleteMessage now (m_ID msg) db, []))
                | Inr p \<Rightarrow>
                    (case pv_Send p now msg device of
                       Inl sendErr \<Rightarrow>
                         (handleError (w_maxAttempt w) now d device msg sendErr db, [(msg, device)])
                     | Inr result \<Rightarrow>
                         (handleResult (w_maxAttempt w) now d device msg result db, [(msg, device)])))))"

definition tick :: "Worker \<Rightarrow> gotime \<Rightarrow> Db \<Rightarrow> Db \<times> error option" where
  "tick w now db =
     (case del_ClaimReady now (w_batchSize w) db of
        (db, Inl err) \<Rightarrow> (db, Some err)
      | (db, Inr deliveries) \<Rightarrow> (fold (\<lambda>d db. fst (processDelivery w now d db)) deliveries db, None))"

section \<open>The pipeline as a transition system\<close>

text \<open>
  \<open>ps_claimed\<close>: deliveries in the memory of the workers. \<open>ps_jobs\<close>: requests in
  \<open>enqueueDeliveries\<close>, with the deliveries they have still to insert. \<open>ps_aborted\<close>: the
  messages whose enqueueing stopped on an error. \<open>ps_sends\<close>: the ids of the deliveries handed to
  a provider, one entry per attempt.
\<close>

record Push =
  ps_db :: Db
  ps_claimed :: "Delivery list"
  ps_jobs :: "(string \<times> (string \<times> Delivery) list) list"
  ps_aborted :: "string list"
  ps_sends :: "string list"

definition empty_db :: Db where
  "empty_db = \<lparr>db_devices = [], db_messages = [], db_deliveries = [], db_keys = Map.empty, db_faults = []\<rparr>"

definition new_push :: Push where
  "new_push = \<lparr>ps_db = empty_db, ps_claimed = [], ps_jobs = [], ps_aborted = [], ps_sends = []\<rparr>"

inductive push_step :: "Worker \<Rightarrow> Push \<Rightarrow> Push \<Rightarrow> bool" for w where
  persist: "persist_message now inp (new_message now (newID 0) inp) (ps_db r) = (db, Inr (mid, True)) \<Longrightarrow>
     target_devices now newID inp devices db = (db', Inr devices') \<Longrightarrow>
     push_step w r (r\<lparr>ps_db := db',
       ps_jobs := (mid, new_deliveries (\<lambda>n. newID (n + 3)) ((new_message now (newID 0) inp)\<lparr>m_ID := mid\<rparr>) devices')
                  # ps_jobs r\<rparr>)"
| persist_only: "persist_message now inp (new_message now i inp) (ps_db r) = (db, res) \<Longrightarrow>
     push_step w r (r\<lparr>ps_db := db\<rparr>)"
| enqueue: "(mid, (i, dl) # ds) \<in> set (ps_jobs r) \<Longrightarrow> del_insert now i dl (ps_db r) = (db, None) \<Longrightarrow>
     push_step w r (r\<lparr>ps_db := db, ps_jobs := (mid, ds) # remove1 (mid, (i, dl) # ds) (ps_jobs r)\<rparr>)"
| enqueue_fail: "(mid, (i, dl) # ds) \<in> set (ps_jobs r) \<Longrightarrow> del_insert now i dl (ps_db r) = (db, Some err) \<Longrightarrow>
     push_step w r (r\<lparr>ps_db := db, ps_jobs := remove1 (mid, (i, dl) # ds) (ps_jobs r),
       ps_aborted := mid # ps_aborted r\<rparr>)"
| queued: "(mid, []) \<in> set (ps_jobs r) \<Longrightarrow> msg_MarkQueued now mid (ps_db r) = (db, None) \<Longrightarrow>
     push_step w r (r\<lparr>ps_db := db, ps_jobs := remove1 (mid, []) (ps_jobs r)\<rparr>)"
| queued_fail: "(mid, []) \<in> set (ps_jobs r) \<Longrightarrow> msg_MarkQueued now mid (ps_db r) = (db, Some err) \<Longrightarrow>
     push_step w r (r\<lparr>ps_db := db, ps_jobs := remove1 (mid, []) (ps_jobs r), ps_aborted := mid # ps_aborted r\<rparr>)"
| claimed: "del_ClaimReady now (w_batchSize w) (ps_db r) = (db, Inr rows) \<Longrightarrow>
     push_step w r (r\<lparr>ps_db := db, ps_claimed := ps_claimed r @ rows\<rparr>)"
| claim_fail: "del_ClaimReady now (w_batchSize w) (ps_db r) = (db, Inl err) \<Longrightarrow>
     push_step w r (r\<lparr>ps_db := db\<rparr>)"
| process: "d \<in> set (ps_claimed r) \<Longrightarrow> processDelivery w now d (ps_db r) = (db, sent) \<Longrightarrow>
     push_step w r (r\<lparr>ps_db := db, ps_claimed := remove1 d (ps_claimed r),
       ps_sends := map (\<lambda>_. dl_ID d) sent @ ps_sends r\<rparr>)"
| devices: "push_step w r (r\<lparr>ps_db := (ps_db r)\<lparr>db_devices := devs, db_faults := fs\<rparr>\<rparr>)"
| crash: "push_step w r (r\<lparr>ps_claimed := [], ps_jobs := [], ps_aborted := map fst (ps_jobs r) @ ps_aborted r\<rparr>)"

inductive push_steps :: "Worker \<Rightarrow> Push \<Rightarrow> Push \<Rightarrow> bool" for w where
  push_refl: "push_steps w r r"
| push_trans: "push_steps w r r' \<Longrightarrow> push_step w r' r'' \<Longrightarrow> push_steps w r r''"

end
