(* ===== verification/PushInvariant.thy ===== *)
theory PushInvariant
  imports Worker
begin

text \<open>
  What one processed delivery does to the tables, and the invariant of the push pipeline: rows have
  distinct ids, the deliveries in the memory of the workers are rows in state \<open>sending\<close> that no
  other worker holds, attempts are counted and bounded, and a message that is completed has no
  delivery left to make unless its enqueueing is unfinished or broke off.
\<close>

section \<open>Processing one delivery\<close>

text \<open>How a worker may settle the delivery it holds.\<close>

definition settles :: "int \<Rightarrow> Delivery \<Rightarrow> (Delivery \<Rightarrow> Delivery) \<Rightarrow> bool" where
  "settles maxAttempt d f \<longleftrightarrow>
     (\<forall>r. dl_ID (f r) = dl_ID r \<and> dl_MessageID (f r) = dl_MessageID r \<and> dl_Attempts (f r) = dl_Attempts r \<and>
        (dl_Status (f r) = DeliveryStatusAccepted \<or> dl_Status (f r) = DeliveryStatusFailed \<or>
         dl_Status (f r) = DeliveryStatusRetrying \<and> dl_Attempts d < maxAttempt))"

definition settled :: "int \<Rightarrow> Delivery \<Rightarrow> Db \<Rightarrow> Db \<Rightarrow> bool" where
  "settled maxAttempt d db db' \<longleftrightarrow> db_deliveries db' = db_deliveries db \<or>
     (\<exists>f. settles maxAttempt d f \<and>
        db_deliveries db' = update_where (\<lambda>r. dl_ID r = dl_ID d) f (db_deliveries db))"

definition complete_row :: "gotime \<Rightarrow> Message \<Rightarrow> Message" where
  "complete_row now r = r\<lparr>m_Status := MessageStatusCompleted, m_CompletedAt := Some now\<rparr>"

text \<open>The messages are as before, or one is marked completed whose deliveries are all terminal.\<close>

definition all_terminal :: "string \<Rightarrow> Db \<Rightarrow> bool" where
  "all_terminal mid db \<longleftrightarrow> of_message mid db \<noteq> [] \<and> (\<forall>d \<in> set (of_message mid db). terminal_status (dl_Status d))"

definition completes :: "Db \<Rightarrow> Db \<Rightarrow> bool" where
  "completes db db' \<longleftrightarrow> db_messages db' = db_messages db \<or>
     (\<exists>now mid. db_messages db' = update_where (\<lambda>r. m_ID r = mid) (complete_row now) (db_messages db) \<and>
        all_terminal mid db')"

lemma settledI:
  "del_update (dl_ID d) f db = (db', e) \<Longrightarrow> settles m d f \<Longrightarrow> settled m d db db'"
  unfolding settled_def using del_update_tables by blast

lemma settled_cong:
  "settled m d db db1 \<Longrightarrow> db_deliveries db0 = db_deliveries db \<Longrightarrow> db_deliveries db2 = db_deliveries db1 \<Longrightarrow>
   settled m d db0 db2"
  by (simp add: settled_def)

lemma mark_settles:
  "settled m d db (fst (del_MarkFailed (dl_ID d) code message db))"
  "settled m d db (fst (del_MarkAccepted now (dl_ID d) pid db))"
  "dl_Attempts d < m \<Longrightarrow> settled m d db (fst (del_MarkRetrying (dl_ID d) code message next db))"
proof -
  have f: "settles m d f \<Longrightarrow> settled m d db (fst (del_update (dl_ID d) f db))" for f
    by (rule settledI [OF surjective_pairing])
  show "settled m d db (fst (del_MarkFailed (dl_ID d) code message db))"
    "settled m d db (fst (del_MarkAccepted now (dl_ID d) pid db))"
    "dl_Attempts d < m \<Longrightarrow> settled m d db (fst (del_MarkRetrying (dl_ID d) code message next db))"
    unfolding del_MarkFailed_def del_MarkAccepted_def del_MarkRetrying_def
    by (rule f, simp add: settles_def)+
qed

lemma mark_messages [simp]:
  "db_messages (fst (del_MarkFailed i code message db)) = db_messages db"
  "db_messages (fst (del_MarkAccepted now i pid db)) = db_messages db"
  "db_messages (fst (del_MarkRetrying i code message next db)) = db_messages db"
  using del_update_tables [OF surjective_pairing]
  unfolding del_MarkFailed_def del_MarkAccepted_def del_MarkRetrying_def by blast+

lemma MarkInvalid_tables [simp]:
  "db_messages (fst (dev_MarkInvalid now i db)) = db_messages db"
  "db_deliveries (fst (dev_MarkInvalid now i db)) = db_deliveries db"
  using device_ops_tables(3) [OF surjective_pairing] by simp_all

lemma length_filter_all: "length (filter P xs) = length xs \<Longrightarrow> \<forall>x \<in> set xs. P x"
proof (intro ballI, rule ccontr)
  fix x
  assume "length (filter P xs) = length xs" "x \<in> set xs" "\<not> P x"
  then show False using length_filter_less [of x xs P] by simp
qed

lemma maybeComplete_tables:
  "db_deliveries (maybeCompleteMessage now mid db) = db_deliveries db"
  "completes db (maybeCompleteMessage now mid db)"
proof -
  obtain db1 p where h: "del_HasPending mid db = (db1, p)" by fastforce
  obtain db2 c where c: "del_CountByMessage mid db1 = (db2, c)" by fastforce
  obtain db3 e where m: "msg_MarkCompleted now mid db2 = (db3, e)" by fastforce
  note t = count_ops_tables(1) [OF h] count_ops_tables(2) [OF c]
    msg_ops_tables(2) [OF m [unfolded msg_MarkCompleted_def]]
  show "db_deliveries (maybeCompleteMessage now mid db) = db_deliveries db"
    using h c m t by (auto simp: maybeCompleteMessage_def split: sum.splits)
  show "completes db (maybeCompleteMessage now mid db)"
  proof (cases "maybeCompleteMessage now mid db = db3 \<and> e = None \<and> (\<exists>n k. c = Inr (n, k) \<and> n \<noteq> 0 \<and> \<not> k < n)")
    case True
    then obtain n k where nk: "c = Inr (n, k)" "n \<noteq> 0" "\<not> k < n" by blast
    from c nk(1) have "n = length (of_message mid db2)"
      "k = length (filter (\<lambda>r. terminal_status (dl_Status r)) (of_message mid db2))"
      by (auto simp: del_CountByMessage_def split: prod.splits option.splits)
    with nk(2,3) have "of_message mid db2 \<noteq> []"
      "length (filter (\<lambda>r. terminal_status (dl_Status r)) (of_message mid db2)) = length (of_message mid db2)"
      using length_filter_le [of "\<lambda>r. terminal_status (dl_Status r)" "of_message mid db2"] by auto
    then have "all_terminal mid db2" using length_filter_all unfolding all_terminal_def by blast
    moreover have "of_message mid db3 = of_message mid db2" using t(3) by (intro of_message_cong) simp
    moreover have "db_messages db3 = update_where (\<lambda>r. m_ID r = mid) (complete_row now) (db_messages db)"
      using True t msg_update_cases [OF m [unfolded msg_MarkCompleted_def]] by (auto simp: complete_row_def [abs_def])
    ultimately show ?thesis using True unfolding completes_def all_terminal_def by metis
  next
    case False
    moreover have "db_messages db3 = db_messages db" if "e \<noteq> None"
      using that t msg_update_cases [OF m [unfolded msg_MarkCompleted_def]] by auto
    ultimately have "db_messages (maybeCompleteMessage now mid db) = db_messages db"
      using h c m t by (auto simp: maybeCompleteMessage_def split: sum.splits if_splits)
    then show ?thesis by (simp add: completes_def)
  qed
qed

lemma settled_complete: "settled m d db db1 \<Longrightarrow> settled m d db (maybeCompleteMessage now mid db1)"
  by (erule settled_cong) (simp_all add: maybeComplete_tables)

lemma completes_cong: "completes db1 db2 \<Longrightarrow> db_messages db1 = db_messages db \<Longrightarrow> completes db db2"
  by (simp add: completes_def)

lemma mark_invalid_settled:
  "settled m d (fst (dev_MarkInvalid now i db)) db1 \<Longrightarrow> settled m d db db1"
  by (erule settled_cong) simp_all

lemma handleError_effect:
  "settled m d db (handleError m now d dev msg err db)" "completes db (handleError m now d dev msg err db)"
  unfolding handleError_def Let_def
  by (auto simp: ShouldRetry_def split: error.splits
      intro: mark_settles settled_complete mark_invalid_settled completes_cong [OF maybeComplete_tables(2)])
     (simp_all add: completes_def)

lemma handleResult_effect:
  "settled m d db (handleResult m now d dev msg res db)" "completes db (handleResult m now d dev msg res db)"
  unfolding handleResult_def Let_def
  by (auto simp: ShouldRetry_def split: option.splits
      intro: mark_settles settled_complete mark_invalid_settled completes_cong [OF maybeComplete_tables(2)])
     (simp_all add: completes_def)

lemma effect_cong:
  assumes "db_deliveries db = db_deliveries db0" "db_messages db = db_messages db0"
  shows "settled m d db db' \<Longrightarrow> settled m d db0 db'" "completes db db' \<Longrightarrow> completes db0 db'"
  using assms by (simp_all add: settled_def completes_def)

lemma markFailed_effect:
  "settled m d db (fst (del_MarkFailed (dl_ID d) code e db))" "completes db (fst (del_MarkFailed (dl_ID d) code e db))"
  "settled m d db (maybeCompleteMessage now mid (fst (del_MarkFailed (dl_ID d) code e db)))"
  "completes db (maybeCompleteMessage now mid (fst (del_MarkFailed (dl_ID d) code e db)))"
  by (simp_all add: mark_settles settled_complete completes_cong [OF maybeComplete_tables(2)])
     (simp add: completes_def)

lemma processDelivery_effect:
  assumes "processDelivery w now d db = (db', sent)"
  shows "settled (w_maxAttempt w) d db db'" "completes db db'" "length sent \<le> 1"
proof -
  obtain db1 r1 where f: "dev_FindByID (dl_DeviceID d) db = (db1, r1)" by fastforce
  note t1 = device_ops_tables(2) [OF f]
  have "settled (w_maxAttempt w) d db1 db' \<and> completes db1 db' \<and> length sent \<le> 1"
  proof (cases r1)
    case (Inl e)
    with assms f show ?thesis by (auto simp: processDelivery_def markFailed_effect)
  next
    case (Inr dev)
    obtain db2 r2 where g: "msg_FindByID (d_AppID dev) (dl_MessageID d) db1 = (db2, r2)" by fastforce
    note t2 = msg_ops_tables(1) [OF g]
    have "settled (w_maxAttempt w) d db2 db' \<and> completes db2 db' \<and> length sent \<le> 1"
      using assms f g Inr
      by (auto simp: processDelivery_def markFailed_effect handleError_effect handleResult_effect Let_def
          split: sum.splits)
    with effect_cong [of db2 db1] t2 show ?thesis by blast
  qed
  with effect_cong [of db1 db] t1
  show "settled (w_maxAttempt w) d db db'" "completes db db'" "length sent \<le> 1" by blast+
qed

section \<open>The invariant\<close>

definition row_ok :: "int \<Rightarrow> Delivery \<Rightarrow> bool" where
  "row_ok maxAttempt d \<longleftrightarrow>
     dl_Attempts d \<le> max 1 maxAttempt \<and>
     (dl_Status d = DeliveryStatusPending \<and> dl_Attempts d = 0 \<or>
      dl_Status d = DeliveryStatusRetrying \<and> 1 \<le> dl_Attempts d \<and> dl_Attempts d < maxAttempt \<or>
      dl_Status d \<in> {DeliveryStatusSending, DeliveryStatusAccepted, DeliveryStatusFailed} \<and> 1 \<le> dl_Attempts d)"

definition rows_inv :: "int \<Rightarrow> Delivery list \<Rightarrow> Delivery list \<Rightarrow> string list \<Rightarrow> bool" where
  "rows_inv maxAttempt rows held sends \<longleftrightarrow>
     distinct (map dl_ID rows) \<and> distinct (map dl_ID held) \<and> set held \<subseteq> set rows \<and>
     (\<forall>d \<in> set held. dl_Status d = DeliveryStatusSending) \<and> (\<forall>d \<in> set rows. row_ok maxAttempt d) \<and>
     (\<forall>d \<in> set rows. int (count_list sends (dl_ID d)) + (if d \<in> set held then 1 else 0) \<le> dl_Attempts d) \<and>
     set sends \<subseteq> dl_ID ` set rows"

definition jobs_ok :: "(string \<times> (string \<times> Delivery) list) list \<Rightarrow> bool" where
  "jobs_ok jobs \<longleftrightarrow> (\<forall>(mid, ds) \<in> set jobs. \<forall>(i, d) \<in> set ds.
     dl_MessageID d = mid \<and> dl_Status d = DeliveryStatusPending \<and> dl_Attempts d = 0)"

text \<open>A message may be completed: its enqueueing is unfinished or broke off, or nothing is left to do.\<close>

definition may_complete :: "Push \<Rightarrow> string \<Rightarrow> bool" where
  "may_complete r mid \<longleftrightarrow>
     mid \<in> fst ` set (ps_jobs r) \<or> mid \<in> set (ps_aborted r) \<or> all_terminal mid (ps_db r)"

definition completed_ok :: "Push \<Rightarrow> bool" where
  "completed_ok r \<longleftrightarrow> (\<forall>m \<in> set (db_messages (ps_db r)). m_Status m = MessageStatusCompleted \<longrightarrow>
     may_complete r (m_ID m))"

definition push_inv :: "Worker \<Rightarrow> Push \<Rightarrow> bool" where
  "push_inv w r \<longleftrightarrow>
     rows_inv (w_maxAttempt w) (db_deliveries (ps_db r)) (ps_claimed r) (ps_sends r) \<and>
     jobs_ok (ps_jobs r) \<and> completed_ok r"

lemma rows_inv_insert:
  assumes "rows_inv m rows held sends" "dl_ID row \<notin> dl_ID ` set rows" "dl_Status row = DeliveryStatusPending"
    "dl_Attempts row = 0"
  shows "rows_inv m (rows @ [row]) held sends"
proof -
  have "row \<notin> set held" "count_list sends (dl_ID row) = 0"
    using assms(1,2) unfolding rows_inv_def by (auto simp: count_list_0_iff)
  moreover have "row_ok m row" using assms(3,4) by (simp add: row_ok_def)
  ultimately show ?thesis using assms(1,2,4) unfolding rows_inv_def by auto
qed

lemma ready_statusD: "ready now d \<Longrightarrow> dl_Status d = DeliveryStatusPending \<or> dl_Status d = DeliveryStatusRetrying"
  by (simp add: ready_def)

lemma claim_fields [simp]:
  "dl_ID (claim d) = dl_ID d" "dl_MessageID (claim d) = dl_MessageID d" "dl_DeviceID (claim d) = dl_DeviceID d"
  "dl_Status (claim d) = DeliveryStatusSending" "dl_Attempts (claim d) = dl_Attempts d + 1"
  by (simp_all add: claim_def)

lemma id_unique: "distinct (map dl_ID rows) \<Longrightarrow> a \<in> set rows \<Longrightarrow> b \<in> set rows \<Longrightarrow> dl_ID a = dl_ID b \<Longrightarrow> a = b"
  by (auto simp: distinct_map inj_on_def)

lemma rows_inv_claim:
  assumes inv: "rows_inv m rows held sends"
    and ids: "set ids \<subseteq> dl_ID ` {d \<in> set rows. ready now d}"
    and rows': "rows' = update_where (\<lambda>r. dl_ID r \<in> set ids) claim rows"
  shows "rows_inv m rows' (held @ filter (\<lambda>r. dl_ID r \<in> set ids) rows') sends"
proof -
  let ?new = "filter (\<lambda>r. dl_ID r \<in> set ids) rows'"
  note I = inv [unfolded rows_inv_def]
  have ready: "ready now d" if "d \<in> set rows" "dl_ID d \<in> set ids" for d
    using ids that id_unique [of rows d] I by blast
  have held: "dl_ID d \<notin> set ids" if "d \<in> set held" for d
  proof
    assume "dl_ID d \<in> set ids"
    moreover have "d \<in> set rows" "dl_Status d = DeliveryStatusSending" using I that by auto
    ultimately show False using ready [of d] by (auto dest: ready_statusD)
  qed
  have map: "map dl_ID rows' = map dl_ID rows" unfolding rows' by (rule map_update_where) simp
  have cases: "\<exists>d0 \<in> set rows. (d = d0 \<and> dl_ID d0 \<notin> set ids) \<or> (d = claim d0 \<and> dl_ID d0 \<in> set ids)"
    if "d \<in> set rows'" for d using that unfolding rows' set_update_where by auto
  have dist: "distinct (map dl_ID rows')" using I map by simp
  have held_rows: "set held \<subseteq> set rows'" using I held unfolding rows' set_update_where by blast
  have dist_held: "distinct (map dl_ID (held @ ?new))"
  proof -
    have "distinct (map dl_ID ?new)" using dist by (auto simp: distinct_map intro: inj_on_subset)
    moreover have "dl_ID ` set held \<inter> dl_ID ` set ?new = {}" using held by fastforce
    ultimately show ?thesis using I by simp
  qed
  have stat: "\<forall>d \<in> set (held @ ?new). dl_Status d = DeliveryStatusSending" using I cases by fastforce
  have ok: "row_ok m d" "int (count_list sends (dl_ID d)) + (if d \<in> set (held @ ?new) then 1 else 0) \<le> dl_Attempts d"
    if d': "d \<in> set rows'" for d
  proof -
    obtain d0 where d0: "d0 \<in> set rows" "(d = d0 \<and> dl_ID d0 \<notin> set ids) \<or> (d = claim d0 \<and> dl_ID d0 \<in> set ids)"
      using cases [OF d'] by blast
    have ok0: "row_ok m d0" "int (count_list sends (dl_ID d0)) + (if d0 \<in> set held then 1 else 0) \<le> dl_Attempts d0"
      using I d0(1) by blast+
    show "row_ok m d" using d0(2) ok0(1) ready [OF d0(1)] by (auto simp: row_ok_def ready_def)
    show "int (count_list sends (dl_ID d)) + (if d \<in> set (held @ ?new) then 1 else 0) \<le> dl_Attempts d"
      using d0 ok0(2) held by (auto split: if_splits)
  qed
  have "set sends \<subseteq> dl_ID ` set rows'" using I map by (metis image_set)
  with dist dist_held held_rows stat ok show ?thesis unfolding rows_inv_def by auto
qed

lemma rows_inv_process:
  assumes inv: "rows_inv m rows held sends" and d: "d \<in> set held"
    and f: "\<And>r. dl_ID (f r) = dl_ID r" "dl_Attempts (f d) = dl_Attempts d" "row_ok m (f d)"
    and rows': "rows' = update_where (\<lambda>r. dl_ID r = dl_ID d) f rows" and n: "n \<le> 1"
  shows "rows_inv m rows' (remove1 d held) (replicate n (dl_ID d) @ sends)"
proof -
  note I = inv [unfolded rows_inv_def]
  have map: "map dl_ID rows' = map dl_ID rows" unfolding rows' by (rule map_update_where) (rule f)
  have d_row: "d \<in> set rows" using I d by blast
  have uniq: "r = d" if "r \<in> set rows" "dl_ID r = dl_ID d" for r using id_unique I that d_row by blast
  have cases: "x = f d \<or> x \<in> set rows \<and> dl_ID x \<noteq> dl_ID d" if "x \<in> set rows'" for x
    using that uniq unfolding rows' set_update_where by auto
  have held': "set (remove1 d held) = {x \<in> set held. dl_ID x \<noteq> dl_ID d}"
    using I d uniq by (auto simp: distinct_map)
  have "set (remove1 d held) \<subseteq> set rows'" using I unfolding held' rows' set_update_where by blast
  moreover have "distinct (map dl_ID (remove1 d held))"
    using I held' by (auto simp: distinct_map inj_on_def)
  moreover have "row_ok m x" if "x \<in> set rows'" for x using cases [OF that] f(3) I by blast
  moreover have "int (count_list (replicate n (dl_ID d) @ sends) (dl_ID x)) + (if x \<in> set (remove1 d held) then 1 else 0)
      \<le> dl_Attempts x" if "x \<in> set rows'" for x
  proof (cases "dl_ID x = dl_ID d")
    case True
    then have "x = f d" "x \<notin> set (remove1 d held)" using cases [OF that] held' by auto
    moreover have "int (count_list sends (dl_ID d)) + 1 \<le> dl_Attempts d" using I d d_row by fastforce
    moreover have "count_list (replicate n (dl_ID d)) (dl_ID d) = n" by (induction n) auto
    ultimately show ?thesis using n f(1,2) by simp
  next
    case False
    then have "x \<in> set rows" using cases [OF that] f(1) by auto
    moreover have "count_list (replicate n (dl_ID d)) (dl_ID x) = 0" using False by (simp add: count_list_0_iff)
    moreover have "x \<in> set (remove1 d held) \<longleftrightarrow> x \<in> set held" using held' False by auto
    ultimately show ?thesis using I by auto
  qed
  moreover have "set (replicate n (dl_ID d) @ sends) \<subseteq> dl_ID ` set rows'"
  proof -
    have "dl_ID ` set rows' = dl_ID ` set rows" using map by (metis image_set)
    then show ?thesis using I d_row by auto
  qed
  ultimately show ?thesis using I map held' unfolding rows_inv_def by auto
qed

lemma msg_create_cases:
  assumes "msg_create now i m db = (db', r)"
  shows "db_deliveries db' = db_deliveries db \<and> db_devices db' = db_devices db \<and> db_keys db' = db_keys db \<and>
    (case r of Inl e \<Rightarrow> db_messages db' = db_messages db
     | Inr row \<Rightarrow> db_messages db' = db_messages db @ [row] \<and> row = message_row (message_defaults now i m) \<and>
         m_ID row \<notin> m_ID ` set (db_messages db))"
  using assms
  by (auto simp: msg_create_def Let_def message_row_def split: prod.splits option.splits if_splits dest: stmt_tables)

lemma key_insert_tables:
  "key_insert a k i db = (db', e) \<Longrightarrow> db_deliveries db' = db_deliveries db \<and> db_devices db' = db_devices db \<and>
    db_messages db' = db_messages db \<and>
    (e = None \<and> db_keys db (a, k) = None \<and> db_keys db' = (db_keys db)((a, k) \<mapsto> i) \<or> e \<noteq> None \<and> db_keys db' = db_keys db)"
  by (auto simp: key_insert_def split: prod.splits option.splits if_splits dest: stmt_tables)

lemma FindByIdempotencyKey_tables:
  "msg_FindByIdempotencyKey a k db = (db', r) \<Longrightarrow> db_deliveries db' = db_deliveries db \<and> db_devices db' = db_devices db \<and>
    db_messages db' = db_messages db \<and> db_keys db' = db_keys db \<and>
    (\<forall>i. r = Inr i \<longrightarrow> i \<noteq> '''' \<longrightarrow> db_keys db (a, k) = Some i)"
  by (auto simp: msg_FindByIdempotencyKey_def split: prod.splits option.splits dest: stmt_tables)

lemma rollback_tables [simp]:
  "db_deliveries (rollback db0 db) = db_deliveries db0" "db_devices (rollback db0 db) = db_devices db0"
  "db_messages (rollback db0 db) = db_messages db0" "db_keys (rollback db0 db) = db_keys db0"
  by (simp_all add: rollback_def)

text \<open>
  The transaction leaves the tables alone, or adds one message bound to the key; and the id it
  returns is the one the key is bound to.
\<close>

lemma idem_insert_cases:
  assumes "idem_insert now i m key db = (db', r)"
  shows "db_deliveries db' = db_deliveries db \<and> db_devices db' = db_devices db \<and>
    (case r of
       Inr (mid, True) \<Rightarrow> \<exists>row. row = message_row (message_defaults now i m) \<and> mid = m_ID row \<and>
         db_messages db' = db_messages db @ [row] \<and> mid \<notin> m_ID ` set (db_messages db) \<and>
         db_keys db (m_AppID m, key) = None \<and> db_keys db' = (db_keys db)((m_AppID m, key) \<mapsto> mid)
     | Inr (mid, False) \<Rightarrow> db_messages db' = db_messages db \<and> db_keys db' = db_keys db \<and>
         db_keys db (m_AppID m, key) = Some mid
     | Inl e \<Rightarrow> db_messages db' = db_messages db \<and> db_keys db' = db_keys db)"
proof -
  obtain db1 r1 where c: "msg_create now i m db = (db1, r1)" by fastforce
  note t1 = msg_create_cases [OF c]
  show ?thesis
  proof (cases r1)
    case (Inl e)
    with assms c show ?thesis by (simp add: idem_insert_def) auto
  next
    case (Inr row)
    obtain db2 e2 where k: "key_insert (m_AppID m) key (m_ID row) db1 = (db2, e2)" by fastforce
    note t2 = key_insert_tables [OF k]
    show ?thesis
    proof (cases e2)
      case None
      obtain db3 e3 where s: "stmt db2 = (e3, db3)" by fastforce
      note t3 = stmt_tables [OF s]
      show ?thesis
        using assms c Inr k None s t1 t2 t3 by (cases e3) (auto simp: idem_insert_def)
    next
      case (Some e)
      obtain db3 r3 where q: "msg_FindByIdempotencyKey (m_AppID m) key (rollback db db2) = (db3, r3)" by fastforce
      note t3 = FindByIdempotencyKey_tables [OF q]
      show ?thesis
        using assms c Inr k Some q t1 t3
        by (cases r3) (auto simp: idem_insert_def split: if_splits)
    qed
  qed
qed

lemma idem_lookup_cases:
  assumes "idem_lookup a key db = (db', r)"
  shows "db_deliveries db' = db_deliveries db \<and> db_devices db' = db_devices db \<and>
    db_messages db' = db_messages db \<and> db_keys db' = db_keys db \<and> (\<forall>x. r = Inr x \<longrightarrow> x = db_keys db (a, key))"
proof -
  obtain db1 e1 where s1: "stmt db = (e1, db1)" by fastforce
  obtain db2 e2 where s2: "stmt db1 = (e2, db2)" by fastforce
  show ?thesis using assms s1 s2 stmt_tables [OF s1] stmt_tables [OF s2]
    by (auto simp: idem_lookup_def split: option.splits)
qed

lemma CreateWithMessageAndIdempotency_cases:
  assumes "CreateWithMessageAndIdempotency now i m key db = (db', r)"
  shows "db_deliveries db' = db_deliveries db \<and> db_devices db' = db_devices db \<and>
    (case r of
       Inr (mid, True) \<Rightarrow> \<exists>row. row = message_row (message_defaults now i m) \<and> mid = m_ID row \<and>
         db_messages db' = db_messages db @ [row] \<and> mid \<notin> m_ID ` set (db_messages db) \<and>
         db_keys db (m_AppID m, key) = None \<and> db_keys db' = (db_keys db)((m_AppID m, key) \<mapsto> mid)
     | Inr (mid, False) \<Rightarrow> db_messages db' = db_messages db \<and> db_keys db' = db_keys db \<and>
         db_keys db (m_AppID m, key) = Some mid
     | Inl e \<Rightarrow> db_messages db' = db_messages db \<and> db_keys db' = db_keys db)"
proof -
  obtain db1 r1 where l: "idem_lookup (m_AppID m) key db = (db1, r1)" by fastforce
  note t = idem_lookup_cases [OF l]
  show ?thesis
  proof (cases "\<exists>db2. r1 = Inr None \<and> idem_insert now i m key db1 = (db', r)")
    case True
    then have "idem_insert now i m key db1 = (db', r)" by blast
    from idem_insert_cases [OF this] t show ?thesis by (cases r) (auto split: prod.splits bool.splits)
  next
    case False
    with assms l t show ?thesis
      by (auto simp: CreateWithMessageAndIdempotency_def split: sum.splits option.splits)
  qed
qed

lemma persist_cases:
  assumes "persist_message now inp m db = (db', r)"
  shows "db_deliveries db' = db_deliveries db \<and> db_devices db' = db_devices db \<and>
    (case r of
       Inr (mid, True) \<Rightarrow> \<exists>row. row = message_row (message_defaults now (m_ID m) m) \<and> mid = m_ID row \<and>
         db_messages db' = db_messages db @ [row] \<and> mid \<notin> m_ID ` set (db_messages db)
     | _ \<Rightarrow> db_messages db' = db_messages db)"
proof (cases "sm_IdempotencyKey inp = ''''")
  case True
  obtain db1 r1 where c: "msg_create now (m_ID m) m db = (db1, r1)" by fastforce
  from assms True c msg_create_cases [OF c] show ?thesis
    by (auto simp: persist_message_def split: sum.splits)
next
  case False
  with assms have "CreateWithMessageAndIdempotency now (m_ID m) m (sm_IdempotencyKey inp) db = (db', r)"
    by (simp add: persist_message_def)
  from CreateWithMessageAndIdempotency_cases [OF this] show ?thesis
    by (cases r) (auto split: prod.splits bool.splits)
qed

lemma target_devices_tables:
  assumes "target_devices now newID inp devices db = (db', r)"
  shows "db_deliveries db' = db_deliveries db \<and> db_messages db' = db_messages db \<and> db_keys db' = db_keys db"
proof -
  obtain db1 r1 where u: "dev_Upsert now (newID 2) (direct_device (newID 1) inp) db = (db1, r1)" by fastforce
  from assms u device_ops_tables(1) [OF u] show ?thesis
    by (auto simp: target_devices_def split: if_splits sum.splits)
qed

lemma message_row_status: "m_Status (message_row (message_defaults now i (new_message t j inp))) = MessageStatusCreated"
  by (simp add: message_row_def message_defaults_def new_message_def enrichEventData_def)

lemma jobs_ok_new: "jobs_ok jobs \<Longrightarrow> jobs_ok ((m_ID m, new_deliveries f m devs) # jobs)"
  by (auto simp: jobs_ok_def new_deliveries_def new_delivery_def Let_def dest!: set_zip_rightD)

lemma of_message_update_where:
  assumes "db_deliveries db' = update_where P f (db_deliveries db)"
    "\<forall>d \<in> set (db_deliveries db). P d \<longrightarrow> dl_MessageID d \<noteq> mid \<and> dl_MessageID (f d) \<noteq> mid"
  shows "of_message mid db' = of_message mid db"
proof -
  have "filter (\<lambda>d. dl_MessageID d = mid) (update_where P f rows) = filter (\<lambda>d. dl_MessageID d = mid) rows"
    if "\<forall>d \<in> set rows. P d \<longrightarrow> dl_MessageID d \<noteq> mid \<and> dl_MessageID (f d) \<noteq> mid" for rows
    using that by (induction rows) (auto simp: update_where_def)
  with assms show ?thesis by (simp add: of_message_def)
qed

lemma all_terminal_update_where:
  assumes "db_deliveries db' = update_where P f (db_deliveries db)" "all_terminal mid db"
    "\<forall>d \<in> set (db_deliveries db). P d \<longrightarrow> \<not> terminal_status (dl_Status d) \<and> dl_MessageID (f d) = dl_MessageID d"
  shows "all_terminal mid db'"
proof -
  have "of_message mid db' = of_message mid db"
    using assms by (intro of_message_update_where [OF assms(1)]) (auto simp: all_terminal_def of_message_def)
  with assms(2) show ?thesis by (simp add: all_terminal_def)
qed

lemma completed_ok_step:
  assumes "completed_ok r"
    "\<And>m. m \<in> set (db_messages (ps_db r')) \<Longrightarrow> m_Status m = MessageStatusCompleted \<Longrightarrow>
       (m \<in> set (db_messages (ps_db r)) \<and> (may_complete r (m_ID m) \<longrightarrow> may_complete r' (m_ID m))) \<or>
       may_complete r' (m_ID m)"
  shows "completed_ok r'"
  using assms unfolding completed_ok_def by blast

lemma all_terminal_cong: "db_deliveries db' = db_deliveries db \<Longrightarrow> all_terminal mid db' = all_terminal mid db"
  using of_message_cong [of db' db mid] by (simp add: all_terminal_def)

lemma in_remove1_other: "x \<in> fst ` set xs \<Longrightarrow> x \<noteq> fst y \<Longrightarrow> x \<in> fst ` set (remove1 y xs)"
proof -
  assume "x \<in> fst ` set xs" "x \<noteq> fst y"
  then obtain p where "p \<in> set xs" "x = fst p" "p \<noteq> y" by auto
  then show ?thesis using in_set_remove1 [of p y xs] by (intro image_eqI [of _ _ p]) simp_all
qed

lemma set_remove1_subset_jobs: "jobs_ok jobs \<Longrightarrow> jobs_ok (remove1 j jobs)"
  unfolding jobs_ok_def using set_remove1_subset by fast

lemma push_persist_inv:
  assumes "push_inv w r" "persist_message now inp (new_message now i inp) (ps_db r) = (db, res)"
    "db_deliveries db' = db_deliveries db" "db_messages db' = db_messages db" "jobs_ok jobs"
    "fst ` set (ps_jobs r) \<subseteq> fst ` set jobs"
  shows "push_inv w (r\<lparr>ps_db := db', ps_jobs := jobs\<rparr>)"
proof -
  note P = persist_cases [OF assms(2)]
  have "completed_ok (r\<lparr>ps_db := db', ps_jobs := jobs\<rparr>)"
  proof (rule completed_ok_step)
    show "completed_ok r" using assms(1) by (simp add: push_inv_def)
    fix m
    assume m: "m \<in> set (db_messages (ps_db (r\<lparr>ps_db := db', ps_jobs := jobs\<rparr>)))" "m_Status m = MessageStatusCompleted"
    have "m \<in> set (db_messages (ps_db r))"
      using m P assms(4) message_row_status [of now "m_ID (new_message now i inp)" now i inp]
      by (auto split: sum.splits prod.splits bool.splits)
    moreover have "all_terminal (m_ID m) db' = all_terminal (m_ID m) (ps_db r)"
      using assms(3) P by (intro all_terminal_cong) simp
    ultimately show "(m \<in> set (db_messages (ps_db r)) \<and> (may_complete r (m_ID m) \<longrightarrow>
        may_complete (r\<lparr>ps_db := db', ps_jobs := jobs\<rparr>) (m_ID m))) \<or>
        may_complete (r\<lparr>ps_db := db', ps_jobs := jobs\<rparr>) (m_ID m)"
      using assms(6) by (auto simp: may_complete_def)
  qed
  with assms(1,3,5) P show ?thesis by (simp add: push_inv_def)
qed

lemma push_enqueue_inv:
  assumes inv: "push_inv w r" and j: "(mid, (i, d) # ds) \<in> set (ps_jobs r)" and ins: "del_insert now i d (ps_db r) = (db, None)"
  shows "push_inv w (r\<lparr>ps_db := db, ps_jobs := (mid, ds) # remove1 (mid, (i, d) # ds) (ps_jobs r)\<rparr>)" (is "push_inv w ?r'")
proof -
  from del_insert_cases [OF ins] obtain row where row:
    "db_messages db = db_messages (ps_db r)" "db_deliveries db = db_deliveries (ps_db r) @ [row]"
    "dl_ID row \<notin> dl_ID ` set (db_deliveries (ps_db r))" "dl_MessageID row = dl_MessageID d"
    "dl_Status row = (if dl_Status d = '''' then DeliveryStatusPending else dl_Status d)" "dl_Attempts row = dl_Attempts d"
    by auto
  have jobs: "jobs_ok (ps_jobs r)" using inv by (simp add: push_inv_def)
  have "\<forall>(mid, ds) \<in> set (ps_jobs r). \<forall>(i, d) \<in> set ds.
      dl_MessageID d = mid \<and> dl_Status d = DeliveryStatusPending \<and> dl_Attempts d = 0"
    using jobs by (simp add: jobs_ok_def)
  from bspec [OF this j] have d: "dl_MessageID d = mid" "dl_Status d = DeliveryStatusPending" "dl_Attempts d = 0"
    and rest: "\<forall>(i, d) \<in> set ds. dl_MessageID d = mid \<and> dl_Status d = DeliveryStatusPending \<and> dl_Attempts d = 0"
    by simp_all
  have "rows_inv (w_maxAttempt w) (db_deliveries db) (ps_claimed r) (ps_sends r)"
    using inv row d unfolding row(2) by (intro rows_inv_insert) (simp_all add: push_inv_def)
  moreover have "jobs_ok ((mid, ds) # remove1 (mid, (i, d) # ds) (ps_jobs r))"
    using set_remove1_subset_jobs [OF jobs] rest by (simp add: jobs_ok_def)
  moreover have "completed_ok ?r'"
  proof (rule completed_ok_step)
    show "completed_ok r" using inv by (simp add: push_inv_def)
    fix m
    assume m: "m \<in> set (db_messages (ps_db ?r'))"
    have other: "of_message k db = of_message k (ps_db r)" if "k \<noteq> mid" for k
      using that row(2,4) d(1) by (simp add: of_message_def)
    show "(m \<in> set (db_messages (ps_db r)) \<and> (may_complete r (m_ID m) \<longrightarrow> may_complete ?r' (m_ID m))) \<or>
        may_complete ?r' (m_ID m)"
      using m row(1) other [of "m_ID m"] in_remove1_other [of "m_ID m" "ps_jobs r" "(mid, (i, d) # ds)"]
      by (auto simp: may_complete_def all_terminal_def)
  qed
  ultimately show ?thesis by (simp add: push_inv_def)
qed

lemma push_abort_inv:
  assumes inv: "push_inv w r" and db: "db_deliveries db = db_deliveries (ps_db r)" "db_messages db = db_messages (ps_db r)"
  shows "push_inv w (r\<lparr>ps_db := db, ps_jobs := remove1 j (ps_jobs r), ps_aborted := fst j # ps_aborted r\<rparr>)"
    (is "push_inv w ?r'")
proof -
  have "completed_ok ?r'"
  proof (rule completed_ok_step)
    show "completed_ok r" using inv by (simp add: push_inv_def)
    fix m
    assume "m \<in> set (db_messages (ps_db ?r'))"
    then show "(m \<in> set (db_messages (ps_db r)) \<and> (may_complete r (m_ID m) \<longrightarrow> may_complete ?r' (m_ID m))) \<or>
        may_complete ?r' (m_ID m)"
      using db all_terminal_cong [OF db(1), of "m_ID m"] in_remove1_other [of "m_ID m" "ps_jobs r" j]
      by (auto simp: may_complete_def)
  qed
  with inv db set_remove1_subset_jobs [of "ps_jobs r" j] show ?thesis by (simp add: push_inv_def)
qed

lemma queue_status:
  "m \<in> set (update_where (\<lambda>r. m_ID r = mid) (\<lambda>r. r\<lparr>m_Status := st, m_QueuedAt := q\<rparr>) ms) \<Longrightarrow>
   m_Status m \<noteq> st \<Longrightarrow> m \<in> set ms \<and> m_ID m \<noteq> mid"
  by (auto simp: set_update_where)

lemma push_queued_inv:
  assumes inv: "push_inv w r" and q: "msg_MarkQueued now mid (ps_db r) = (db, None)"
  shows "push_inv w (r\<lparr>ps_db := db, ps_jobs := remove1 (mid, []) (ps_jobs r)\<rparr>)" (is "push_inv w ?r'")
proof -
  note t = msg_ops_tables(2) [OF q [unfolded msg_MarkQueued_def]]
  have m': "db_messages db = update_where (\<lambda>r. m_ID r = mid)
      (\<lambda>r. r\<lparr>m_Status := MessageStatusQueued, m_QueuedAt := Some now\<rparr>) (db_messages (ps_db r))"
    using msg_update_cases [OF q [unfolded msg_MarkQueued_def]] by simp
  have "completed_ok ?r'"
  proof (rule completed_ok_step)
    show "completed_ok r" using inv by (simp add: push_inv_def)
    fix m
    assume m: "m \<in> set (db_messages (ps_db ?r'))" "m_Status m = MessageStatusCompleted"
    from m(1) have "m \<in> set (update_where (\<lambda>r. m_ID r = mid)
        (\<lambda>r. r\<lparr>m_Status := MessageStatusQueued, m_QueuedAt := Some now\<rparr>) (db_messages (ps_db r)))"
      by (simp add: m')
    from queue_status [OF this] m(2) have "m \<in> set (db_messages (ps_db r))" "m_ID m \<noteq> mid" by simp_all
    then show "(m \<in> set (db_messages (ps_db r)) \<and> (may_complete r (m_ID m) \<longrightarrow> may_complete ?r' (m_ID m))) \<or>
        may_complete ?r' (m_ID m)"
      using t all_terminal_cong [of db "ps_db r" "m_ID m"] in_remove1_other [of "m_ID m" "ps_jobs r" "(mid, [])"]
      by (auto simp: may_complete_def)
  qed
  with inv t set_remove1_subset_jobs [of "ps_jobs r" "(mid, [])"] show ?thesis by (simp add: push_inv_def)
qed

lemma push_claim_inv:
  assumes inv: "push_inv w r" and c: "del_ClaimReady now n (ps_db r) = (db, Inr rows)"
  shows "push_inv w (r\<lparr>ps_db := db, ps_claimed := ps_claimed r @ rows\<rparr>)" (is "push_inv w ?r'")
proof -
  from claim_cases [OF c] obtain ids where ids: "set ids \<subseteq> dl_ID ` {d \<in> set (db_deliveries (ps_db r)). ready now d}"
    "db_deliveries db = update_where (\<lambda>r. dl_ID r \<in> set ids) claim (db_deliveries (ps_db r))"
    "rows = filter (\<lambda>r. dl_ID r \<in> set ids) (db_deliveries db)" and m: "db_messages db = db_messages (ps_db r)"
    by auto
  have R: "rows_inv (w_maxAttempt w) (db_deliveries (ps_db r)) (ps_claimed r) (ps_sends r)"
    using inv by (simp add: push_inv_def)
  have "\<not> terminal_status (dl_Status d)" if "d \<in> set (db_deliveries (ps_db r))" "dl_ID d \<in> set ids" for d
  proof -
    from that ids(1) obtain d' where "d' \<in> set (db_deliveries (ps_db r))" "dl_ID d' = dl_ID d" "ready now d'" by auto
    moreover from this have "d' = d" using id_unique R that(1) unfolding rows_inv_def by blast
    ultimately show ?thesis by (auto simp: ready_def terminal_status_def)
  qed
  then have keep: "all_terminal k db" if "all_terminal k (ps_db r)" for k
    using all_terminal_update_where [OF ids(2) that] by simp
  have "completed_ok ?r'"
  proof (rule completed_ok_step)
    show "completed_ok r" using inv by (simp add: push_inv_def)
    fix m'
    assume "m' \<in> set (db_messages (ps_db ?r'))"
    then show "(m' \<in> set (db_messages (ps_db r)) \<and> (may_complete r (m_ID m') \<longrightarrow> may_complete ?r' (m_ID m'))) \<or>
        may_complete ?r' (m_ID m')"
      using m keep by (auto simp: may_complete_def)
  qed
  with inv rows_inv_claim [OF R ids(1,2)] ids(3) show ?thesis by (simp add: push_inv_def)
qed

lemma push_process_inv:
  assumes inv: "push_inv w r" and d: "d \<in> set (ps_claimed r)" and p: "processDelivery w now d (ps_db r) = (db, sent)"
  shows "push_inv w (r\<lparr>ps_db := db, ps_claimed := remove1 d (ps_claimed r),
    ps_sends := map (\<lambda>_. dl_ID d) sent @ ps_sends r\<rparr>)" (is "push_inv w ?r'")
proof -
  note E = processDelivery_effect [OF p]
  have R: "rows_inv (w_maxAttempt w) (db_deliveries (ps_db r)) (ps_claimed r) (ps_sends r)"
    using inv by (simp add: push_inv_def)
  then have row: "d \<in> set (db_deliveries (ps_db r))" "dl_Status d = DeliveryStatusSending" "row_ok (w_maxAttempt w) d"
    and uniq: "\<And>x. x \<in> set (db_deliveries (ps_db r)) \<Longrightarrow> dl_ID x = dl_ID d \<Longrightarrow> x = d"
    using d id_unique unfolding rows_inv_def by blast+
  obtain f where f: "\<And>x. dl_ID (f x) = dl_ID x" "dl_MessageID (f d) = dl_MessageID d" "dl_Attempts (f d) = dl_Attempts d"
    "row_ok (w_maxAttempt w) (f d)"
    "db_deliveries db = update_where (\<lambda>x. dl_ID x = dl_ID d) f (db_deliveries (ps_db r))"
  proof (cases "db_deliveries db = db_deliveries (ps_db r)")
    case True
    then show ?thesis using row(3) that [of "\<lambda>x. x"] by (simp add: update_where_id)
  next
    case False
    with E(1) obtain f where "settles (w_maxAttempt w) d f"
      "db_deliveries db = update_where (\<lambda>x. dl_ID x = dl_ID d) f (db_deliveries (ps_db r))"
      by (auto simp: settled_def)
    then show ?thesis using row(2,3) that [of f] by (auto simp: settles_def row_ok_def)
  qed
  have sends: "map (\<lambda>_. dl_ID d) sent = replicate (length sent) (dl_ID d)" by (simp add: map_replicate_const)
  have "rows_inv (w_maxAttempt w) (db_deliveries db) (remove1 d (ps_claimed r)) (map (\<lambda>_. dl_ID d) sent @ ps_sends r)"
    unfolding sends by (rule rows_inv_process [OF R d f(1,3,4,5) E(3)])
  moreover have "\<forall>x \<in> set (db_deliveries (ps_db r)). dl_ID x = dl_ID d \<longrightarrow>
      \<not> terminal_status (dl_Status x) \<and> dl_MessageID (f x) = dl_MessageID x"
  proof (intro ballI impI)
    fix x
    assume "x \<in> set (db_deliveries (ps_db r))" "dl_ID x = dl_ID d"
    then have "x = d" by (rule uniq)
    then show "\<not> terminal_status (dl_Status x) \<and> dl_MessageID (f x) = dl_MessageID x"
      using row(2) f(2) by (simp add: terminal_status_def)
  qed
  then have keep: "all_terminal k db" if "all_terminal k (ps_db r)" for k
    using all_terminal_update_where [OF f(5) that] by blast
  have "completed_ok ?r'"
  proof (rule completed_ok_step)
    show "completed_ok r" using inv by (simp add: push_inv_def)
    fix m
    assume "m \<in> set (db_messages (ps_db ?r'))"
    with E(2) have "m \<in> set (db_messages (ps_db r)) \<or> all_terminal (m_ID m) db"
      by (auto simp: completes_def set_update_where complete_row_def)
    then show "(m \<in> set (db_messages (ps_db r)) \<and> (may_complete r (m_ID m) \<longrightarrow> may_complete ?r' (m_ID m))) \<or>
        may_complete ?r' (m_ID m)"
      using keep by (auto simp: may_complete_def)
  qed
  ultimately show ?thesis using inv by (simp add: push_inv_def)
qed

lemma push_inv_same_tables:
  assumes "push_inv w r" "db_deliveries db = db_deliveries (ps_db r)" "db_messages db = db_messages (ps_db r)"
  shows "push_inv w (r\<lparr>ps_db := db\<rparr>)"
  using assms all_terminal_cong [OF assms(2)]
  by (simp add: push_inv_def completed_ok_def may_complete_def)

lemma rows_inv_drop: "rows_inv m rows held sends \<Longrightarrow> rows_inv m rows [] sends"
proof -
  assume "rows_inv m rows held sends"
  note I = this [unfolded rows_inv_def]
  have "int (count_list sends (dl_ID d)) \<le> dl_Attempts d" if "d \<in> set rows" for d
  proof -
    from I that have "int (count_list sends (dl_ID d)) + (if d \<in> set held then 1 else 0) \<le> dl_Attempts d" by blast
    then show ?thesis by (simp split: if_splits)
  qed
  with I show ?thesis by (simp add: rows_inv_def)
qed

lemma push_crash_inv:
  "push_inv w r \<Longrightarrow>
   push_inv w (r\<lparr>ps_claimed := [], ps_jobs := [], ps_aborted := map fst (ps_jobs r) @ ps_aborted r\<rparr>)"
proof -
  assume inv: "push_inv w r"
  then have "rows_inv (w_maxAttempt w) (db_deliveries (ps_db r)) [] (ps_sends r)"
    unfolding push_inv_def by (blast intro: rows_inv_drop)
  moreover have "completed_ok (r\<lparr>ps_claimed := [], ps_jobs := [], ps_aborted := map fst (ps_jobs r) @ ps_aborted r\<rparr>)"
    by (rule completed_ok_step [of r]) (use inv in \<open>simp_all add: push_inv_def may_complete_def\<close>)
  ultimately show ?thesis by (simp add: push_inv_def jobs_ok_def)
qed

lemma push_step_inv: "push_step w r r' \<Longrightarrow> push_inv w r \<Longrightarrow> push_inv w r'"
proof (induction rule: push_step.induct)
  case (persist now inp newID r db mid devices db' devices')
  have "m_ID ((new_message now (newID 0) inp)\<lparr>m_ID := mid\<rparr>) = mid" by simp
  with persist target_devices_tables [OF persist(2)]
    jobs_ok_new [of "ps_jobs r" "(new_message now (newID 0) inp)\<lparr>m_ID := mid\<rparr>"]
  show ?case by (intro push_persist_inv [OF persist(3,1)]) (auto simp: push_inv_def)
next
  case (persist_only now inp i r db res)
  from push_persist_inv [OF persist_only(2,1), of db "ps_jobs r"] persist_only(2) show ?case
    by (simp add: push_inv_def)
next
  case (enqueue_fail mid i dl ds r now db err)
  with push_abort_inv [of w r db "(mid, (i, dl) # ds)"] del_insert_cases [OF enqueue_fail(2)] show ?case by simp
next
  case (queued_fail mid r now db err)
  from queued_fail(2) have "msg_update mid (\<lambda>r. r\<lparr>m_Status := MessageStatusQueued, m_QueuedAt := Some now\<rparr>) (ps_db r) =
    (db, Some err)" by (simp add: msg_MarkQueued_def)
  with queued_fail push_abort_inv [of w r db "(mid, [])"] msg_ops_tables(2) msg_update_cases show ?case by fastforce
next
  case (claim_fail now r db err)
  with claim_cases [OF claim_fail(1)] show ?case by (intro push_inv_same_tables) auto
next
  case (devices r devs fs)
  then show ?case by (intro push_inv_same_tables) auto
qed (blast intro: push_enqueue_inv push_queued_inv push_claim_inv push_process_inv push_crash_inv)+

lemma push_inv_new: "push_inv w new_push"
  by (simp add: push_inv_def rows_inv_def jobs_ok_def completed_ok_def new_push_def empty_db_def)

lemma push_steps_inv: "push_steps w r r' \<Longrightarrow> push_inv w r \<Longrightarrow> push_inv w r'"
  by (induction rule: push_steps.induct) (auto intro: push_step_inv)

section \<open>Deliveries that are settled stay as they are\<close>

definition finished :: "Push \<Rightarrow> Delivery \<Rightarrow> bool" where
  "finished r d \<longleftrightarrow> d \<in> set (db_deliveries (ps_db r)) \<and> terminal_status (dl_Status d)"

lemma push_claim_finished:
  assumes inv: "push_inv w r" and c: "del_ClaimReady now n (ps_db r) = (db, Inr rows)" and f: "finished r d"
  shows "d \<in> set (db_deliveries db)"
proof -
  from claim_cases [OF c] obtain ids where ids: "set ids \<subseteq> dl_ID ` {d \<in> set (db_deliveries (ps_db r)). ready now d}"
    "db_deliveries db = update_where (\<lambda>r. dl_ID r \<in> set ids) claim (db_deliveries (ps_db r))" by auto
  have "dl_ID d \<notin> set ids"
  proof
    assume "dl_ID d \<in> set ids"
    with ids(1) obtain d' where d': "d' \<in> set (db_deliveries (ps_db r))" "dl_ID d' = dl_ID d" "ready now d'" by auto
    then have "d' = d" using id_unique inv f unfolding push_inv_def rows_inv_def finished_def by blast
    with d'(3) f show False by (auto simp: ready_def terminal_status_def finished_def)
  qed
  with f ids(2) show ?thesis by (simp add: finished_def set_update_where)
qed

lemma push_process_finished:
  assumes inv: "push_inv w r" and d: "d \<in> set (ps_claimed r)" and p: "processDelivery w now d (ps_db r) = (db, sent)"
    and f: "finished r x"
  shows "x \<in> set (db_deliveries db) \<and> dl_ID x \<noteq> dl_ID d"
proof -
  have "d \<in> set (db_deliveries (ps_db r))" "dl_Status d = DeliveryStatusSending"
    using inv d unfolding push_inv_def rows_inv_def by blast+
  then have "dl_ID x \<noteq> dl_ID d"
    using id_unique [of "db_deliveries (ps_db r)" x d] inv f
    unfolding push_inv_def rows_inv_def finished_def by (auto simp: terminal_status_def)
  with processDelivery_effect(1) [OF p] f show ?thesis by (auto simp: settled_def finished_def set_update_where)
qed

lemma push_step_finished:
  assumes "push_step w r r'" "push_inv w r" "finished r d"
  shows "finished r' d \<and> count_list (ps_sends r') (dl_ID d) = count_list (ps_sends r) (dl_ID d)"
  using assms
proof (induction rule: push_step.induct)
  case (persist now inp newID r db mid devices db' devices')
  then show ?case using persist_cases [OF persist(1)] target_devices_tables [OF persist(2)] by (simp add: finished_def)
next
  case (persist_only now inp i r db res)
  then show ?case using persist_cases [OF persist_only(1)] by (simp add: finished_def)
next
  case (enqueue mid i dl ds r now db)
  then show ?case using del_insert_cases [OF enqueue(2)] by (auto simp: finished_def)
next
  case (enqueue_fail mid i dl ds r now db err)
  then show ?case using del_insert_cases [OF enqueue_fail(2)] by (auto simp: finished_def)
next
  case (queued mid r now db)
  then show ?case using msg_ops_tables(2) [OF queued(2) [unfolded msg_MarkQueued_def]] by (simp add: finished_def)
next
  case (queued_fail mid r now db err)
  then show ?case using msg_ops_tables(2) [OF queued_fail(2) [unfolded msg_MarkQueued_def]] by (simp add: finished_def)
next
  case (claimed now r db rows)
  then show ?case using push_claim_finished [OF claimed(2,1,3)] by (simp add: finished_def)
next
  case (claim_fail now r db err)
  then show ?case using claim_cases [OF claim_fail(1)] by (simp add: finished_def)
next
  case (process d' r now db sent)
  have "count_list (map (\<lambda>_. dl_ID d') sent) (dl_ID d) = 0"
    using push_process_finished [OF process(3,1,2,4)] by (auto simp: count_list_0_iff)
  then show ?case using push_process_finished [OF process(3,1,2,4)] process(4) by (simp add: finished_def)
qed (simp_all add: finished_def)

lemma push_steps_finished:
  "push_steps w r r' \<Longrightarrow> push_inv w r \<Longrightarrow> finished r d \<Longrightarrow>
   finished r' d \<and> count_list (ps_sends r') (dl_ID d) = count_list (ps_sends r) (dl_ID d)"
proof (induction rule: push_steps.induct)
  case (push_trans r r' r'')
  then show ?case using push_step_finished [OF push_trans(2)] push_steps_inv [OF push_trans(1)] by simp
qed simp

end
