(* ===== verification/PushProps.thy ===== *)
theory PushProps
  imports PushInvariant
begin

text \<open>
  The properties of the push pipeline: how often a delivery is handed to a provider, that settled
  deliveries are final, when a message is completed, and what the worker and the services do.
\<close>

section \<open>A small run, used to show that the hypotheses below are met\<close>

definition demo_provider :: Provider where
  "demo_provider = \<lparr>pv_Name = ''fcm'',
     pv_Send = (\<lambda>_ _ _. Inr (Some \<lparr>sr_Accepted = True, sr_ProviderMessageID = ''p1'', sr_Retryable = False,
       sr_ErrorCode = '''', sr_ErrorMessage = '''', sr_InvalidToken = False\<rparr>)),
     pv_ValidateToken = (\<lambda>_. None), pv_Close = None\<rparr>"

definition demo_worker :: Worker where
  "demo_worker = \<lparr>w_registry = Register demo_provider NewRegistry, w_batchSize = 10, w_maxAttempt = 5\<rparr>"

definition demo_device :: Device where
  "demo_device = \<lparr>d_ID = ''d1'', d_UserID = ''u'', d_InstallationID = ''i1'', d_Platform = PlatformAndroid,
     d_Provider = ProviderFCM, d_Token = ''tok'', d_AppID = ''app'', d_AppVersion = '''', d_OSVersion = '''',
     d_DeviceModel = '''', d_Locale = '''', d_Timezone = '''', d_Status = DeviceStatusActive,
     d_CreatedAt = 1, d_UpdatedAt = 1, d_LastSeenAt = 1\<rparr>"

definition demo_send :: SendMessageInput where
  "demo_send = (push_input ''app'' MessageSilent [''u''] [] [(''k'', ''v'')] 30 '''')"

definition demo_id :: "nat \<Rightarrow> string" where
  "demo_id n = (if n = 0 then ''m1'' else if n = 3 then ''x1'' else ''other'')"

definition demo_message :: Message where
  "demo_message = message_row (message_defaults 1 ''m1'' (new_message 1 ''m1'' demo_send))"

definition demo_delivery :: Delivery where
  "demo_delivery = new_delivery demo_message demo_device"

definition demo_row :: Delivery where
  "demo_row = demo_delivery\<lparr>dl_ID := ''x1'', dl_CreatedAt := 1\<rparr>"

definition push_devices :: Push where
  "push_devices = new_push\<lparr>ps_db := empty_db\<lparr>db_devices := [demo_device], db_faults := []\<rparr>\<rparr>"

definition demo_accepted :: Delivery where
  "demo_accepted = (claim demo_row)\<lparr>dl_Status := DeliveryStatusAccepted, dl_ProviderMessageID := ''p1'',
     dl_SentAt := Some 2, dl_ErrorCode := [], dl_ErrorMessage := [], dl_NextRetryAt := None\<rparr>"

text \<open>The states of the run: the row of the message, the open jobs, the delivery rows, what is claimed and sent.\<close>

definition push_at :: "Message \<Rightarrow> (string \<times> (string \<times> Delivery) list) list \<Rightarrow> Delivery list \<Rightarrow> Delivery list \<Rightarrow>
    string list \<Rightarrow> Push" where
  "push_at m jobs rows held sends =
     \<lparr>ps_db = \<lparr>db_devices = [demo_device], db_messages = [m], db_deliveries = rows, db_keys = Map.empty, db_faults = []\<rparr>,
       ps_claimed = held, ps_jobs = jobs, ps_aborted = [], ps_sends = sends\<rparr>"

definition queued_row :: "Message \<Rightarrow> Message" where
  "queued_row m = m\<lparr>m_Status := MessageStatusQueued, m_QueuedAt := Some 3\<rparr>"

abbreviation (input) push_enqueued where "push_enqueued \<equiv> push_at demo_message [(''m1'', [])] [demo_row] [] []"
abbreviation (input) push_processed where
  "push_processed \<equiv> push_at (complete_row 2 demo_message) [(''m1'', [])] [demo_accepted] [] [''x1'']"
abbreviation (input) push_overtaken where
  "push_overtaken \<equiv> push_at (queued_row (complete_row 2 demo_message)) [] [demo_accepted] [] [''x1'']"
abbreviation (input) push_done where
  "push_done \<equiv> push_at (complete_row 2 (queued_row demo_message)) [] [demo_accepted] [] [''x1'']"

lemma demo_message_fields: "m_ID demo_message = ''m1''" "m_AppID demo_message = ''app''"
  "m_Type demo_message = MessageSilent" "m_Status demo_message = MessageStatusCreated"
  by (simp_all add: demo_message_def message_row_def message_defaults_def new_message_def enrichEventData_def
      demo_send_def push_input_def)

lemma demo_delivery_fields:
  "dl_ID demo_delivery = ''''" "dl_MessageID demo_delivery = ''m1''" "dl_DeviceID demo_delivery = ''d1''"
  "dl_Provider demo_delivery = ''fcm''" "dl_Status demo_delivery = DeliveryStatusPending" "dl_Attempts demo_delivery = 0"
  "dl_NextRetryAt demo_delivery = None" "dl_ProviderMessageID demo_delivery = ''''" "dl_ErrorCode demo_delivery = ''''"
  "dl_ErrorMessage demo_delivery = ''''" "dl_SentAt demo_delivery = None" "dl_DeliveredAt demo_delivery = None"
  "dl_OpenedAt demo_delivery = None"
  by (simp_all add: demo_delivery_def new_delivery_def demo_message_fields demo_device_def selectProviderForMessage_def)

lemma demo_step_devices: "push_step demo_worker new_push push_devices"
  using push_step.devices [of demo_worker new_push "[]" "[demo_device]"]
  by (simp add: push_devices_def new_push_def empty_db_def)

lemma demo_new_deliveries:
  "new_deliveries (\<lambda>n. demo_id (n + 3)) ((new_message 1 ''m1'' demo_send)\<lparr>m_ID := ''m1''\<rparr>) [demo_device] =
     [(''x1'', demo_delivery)]"
proof -
  have "filterDevicesForMessage [demo_device] t = [demo_device]" for t
    by (simp add: filterDevicesForMessage_def choose_devices_def Let_def)
  then show ?thesis
    by (simp add: new_deliveries_def demo_delivery_def new_delivery_def demo_id_def selectProviderForMessage_def
        demo_message_fields) (simp add: new_message_def enrichEventData_def demo_send_def push_input_def demo_device_def)
qed

lemma demo_step_persist:
  "push_step demo_worker push_devices (push_at demo_message [(''m1'', [(''x1'', demo_delivery)])] [] [] [])"
proof -
  let ?db = "(ps_db push_devices)\<lparr>db_messages := [demo_message]\<rparr>"
  have i: "demo_id 0 = ''m1''" by (simp add: demo_id_def)
  have "persist_message 1 demo_send (new_message 1 ''m1'' demo_send) (ps_db push_devices) = (?db, Inr (''m1'', True))"
    using demo_message_fields(1)
    by (simp add: persist_message_def msg_create_def push_devices_def new_push_def empty_db_def
        demo_send_def [unfolded push_input_def] Let_def demo_message_def new_message_def message_defaults_def
        enrichEventData_def)
  then have p: "persist_message 1 demo_send (new_message 1 (demo_id 0) demo_send) (ps_db push_devices) =
      (?db, Inr (''m1'', True))" by (simp add: i)
  have t: "target_devices 1 demo_id demo_send [demo_device] ?db = (?db, Inr [demo_device])"
    by (simp add: target_devices_def demo_send_def push_input_def)
  from push_step.persist [OF p t, of demo_worker] show ?thesis
    unfolding i demo_new_deliveries by (simp add: push_at_def push_devices_def new_push_def empty_db_def)
qed

lemma demo_row_fields: "dl_ID demo_row = ''x1''" "dl_MessageID demo_row = ''m1''" "dl_DeviceID demo_row = ''d1''"
  "dl_Provider demo_row = ''fcm''" "dl_Status demo_row = DeliveryStatusPending" "dl_Attempts demo_row = 0"
  "dl_NextRetryAt demo_row = None"
  by (simp_all add: demo_row_def demo_delivery_fields)

lemma demo_step_enqueue:
  "push_step demo_worker (push_at demo_message [(''m1'', [(''x1'', demo_delivery)])] [] [] []) push_enqueued"
proof -
  let ?r = "push_at demo_message [(''m1'', [(''x1'', demo_delivery)])] [] [] []"
  have "del_insert 1 ''x1'' demo_delivery (ps_db ?r) = ((ps_db ?r)\<lparr>db_deliveries := [demo_row]\<rparr>, None)"
    using demo_delivery_fields demo_message_fields(1)
    by (simp add: del_insert_def push_at_def demo_device_def delivery_defaults_def demo_row_def Let_def)
  from push_step.enqueue [OF _ this, of "''m1''" "[]" demo_worker] show ?thesis
    by (simp add: push_at_def)
qed

lemma demo_step_claim:
  "push_step demo_worker (push_at m jobs [demo_row] [] []) (push_at m jobs [claim demo_row] [claim demo_row] [])"
proof -
  let ?db = "ps_db (push_at m jobs [demo_row] [] [])"
  have "del_ClaimReady 2 (w_batchSize demo_worker) ?db = (?db\<lparr>db_deliveries := [claim demo_row]\<rparr>, Inr [claim demo_row])"
    using demo_row_fields
    by (simp add: del_ClaimReady_def push_at_def demo_worker_def ready_def update_where_def Let_def)
  from push_step.claimed [OF this] show ?thesis by (simp add: push_at_def)
qed

lemma demo_processed:
  assumes "m_ID m = ''m1''" "m_AppID m = ''app''"
  shows "processDelivery demo_worker 2 (claim demo_row) (ps_db (push_at m jobs [claim demo_row] held [])) =
     (ps_db (push_at (complete_row 2 m) jobs [demo_accepted] held []), [(m, demo_device)])"
proof -
  let ?db = "ps_db (push_at m jobs [claim demo_row] held [])"
  have db: "db_faults ?db = []" "db_devices ?db = [demo_device]" "db_messages ?db = [m]"
    "db_deliveries ?db = [claim demo_row]"
    by (simp_all add: push_at_def)
  have dev: "dev_FindByID ''d1'' ?db = (?db, Inr demo_device)"
    using db by (simp add: dev_FindByID_def demo_device_def)
  have msg: "msg_FindByID (d_AppID demo_device) ''m1'' ?db = (?db, Inr m)"
    using db assms by (simp add: msg_FindByID_def demo_device_def)
  have reg: "registry_Get ''fcm'' (w_registry demo_worker) = Inr demo_provider"
    by (simp add: demo_worker_def registry_Get_Register demo_provider_def)
  have claimf: "dl_Provider (claim demo_row) = ''fcm''" by (simp add: claim_def demo_row_fields)
  have acc: "fst (del_MarkAccepted 2 ''x1'' ''p1'' ?db) = ?db\<lparr>db_deliveries := [demo_accepted]\<rparr>"
    using db by (simp add: del_MarkAccepted_def del_update_def update_where_def demo_accepted_def demo_row_fields)
  have st: "dl_MessageID demo_accepted = ''m1''" "dl_Status demo_accepted = DeliveryStatusAccepted"
    by (simp_all add: demo_accepted_def demo_row_fields)
  have comp: "maybeCompleteMessage 2 ''m1'' (?db\<lparr>db_deliveries := [demo_accepted]\<rparr>) =
      ?db\<lparr>db_deliveries := [demo_accepted], db_messages := [complete_row 2 m]\<rparr>"
    using db st assms
    by (simp add: maybeCompleteMessage_def del_HasPending_def del_CountByMessage_def of_message_def pending_status_def
        terminal_status_def msg_MarkCompleted_def msg_update_def update_where_def complete_row_def)
  have "processDelivery demo_worker 2 (claim demo_row) ?db =
      (?db\<lparr>db_deliveries := [demo_accepted], db_messages := [complete_row 2 m]\<rparr>, [(m, demo_device)])"
    using dev msg reg claimf acc comp assms
    by (simp add: processDelivery_def demo_row_fields demo_provider_def handleResult_def)
  then show ?thesis by (simp add: push_at_def)
qed

lemma demo_step_process:
  assumes "m_ID m = ''m1''" "m_AppID m = ''app''"
  shows "push_step demo_worker (push_at m jobs [claim demo_row] [claim demo_row] [])
    (push_at (complete_row 2 m) jobs [demo_accepted] [] [''x1''])"
proof -
  have "claim demo_row \<in> set (ps_claimed (push_at m jobs [claim demo_row] [claim demo_row] []))" by (simp add: push_at_def)
  from push_step.process [OF this demo_processed [OF assms]] show ?thesis by (simp add: push_at_def demo_row_fields)
qed

lemma demo_step_queued:
  assumes "m_ID m = ''m1''"
  shows "push_step demo_worker (push_at m [(''m1'', [])] rows held sends) (push_at (queued_row m) [] rows held sends)"
proof -
  let ?db = "ps_db (push_at m [(''m1'', [])] rows held sends)"
  have "msg_MarkQueued 3 ''m1'' ?db = (?db\<lparr>db_messages := [queued_row m]\<rparr>, None)"
    using assms by (simp add: msg_MarkQueued_def msg_update_def push_at_def update_where_def queued_row_def)
  from push_step.queued [OF _ this] show ?thesis by (simp add: push_at_def)
qed

lemma row_fields [simp]: "m_ID (queued_row m) = m_ID m" "m_AppID (queued_row m) = m_AppID m"
  "m_ID (complete_row t m) = m_ID m" "m_AppID (complete_row t m) = m_AppID m"
  by (simp_all add: queued_row_def complete_row_def)

lemma demo_reachable:
  shows demo_reach_processed: "push_steps demo_worker new_push push_processed"
    and demo_reach_overtaken: "push_steps demo_worker new_push push_overtaken"
    and demo_reach_done: "push_steps demo_worker new_push push_done"
proof -
  have e: "push_steps demo_worker new_push push_enqueued"
    by (rule push_trans [OF push_trans [OF push_trans [OF push_refl demo_step_devices] demo_step_persist] demo_step_enqueue])
  show p: "push_steps demo_worker new_push push_processed"
    by (rule push_trans [OF push_trans [OF e demo_step_claim] demo_step_process]) (simp_all add: demo_message_fields)
  show "push_steps demo_worker new_push push_overtaken"
    by (rule push_trans [OF p demo_step_queued]) (simp add: demo_message_fields)
  show "push_steps demo_worker new_push push_done"
    by (rule push_trans [OF push_trans [OF push_trans [OF e demo_step_queued] demo_step_claim] demo_step_process])
       (simp_all add: demo_message_fields)
qed

section \<open>The pipeline\<close>

lemma reachable_inv: "push_steps w new_push r \<Longrightarrow> push_inv w r"
  using push_steps_inv push_inv_new by blast

text \<open>
  C10. Bounded attempts: in every reachable state of the push pipeline, whatever requests, workers,
  failing statements and crashes were interleaved, a delivery has been handed to a provider at most as
  often as its row counts attempts, which is at most the configured maximum (or once, if the maximum is
  smaller); and nothing is handed to a provider that has no row.
\<close>

theorem sends_are_bounded:
  assumes "push_steps w new_push r" "d \<in> set (db_deliveries (ps_db r))"
  shows "int (count_list (ps_sends r) (dl_ID d)) \<le> dl_Attempts d \<and> dl_Attempts d \<le> max 1 (w_maxAttempt w) \<and>
    set (ps_sends r) \<subseteq> dl_ID ` set (db_deliveries (ps_db r))"
proof -
  have R: "rows_inv (w_maxAttempt w) (db_deliveries (ps_db r)) (ps_claimed r) (ps_sends r)"
    using reachable_inv [OF assms(1)] by (simp add: push_inv_def)
  then have "int (count_list (ps_sends r) (dl_ID d)) + (if d \<in> set (ps_claimed r) then 1 else 0) \<le> dl_Attempts d"
    "row_ok (w_maxAttempt w) d" using assms(2) unfolding rows_inv_def by blast+
  with R show ?thesis by (auto simp: row_ok_def rows_inv_def split: if_splits)
qed

theorem sends_are_bounded_witness:
  "int (count_list (ps_sends push_processed) ''x1'') \<le> dl_Attempts demo_accepted \<and> dl_Attempts demo_accepted \<le> 5"
  using sends_are_bounded [OF demo_reach_processed, of demo_accepted]
  by (simp add: push_at_def demo_accepted_def demo_row_fields demo_worker_def)

text \<open>
  C11. Settled deliveries are final: once a delivery is accepted or failed, its row never changes again
  and it is never handed to a provider again.
\<close>

theorem settled_deliveries_are_final:
  assumes "push_steps w new_push r" "push_steps w r r'"
    and "d \<in> set (db_deliveries (ps_db r))" "dl_Status d \<in> {DeliveryStatusAccepted, DeliveryStatusFailed}"
  shows "d \<in> set (db_deliveries (ps_db r')) \<and>
    count_list (ps_sends r') (dl_ID d) = count_list (ps_sends r) (dl_ID d)"
  using push_steps_finished [OF assms(2) reachable_inv [OF assms(1)], of d] assms(3,4)
  by (auto simp: finished_def terminal_status_def)

theorem settled_deliveries_are_final_witness:
  "demo_accepted \<in> set (db_deliveries (ps_db push_overtaken)) \<and> count_list (ps_sends push_overtaken) ''x1'' = 1"
  using settled_deliveries_are_final [OF demo_reach_processed push_trans [OF push_refl demo_step_queued], of demo_accepted]
  by (simp add: push_at_def demo_accepted_def demo_row_fields demo_message_fields)

lemma row_ok_terminal:
  "row_ok m d \<Longrightarrow> terminal_status (dl_Status d) \<Longrightarrow> dl_Status d \<in> {DeliveryStatusAccepted, DeliveryStatusFailed}"
  by (auto simp: row_ok_def terminal_status_def)



text \<open>
  Enqueueing can overtake itself: a request inserts its deliveries and only then marks the message
  queued, so a worker that is faster settles them all and completes the message, and the message is
  then set back to queued and stays there: no delivery is left that could complete it.
\<close>

theorem queued_after_completed:
  "\<exists>r m. push_steps demo_worker new_push r \<and> m \<in> set (db_messages (ps_db r)) \<and>
     m_Status m = MessageStatusQueued \<and> m_CompletedAt m \<noteq> None \<and> ps_jobs r = [] \<and> ps_claimed r = [] \<and>
     map dl_Status (db_deliveries (ps_db r)) = [DeliveryStatusAccepted]"
  by (rule exI [of _ push_overtaken], rule exI [of _ "queued_row (complete_row 2 demo_message)"])
     (use demo_reach_overtaken in \<open>simp add: push_at_def queued_row_def complete_row_def demo_accepted_def\<close>)

section \<open>The worker\<close>

text \<open>The row a mark leaves when no statement fails.\<close>

lemma mark_ok:
  assumes "db_faults db = []" "d \<in> set (db_deliveries db)" "dl_ID d = i" "distinct (map dl_ID (db_deliveries db))"
  shows "del_update i f db = (db\<lparr>db_deliveries := update_where (\<lambda>r. dl_ID r = i) f (db_deliveries db)\<rparr>, None)"
    "f d \<in> set (update_where (\<lambda>r. dl_ID r = i) f (db_deliveries db))"
  using assms by (auto simp: del_update_def set_update_where)

lemma maybeComplete_faultless:
  "db_faults db = [] \<Longrightarrow> db_faults (maybeCompleteMessage now mid db) = []"
  by (simp add: maybeCompleteMessage_def del_HasPending_def del_CountByMessage_def msg_MarkCompleted_def msg_update_def)

text \<open>What the answer of a provider makes of a delivery.\<close>

definition verdict :: "int \<Rightarrow> gotime \<Rightarrow> Delivery \<Rightarrow> error + SendResult option \<Rightarrow> Delivery" where
  "verdict maxAttempt now d answer =
     (let failed = (\<lambda>code text. d\<lparr>dl_Status := DeliveryStatusFailed, dl_ErrorCode := code, dl_ErrorMessage := text,
            dl_NextRetryAt := None\<rparr>);
          again = (\<lambda>code text. d\<lparr>dl_Status := DeliveryStatusRetrying, dl_ErrorCode := code, dl_ErrorMessage := text,
            dl_NextRetryAt := Some (now + DelayForAttempt (dl_Attempts d + 1))\<rparr>);
          retry_or_fail = (\<lambda>retryable code text.
            if retryable \<and> dl_Attempts d < maxAttempt then again code text else failed code text)
      in case answer of
           Inl (Prov pe) \<Rightarrow>
             if pe_InvalidToken pe then failed ErrCodeInvalidToken (ProviderError_Error pe)
             else retry_or_fail (pe_Retryable pe) (pe_Code pe) (ProviderError_Error pe)
         | Inl err \<Rightarrow> retry_or_fail True ErrCodeProviderTempError (Error err)
         | Inr None \<Rightarrow> failed ErrCodeInternalError ''nil result''
         | Inr (Some res) \<Rightarrow>
             if sr_InvalidToken res then failed ErrCodeInvalidToken (sr_ErrorMessage res)
             else if sr_Accepted res then
               d\<lparr>dl_Status := DeliveryStatusAccepted, dl_ProviderMessageID := sr_ProviderMessageID res,
                 dl_SentAt := Some now, dl_ErrorCode := '''', dl_ErrorMessage := '''', dl_NextRetryAt := None\<rparr>
             else retry_or_fail (sr_Retryable res) (sr_ErrorCode res) (sr_ErrorMessage res))"

definition bad_token :: "error + SendResult option \<Rightarrow> bool" where
  "bad_token answer = (case answer of
      Inl (Prov pe) \<Rightarrow> pe_InvalidToken pe | Inr (Some res) \<Rightarrow> sr_InvalidToken res | _ \<Rightarrow> False)"

lemma update_row:
  assumes "distinct (map dl_ID rows)" "d \<in> set rows"
  shows "update_where (\<lambda>r. dl_ID r = dl_ID d) f rows = map (\<lambda>r. if dl_ID r = dl_ID d then f d else r) rows"
  unfolding update_where_def using id_unique [OF assms(1) _ assms(2)] by (intro map_cong) auto

lemma maybeComplete_devices [simp]: "db_devices (maybeCompleteMessage now mid db) = db_devices db"
proof -
  obtain db1 p where h: "del_HasPending mid db = (db1, p)" by fastforce
  obtain db2 c where c: "del_CountByMessage mid db1 = (db2, c)" by fastforce
  obtain db3 e where m: "msg_MarkCompleted now mid db2 = (db3, e)" by fastforce
  show ?thesis
    using h c m count_ops_tables(1) [OF h] count_ops_tables(2) [OF c] msg_ops_tables(2) [OF m [unfolded msg_MarkCompleted_def]]
    by (auto simp: maybeCompleteMessage_def split: sum.splits)
qed

definition set_row :: "string \<Rightarrow> Delivery \<Rightarrow> Db \<Rightarrow> Delivery list" where
  "set_row i d db = map (\<lambda>r. if dl_ID r = i then d else r) (db_deliveries db)"

lemma marks_row:
  assumes "db_faults db = []" "distinct (map dl_ID (db_deliveries db))" "d \<in> set (db_deliveries db)"
  shows "db_deliveries (fst (del_MarkFailed (dl_ID d) code text db)) = set_row (dl_ID d)
      (d\<lparr>dl_Status := DeliveryStatusFailed, dl_ErrorCode := code, dl_ErrorMessage := text, dl_NextRetryAt := None\<rparr>) db"
    "db_deliveries (fst (del_MarkRetrying (dl_ID d) code text t db)) = set_row (dl_ID d)
      (d\<lparr>dl_Status := DeliveryStatusRetrying, dl_ErrorCode := code, dl_ErrorMessage := text, dl_NextRetryAt := Some t\<rparr>) db"
    "db_deliveries (fst (del_MarkAccepted now (dl_ID d) pid db)) = set_row (dl_ID d)
      (d\<lparr>dl_Status := DeliveryStatusAccepted, dl_ProviderMessageID := pid, dl_SentAt := Some now,
         dl_ErrorCode := '''', dl_ErrorMessage := '''', dl_NextRetryAt := None\<rparr>) db"
    "db_devices (fst (del_MarkFailed i code text db)) = db_devices db"
    "db_devices (fst (del_MarkRetrying i code text t db)) = db_devices db"
    "db_devices (fst (del_MarkAccepted now i pid db)) = db_devices db"
  using assms(1) update_row [OF assms(2,3)]
  by (simp_all add: del_MarkFailed_def del_MarkRetrying_def del_MarkAccepted_def del_update_def set_row_def)

lemma set_row_cong: "db_deliveries db' = db_deliveries db \<Longrightarrow> set_row i d db' = set_row i d db"
  by (simp add: set_row_def)

lemma MarkInvalid_ok:
  "db_faults db = [] \<Longrightarrow> dev_MarkInvalid now i db =
     (db\<lparr>db_devices := update_where (\<lambda>r. d_ID r = i) (\<lambda>r. r\<lparr>d_Status := DeviceStatusInvalid, d_UpdatedAt := now\<rparr>)
        (db_devices db)\<rparr>, None)"
  by (simp add: dev_MarkInvalid_def)

lemma handleError_outcome:
  assumes "db_faults db = []" "distinct (map dl_ID (db_deliveries db))" "d \<in> set (db_deliveries db)"
  shows "db_deliveries (handleError mx now d dev m err db) = set_row (dl_ID d) (verdict mx now d (Inl err)) db"
    "db_devices (handleError mx now d dev m err db) = (if bad_token (Inl err)
       then update_where (\<lambda>r. d_ID r = d_ID dev) (\<lambda>r. r\<lparr>d_Status := DeviceStatusInvalid, d_UpdatedAt := now\<rparr>) (db_devices db)
       else db_devices db)"
  using assms
  by (auto simp: handleError_def verdict_def bad_token_def ShouldRetry_def maybeComplete_tables marks_row MarkInvalid_ok
      set_row_def Let_def split: error.splits)

lemma handleResult_outcome:
  assumes "db_faults db = []" "distinct (map dl_ID (db_deliveries db))" "d \<in> set (db_deliveries db)"
  shows "db_deliveries (handleResult mx now d dev m res db) = set_row (dl_ID d) (verdict mx now d (Inr res)) db"
    "db_devices (handleResult mx now d dev m res db) = (if bad_token (Inr res)
       then update_where (\<lambda>r. d_ID r = d_ID dev) (\<lambda>r. r\<lparr>d_Status := DeviceStatusInvalid, d_UpdatedAt := now\<rparr>) (db_devices db)
       else db_devices db)"
  using assms
  by (auto simp: handleResult_def verdict_def bad_token_def ShouldRetry_def maybeComplete_tables marks_row MarkInvalid_ok
      set_row_def Let_def split: option.splits)

text \<open>
  C27. What the answer of a provider means: when the device, the message and the provider of a claimed
  delivery are found and no statement fails, the message is sent to that device exactly once; the row of
  the delivery becomes accepted, failed or retrying as \<open>verdict\<close> says (an invalid token or a
  missing result fails it, an error that may be retried puts it off by the delay for the next attempt as
  long as attempts are left, errors of other kinds count as temporary); no other delivery is touched; and
  exactly for an invalid token the device is marked invalid.
\<close>

theorem processDelivery_outcome:
  assumes "db_faults db = []" "distinct (map dl_ID (db_deliveries db))" "d \<in> set (db_deliveries db)"
    and "find (\<lambda>r. d_ID r = dl_DeviceID d) (db_devices db) = Some dev"
    and "find (\<lambda>r. m_ID r = dl_MessageID d \<and> (d_AppID dev = '''' \<or> m_AppID r = d_AppID dev)) (db_messages db) = Some m"
    and "w_registry w (dl_Provider d) = Some p" and "answer = pv_Send p now m dev"
  shows "\<exists>db'. processDelivery w now d db = (db', [(m, dev)]) \<and>
    db_deliveries db' =
      map (\<lambda>r. if dl_ID r = dl_ID d then verdict (w_maxAttempt w) now d answer else r) (db_deliveries db) \<and>
    db_devices db' =
      map (\<lambda>r. if bad_token answer \<and> d_ID r = d_ID dev then r\<lparr>d_Status := DeviceStatusInvalid, d_UpdatedAt := now\<rparr> else r)
        (db_devices db)"
proof -
  have find: "dev_FindByID (dl_DeviceID d) db = (db, Inr dev)" "msg_FindByID (d_AppID dev) (dl_MessageID d) db = (db, Inr m)"
    "registry_Get (dl_Provider d) (w_registry w) = Inr p"
    using assms(1,4,5,6) by (simp_all add: dev_FindByID_def msg_FindByID_def registry_Get_def)
  show ?thesis
  proof (cases answer)
    case (Inl err)
    then have "processDelivery w now d db = (handleError (w_maxAttempt w) now d dev m err db, [(m, dev)])"
      using find assms(7) by (simp add: processDelivery_def)
    with handleError_outcome [OF assms(1-3), of "w_maxAttempt w" now dev m err] Inl show ?thesis
      by (auto simp: set_row_def update_where_def)
  next
    case (Inr res)
    then have "processDelivery w now d db = (handleResult (w_maxAttempt w) now d dev m res db, [(m, dev)])"
      using find assms(7) by (simp add: processDelivery_def)
    with handleResult_outcome [OF assms(1-3), of "w_maxAttempt w" now dev m res] Inr show ?thesis
      by (auto simp: set_row_def update_where_def)
  qed
qed

theorem processDelivery_outcome_witness:
  "\<exists>db'. processDelivery demo_worker 2 (claim demo_row) (ps_db (push_at demo_message [] [claim demo_row] [] [])) =
     (db', [(demo_message, demo_device)]) \<and> map dl_Status (db_deliveries db') = [DeliveryStatusAccepted]"
  using processDelivery_outcome [of "ps_db (push_at demo_message [] [claim demo_row] [] [])" "claim demo_row"
      demo_device demo_message demo_worker demo_provider "pv_Send demo_provider 2 demo_message demo_device" 2]
    demo_row_fields demo_message_fields
  by (auto simp: push_at_def demo_device_def demo_worker_def Register_def demo_provider_def verdict_def claim_def Let_def)

end
