(* ===== verification/MessageProps.thy ===== *)
theory MessageProps
  imports PushProps
begin

text \<open>
  The properties of the message and device services: which rows of an installation a message goes to,
  what a successful send leaves in the tables, that requests with the same idempotency key share one
  message, and what registering and refreshing devices does.
\<close>

section \<open>Choosing devices\<close>

lemma group_devices_spec:
  assumes "dom by = set order" "distinct order" "group_devices ds (by, order) = (by', order')"
  shows "by' k = (case by k of
      None \<Rightarrow> if filter (\<lambda>d. install_key d = k) ds = [] then None else Some (filter (\<lambda>d. install_key d = k) ds)
    | Some g \<Rightarrow> Some (g @ filter (\<lambda>d. install_key d = k) ds))"
    "set order' = set order \<union> install_key ` set ds" "distinct order'"
proof -
  have "by' k = (case by k of
      None \<Rightarrow> if filter (\<lambda>d. install_key d = k) ds = [] then None else Some (filter (\<lambda>d. install_key d = k) ds)
    | Some g \<Rightarrow> Some (g @ filter (\<lambda>d. install_key d = k) ds)) \<and>
    set order' = set order \<union> install_key ` set ds \<and> distinct order'"
    using assms
  proof (induction ds arbitrary: "by" order)
    case Nil
    then show ?case by (simp split: option.splits)
  next
    case (Cons d ds)
    let ?k = "install_key d"
    let ?by = "by(?k \<mapsto> (case by ?k of None \<Rightarrow> [] | Some g \<Rightarrow> g) @ [d])"
    let ?order = "if by ?k = None then order @ [?k] else order"
    have d: "dom ?by = set ?order" "distinct ?order"
      using Cons.prems(1,2) by (auto simp: domIff)
    have g: "group_devices ds (?by, ?order) = (by', order')"
      using Cons.prems(3) by (simp only: group_devices.simps Let_def)
    from Cons.IH [OF d g] have IH: "by' k = (case ?by k of
        None \<Rightarrow> if filter (\<lambda>d. install_key d = k) ds = [] then None else Some (filter (\<lambda>d. install_key d = k) ds)
      | Some g \<Rightarrow> Some (g @ filter (\<lambda>d. install_key d = k) ds))"
      "set order' = set ?order \<union> install_key ` set ds" "distinct order'"
      by blast+
    have "set ?order = insert ?k (set order)" using Cons.prems(1) by auto
    with IH show ?case by (auto split: option.splits)
  qed
  then show "by' k = (case by k of
      None \<Rightarrow> if filter (\<lambda>d. install_key d = k) ds = [] then None else Some (filter (\<lambda>d. install_key d = k) ds)
    | Some g \<Rightarrow> Some (g @ filter (\<lambda>d. install_key d = k) ds))"
    "set order' = set order \<union> install_key ` set ds" "distinct order'" by blast+
qed

lemma choose_devices_subset: "set (choose_devices incoming g) \<subseteq> set g"
  by (auto simp: choose_devices_def Let_def split: if_splits)

lemma choose_devices_nonempty: "g \<noteq> [] \<Longrightarrow> choose_devices incoming g \<noteq> []"
  by (cases g) (auto simp: choose_devices_def filter_empty_conv Let_def split: if_splits)

definition call_push :: "MessageType \<Rightarrow> bool" where
  "call_push t \<longleftrightarrow> t = MessageIncomingCall \<or> t = MessageCallCancelled \<or> t = MessageCallEnded"

text \<open>The filter, one installation at a time.\<close>

lemma filterDevices_set:
  "set (filterDevicesForMessage ds t) =
     (\<Union>k \<in> install_key ` set ds. set (choose_devices (call_push t) (filter (\<lambda>d. install_key d = k) ds)))"
proof -
  obtain by' order' where g: "group_devices ds (Map.empty, []) = (by', order')" by fastforce
  have spec: "by' k = (if filter (\<lambda>d. install_key d = k) ds = [] then None else Some (filter (\<lambda>d. install_key d = k) ds))"
    "set order' = install_key ` set ds" for k
    using group_devices_spec(1) [OF _ _ g, of k] group_devices_spec(2) [OF _ _ g] by simp_all
  have "set (filterDevicesForMessage ds t) =
      (\<Union>k \<in> set order'. set (case by' k of None \<Rightarrow> [] | Some g \<Rightarrow> choose_devices (call_push t) g))"
    using g by (simp add: filterDevicesForMessage_def call_push_def Let_def)
  also have "\<dots> = (\<Union>k \<in> install_key ` set ds. set (choose_devices (call_push t) (filter (\<lambda>d. install_key d = k) ds)))"
    unfolding spec(2) by (rule SUP_cong) (auto simp: spec(1) filter_empty_conv)
  finally show ?thesis .
qed

text \<open>The group of an installation has a device of its own in the result, and the chosen ones are of the group.\<close>

lemma chosen_of_group:
  "x \<in> set (choose_devices b (filter (\<lambda>d. install_key d = j) ds)) \<Longrightarrow> x \<in> set ds \<and> install_key x = j"
  using choose_devices_subset [of b "filter (\<lambda>d. install_key d = j) ds"] by auto

lemma filterDevices_keys:
  "set (filterDevicesForMessage ds t) \<subseteq> set ds \<and> install_key ` set (filterDevicesForMessage ds t) = install_key ` set ds"
proof -
  have sub: "set (filterDevicesForMessage ds t) \<subseteq> set ds" unfolding filterDevices_set using chosen_of_group by fast
  have "install_key d \<in> install_key ` set (filterDevicesForMessage ds t)" if d: "d \<in> set ds" for d
  proof -
    let ?g = "filter (\<lambda>x. install_key x = install_key d) ds"
    have "choose_devices (call_push t) ?g \<noteq> []" using d by (intro choose_devices_nonempty) (auto simp: filter_empty_conv)
    then obtain x where "x \<in> set (choose_devices (call_push t) ?g)" by (meson last_in_set)
    with chosen_of_group [OF this] d show ?thesis
      unfolding filterDevices_set by (intro image_eqI [of _ _ x] UN_I [of "install_key d"]) simp_all
  qed
  with sub show ?thesis by blast
qed

text \<open>With both channels of a phone in its group, the kind of message decides.\<close>

lemma chosen_channel:
  assumes "voip \<in> set g" "apns \<in> set g" "d_Provider voip = ProviderAPNsVoIP" "d_Provider apns = ProviderAPNs"
    and "\<forall>d \<in> set g. d_Platform d = PlatformIOS" "d \<in> set (choose_devices b g)"
  shows "d_Provider d = (if b then ProviderAPNsVoIP else ProviderAPNs)"
proof -
  have "voip \<noteq> apns" using assms(3,4) by auto
  then have "length g \<noteq> 1" using assms(1,2) by (auto simp: length_Suc_conv)
  moreover have "g \<noteq> []" using assms(1) by auto
  then have "d_Platform (hd g) = PlatformIOS" using assms(5) hd_in_set by blast
  moreover have "filter (\<lambda>d. d_Provider d = ProviderAPNsVoIP) g \<noteq> []" "filter (\<lambda>d. d_Provider d = ProviderAPNs) g \<noteq> []"
    using assms(1-4) by (auto simp: filter_empty_conv)
  ultimately show ?thesis using assms(6) by (auto simp: choose_devices_def Let_def)
qed

text \<open>
  Choosing between the rows of an installation: a message goes only to devices that were resolved;
  no installation is dropped; and an iOS installation with an APNs row and a VoIP row is reached through
  VoIP rows only for call pushes, and through APNs rows only for everything else.
\<close>

theorem filterDevices_one_channel:
  assumes "voip \<in> set ds" "apns \<in> set ds" "install_key voip = k" "install_key apns = k"
    and "d_Provider voip = ProviderAPNsVoIP" "d_Provider apns = ProviderAPNs"
    and "\<forall>d \<in> set ds. install_key d = k \<longrightarrow> d_Platform d = PlatformIOS"
  shows "set (filterDevicesForMessage ds t) \<subseteq> set ds \<and>
    install_key ` set (filterDevicesForMessage ds t) = install_key ` set ds \<and>
    (\<forall>d \<in> set (filterDevicesForMessage ds t). install_key d = k \<longrightarrow>
       d_Provider d = (if call_push t then ProviderAPNsVoIP else ProviderAPNs))"
proof (intro conjI ballI impI)
  show "set (filterDevicesForMessage ds t) \<subseteq> set ds" "install_key ` set (filterDevicesForMessage ds t) = install_key ` set ds"
    using filterDevices_keys [of ds t] by simp_all
  fix d
  assume "d \<in> set (filterDevicesForMessage ds t)" and dk: "install_key d = k"
  then obtain j where j: "d \<in> set (choose_devices (call_push t) (filter (\<lambda>d. install_key d = j) ds))" unfolding filterDevices_set by fast
  then have "j = k" using chosen_of_group dk by blast
  with chosen_channel [OF _ _ assms(5,6) _ j] assms(1-4,7)
  show "d_Provider d = (if call_push t then ProviderAPNsVoIP else ProviderAPNs)" by simp
qed

definition ios_device :: "string \<Rightarrow> string \<Rightarrow> Device" where
  "ios_device i provider = \<lparr>d_ID = i, d_UserID = ''u'', d_InstallationID = ''i1'', d_Platform = PlatformIOS,
     d_Provider = provider, d_Token = ''tok'', d_AppID = ''app'', d_AppVersion = '''', d_OSVersion = '''',
     d_DeviceModel = '''', d_Locale = '''', d_Timezone = '''', d_Status = DeviceStatusActive,
     d_CreatedAt = 1, d_UpdatedAt = 1, d_LastSeenAt = 1\<rparr>"

lemma ios_device_key: "install_key (ios_device i p) = ''app|i1''" "d_Provider (ios_device i p) = p"
  "d_Platform (ios_device i p) = PlatformIOS"
  by (simp_all add: ios_device_def install_key_def join_key_def)

definition ios_rows :: "Device list" where
  "ios_rows = [ios_device ''a'' ProviderAPNs, ios_device ''v'' ProviderAPNsVoIP]"

theorem filterDevices_one_channel_witness:
  "install_key ` set (filterDevicesForMessage ios_rows MessageIncomingCall) = {''app|i1''} \<and>
   d_Provider ` set (filterDevicesForMessage ios_rows MessageIncomingCall) \<subseteq> {ProviderAPNsVoIP}"
proof -
  let ?out = "set (filterDevicesForMessage ios_rows MessageIncomingCall)"
  have rows: "set ios_rows = {ios_device ''a'' ProviderAPNs, ios_device ''v'' ProviderAPNsVoIP}" by (simp add: ios_rows_def)
  have r: "install_key ` ?out = install_key ` set ios_rows \<and>
      (\<forall>d \<in> ?out. install_key d = ''app|i1'' \<longrightarrow> d_Provider d = ProviderAPNsVoIP)"
    using filterDevices_one_channel [of "ios_device ''v'' ProviderAPNsVoIP" ios_rows "ios_device ''a'' ProviderAPNs"
        "''app|i1''" MessageIncomingCall] unfolding rows by (simp add: ios_device_key call_push_def)
  then have k: "install_key ` ?out = {''app|i1''}" unfolding rows by (simp add: ios_device_key)
  then have "\<forall>d \<in> ?out. install_key d = ''app|i1''" by blast
  with r k show ?thesis by blast
qed

section \<open>Sending\<close>

text \<open>A row that \<open>CreateMany\<close> inserted, and the fresh row of a message for a device.\<close>

definition inserted :: "string \<times> Delivery \<Rightarrow> Delivery \<Rightarrow> bool" where
  "inserted = (\<lambda>(i, d) row. dl_ID row = (if dl_ID d = '''' then i else dl_ID d) \<and>
       dl_MessageID row = dl_MessageID d \<and> dl_DeviceID row = dl_DeviceID d \<and> dl_Provider row = dl_Provider d \<and>
       dl_Status row = (if dl_Status d = '''' then DeliveryStatusPending else dl_Status d) \<and>
       dl_Attempts row = dl_Attempts d \<and> dl_NextRetryAt row = dl_NextRetryAt d)"

definition pending_for :: "Message \<Rightarrow> Device \<Rightarrow> Delivery \<Rightarrow> bool" where
  "pending_for m = (\<lambda>d row. dl_MessageID row = m_ID m \<and> dl_DeviceID row = d_ID d \<and>
      dl_Provider row = selectProviderForMessage d m \<and> dl_Status row = DeliveryStatusPending \<and>
      dl_Attempts row = 0 \<and> dl_NextRetryAt row = None)"

lemma CreateMany_ok:
  "del_CreateMany now ds db = (db', None) \<Longrightarrow>
   db_messages db' = db_messages db \<and> db_devices db' = db_devices db \<and> db_keys db' = db_keys db \<and>
   (\<exists>rows. db_deliveries db' = db_deliveries db @ rows \<and>
     list_all2 inserted ds rows)"
proof (induction ds arbitrary: db)
  case (Cons x ds)
  obtain i d where x: "x = (i, d)" by fastforce
  obtain db1 e where ins: "del_insert now i d db = (db1, e)" by fastforce
  with Cons.prems x have e: "e = None" and rest: "del_CreateMany now ds db1 = (db', None)"
    by (auto split: option.splits)
  from del_insert_cases [OF ins] e obtain row where row: "db_deliveries db1 = db_deliveries db @ [row]"
    "dl_ID row = (if dl_ID d = '''' then i else dl_ID d)" "dl_MessageID row = dl_MessageID d"
    "dl_DeviceID row = dl_DeviceID d" "dl_Provider row = dl_Provider d"
    "dl_Status row = (if dl_Status d = '''' then DeliveryStatusPending else dl_Status d)"
    "dl_Attempts row = dl_Attempts d" "dl_NextRetryAt row = dl_NextRetryAt d"
    and t: "db_messages db1 = db_messages db" "db_devices db1 = db_devices db" "db_keys db1 = db_keys db" by auto
  from Cons.IH [OF rest] obtain rows where IH: "db_deliveries db' = db_deliveries db1 @ rows"
    "list_all2 inserted ds rows"
    and t': "db_messages db' = db_messages db1" "db_devices db' = db_devices db1" "db_keys db' = db_keys db1" by blast
  have "db_deliveries db' = db_deliveries db @ (row # rows)" using row(1) IH(1) by simp
  moreover note row(2-8) IH(2) x
  ultimately show ?case using t t' by (intro conjI exI [of _ "row # rows"]) (simp_all add: inserted_def)
qed simp

lemma new_deliveries_rows:
  assumes "list_all2 inserted (new_deliveries newID m ds) rows"
  shows "list_all2 (pending_for m) (filterDevicesForMessage ds (m_Type m)) rows"
  using assms by (auto simp: new_deliveries_def new_delivery_def inserted_def pending_for_def Let_def list_all2_conv_all_nth)

lemma enqueueDeliveries_ok:
  assumes "enqueueDeliveries now newID m ds db = (db', None)"
  shows "\<exists>rows. db_deliveries db' = db_deliveries db @ rows \<and>
    list_all2 (pending_for m) (filterDevicesForMessage ds (m_Type m)) rows \<and>
    db_messages db' = update_where (\<lambda>r. m_ID r = m_ID m)
      (\<lambda>r. r\<lparr>m_Status := MessageStatusQueued, m_QueuedAt := Some now\<rparr>) (db_messages db)"
proof -
  obtain db1 e where c: "del_CreateMany now (new_deliveries newID m ds) db = (db1, e)" by fastforce
  with assms have e: "e = None" and q: "msg_MarkQueued now (m_ID m) db1 = (db', None)"
    by (auto simp: enqueueDeliveries_def split: option.splits)
  note Q = msg_ops_tables(2) [OF q [unfolded msg_MarkQueued_def]] msg_update_cases [OF q [unfolded msg_MarkQueued_def]]
  from CreateMany_ok [OF c [unfolded e]] obtain rows where "db_deliveries db1 = db_deliveries db @ rows"
    "list_all2 inserted (new_deliveries newID m ds) rows"
    "db_messages db1 = db_messages db" by blast
  with Q new_deliveries_rows show ?thesis by (intro exI [of _ rows]) simp
qed

lemma dedup_spec:
  "dedup seen ds = (seen', out) \<Longrightarrow>
   set out \<subseteq> set ds \<and> set seen' = set seen \<union> d_ID ` set out \<and> distinct (map d_ID out) \<and>
   d_ID ` set out \<inter> set seen = {} \<and> d_ID ` set ds \<subseteq> set seen \<union> d_ID ` set out"
proof (induction ds arbitrary: seen seen' out)
  case (Cons d ds)
  show ?case
  proof (cases "d_ID d \<in> set seen")
    case True
    with Cons.prems have "dedup seen ds = (seen', out)" by simp
    from Cons.IH [OF this] True show ?thesis by auto
  next
    case False
    obtain s' o' where r: "dedup (d_ID d # seen) ds = (s', o')" by fastforce
    with Cons.prems False have "seen' = s'" "out = d # o'" by simp_all
    with Cons.IH [OF r] False show ?thesis by auto
  qed
qed auto

text \<open>The devices that the targets of a send stand for.\<close>

definition targeted :: "string \<Rightarrow> string list \<Rightarrow> string list \<Rightarrow> Device \<Rightarrow> bool" where
  "targeted app users insts d \<longleftrightarrow> d_AppID d = app \<and> d_Status d = DeviceStatusActive \<and>
     (d_UserID d \<noteq> '''' \<and> d_UserID d \<in> set users \<or> d_InstallationID d \<in> set insts)"

lemma ListActive_ok:
  "dev_ListActiveByUserIDs app users db = (db', Inr ds) \<Longrightarrow> db_devices db' = db_devices db \<and> db_messages db' = db_messages db \<and>
     db_deliveries db' = db_deliveries db \<and> db_keys db' = db_keys db \<and>
     set ds = {d \<in> set (db_devices db). d_AppID d = app \<and> d_Status d = DeviceStatusActive \<and> d_UserID d \<noteq> '''' \<and> d_UserID d \<in> set users}"
  "dev_ListActiveByInstallationIDs app insts db = (db', Inr ds) \<Longrightarrow> db_devices db' = db_devices db \<and>
     db_messages db' = db_messages db \<and> db_deliveries db' = db_deliveries db \<and> db_keys db' = db_keys db \<and>
     set ds = {d \<in> set (db_devices db). d_AppID d = app \<and> d_Status d = DeviceStatusActive \<and> d_InstallationID d \<in> set insts}"
  by (auto simp: dev_ListActiveByUserIDs_def dev_ListActiveByInstallationIDs_def
      split: prod.splits option.splits if_splits dest: stmt_tables)

lemma resolveDevices_ok:
  assumes "resolveDevices app users insts db = (db', Inr ds)"
  shows "db_devices db' = db_devices db \<and> db_messages db' = db_messages db \<and>
    db_deliveries db' = db_deliveries db \<and> db_keys db' = db_keys db \<and> distinct (map d_ID ds) \<and>
    set ds \<subseteq> {d \<in> set (db_devices db). targeted app users insts d} \<and>
    d_ID ` set ds = d_ID ` {d \<in> set (db_devices db). targeted app users insts d}"
proof -
  obtain db1 r1 where l1: "dev_ListActiveByUserIDs app users db = (db1, r1)" by fastforce
  obtain db2 r2 where l2: "dev_ListActiveByInstallationIDs app insts db1 = (db2, r2)" by fastforce
  from assms l1 l2 obtain ds1 ds2 seen out where r: "r1 = Inr ds1" "r2 = Inr ds2" "dedup [] ds1 = (seen, out)"
      "ds = out @ snd (dedup seen ds2)" "db' = db2"
    by (auto simp: resolveDevices_def dev_ListActiveByUserIDs_def dev_ListActiveByInstallationIDs_def
        split: sum.splits prod.splits if_splits)
  obtain seen2 out2 where d2: "dedup seen ds2 = (seen2, out2)" by fastforce
  note A = ListActive_ok(1) [OF l1 [unfolded r(1)]] ListActive_ok(2) [OF l2 [unfolded r(2)]]
    dedup_spec [OF r(3)] dedup_spec [OF d2]
  have ds: "ds = out @ out2" using r(4) d2 by simp
  let ?T = "{d \<in> set (db_devices db). targeted app users insts d}"
  have T: "?T = set ds1 \<union> set ds2" using A(1,2) by (auto simp: targeted_def)
  have "d_ID ` set ds = d_ID ` ?T" using A(3,4) unfolding ds T by (auto; blast)
  moreover have "set ds \<subseteq> ?T" using A(3,4) unfolding ds T by auto
  ultimately show ?thesis using A unfolding ds r(5) by auto
qed

lemma Send_ok:
  assumes "Send now newID inp0 db = (db', Inr res)" "inp = send_type inp0" "msg = new_message now (newID 0) inp"
  shows "validateSend inp = None \<and> (\<exists>db1 ds db2 mid new.
    resolveDevices (sm_AppID inp) (sm_UserIDs inp) (sm_InstallationIDs inp) db = (db1, Inr ds) \<and>
    (ds \<noteq> [] \<or> sm_Provider inp \<noteq> '''') \<and> persist_message now inp msg db1 = (db2, Inr (mid, new)) \<and>
    res = \<lparr>sr_MessageID = mid, sr_MessageAccepted = True, sr_Duplicate = \<not> new\<rparr> \<and>
    (if new then \<exists>db3 ds'. target_devices now newID inp ds db2 = (db3, Inr ds') \<and>
         enqueueDeliveries now (\<lambda>n. newID (n + 3)) (msg\<lparr>m_ID := mid\<rparr>) ds' db3 = (db', None)
     else db' = db2))"
  using assms
  by (auto simp: Send_def Let_def split: option.splits prod.splits sum.splits if_splits bool.splits)

lemma new_message_fields: "m_ID (new_message now i inp) = i" "m_Type (new_message now i inp) = sm_Type inp"
  "m_AppID (new_message now i inp) = sm_AppID inp" "m_Status (new_message now i inp) = MessageStatusCreated"
  by (simp_all add: new_message_def enrichEventData_def)

text \<open>
  C29. What a send leaves behind: when it reports a new message, the message is in the table with
  status queued, and exactly one pending delivery with no attempts was added for each device chosen; and
  without a direct token, the devices chosen from are distinct active devices of the application that
  belong to a targeted user or are a targeted installation, all of them.
\<close>

theorem Send_effect:
  assumes "Send now newID inp db = (db', Inr res)" "\<not> sr_Duplicate res"
  shows "\<exists>m ds rows. m \<in> set (db_messages db') \<and> m_ID m = sr_MessageID res \<and> m_Status m = MessageStatusQueued \<and>
    db_deliveries db' = db_deliveries db @ rows \<and> list_all2 (pending_for m) (filterDevicesForMessage ds (m_Type m)) rows \<and>
    (sm_Provider inp = '''' \<or> sm_Token inp = '''' \<longrightarrow>
       set ds \<subseteq> {d \<in> set (db_devices db). targeted (sm_AppID inp) (sm_UserIDs inp) (sm_InstallationIDs inp) d} \<and>
       d_ID ` set ds = d_ID ` {d \<in> set (db_devices db). targeted (sm_AppID inp) (sm_UserIDs inp) (sm_InstallationIDs inp) d} \<and>
       distinct (map d_ID ds))"
proof -
  let ?inp = "send_type inp"
  let ?msg = "new_message now (newID 0) ?inp"
  have same: "sm_AppID ?inp = sm_AppID inp" "sm_UserIDs ?inp = sm_UserIDs inp" "sm_InstallationIDs ?inp = sm_InstallationIDs inp"
    "sm_Provider ?inp = sm_Provider inp" "sm_Token ?inp = sm_Token inp" by (simp_all add: send_type_def)
  from Send_ok [OF assms(1) refl refl] assms(2) obtain db1 ds db2 mid db3 ds' where S:
    "resolveDevices (sm_AppID inp) (sm_UserIDs inp) (sm_InstallationIDs inp) db = (db1, Inr ds)"
    "persist_message now ?inp ?msg db1 = (db2, Inr (mid, True))" "sr_MessageID res = mid"
    "target_devices now newID ?inp ds db2 = (db3, Inr ds')"
    "enqueueDeliveries now (\<lambda>n. newID (n + 3)) (?msg\<lparr>m_ID := mid\<rparr>) ds' db3 = (db', None)"
    unfolding same by auto
  note R = resolveDevices_ok [OF S(1)] and T = target_devices_tables [OF S(4)]
  from persist_cases [OF S(2)] obtain row where P: "row = message_row (message_defaults now (m_ID ?msg) ?msg)" "mid = m_ID row"
    "db_messages db2 = db_messages db1 @ [row]" "db_deliveries db2 = db_deliveries db1" by auto
  from enqueueDeliveries_ok [OF S(5)] obtain rows where E: "db_deliveries db' = db_deliveries db3 @ rows"
    "list_all2 (pending_for (?msg\<lparr>m_ID := mid\<rparr>)) (filterDevicesForMessage ds' (m_Type ?msg)) rows"
    "db_messages db' = update_where (\<lambda>r. m_ID r = mid)
      (\<lambda>r. r\<lparr>m_Status := MessageStatusQueued, m_QueuedAt := Some now\<rparr>) (db_messages db3)" by auto
  let ?m = "row\<lparr>m_Status := MessageStatusQueued, m_QueuedAt := Some now\<rparr>"
  have "?m \<in> set (db_messages db')" using E(3) P(2,3) T by (auto simp: set_update_where)
  moreover have type: "m_Type ?m = m_Type ?msg"
    using Send_ok [OF assms(1) refl refl] P(1)
    by (auto simp: message_row_def message_defaults_def new_message_fields validateSend_def split: if_splits)
  moreover have "list_all2 (pending_for ?m) (filterDevicesForMessage ds' (m_Type ?m)) rows"
    using E(2) type P(2) unfolding pending_for_def by (simp add: selectProviderForMessage_def)
  moreover have "ds' = ds" if "sm_Provider inp = '''' \<or> sm_Token inp = ''''"
    using S(4) that same by (auto simp: target_devices_def)
  ultimately show ?thesis
    using R T P E(1) S(3) by (intro exI [of _ ?m] exI [of _ ds'] exI [of _ rows]) auto
qed

definition demo_db :: Db where
  "demo_db = empty_db\<lparr>db_devices := [demo_device]\<rparr>"

lemma demo_validate: "validateSend demo_send = None"
  using RuneCountInString_le [of "''v''"]
  by (simp add: validateSend_def demo_send_def push_input_def IsDataOnly_def)

lemma demo_Send:
  "snd (Send 1 demo_id demo_send demo_db) = Inr \<lparr>sr_MessageID = ''m1'', sr_MessageAccepted = True, sr_Duplicate = False\<rparr>"
proof -
  have t: "send_type demo_send = demo_send" by (simp add: send_type_def demo_send_def push_input_def)
  have r: "resolveDevices (sm_AppID demo_send) (sm_UserIDs demo_send) (sm_InstallationIDs demo_send) demo_db = (demo_db, Inr [demo_device])"
    by (simp add: resolveDevices_def dev_ListActiveByUserIDs_def demo_send_def push_input_def demo_db_def empty_db_def
        demo_device_def)
  let ?db = "demo_db\<lparr>db_messages := [demo_message]\<rparr>"
  have p: "persist_message 1 demo_send (new_message 1 ''m1'' demo_send) demo_db = (?db, Inr (''m1'', True))"
    using demo_message_fields(1)
    by (simp add: persist_message_def msg_create_def demo_db_def empty_db_def demo_send_def [unfolded push_input_def] Let_def
        demo_message_def new_message_def message_defaults_def enrichEventData_def)
  have d: "target_devices 1 demo_id demo_send [demo_device] ?db = (?db, Inr [demo_device])"
    by (simp add: target_devices_def demo_send_def push_input_def)
  have "enqueueDeliveries 1 (\<lambda>n. demo_id (n + 3)) ((new_message 1 ''m1'' demo_send)\<lparr>m_ID := ''m1''\<rparr>) [demo_device] ?db =
      (?db\<lparr>db_deliveries := [demo_row], db_messages := [demo_message\<lparr>m_Status := MessageStatusQueued, m_QueuedAt := Some 1\<rparr>]\<rparr>, None)"
    unfolding enqueueDeliveries_def demo_new_deliveries using demo_message_fields(1) demo_delivery_fields
    by (simp add: del_insert_def demo_db_def empty_db_def demo_device_def delivery_defaults_def demo_row_def Let_def
        msg_MarkQueued_def msg_update_def update_where_def)
  moreover have "demo_id 0 = ''m1''" by (simp add: demo_id_def)
  ultimately show ?thesis using demo_validate r p d by (simp add: Send_def t Let_def)
qed

theorem Send_effect_witness:
  "\<exists>m ds rows. m \<in> set (db_messages (fst (Send 1 demo_id demo_send demo_db))) \<and> m_ID m = ''m1'' \<and>
     m_Status m = MessageStatusQueued \<and> db_deliveries (fst (Send 1 demo_id demo_send demo_db)) = rows \<and>
     list_all2 (pending_for m) (filterDevicesForMessage ds (m_Type m)) rows \<and> d_ID ` set ds = {''d1''}"
proof -
  let ?res = "\<lparr>sr_MessageID = ''m1'', sr_MessageAccepted = True, sr_Duplicate = False\<rparr>"
  have "Send 1 demo_id demo_send demo_db = (fst (Send 1 demo_id demo_send demo_db), Inr ?res)"
    using demo_Send by (metis prod.collapse)
  from Send_effect [OF this] have "\<exists>m ds rows. m \<in> set (db_messages (fst (Send 1 demo_id demo_send demo_db))) \<and>
      m_ID m = ''m1'' \<and> m_Status m = MessageStatusQueued \<and>
      db_deliveries (fst (Send 1 demo_id demo_send demo_db)) = db_deliveries demo_db @ rows \<and>
      list_all2 (pending_for m) (filterDevicesForMessage ds (m_Type m)) rows \<and>
      d_ID ` set ds = d_ID ` {d \<in> set (db_devices demo_db). targeted ''app'' [''u''] [] d}"
    by (auto simp: demo_send_def push_input_def)
  moreover have "{d \<in> set (db_devices demo_db). targeted ''app'' [''u''] [] d} = {demo_device}" "d_ID demo_device = ''d1''"
    "db_deliveries demo_db = []"
    by (auto simp: demo_db_def empty_db_def targeted_def demo_device_def)
  ultimately show ?thesis by simp
qed



text \<open>
  A send can be accepted and never complete: with a provider but no token, and targets that have no
  active device, the request is accepted and its message queued without a single delivery; a message
  is completed only when one of its deliveries settles.
\<close>

theorem Send_queues_nothing:
  "\<exists>db' res m. Send 1 demo_id (demo_send\<lparr>sm_Provider := ProviderFCM\<rparr>) empty_db = (db', Inr res) \<and>
     sr_MessageAccepted res \<and> \<not> sr_Duplicate res \<and> m \<in> set (db_messages db') \<and> m_ID m = sr_MessageID res \<and>
     m_Status m = MessageStatusQueued \<and> db_deliveries db' = []"
proof -
  let ?inp = "demo_send\<lparr>sm_Provider := ProviderFCM\<rparr>"
  have v: "validateSend ?inp = None" using RuneCountInString_le [of "''v''"]
    by (simp add: validateSend_def demo_send_def push_input_def IsDataOnly_def allowedProviders_def)
  have t: "send_type ?inp = ?inp" by (simp add: send_type_def demo_send_def push_input_def)
  have r: "resolveDevices (sm_AppID ?inp) (sm_UserIDs ?inp) (sm_InstallationIDs ?inp) empty_db = (empty_db, Inr [])"
    by (simp add: resolveDevices_def dev_ListActiveByUserIDs_def demo_send_def push_input_def empty_db_def)
  have i: "demo_id 0 = ''m1''" by (simp add: demo_id_def)
  let ?row = "message_row (message_defaults 1 ''m1'' (new_message 1 ''m1'' ?inp))"
  let ?db = "empty_db\<lparr>db_messages := [?row]\<rparr>"
  have id: "m_ID ?row = ''m1''" by (simp add: message_row_def message_defaults_def new_message_fields)
  have p: "persist_message 1 ?inp (new_message 1 ''m1'' ?inp) empty_db = (?db, Inr (''m1'', True))"
    using id by (simp add: persist_message_def msg_create_def empty_db_def Let_def new_message_fields
        message_defaults_def) (simp add: demo_send_def push_input_def)
  have d: "target_devices 1 demo_id ?inp [] ?db = (?db, Inr [])"
    by (simp add: target_devices_def demo_send_def push_input_def)
  have e: "enqueueDeliveries 1 f (m\<lparr>m_ID := ''m1''\<rparr>) [] ?db =
      (?db\<lparr>db_messages := [?row\<lparr>m_Status := MessageStatusQueued, m_QueuedAt := Some 1\<rparr>]\<rparr>, None)" for f m
    using id by (simp add: enqueueDeliveries_def new_deliveries_def filterDevicesForMessage_def Let_def msg_MarkQueued_def
        msg_update_def update_where_def empty_db_def)
  show ?thesis using v r p d e id by (simp add: Send_def t Let_def i empty_db_def)
qed

end
