(* ===== verification/DeviceProps.thy ===== *)
theory DeviceProps
  imports DeviceService
begin

text \<open>
  The properties of the device service: a table row per installation and provider, what a registration
  makes findable, and two behaviours of the SQL that callers may not expect.
\<close>

section \<open>One row per installation and provider\<close>

definition device_key :: "Device \<Rightarrow> string \<times> string" where
  "device_key d = (d_InstallationID d, d_Provider d)"

definition devices_ok :: "Db \<Rightarrow> bool" where
  "devices_ok db \<longleftrightarrow> distinct (map d_ID (db_devices db)) \<and> distinct (map device_key (db_devices db))"

lemma devices_ok_cong: "db_devices db' = db_devices db \<Longrightarrow> devices_ok db' = devices_ok db"
  by (simp add: devices_ok_def)

lemma devices_ok_update:
  assumes "devices_ok db" "db_devices db' = update_where P f (db_devices db)"
    "\<And>r. d_ID (f r) = d_ID r" "\<And>r. device_key (f r) = device_key r"
  shows "devices_ok db'"
  using assms map_update_where [of d_ID f P "db_devices db"] map_update_where [of device_key f P "db_devices db"]
  by (simp add: devices_ok_def)

lemma same_device_key: "same_device d r \<longleftrightarrow> device_key r = device_key d"
  by (simp add: same_device_def device_key_def)

lemma merge_device_fields [simp]: "d_ID (merge_device d r) = d_ID r" "device_key (merge_device d r) = device_key r"
  "d_CreatedAt (merge_device d r) = d_CreatedAt r" "d_AppID (merge_device d r) = d_AppID d"
  "d_Token (merge_device d r) = d_Token d" "d_Status (merge_device d r) = DeviceStatusActive"
  "d_InstallationID (merge_device d r) = d_InstallationID r" "d_Provider (merge_device d r) = d_Provider r"
  "d_UserID (merge_device d r) = (if d_UserID d = '''' then d_UserID r else d_UserID d)"
  by (simp_all add: merge_device_def device_key_def)

lemma dev_Upsert_cases:
  assumes "dev_Upsert now i d0 db = (db', r)"
  shows "(\<exists>e. r = Inl e \<and> db_devices db' = db_devices db) \<or>
    (\<exists>old. find (same_device (device_defaults now i d0)) (db_devices db) = Some old \<and>
       r = Inr (merge_device (device_defaults now i d0) old) \<and>
       db_devices db' = upd_first (same_device (device_defaults now i d0)) (merge_device (device_defaults now i d0)) (db_devices db)) \<or>
    (find (same_device (device_defaults now i d0)) (db_devices db) = None \<and> r = Inr (device_defaults now i d0) \<and>
       d_ID (device_defaults now i d0) \<notin> d_ID ` set (db_devices db) \<and>
       db_devices db' = db_devices db @ [device_defaults now i d0])"
proof -
  obtain db1 f where s: "stmt db = (f, db1)" by fastforce
  show ?thesis
    using assms s stmt_tables [OF s]
    by (auto simp: dev_Upsert_def Let_def split: option.splits if_splits)
qed

lemma dev_Upsert_ok:
  assumes "devices_ok db"
  shows "devices_ok (fst (dev_Upsert now i d0 db))"
proof -
  obtain db' r where u: "dev_Upsert now i d0 db = (db', r)" by fastforce
  let ?d = "device_defaults now i d0"
  have upd: "map g (upd_first P (merge_device ?d) rows) = map g rows" if "\<And>r. g (merge_device ?d r) = g r"
    for g :: "Device \<Rightarrow> 'k" and P rows using that by (rule map_upd_first)
  consider (same) "db_devices db' = db_devices db"
    | (old) "db_devices db' = upd_first (same_device ?d) (merge_device ?d) (db_devices db)"
    | (new) "find (same_device ?d) (db_devices db) = None" "d_ID ?d \<notin> d_ID ` set (db_devices db)"
        "db_devices db' = db_devices db @ [?d]"
    using dev_Upsert_cases [OF u] by (elim disjE exE conjE) simp_all
  then show ?thesis
  proof cases
    case same
    then show ?thesis using assms by (simp add: u devices_ok_def)
  next
    case old
    then show ?thesis using assms upd [of d_ID] upd [of device_key] by (simp add: u devices_ok_def)
  next
    case new
    have "device_key ?d \<notin> device_key ` set (db_devices db)"
      using new(1) unfolding find_eq_None_set same_device_key by (metis imageE)
    then show ?thesis using assms new(2,3) by (simp add: u devices_ok_def)
  qed
qed

lemma dev_exec_ok:
  assumes "devices_ok db" "\<And>r. d_ID (f r) = d_ID r" "\<And>r. device_key (f r) = device_key r"
  shows "devices_ok (fst (dev_exec app inst f db))"
proof -
  obtain db1 e where s: "stmt db = (e, db1)" by fastforce
  have "db_devices (fst (dev_exec app inst f db)) = db_devices db \<or>
      db_devices (fst (dev_exec app inst f db)) = update_where (of_installation app inst) f (db_devices db)"
    using s stmt_tables [OF s] by (auto simp: dev_exec_def split: option.splits)
  then show ?thesis using devices_ok_cong devices_ok_update [OF assms(1) _ assms(2,3)] assms(1) by blast
qed

lemma dev_UpdateToken_devices:
  "db_devices (fst (dev_UpdateToken now app inst prov tok db)) = db_devices db \<or>
   db_devices (fst (dev_UpdateToken now app inst prov tok db)) =
     update_where (\<lambda>r. of_installation app inst r \<and> (prov = '''' \<or> d_Provider r = prov)) (set_token now tok) (db_devices db)"
proof -
  obtain db1 e where s: "stmt db = (e, db1)" by fastforce
  then show ?thesis using stmt_tables [OF s] by (auto simp: dev_UpdateToken_def Let_def split: option.splits)
qed

lemma device_Register_ok: "devices_ok db \<Longrightarrow> devices_ok (fst (device_Register now i inp db))"
  by (simp add: device_Register_def dev_Upsert_ok split: option.splits)

lemma FindByInstallationID_devices: "db_devices (fst (dev_FindByInstallationID app inst db)) = db_devices db"
proof -
  obtain db1 e where s: "stmt db = (e, db1)" by fastforce
  then show ?thesis
    using stmt_tables [OF s] by (auto simp: dev_FindByInstallationID_def split: option.splits list.splits)
qed

lemma device_UpdateToken_ok:
  assumes "devices_ok db"
  shows "devices_ok (fst (device_UpdateToken now i app inst prov tok db))"
proof -
  obtain db1 r1 where u: "dev_UpdateToken now app inst prov tok db = (db1, r1)" by fastforce
  obtain db2 r2 where f: "dev_FindByInstallationID app inst db1 = (db2, r2)" by fastforce
  have "devices_ok db1"
    using dev_UpdateToken_devices [of now app inst prov tok db] devices_ok_cong [of db1 db] assms u
      devices_ok_update [OF assms, of db1 _ "set_token now tok"]
    by (auto simp: set_token_def device_key_def)
  moreover from this have "devices_ok db2"
    using FindByInstallationID_devices [of app inst db1] f devices_ok_cong [of db2 db1] by simp
  ultimately show ?thesis
    using assms u f device_Register_ok [of db2] by (auto simp: device_UpdateToken_def split: sum.splits)
qed


definition demo_register :: "string \<Rightarrow> string \<Rightarrow> string \<Rightarrow> RegisterDeviceInput" where
  "demo_register app prov tok =
     \<lparr>rd_InstallationID = ''inst'', rd_UserID = ''u'', rd_Platform = PlatformIOS, rd_Provider = prov,
       rd_Token = tok, rd_AppID = app, rd_AppVersion = [], rd_OSVersion = [], rd_DeviceModel = [],
       rd_Locale = [], rd_Timezone = []\<rparr>"

definition no_devices :: Db where
  "no_devices = \<lparr>db_devices = [], db_messages = [], db_deliveries = [], db_keys = (\<lambda>_. None), db_faults = []\<rparr>"

definition two_devices :: Db where
  "two_devices = fst (device_Register 2 ''d2'' (demo_register ''app'' ''apns_voip'' ''t2'')
     (fst (device_Register 1 ''d1'' (demo_register ''app'' ''apns'' ''t1'') no_devices)))"

lemmas demo_device_defs = Let_def demo_register_def no_devices_def two_devices_def device_Register_def
  validateRegister_def allowedPlatforms_def allowedProviders_def register_device_def dev_Upsert_def
  device_defaults_def same_device_def stmt_def
  merge_device_def device_key_def devices_ok_def

lemma RuneCount_short [simp]: "RuneCountInString ''t1'' = 2" "RuneCountInString ''t2'' = 2" "RuneCountInString ''t3'' = 2"
  by code_simp+

lemma two_devices_ok: "devices_ok two_devices" "db_faults two_devices = []"
  by (simp_all add: demo_device_defs)


section \<open>Registration and refresh\<close>

lemma same_device_fun: "same_device d = (\<lambda>r. device_key r = device_key d)"
  by (simp add: fun_eq_iff same_device_key)

lemma upd_first_keyed:
  assumes "distinct (map k xs)" "find (\<lambda>x. k x = a) xs = Some y"
  shows "r \<in> set (upd_first (\<lambda>x. k x = a) f xs) \<longleftrightarrow> r = f y \<or> r \<in> set xs \<and> k r \<noteq> a"
  using assms by (induction xs) (auto simp: image_iff split: if_splits)

lemma dev_Upsert_effect:
  assumes "devices_ok db" "db_faults db = []" "d_ID d0 = []" "i \<notin> d_ID ` set (db_devices db)" "d_Status d0 = DeviceStatusActive"
  obtains db' d where "dev_Upsert now i d0 db = (db', Inr d)" "db_faults db' = []"
    "\<And>r. r \<in> set (db_devices db') \<longleftrightarrow> r = d \<or> r \<in> set (db_devices db) \<and> device_key r \<noteq> device_key d0"
    "device_key d = device_key d0" "d_Token d = d_Token d0" "d_AppID d = d_AppID d0" "d_Status d = DeviceStatusActive"
    "d_UserID d0 \<noteq> [] \<Longrightarrow> d_UserID d = d_UserID d0"
    "case find (same_device d0) (db_devices db) of Some old \<Rightarrow> d_ID d = d_ID old \<and> d_CreatedAt d = d_CreatedAt old \<and>
        (d_UserID d0 = [] \<longrightarrow> d_UserID d = d_UserID old)
      | None \<Rightarrow> d_ID d = i \<and> d_CreatedAt d = now"
proof -
  let ?d = "device_defaults now i d0"
  have dd: "device_key ?d = device_key d0" "d_ID ?d = i" "d_Token ?d = d_Token d0" "d_AppID ?d = d_AppID d0"
    "d_Status ?d = DeviceStatusActive" "d_UserID ?d = d_UserID d0" "d_CreatedAt ?d = now" "same_device ?d = same_device d0"
    using assms(3,5) by (auto simp: device_defaults_def device_key_def same_device_def fun_eq_iff)
  have st: "stmt db = (None, db)" using assms(2) by (simp add: stmt_def)
  show thesis
  proof (cases "find (same_device d0) (db_devices db)")
    case None
    have "\<forall>r\<in>set (db_devices db). device_key r \<noteq> device_key d0"
      using None unfolding find_eq_None_set same_device_key by blast
    then show thesis
      using that [of "db\<lparr>db_devices := db_devices db @ [?d]\<rparr>" ?d] None st dd assms
      by (auto simp: dev_Upsert_def Let_def)
  next
    case (Some old)
    have k: "device_key old = device_key d0" using Some by (auto simp: find_Some_iff same_device_key)
    show thesis
    proof (rule that [of "db\<lparr>db_devices := upd_first (same_device ?d) (merge_device ?d) (db_devices db)\<rparr>" "merge_device ?d old"])
      show "dev_Upsert now i d0 db =
          (db\<lparr>db_devices := upd_first (same_device ?d) (merge_device ?d) (db_devices db)\<rparr>, Inr (merge_device ?d old))"
        using Some st dd(8) by (simp add: dev_Upsert_def Let_def)
      show "r \<in> set (db_devices (db\<lparr>db_devices := upd_first (same_device ?d) (merge_device ?d) (db_devices db)\<rparr>)) \<longleftrightarrow>
          r = merge_device ?d old \<or> r \<in> set (db_devices db) \<and> device_key r \<noteq> device_key d0" for r
        using upd_first_keyed [of device_key "db_devices db" "device_key d0" old r "merge_device ?d"]
          assms(1) Some dd(8) by (simp add: devices_ok_def same_device_fun)
    qed (use assms(2) k dd Some in auto)
  qed
qed

text \<open>
  A valid registration makes the device reachable: with no statement failing, the row of the
  installation and provider is active with the new token, the queries that resolve targets by
  installation and by user return it, every other row is left alone, and registering again keeps the
  row's id and creation time.
\<close>

theorem Register_reachable:
  assumes "devices_ok db" "db_faults db = []" "validateRegister inp = None" "i \<notin> d_ID ` set (db_devices db)"
  shows "\<exists>db' d. device_Register now i inp db = (db', Inr d) \<and> d_Token d = rd_Token inp \<and>
     d_AppID d = rd_AppID inp \<and> device_key d = (rd_InstallationID inp, rd_Provider inp) \<and> d_Status d = DeviceStatusActive \<and>
     (\<forall>r. r \<in> set (db_devices db') \<longleftrightarrow> r = d \<or> r \<in> set (db_devices db) \<and> device_key r \<noteq> device_key d) \<and>
     (\<exists>ds. dev_ListActiveByInstallationIDs (rd_AppID inp) [rd_InstallationID inp] db' = (db', Inr ds) \<and> d \<in> set ds) \<and>
     (rd_UserID inp \<noteq> [] \<longrightarrow>
        (\<exists>ds. dev_ListActiveByUserIDs (rd_AppID inp) [rd_UserID inp] db' = (db', Inr ds) \<and> d \<in> set ds)) \<and>
     (case find (\<lambda>r. device_key r = device_key d) (db_devices db) of
        Some old \<Rightarrow> d_ID d = d_ID old \<and> d_CreatedAt d = d_CreatedAt old
      | None \<Rightarrow> d_ID d = i \<and> d_CreatedAt d = now)"
proof -
  let ?d0 = "register_device inp"
  have d0: "device_key ?d0 = (rd_InstallationID inp, rd_Provider inp)" "d_Token ?d0 = rd_Token inp" "d_AppID ?d0 = rd_AppID inp"
    "d_UserID ?d0 = rd_UserID inp" "d_ID ?d0 = []" "d_Status ?d0 = DeviceStatusActive"
    by (simp_all add: register_device_def device_key_def)
  have sd: "same_device ?d0 = (\<lambda>r. device_key r = (rd_InstallationID inp, rd_Provider inp))"
    by (simp add: same_device_fun d0)
  obtain db' d where u: "dev_Upsert now i ?d0 db = (db', Inr d)" "db_faults db' = []"
    "\<And>r. r \<in> set (db_devices db') \<longleftrightarrow> r = d \<or> r \<in> set (db_devices db) \<and> device_key r \<noteq> device_key ?d0"
    "device_key d = device_key ?d0" "d_Token d = d_Token ?d0" "d_AppID d = d_AppID ?d0" "d_Status d = DeviceStatusActive"
    "d_UserID ?d0 \<noteq> [] \<Longrightarrow> d_UserID d = d_UserID ?d0"
    "case find (same_device ?d0) (db_devices db) of Some old \<Rightarrow> d_ID d = d_ID old \<and> d_CreatedAt d = d_CreatedAt old \<and>
        (d_UserID ?d0 = [] \<longrightarrow> d_UserID d = d_UserID old)
      | None \<Rightarrow> d_ID d = i \<and> d_CreatedAt d = now"
    by (rule dev_Upsert_effect [OF assms(1,2) d0(5) assms(4) d0(6)]) blast
  have k: "d_InstallationID d = rd_InstallationID inp" using u(4) d0(1) by (simp add: device_key_def)
  show ?thesis
  proof (intro exI conjI)
    show "device_Register now i inp db = (db', Inr d)" using assms(3) u(1) by (simp add: device_Register_def)
    show "case find (\<lambda>r. device_key r = device_key d) (db_devices db) of
        Some old \<Rightarrow> d_ID d = d_ID old \<and> d_CreatedAt d = d_CreatedAt old
      | None \<Rightarrow> d_ID d = i \<and> d_CreatedAt d = now"
      using u(9) by (auto simp: u(4) d0(1) sd split: option.splits)
    show "dev_ListActiveByInstallationIDs (rd_AppID inp) [rd_InstallationID inp] db' = (db', Inr (filter (\<lambda>r. d_AppID r = rd_AppID inp \<and>
        d_Status r = DeviceStatusActive \<and> d_InstallationID r \<in> set [rd_InstallationID inp]) (db_devices db')))"
      using u(2) by (simp add: dev_ListActiveByInstallationIDs_def stmt_def)
    show "rd_UserID inp \<noteq> [] \<longrightarrow> (\<exists>ds. dev_ListActiveByUserIDs (rd_AppID inp) [rd_UserID inp] db' = (db', Inr ds) \<and> d \<in> set ds)"
      using u(2,3,6,7,8) d0 by (simp add: dev_ListActiveByUserIDs_def stmt_def)
  qed (use u k d0 in \<open>simp_all\<close>)
qed

theorem Register_reachable_witness:
  "\<exists>db' d. device_Register 3 ''d3'' (demo_register ''app'' ''apns'' ''t3'') two_devices = (db', Inr d) \<and> d_Token d = ''t3'' \<and>
     d_ID d = ''d1''"
  using Register_reachable [OF two_devices_ok, of "demo_register ''app'' ''apns'' ''t3''" "''d3''" 3]
  by (simp add: demo_device_defs)

text \<open>
  Rows are keyed by installation and provider without the application: a registration by another
  application takes the row over. The first application no longer finds the installation's row, and a
  registration without a user id inherits the user the first application had bound to it.
\<close>

theorem Register_takes_over_row:
  assumes "devices_ok db" "db_faults db = []" "validateRegister inp = None" "i \<notin> d_ID ` set (db_devices db)"
    and "old \<in> set (db_devices db)" "device_key old = (rd_InstallationID inp, rd_Provider inp)" "d_AppID old \<noteq> rd_AppID inp"
    and "rd_UserID inp = []"
  shows "\<exists>db' d. device_Register now i inp db = (db', Inr d) \<and> d_ID d = d_ID old \<and> d_AppID d = rd_AppID inp \<and>
     d_UserID d = d_UserID old \<and> \<not> (\<exists>r. r \<in> set (db_devices db') \<and> d_AppID r = d_AppID old \<and> device_key r = device_key old)"
proof -
  let ?d0 = "register_device inp"
  have d0: "device_key ?d0 = device_key old" "d_AppID ?d0 = rd_AppID inp" "d_UserID ?d0 = []" "d_ID ?d0 = []"
    "d_Status ?d0 = DeviceStatusActive" using assms(6,8) by (simp_all add: register_device_def device_key_def)
  have "find (same_device ?d0) (db_devices db) = Some old"
  proof (cases "find (same_device ?d0) (db_devices db)")
    case None
    then show ?thesis using assms(5) d0(1) by (auto simp: find_eq_None_set same_device_key)
  next
    case (Some r)
    then have "r \<in> set (db_devices db)" "device_key r = device_key old"
      using find_SomeD [OF Some] d0(1) by (auto simp: same_device_key)
    then show ?thesis using Some assms(1,5) by (auto simp: devices_ok_def distinct_map inj_on_def)
  qed
  note f = this
  obtain db' d where "dev_Upsert now i ?d0 db = (db', Inr d)" "device_key d = device_key old" "d_AppID d = rd_AppID inp"
    "\<And>r. r \<in> set (db_devices db') \<longleftrightarrow> r = d \<or> r \<in> set (db_devices db) \<and> device_key r \<noteq> device_key old"
    "d_ID d = d_ID old" "d_UserID d = d_UserID old"
    by (rule dev_Upsert_effect [OF assms(1,2) d0(4) assms(4) d0(5), of now]) (auto simp: f d0)
  then show ?thesis using assms(3,7) by (auto simp: device_Register_def)
qed

theorem Register_takes_over_row_witness:
  "\<exists>db' d. device_Register 3 ''d3'' ((demo_register ''other'' ''apns'' ''t3'')\<lparr>rd_UserID := []\<rparr>) two_devices = (db', Inr d) \<and>
     d_ID d = ''d1'' \<and> d_AppID d = ''other'' \<and> d_UserID d = ''u''"
  using Register_takes_over_row [OF two_devices_ok, of "(demo_register ''other'' ''apns'' ''t3'')\<lparr>rd_UserID := []\<rparr>" "''d3''"
      "hd (db_devices two_devices)" 3]
  by (simp add: demo_device_defs)

lemma validate_refresh:
  assumes "inst \<noteq> []" "tok \<noteq> []" "app \<noteq> []" "RuneCountInString tok \<le> 4096" "prov \<in> set allowedProviders"
    "case found of Inr d \<Rightarrow> d_Platform d \<in> set allowedPlatforms | Inl _ \<Rightarrow> True"
  shows "validateRegister (refresh_input app inst prov tok found) = None"
  using assms
  by (cases found) (auto simp: validateRegister_def refresh_input_def allowedProviders_def allowedPlatforms_def)

lemma FindByInstallationID_result:
  assumes "db_faults db = []"
  obtains found where "dev_FindByInstallationID app inst db = (db, found)" "\<And>d. found = Inr d \<Longrightarrow> d \<in> set (db_devices db)"
proof -
  let ?L = "sort_key (\<lambda>r. if d_Provider r = ProviderAPNsVoIP then 1 else 0 :: int)
     (sort_key (\<lambda>r. - d_UpdatedAt r) (filter (of_installation app inst) (db_devices db)))"
  have sub: "set ?L \<subseteq> set (db_devices db)" by auto
  have st: "stmt db = (None, db)" using assms by (simp add: stmt_def)
  show thesis
  proof (cases ?L)
    case Nil
    show thesis by (rule that [of "Inl DeviceNotFound"]) (simp_all add: dev_FindByInstallationID_def st Nil)
  next
    case (Cons d ds)
    then have "d \<in> set (db_devices db)" using sub unfolding Cons by simp
    then show thesis by (intro that [of "Inr d"]) (simp_all add: dev_FindByInstallationID_def st Cons)
  qed
qed

text \<open>
  Refreshing the token of a named provider ends with an active row of the application holding that
  token, also when that provider was never registered for the installation: the row is then created
  from what is known of the installation.
\<close>

theorem UpdateToken_registers:
  assumes "devices_ok db" "db_faults db = []" "\<And>r. r \<in> set (db_devices db) \<Longrightarrow> d_Platform r \<in> set allowedPlatforms"
    and "inst \<noteq> []" "tok \<noteq> []" "app \<noteq> []" "RuneCountInString tok \<le> 4096" "prov \<in> set allowedProviders"
    and "i \<notin> d_ID ` set (db_devices db)"
  shows "\<exists>db' d. device_UpdateToken now i app inst prov tok db = (db', Inr d) \<and> d \<in> set (db_devices db') \<and>
     device_key d = (inst, prov) \<and> d_AppID d = app \<and> d_Token d = tok \<and> d_Status d = DeviceStatusActive"
proof -
  have ne: "prov \<noteq> []" using assms(8) by (auto simp: allowedProviders_def)
  let ?P = "\<lambda>r. of_installation app inst r \<and> (prov = [] \<or> d_Provider r = prov)"
  show ?thesis
  proof (cases "find ?P (db_devices db)")
    case (Some r)
    have "r \<in> set (db_devices db)" "?P r" using find_SomeD [OF Some] by blast+
    then show ?thesis
      using Some assms(2,4,5,8) ne
      by (force simp: device_UpdateToken_def dev_UpdateToken_def stmt_def Let_def update_where_def set_token_def
          device_key_def of_installation_def)
  next
    case None
    obtain found where f: "dev_FindByInstallationID app inst db = (db, found)" "\<And>d. found = Inr d \<Longrightarrow> d \<in> set (db_devices db)"
      using FindByInstallationID_result [OF assms(2)] by blast
    let ?inp = "refresh_input app inst prov tok found"
    have v: "validateRegister ?inp = None"
      using validate_refresh [OF assms(4-8)] f(2) assms(3) by (auto split: sum.splits)
    have "device_UpdateToken now i app inst prov tok db = device_Register now i ?inp db"
      using None assms(2,4,5,8) ne f(1) by (simp add: device_UpdateToken_def dev_UpdateToken_def stmt_def Let_def)
    moreover have "rd_AppID ?inp = app" "rd_InstallationID ?inp = inst" "rd_Provider ?inp = prov" "rd_Token ?inp = tok"
      by (simp_all add: refresh_input_def split: sum.splits)
    ultimately have u: "device_UpdateToken now i app inst prov tok db = dev_Upsert now i (register_device ?inp) db"
      and d0: "device_key (register_device ?inp) = (inst, prov)" "d_Token (register_device ?inp) = tok"
        "d_AppID (register_device ?inp) = app" "d_ID (register_device ?inp) = []"
        "d_Status (register_device ?inp) = DeviceStatusActive"
      using v by (simp_all add: device_Register_def register_device_def device_key_def)
    show ?thesis
      unfolding u by (rule dev_Upsert_effect [OF assms(1,2) d0(4) assms(9) d0(5), of now]) (simp add: d0)
  qed
qed

theorem UpdateToken_registers_witness:
  "\<exists>db' d. device_UpdateToken 3 ''d3'' ''app'' ''inst'' ''fcm'' ''t3'' two_devices = (db', Inr d) \<and> d_Token d = ''t3'' \<and>
     d_Provider d = ''fcm''"
proof -
  have "\<And>r. r \<in> set (db_devices two_devices) \<Longrightarrow> d_Platform r \<in> set allowedPlatforms" by (auto simp: demo_device_defs)
  from UpdateToken_registers [OF two_devices_ok this, of "''inst''" "''t3''" "''app''" "''fcm''" "''d3''" 3]
  show ?thesis by (auto simp: demo_device_defs)
qed

text \<open>
  A refresh that names no provider writes its token into every row of the installation, so an
  installation with an APNs and a VoIP row ends with the same token in both.
\<close>

theorem UpdateToken_without_provider:
  assumes "db_faults db = []" "inst \<noteq> []" "tok \<noteq> []" "r \<in> set (db_devices db)" "of_installation app inst r"
  shows "\<exists>db' d. device_UpdateToken now i app inst [] tok db = (db', Inr d) \<and>
     map (\<lambda>x. (d_ID x, d_Provider x, d_Token x)) (filter (of_installation app inst) (db_devices db')) =
     map (\<lambda>x. (d_ID x, d_Provider x, tok)) (filter (of_installation app inst) (db_devices db)) \<and>
     filter (\<lambda>x. \<not> of_installation app inst x) (db_devices db') = filter (\<lambda>x. \<not> of_installation app inst x) (db_devices db)"
proof -
  have "find (of_installation app inst) (db_devices db) \<noteq> None" using assms(4,5) by (auto simp: find_eq_None_set)
  then obtain r1 where r1: "find (of_installation app inst) (db_devices db) = Some r1" by blast
  have s: "of_installation app inst (set_token now tok x) = of_installation app inst x" "d_Token (set_token now tok x) = tok"
    "d_ID (set_token now tok x) = d_ID x" "d_Provider (set_token now tok x) = d_Provider x" for x
    by (simp_all add: of_installation_def set_token_def)
  let ?D = "update_where (of_installation app inst) (set_token now tok)"
  have "map (\<lambda>x. (d_ID x, d_Provider x, d_Token x)) (filter (of_installation app inst) (?D xs)) =
     map (\<lambda>x. (d_ID x, d_Provider x, tok)) (filter (of_installation app inst) xs)"
    "filter (\<lambda>x. \<not> of_installation app inst x) (?D xs) = filter (\<lambda>x. \<not> of_installation app inst x) xs" for xs
    by (induction xs) (simp_all add: update_where_def s)
  then show ?thesis
    using r1 assms(1-3) by (simp add: device_UpdateToken_def dev_UpdateToken_def stmt_def Let_def)
qed

theorem UpdateToken_without_provider_witness:
  "\<exists>db' d. device_UpdateToken 3 ''d3'' ''app'' ''inst'' [] ''t3'' two_devices = (db', Inr d) \<and>
     map (\<lambda>x. (d_ID x, d_Provider x, d_Token x)) (filter (of_installation ''app'' ''inst'') (db_devices db')) =
     [(''d1'', ''apns'', ''t3''), (''d2'', ''apns_voip'', ''t3'')]"
proof -
  have rows: "map (\<lambda>x. (d_ID x, d_Provider x, ''t3'')) (filter (of_installation ''app'' ''inst'') (db_devices two_devices)) =
      [(''d1'', ''apns'', ''t3''), (''d2'', ''apns_voip'', ''t3'')]" by (simp add: demo_device_defs of_installation_def)
  have "hd (db_devices two_devices) \<in> set (db_devices two_devices)" "of_installation ''app'' ''inst'' (hd (db_devices two_devices))"
    by (simp_all add: demo_device_defs of_installation_def)
  from UpdateToken_without_provider [OF two_devices_ok(2) _ _ this, of "''t3''" 3 "''d3''"]
  show ?thesis unfolding rows by auto
qed

end
