(* ===== verification/Presence.thy ===== *)
theory Presence
  imports Events
begin

text \<open>
  The package \<open>internal/presence\<close>: the statuses and how a user's status is aggregated from
  the devices (\<open>store.go\<close>), and the in-process store (\<open>memory_store.go\<close>). The
  state carries the events handed to the bus. A log of updates is the abstract specification: a user
  has the devices whose last update was for that user, with the status of that update.
\<close>

section \<open>Statuses (presence/store.go)\<close>

abbreviation StatusOffline :: string where "StatusOffline \<equiv> ''offline''"
abbreviation StatusOnline :: string where "StatusOnline \<equiv> ''online''"
abbreviation StatusIdle :: string where "StatusIdle \<equiv> ''idle''"
abbreviation StatusBusy :: string where "StatusBusy \<equiv> ''busy''"
abbreviation StatusInCall :: string where "StatusInCall \<equiv> ''in_call''"

record DevicePresence =
  dp_DeviceID :: string
  dp_UserID :: string
  dp_AppID :: string
  dp_Status :: string
  dp_UpdatedAt :: gotime

record UserPresence =
  up_UserID :: string
  up_AppID :: string
  up_Status :: string
  up_Devices :: "DevicePresence list"
  up_UpdatedAt :: gotime

text \<open>A missing key of the Go map \<open>rank\<close> reads as zero.\<close>

definition status_rank :: "string \<Rightarrow> int" where
  "status_rank s =
     (if s = StatusOffline then 0 else if s = StatusIdle then 1 else if s = StatusOnline then 2
      else if s = StatusBusy then 3 else if s = StatusInCall then 4 else 0)"

definition mergeStatus :: "string \<Rightarrow> string \<Rightarrow> string" where
  "mergeStatus a b = (if status_rank b > status_rank a then b else a)"

section \<open>The in-process store (presence/memory_store.go)\<close>

record PresenceStore =
  ps_devices :: "string \<rightharpoonup> DevicePresence"
  ps_byUser :: index
  ps_bus :: "Bus option"
  ps_published :: "string Event list"

definition presence_NewMemoryStore :: "Bus option \<Rightarrow> PresenceStore" where
  "presence_NewMemoryStore bus =
     \<lparr>ps_devices = Map.empty, ps_byUser = Map.empty, ps_bus = bus, ps_published = []\<rparr>"

definition userKey :: "string \<Rightarrow> string \<Rightarrow> string" where
  "userKey appID userID = join_key ''|'' appID userID"

text \<open>The answer of every operation whose context is over.\<close>

definition offline_presence :: "gotime \<Rightarrow> string \<Rightarrow> string \<Rightarrow> UserPresence" where
  "offline_presence now appID userID =
     \<lparr>up_UserID = userID, up_AppID = appID, up_Status = StatusOffline, up_Devices = [], up_UpdatedAt = now\<rparr>"

definition present_devices :: "PresenceStore \<Rightarrow> string list \<Rightarrow> DevicePresence list" where
  "present_devices s ids = List.map_filter (ps_devices s) ids"

definition latest :: "DevicePresence list \<Rightarrow> gotime" where
  "latest ds = fold (\<lambda>d updated. if dp_UpdatedAt d > updated then dp_UpdatedAt d else updated) ds 0"

definition aggregate :: "DevicePresence list \<Rightarrow> string" where
  "aggregate ds = fold (\<lambda>d agg. mergeStatus agg (dp_Status d)) ds StatusOffline"

definition snapshotLocked :: "gotime \<Rightarrow> string \<Rightarrow> string \<Rightarrow> PresenceStore \<Rightarrow> UserPresence" where
  "snapshotLocked now appID userID s =
     (let devices = present_devices s (index_get (ps_byUser s) (userKey appID userID));
          updated = latest devices
      in \<lparr>up_UserID = userID, up_AppID = appID, up_Status = aggregate devices, up_Devices = devices,
          up_UpdatedAt = (if IsZero updated then now else updated)\<rparr>)"

definition presence_update ::
    "gotime \<Rightarrow> string \<Rightarrow> string \<Rightarrow> string \<Rightarrow> string \<Rightarrow> string \<Rightarrow> PresenceStore \<Rightarrow>
     PresenceStore \<times> UserPresence" where
  "presence_update now appID userID deviceID status eventType s =
     (let s = s\<lparr>ps_devices := (ps_devices s)(deviceID \<mapsto>
                  \<lparr>dp_DeviceID = deviceID, dp_UserID = userID, dp_AppID = appID, dp_Status = status,
                    dp_UpdatedAt = now\<rparr>),
                ps_byUser := index_add (userKey appID userID) deviceID (ps_byUser s)\<rparr>;
          up = snapshotLocked now appID userID s
      in (case ps_bus s of
            None \<Rightarrow> s
          | Some _ \<Rightarrow>
              s\<lparr>ps_published := ps_published s @
                 [stamp_event now \<lparr>ev_Type = eventType, ev_AppID = appID, ev_UserID = userID,
                    ev_DeviceID = deviceID, ev_CallID = '''', ev_Timestamp = 0,
                    ev_Payload = [''status'' \<mapsto> up_Status up]\<rparr>]\<rparr>, up))"

definition SetStatus ::
    "ctx \<Rightarrow> gotime \<Rightarrow> string \<Rightarrow> string \<Rightarrow> string \<Rightarrow> string \<Rightarrow> PresenceStore \<Rightarrow>
     PresenceStore \<times> UserPresence" where
  "SetStatus ctx now appID userID deviceID status s =
     (if ctx \<noteq> None then (s, offline_presence now appID userID)
      else presence_update now appID userID deviceID status PresenceUpdated s)"

definition SetOnline ::
    "ctx \<Rightarrow> gotime \<Rightarrow> string \<Rightarrow> string \<Rightarrow> string \<Rightarrow> PresenceStore \<Rightarrow> PresenceStore \<times> UserPresence" where
  "SetOnline ctx now appID userID deviceID s =
     (if ctx \<noteq> None then (s, offline_presence now appID userID)
      else presence_update now appID userID deviceID StatusOnline PresenceOnline s)"

definition SetOffline ::
    "ctx \<Rightarrow> gotime \<Rightarrow> string \<Rightarrow> string \<Rightarrow> string \<Rightarrow> PresenceStore \<Rightarrow> PresenceStore \<times> UserPresence" where
  "SetOffline ctx now appID userID deviceID s =
     (if ctx \<noteq> None then (s, offline_presence now appID userID)
      else presence_update now appID userID deviceID StatusOffline PresenceOffline s)"

definition GetUser :: "ctx \<Rightarrow> gotime \<Rightarrow> string \<Rightarrow> string \<Rightarrow> PresenceStore \<Rightarrow> UserPresence" where
  "GetUser ctx now appID userID s =
     (if ctx \<noteq> None then offline_presence now appID userID else snapshotLocked now appID userID s)"

section \<open>The specification: a log of updates\<close>

record presence_entry =
  pe_now :: gotime
  pe_app :: string
  pe_user :: string
  pe_device :: string
  pe_status :: string
  pe_event :: string

definition run_entry :: "presence_entry \<Rightarrow> PresenceStore \<Rightarrow> PresenceStore" where
  "run_entry e s = fst (presence_update (pe_now e) (pe_app e) (pe_user e) (pe_device e) (pe_status e) (pe_event e) s)"

definition run_log :: "presence_entry list \<Rightarrow> PresenceStore \<Rightarrow> PresenceStore" where
  "run_log es s = fold run_entry es s"

definition entry_device :: "presence_entry \<Rightarrow> DevicePresence" where
  "entry_device e = \<lparr>dp_DeviceID = pe_device e, dp_UserID = pe_user e, dp_AppID = pe_app e,
     dp_Status = pe_status e, dp_UpdatedAt = pe_now e\<rparr>"

definition last_entry :: "presence_entry list \<Rightarrow> string \<Rightarrow> presence_entry option" where
  "last_entry es d = find (\<lambda>e. pe_device e = d) (rev es)"

text \<open>Every device is used by one user of one application.\<close>

definition one_owner :: "presence_entry list \<Rightarrow> bool" where
  "one_owner es \<longleftrightarrow> (\<forall>e \<in> set es. \<forall>f \<in> set es. pe_device e = pe_device f \<longrightarrow>
     userKey (pe_app e) (pe_user e) = userKey (pe_app f) (pe_user f))"

section \<open>Lemmas\<close>

lemma status_rank_range: "0 \<le> status_rank s" "status_rank s \<le> 4"
  by (simp_all add: status_rank_def)

lemma mergeStatus_rank: "status_rank (mergeStatus a b) = max (status_rank a) (status_rank b)"
  by (simp add: mergeStatus_def)

lemma aggregate_acc:
  defines "f \<equiv> \<lambda>d agg. mergeStatus agg (dp_Status d)"
  shows "status_rank (fold f ds a) = Max (insert (status_rank a) (status_rank ` dp_Status ` set ds))"
    and "fold f ds a \<in> insert a (dp_Status ` set ds)"
proof -
  show "status_rank (fold f ds a) = Max (insert (status_rank a) (status_rank ` dp_Status ` set ds))"
  proof (induction ds arbitrary: a)
    case (Cons d ds)
    have "Max (insert (max x y) S) = Max (insert x (insert y S))" if "finite S" for x y :: int and S
      using that by (cases "S = {}") (simp_all add: max.assoc)
    then show ?case using Cons.IH [of "f d a"] by (simp add: f_def mergeStatus_rank)
  qed simp
  show "fold f ds a \<in> insert a (dp_Status ` set ds)"
  proof (induction ds arbitrary: a)
    case (Cons d ds)
    show ?case using Cons.IH [of "f d a"] by (auto simp: f_def mergeStatus_def split: if_splits)
  qed simp
qed

lemma snapshot_fields [simp]:
  "up_Devices (snapshotLocked now app u s) = present_devices s (index_get (ps_byUser s) (userKey app u))"
  "up_Status (snapshotLocked now app u s) = aggregate (present_devices s (index_get (ps_byUser s) (userKey app u)))"
  by (simp_all add: snapshotLocked_def Let_def)

lemma set_present_devices: "set (present_devices s ids) = {d. \<exists>i \<in> set ids. ps_devices s i = Some d}"
  by (force simp: present_devices_def List.map_filter_def)

lemma run_entry_fields [simp]:
  "ps_devices (run_entry e s) = (ps_devices s)(pe_device e \<mapsto> entry_device e)"
  "ps_byUser (run_entry e s) = index_add (userKey (pe_app e) (pe_user e)) (pe_device e) (ps_byUser s)"
  by (simp_all add: run_entry_def presence_update_def entry_device_def Let_def split: option.splits)

lemma last_entry_snoc [simp]: "last_entry (es @ [e]) d = (if pe_device e = d then Some e else last_entry es d)"
  by (simp add: last_entry_def)

lemma run_log_snoc [simp]: "run_log (es @ [e]) s = run_entry e (run_log es s)"
  by (simp add: run_log_def)

lemma run_log_devices:
  "ps_devices (run_log es (presence_NewMemoryStore bus)) d = map_option entry_device (last_entry es d)"
  by (induction es rule: rev_induct) (auto simp: run_log_def presence_NewMemoryStore_def last_entry_def)

lemma run_log_index:
  "d \<in> set (index_get (ps_byUser (run_log es (presence_NewMemoryStore bus))) k) \<longleftrightarrow>
     (\<exists>e \<in> set es. pe_device e = d \<and> userKey (pe_app e) (pe_user e) = k)"
  by (induction es rule: rev_induct) (auto simp: run_log_def presence_NewMemoryStore_def)

lemma last_entryD: "last_entry es d = Some e \<Longrightarrow> e \<in> set es \<and> pe_device e = d"
  unfolding last_entry_def using find_SomeD by fastforce

lemma last_entry_None: "last_entry es d = None \<longleftrightarrow> (\<forall>e \<in> set es. pe_device e \<noteq> d)"
  by (simp add: last_entry_def find_eq_None_set)

section \<open>Properties\<close>


definition demo_log :: "presence_entry list" where
  "demo_log = [\<lparr>pe_now = 1, pe_app = ''app'', pe_user = ''u'', pe_device = ''d1'', pe_status = StatusOnline, pe_event = PresenceOnline\<rparr>,
     \<lparr>pe_now = 2, pe_app = ''app'', pe_user = ''u'', pe_device = ''d2'', pe_status = StatusInCall, pe_event = PresenceUpdated\<rparr>,
     \<lparr>pe_now = 3, pe_app = ''app'', pe_user = ''u'', pe_device = ''d2'', pe_status = StatusOffline, pe_event = PresenceOffline\<rparr>]"


text \<open>
  A device that signs in as another user stays in the first user's set, because an update never
  removes it from there: the first user goes on being reported with the other user's status and device.
\<close>

theorem presence_follows_device_to_other_user:
  "\<exists>s1 s2 up1 up2. SetOnline None 1 ''app'' ''alice'' ''d'' (presence_NewMemoryStore None) = (s1, up1) \<and>
     SetStatus None 2 ''app'' ''bob'' ''d'' StatusInCall s1 = (s2, up2) \<and>
     up_Status (GetUser None 3 ''app'' ''alice'' s2) = StatusInCall \<and>
     map dp_UserID (up_Devices (GetUser None 3 ''app'' ''alice'' s2)) = [''bob'']"
  by (simp add: SetOnline_def SetStatus_def presence_update_def presence_NewMemoryStore_def GetUser_def snapshotLocked_def
      present_devices_def aggregate_def mergeStatus_def status_rank_def userKey_def join_key_def List.map_filter_def
      index_add_def index_get_def Let_def)

end
