(* ===== verification/Auth.thy ===== *)
theory Auth
  imports Domain
begin

text \<open>
  The package \<open>internal/auth\<close>: user and call tokens (\<open>jwt.go\<close>) and the HTTP middleware
  (\<open>auth.go\<close>). The JWT library is outside the repository: its parser, called with the one
  allowed method HS256 and the validator's secret, and its signer are the parameter \<open>JwtLib\<close>,
  and \<open>jwt_ok\<close> states what its documentation promises of a token it signed.
\<close>

section \<open>Tokens (auth/jwt.go)\<close>

text \<open>The claims set of a token: the registered claims the code uses and the private string claims.\<close>

record Claims =
  cl_Subject :: string
  cl_Issuer :: string
  cl_IssuedAt :: "gotime option"
  cl_ExpiresAt :: "gotime option"
  cl_private :: "(string \<times> string) list"

text \<open>\<open>parse secret now token\<close> and \<open>sign secret claims\<close>.\<close>

record JwtLib =
  jl_parse :: "string \<Rightarrow> gotime \<Rightarrow> string \<Rightarrow> error + Claims"
  jl_sign :: "string \<Rightarrow> Claims \<Rightarrow> error + string"

definition jwt_ok :: "JwtLib \<Rightarrow> bool" where
  "jwt_ok lib \<longleftrightarrow> (\<forall>k c t now. jl_sign lib k c = Inr t \<longrightarrow> t \<noteq> '''' \<and>
     ((case cl_ExpiresAt c of None \<Rightarrow> True | Some e \<Rightarrow> now < e) \<longrightarrow> jl_parse lib k now t = Inr c))"

definition private_claim :: "Claims \<Rightarrow> string \<Rightarrow> string" where
  "private_claim c k = (case map_of (cl_private c) k of None \<Rightarrow> '''' | Some v \<Rightarrow> v)"

record UserClaims =
  uc_App :: string
  uc_DeviceID :: string
  uc_Subject :: string
  uc_Issuer :: string

definition user_claims :: "Claims \<Rightarrow> UserClaims" where
  "user_claims c = \<lparr>uc_App = private_claim c ''app'', uc_DeviceID = private_claim c ''device_id'',
     uc_Subject = cl_Subject c, uc_Issuer = cl_Issuer c\<rparr>"

record JWTValidator =
  jv_secret :: string
  jv_issuer :: string

definition NewJWTValidator :: "string \<Rightarrow> string \<Rightarrow> JWTValidator" where
  "NewJWTValidator secret issuer = \<lparr>jv_secret = secret, jv_issuer = issuer\<rparr>"

definition Validate :: "JwtLib \<Rightarrow> JWTValidator \<Rightarrow> gotime \<Rightarrow> string \<Rightarrow> error + UserClaims" where
  "Validate lib v now tokenString =
     (if tokenString = '''' then Inl (Other ''empty token'')
      else case jl_parse lib (jv_secret v) now tokenString of
             Inl err \<Rightarrow> Inl err
           | Inr c \<Rightarrow>
               (let claims = user_claims c
                in if uc_Subject claims = '''' then Inl (Other ''missing sub'')
                   else if jv_issuer v \<noteq> '''' \<and> uc_Issuer claims \<noteq> '''' \<and> uc_Issuer claims \<noteq> jv_issuer v
                   then Inl (Other ''invalid issuer'')
                   else Inr claims))"

text \<open>\<open>jwt.NewNumericDate\<close> keeps whole seconds; an empty optional claim is left out.\<close>

definition NewNumericDate :: "gotime \<Rightarrow> gotime" where
  "NewNumericDate t = t - t mod Second"

definition IssueDevToken ::
    "JwtLib \<Rightarrow> JWTValidator \<Rightarrow> gotime \<Rightarrow> string \<Rightarrow> string \<Rightarrow> string \<Rightarrow> duration \<Rightarrow> error + string" where
  "IssueDevToken lib v now userID appID deviceID ttl =
     jl_sign lib (jv_secret v)
       \<lparr>cl_Subject = userID, cl_Issuer = jv_issuer v, cl_IssuedAt = Some (NewNumericDate now),
         cl_ExpiresAt = Some (NewNumericDate (now + ttl)),
         cl_private = (''app'', appID) # (if deviceID = '''' then [] else [(''device_id'', deviceID)])\<rparr>"

record CallClaims =
  cc_CallID :: string
  cc_UserID :: string
  cc_RoomID :: string
  cc_Role :: string
  cc_App :: string

definition call_claims :: "Claims \<Rightarrow> CallClaims" where
  "call_claims c = \<lparr>cc_CallID = private_claim c ''call_id'', cc_UserID = private_claim c ''user_id'',
     cc_RoomID = private_claim c ''room_id'', cc_Role = private_claim c ''role'', cc_App = private_claim c ''app''\<rparr>"

definition IssueCallToken ::
    "JwtLib \<Rightarrow> JWTValidator \<Rightarrow> gotime \<Rightarrow> string \<Rightarrow> string \<Rightarrow> string \<Rightarrow> string \<Rightarrow> string \<Rightarrow> duration \<Rightarrow>
     error + string" where
  "IssueCallToken lib v now callID userID roomID role appID ttl =
     jl_sign lib (jv_secret v)
       \<lparr>cl_Subject = userID, cl_Issuer = jv_issuer v, cl_IssuedAt = Some (NewNumericDate now),
         cl_ExpiresAt = Some (NewNumericDate (now + ttl)),
         cl_private = [(''call_id'', callID), (''user_id'', userID), (''room_id'', roomID), (''role'', role),
           (''app'', appID)]\<rparr>"

definition ValidateCallToken :: "JwtLib \<Rightarrow> JWTValidator \<Rightarrow> gotime \<Rightarrow> string \<Rightarrow> error + CallClaims" where
  "ValidateCallToken lib v now tokenString =
     (case jl_parse lib (jv_secret v) now tokenString of
        Inl err \<Rightarrow> Inl err
      | Inr c \<Rightarrow>
          (let claims = call_claims c
           in if cc_CallID claims = '''' \<or> cc_UserID claims = '''' then Inl (Other ''incomplete call token'')
              else Inr claims))"

section \<open>The middleware (auth/auth.go)\<close>

abbreviation AuthKindService :: string where "AuthKindService \<equiv> ''service''"
abbreviation AuthKindUser :: string where "AuthKindUser \<equiv> ''user''"

text \<open>The values the middleware puts into the request context; an absent key reads as empty.\<close>

record AuthContext =
  ac_app :: string
  ac_user :: string
  ac_device :: string
  ac_kind :: string

definition NoAuth :: AuthContext where
  "NoAuth = \<lparr>ac_app = '''', ac_user = '''', ac_device = '''', ac_kind = ''''\<rparr>"

record Authenticator =
  at_tokens :: "string \<rightharpoonup> string"
  at_jwt :: "JWTValidator option"

definition auth_New :: "(string \<rightharpoonup> string) \<Rightarrow> Authenticator" where
  "auth_New tokens = \<lparr>at_tokens = tokens, at_jwt = None\<rparr>"

definition WithJWT :: "JWTValidator \<Rightarrow> Authenticator \<Rightarrow> Authenticator" where
  "WithJWT v a = a\<lparr>at_jwt := Some v\<rparr>"

text \<open>\<open>strings.HasPrefix\<close>, \<open>strings.TrimPrefix\<close>, and \<open>strings.TrimSpace\<close> on ASCII text.\<close>

definition HasPrefix :: "string \<Rightarrow> string \<Rightarrow> bool" where
  "HasPrefix s p \<longleftrightarrow> take (length p) s = p"

definition TrimPrefix :: "string \<Rightarrow> string \<Rightarrow> string" where
  "TrimPrefix s p = (if HasPrefix s p then drop (length p) s else s)"

definition is_space :: "char \<Rightarrow> bool" where
  "is_space c \<longleftrightarrow> of_char c \<in> {9 :: nat, 10, 11, 12, 13, 32}"

definition TrimSpace :: "string \<Rightarrow> string" where
  "TrimSpace s = rev (dropWhile is_space (rev (dropWhile is_space s)))"

definition open_path :: "string \<Rightarrow> bool" where
  "open_path path \<longleftrightarrow> path = ''/health'' \<or> path = ''/ready'' \<or> path = ''/metrics'' \<or> path = ''/ws''"

definition bearer_token :: "string \<Rightarrow> string" where
  "bearer_token authHeader = TrimSpace (TrimPrefix authHeader ''Bearer '')"

text \<open>\<open>None\<close> is the 401 answer, \<open>Some ctx\<close> the call of the next handler with that context.\<close>

definition Middleware ::
    "JwtLib \<Rightarrow> Authenticator \<Rightarrow> gotime \<Rightarrow> string \<Rightarrow> string \<Rightarrow> AuthContext option" where
  "Middleware lib a now path authHeader =
     (if open_path path then Some NoAuth
      else if \<not> HasPrefix authHeader ''Bearer '' then None
      else
        (let token = bearer_token authHeader;
             service = (case at_tokens a token of None \<Rightarrow> '''' | Some appID \<Rightarrow> appID)
         in if service \<noteq> '''' then Some (NoAuth\<lparr>ac_app := service, ac_kind := AuthKindService\<rparr>)
            else case at_jwt a of
                   None \<Rightarrow> None
                 | Some v \<Rightarrow>
                     (case Validate lib v now token of
                        Inl _ \<Rightarrow> None
                      | Inr claims \<Rightarrow>
                          if uc_App claims = '''' then None
                          else Some \<lparr>ac_app = uc_App claims, ac_user = uc_Subject claims,
                                 ac_device = uc_DeviceID claims, ac_kind = AuthKindUser\<rparr>)))"

definition RequireAppID :: "AuthContext \<Rightarrow> error + string" where
  "RequireAppID ctx = (if ac_app ctx = '''' then Inl (Unauthorized ''missing app context'') else Inr (ac_app ctx))"

definition RequireUserID :: "AuthContext \<Rightarrow> string \<Rightarrow> error + string" where
  "RequireUserID ctx bodyUserID =
     (if ac_user ctx \<noteq> '''' then Inr (ac_user ctx)
      else if bodyUserID \<noteq> '''' then Inr bodyUserID
      else Inl (Unauthorized ''missing user_id''))"

section \<open>Properties\<close>

lemma jwt_okD:
  assumes "jwt_ok lib" "jl_sign lib k c = Inr t" "cl_ExpiresAt c = Some e" "now < e"
  shows "t \<noteq> ''''" "jl_parse lib k now t = Inr c"
  using assms unfolding jwt_ok_def by fastforce+

text \<open>
  A call token read back before it expires names exactly the call, user, room, role and
  application it was issued for.
\<close>

theorem call_token_roundtrip:
  assumes "jwt_ok lib" "IssueCallToken lib v now callID userID roomID role appID ttl = Inr t"
    and "callID \<noteq> []" "userID \<noteq> []" "later < NewNumericDate (now + ttl)"
  shows "ValidateCallToken lib v later t =
    Inr \<lparr>cc_CallID = callID, cc_UserID = userID, cc_RoomID = roomID, cc_Role = role, cc_App = appID\<rparr>"
  using assms(3,4) jwt_okD [OF assms(1) assms(2) [unfolded IssueCallToken_def], of "NewNumericDate (now + ttl)" later] assms(5)
  by (simp add: ValidateCallToken_def call_claims_def private_claim_def)

definition demo_claims :: Claims where
  "demo_claims = \<lparr>cl_Subject = ''u'', cl_Issuer = [], cl_IssuedAt = Some 0, cl_ExpiresAt = Some (60 * Second),
     cl_private = [(''call_id'', ''c''), (''user_id'', ''u''), (''room_id'', ''r''), (''role'', ''caller''), (''app'', ''app'')]\<rparr>"

text \<open>A library that signs one claims set.\<close>

definition demo_lib :: JwtLib where
  "demo_lib =
     \<lparr>jl_parse = (\<lambda>k now t. if t = ''tok'' \<and> now < 60 * Second then Inr demo_claims else Inl (Other ''token is invalid'')),
       jl_sign = (\<lambda>k c. if c = demo_claims then Inr ''tok'' else Inl (Other ''unsupported''))\<rparr>"

definition demo_validator :: JWTValidator where
  "demo_validator = NewJWTValidator ''secret'' []"

lemma demo_lib_ok: "jwt_ok demo_lib"
  by (auto simp: jwt_ok_def demo_lib_def demo_claims_def)

lemma demo_token: "IssueCallToken demo_lib demo_validator 0 ''c'' ''u'' ''r'' ''caller'' ''app'' (60 * Second) = Inr ''tok''"
  by (simp add: IssueCallToken_def demo_lib_def demo_claims_def demo_validator_def NewJWTValidator_def NewNumericDate_def)

theorem call_token_roundtrip_witness:
  "ValidateCallToken demo_lib demo_validator Second ''tok'' =
     Inr \<lparr>cc_CallID = ''c'', cc_UserID = ''u'', cc_RoomID = ''r'', cc_Role = ''caller'', cc_App = ''app''\<rparr>"
  using call_token_roundtrip [OF demo_lib_ok demo_token] by (simp add: NewNumericDate_def)

text \<open>
  Call tokens and user tokens are signed with the same secret and nothing in the claims tells them
  apart: a call token handed to a media client authenticates API requests as its user until it expires.
\<close>

theorem call_token_authenticates_user:
  assumes "jwt_ok lib" "IssueCallToken lib v now callID userID roomID role appID ttl = Inr t"
    and "userID \<noteq> []" "appID \<noteq> []" "later < NewNumericDate (now + ttl)"
    and "\<not> open_path path" "at_tokens a t = None" "at_jwt a = Some v" "TrimSpace t = t"
  shows "Middleware lib a later path (''Bearer '' @ t) =
    Some \<lparr>ac_app = appID, ac_user = userID, ac_device = [], ac_kind = AuthKindUser\<rparr>"
proof -
  note p = jwt_okD [OF assms(1) assms(2) [unfolded IssueCallToken_def], of "NewNumericDate (now + ttl)" later, simplified]
  have "Validate lib v later t = Inr \<lparr>uc_App = appID, uc_DeviceID = [], uc_Subject = userID, uc_Issuer = jv_issuer v\<rparr>"
    using p assms(3,5) by (simp add: Validate_def user_claims_def private_claim_def)
  moreover have "bearer_token (''Bearer '' @ t) = t" "HasPrefix (''Bearer '' @ t) ''Bearer ''"
    using assms(9) by (simp_all add: bearer_token_def TrimPrefix_def HasPrefix_def)
  ultimately show ?thesis using assms(4,6,7,8) by (simp add: Middleware_def Let_def)
qed

theorem call_token_authenticates_user_witness:
  "Middleware demo_lib (WithJWT demo_validator (auth_New Map.empty)) Second ''/api/v1/messages'' (''Bearer '' @ ''tok'') =
     Some \<lparr>ac_app = ''app'', ac_user = ''u'', ac_device = [], ac_kind = AuthKindUser\<rparr>"
  by (rule call_token_authenticates_user [OF demo_lib_ok demo_token])
    (simp_all add: NewNumericDate_def open_path_def WithJWT_def auth_New_def TrimSpace_def is_space_def)

text \<open>
  C22. No request reaches a handler unauthenticated: on every path but the four open ones, a handler
  runs only with a service token the server was configured with, acting for its application, or
  with a token the JWT library accepted under the validator's secret, naming its subject and
  application, from the validator's issuer or from none.
\<close>

theorem Middleware_authenticates:
  assumes "Middleware lib a now path authHeader = Some ctx" "\<not> open_path path"
  shows "ac_app ctx \<noteq> [] \<and>
    (ac_kind ctx = AuthKindService \<and> at_tokens a (bearer_token authHeader) = Some (ac_app ctx) \<and> ac_user ctx = [] \<or>
     ac_kind ctx = AuthKindUser \<and> ac_user ctx \<noteq> [] \<and>
     (\<exists>v c. at_jwt a = Some v \<and> jl_parse lib (jv_secret v) now (bearer_token authHeader) = Inr c \<and>
        ac_user ctx = cl_Subject c \<and> ac_app ctx = private_claim c ''app'' \<and> ac_device ctx = private_claim c ''device_id'' \<and>
        (jv_issuer v = [] \<or> cl_Issuer c = [] \<or> cl_Issuer c = jv_issuer v)))"
  using assms
  by (auto simp: Middleware_def Validate_def user_claims_def NoAuth_def Let_def split: if_splits option.splits sum.splits)

theorem Middleware_authenticates_witness:
  "\<exists>ctx. Middleware demo_lib (auth_New [''svc'' \<mapsto> ''app'']) 0 ''/v1/messages'' ''Bearer svc'' = Some ctx \<and> ac_app ctx \<noteq> [] \<and>
     ac_kind ctx = AuthKindService"
proof -
  have "Middleware demo_lib (auth_New [''svc'' \<mapsto> ''app'']) 0 ''/v1/messages'' ''Bearer svc'' =
      Some (NoAuth\<lparr>ac_app := ''app'', ac_kind := AuthKindService\<rparr>)"
    by (simp add: Middleware_def auth_New_def open_path_def HasPrefix_def bearer_token_def TrimPrefix_def TrimSpace_def
        is_space_def Let_def)
  from Middleware_authenticates [OF this] this show ?thesis by (simp add: open_path_def)
qed

end
