(* ===== verification/Orchestrator.thy ===== *)
theory Orchestrator
  imports CallRuntime Auth
begin

text \<open>
  The SFU service with its stub provider (\<open>internal/sfu/service.go\<close>) and the orchestrator
  (\<open>internal/call/orchestrator.go\<close>), which puts authorization, room creation and tokens
  around the call runtime. An SFU provider and the Phoenix authorizer are interfaces: records of
  functions that may fail. What a provider does to its rooms is outside the process.
\<close>

section \<open>The SFU service (sfu/service.go)\<close>

record RoomInfo =
  ri_RoomID :: string
  ri_URL :: string
  ri_Token :: string
  ri_Transport :: string

record SfuProvider =
  sp_CreateRoom :: "ctx \<Rightarrow> string \<Rightarrow> error option"
  sp_DeleteRoom :: "ctx \<Rightarrow> string \<Rightarrow> error option"
  sp_JoinToken :: "ctx \<Rightarrow> string \<Rightarrow> string \<Rightarrow> string \<Rightarrow> duration \<Rightarrow> error + string"
  sp_URL :: string

definition stub_JoinToken :: "ctx \<Rightarrow> string \<Rightarrow> string \<Rightarrow> string \<Rightarrow> duration \<Rightarrow> error + string" where
  "stub_JoinToken ctx roomID userID role ttl = Inr (''stub.'' @ roomID @ ''.'' @ userID @ ''.'' @ role)"

definition NewStub :: "string \<Rightarrow> SfuProvider" where
  "NewStub url =
     \<lparr>sp_CreateRoom = (\<lambda>_ _. None), sp_DeleteRoom = (\<lambda>_ _. None), sp_JoinToken = stub_JoinToken,
       sp_URL = (if url = '''' then ''sfu://stub'' else url)\<rparr>"

record ICEServer =
  ice_URLs :: "string list"
  ice_Username :: string
  ice_Credential :: string

record SfuService =
  ss_provider :: SfuProvider
  ss_iceServers :: "ICEServer list"

definition sfu_NewService :: "SfuProvider \<Rightarrow> ICEServer list \<Rightarrow> SfuService" where
  "sfu_NewService provider ice = \<lparr>ss_provider = provider, ss_iceServers = ice\<rparr>"

definition ICEConfig :: "SfuService \<Rightarrow> ICEServer list" where
  "ICEConfig s = ss_iceServers s"

definition EnsureRoom :: "SfuService \<Rightarrow> ctx \<Rightarrow> string \<Rightarrow> error option" where
  "EnsureRoom s ctx roomID = sp_CreateRoom (ss_provider s) ctx roomID"

definition sfu_Join ::
    "SfuService \<Rightarrow> ctx \<Rightarrow> string \<Rightarrow> string \<Rightarrow> string \<Rightarrow> duration \<Rightarrow> error + RoomInfo" where
  "sfu_Join s ctx roomID userID role ttl =
     (case sp_CreateRoom (ss_provider s) ctx roomID of
        Some err \<Rightarrow> Inl err
      | None \<Rightarrow>
          (case sp_JoinToken (ss_provider s) ctx roomID userID role ttl of
             Inl err \<Rightarrow> Inl err
           | Inr tok \<Rightarrow>
               Inr \<lparr>ri_RoomID = roomID, ri_URL = sp_URL (ss_provider s), ri_Token = tok,
                     ri_Transport = ''sfu''\<rparr>))"

definition P2PRoom :: "string \<Rightarrow> RoomInfo" where
  "P2PRoom roomID = \<lparr>ri_RoomID = roomID, ri_URL = '''', ri_Token = '''', ri_Transport = ''p2p''\<rparr>"

section \<open>The orchestrator (call/orchestrator.go)\<close>

text \<open>
  The runtime's state is threaded through the operations beside the orchestrator, whose fields never
  change; \<open>or_Authz\<close> and \<open>or_SFU\<close> may be nil.
\<close>

record Orchestrator =
  or_Authz :: "(ctx \<Rightarrow> string \<Rightarrow> string \<Rightarrow> string list \<Rightarrow> error option) option"
  or_SFU :: "SfuService option"
  or_JWT :: JWTValidator
  or_TokenTTL :: duration
  or_ICEServers :: "ICEServer list"

record TokenResult =
  tr_CallID :: string
  tr_RoomID :: string
  tr_Token :: string
  tr_Transport :: string
  tr_SFUURL :: string
  tr_ICEServers :: "ICEServer list"
  tr_Role :: string
  tr_ExpiresIn :: int

record ResumeResult =
  rr_CallID :: string
  rr_State :: CallState
  rr_Participants :: "Participant list"
  rr_Room :: "string \<rightharpoonup> string"
  rr_Call :: Call
  rr_Token :: "TokenResult option"
  rr_ICEServers :: "ICEServer list"

definition orch_Create ::
    "'s Store \<Rightarrow> Orchestrator \<Rightarrow> ctx \<Rightarrow> gotime \<Rightarrow> string \<Rightarrow> string \<Rightarrow> CreateInput \<Rightarrow> 's Service \<Rightarrow>
     's Service \<times> (error + Call)" where
  "orch_Create st o1 ctx now newID1 newID2 inp s =
     (case (case or_Authz o1 of
              None \<Rightarrow> None
            | Some CanUserCall \<Rightarrow> CanUserCall ctx (in_AppID inp) (in_CallerID inp) (in_CalleeIDs inp)) of
        Some err \<Rightarrow> (s, Inl (Forbidden (''not allowed: '' @ Error err)))
      | None \<Rightarrow>
          (case Create st ctx now newID1 newID2 inp s of
             (s, Inl err) \<Rightarrow> (s, Inl err)
           | (s, Inr c) \<Rightarrow>
               (case or_SFU o1 of
                  None \<Rightarrow> (s, Inr c)
                | Some sfu \<Rightarrow>
                    if c_Transport c = TransportSFU
                    then (case EnsureRoom sfu ctx (c_RoomID c) of
                            None \<Rightarrow> (s, Inr c)
                          | Some _ \<Rightarrow>
                              (fst (Fail st ctx now (c_ID c) ''sfu_room_failed'' s),
                               Inl (Internal ''sfu room create failed'')))
                    else (s, Inr c))))"

definition token_ttl :: "Orchestrator \<Rightarrow> duration" where
  "token_ttl o1 = (if or_TokenTTL o1 \<le> 0 then 5 * Minute else or_TokenTTL o1)"

definition token_role :: "Participant \<Rightarrow> string" where
  "token_role p = (if p_Role p \<noteq> '''' then p_Role p else ''publisher'')"

text \<open>Joining a room without an SFU service dereferences nil.\<close>

definition nil_pointer :: error where
  "nil_pointer = Other ''runtime error: invalid memory address or nil pointer dereference''"

definition IssueToken ::
    "'s Store \<Rightarrow> JwtLib \<Rightarrow> Orchestrator \<Rightarrow> ctx \<Rightarrow> gotime \<Rightarrow> string \<Rightarrow> string \<Rightarrow> 's Service \<Rightarrow>
     error + TokenResult" where
  "IssueToken st lib o1 ctx now callID userID s =
     (case Get st ctx callID s of
        Inl err \<Rightarrow> Inl err
      | Inr c \<Rightarrow>
          (case FindParticipant userID c of
             None \<Rightarrow> Inl (Forbidden ''not a participant'')
           | Some p \<Rightarrow>
               (let role = token_role p;
                    ttl = token_ttl o1;
                    result = \<lparr>tr_CallID = c_ID c, tr_RoomID = c_RoomID c, tr_Token = '''',
                      tr_Transport = c_Transport c, tr_SFUURL = '''', tr_ICEServers = [], tr_Role = role,
                      tr_ExpiresIn = whole_seconds ttl\<rparr>
                in if c_Transport c = TransportSFU
                   then (case or_SFU o1 of
                           None \<Rightarrow> Inl nil_pointer
                         | Some sfu \<Rightarrow>
                             (case sfu_Join sfu ctx (c_RoomID c) userID role ttl of
                                Inl _ \<Rightarrow> Inl (Internal ''sfu token failed'')
                              | Inr info \<Rightarrow> Inr (result\<lparr>tr_Token := ri_Token info, tr_SFUURL := ri_URL info\<rparr>)))
                   else (case IssueCallToken lib (or_JWT o1) now (c_ID c) userID (c_RoomID c) role (c_AppID c) ttl of
                           Inl _ \<Rightarrow> Inl (Internal ''call token failed'')
                         | Inr tok \<Rightarrow> Inr (result\<lparr>tr_Token := tok, tr_ICEServers := or_ICEServers o1\<rparr>)))))"

definition resume_result :: "Orchestrator \<Rightarrow> Call \<Rightarrow> ResumeResult" where
  "resume_result o1 c =
     \<lparr>rr_CallID = c_ID c, rr_State = c_State c, rr_Participants = c_Participants c,
       rr_Room = [''room_id'' \<mapsto> c_RoomID c, ''transport'' \<mapsto> c_Transport c], rr_Call = c,
       rr_Token = None, rr_ICEServers = or_ICEServers o1\<rparr>"

definition ResumeFull ::
    "'s Store \<Rightarrow> JwtLib \<Rightarrow> Orchestrator \<Rightarrow> ctx \<Rightarrow> gotime \<Rightarrow> string \<Rightarrow> string \<Rightarrow> string \<Rightarrow> 's Service \<Rightarrow>
     's Service \<times> (error + ResumeResult)" where
  "ResumeFull st lib o1 ctx now callID userID deviceID s =
     (case Resume st ctx callID userID deviceID s of
        (s, Inl err) \<Rightarrow> (s, Inl err)
      | (s, Inr c) \<Rightarrow>
          (let result = resume_result o1 c
           in if IsTerminal c then (s, Inr result)
              else case IssueToken st lib o1 ctx now callID userID s of
                     Inl _ \<Rightarrow> (s, Inr result)
                   | Inr tok \<Rightarrow>
                       (s, Inr (result\<lparr>rr_Token := Some tok,
                          rr_Room := (if tr_SFUURL tok \<noteq> '''' then (rr_Room result)(''sfu_url'' \<mapsto> tr_SFUURL tok)
                                      else rr_Room result),
                          rr_ICEServers := (if tr_ICEServers tok \<noteq> [] then tr_ICEServers tok
                                            else rr_ICEServers result)\<rparr>))))"

text \<open>
  The remaining operations hand over to the runtime: \<open>Accept\<close>, \<open>Reject\<close>, \<open>Cancel\<close>,
  \<open>Join\<close>, \<open>Leave\<close>, \<open>Hangup\<close>, \<open>Resume\<close>, \<open>ListActiveForUser\<close>,
  \<open>MarkConnected\<close> and \<open>Get\<close> are those of the theory \<open>CallService\<close>.
\<close>

section \<open>Properties\<close>

lemma Create_cases:
  assumes "Create memory_store ctx now id1 id2 inp s = (s', r)"
  shows "(\<exists>e. r = Inl e \<and> ms_calls (sv_store s') = ms_calls (sv_store s)) \<or>
    ctx = None \<and> create_check inp = None \<and> r = Inr (new_call now (''call_'' @ id1) (''room_'' @ id2) inp) \<and>
    ms_calls (sv_store s') = (ms_calls (sv_store s))(''call_'' @ id1 \<mapsto> new_call now (''call_'' @ id1) (''room_'' @ id2) inp)"
  using assms
  by (cases ctx; cases "create_check inp")
    (auto simp: Create_def memory_store_def mem_Put_def new_call_def Let_def)

lemma Fail_store:
  assumes "ms_calls (sv_store s) cid = Some c" "\<not> IsTerminal c"
  shows "ms_calls (sv_store (fst (Fail memory_store None now cid reason s))) =
    (ms_calls (sv_store s))(cid \<mapsto> c\<lparr>c_State := StateFailed, c_EndedAt := Some now, c_Reason := reason\<rparr>)"
  using assms by (simp add: Fail_def run_update_def memory_store_def mem_Update_def fail_fn_def)

lemma orch_Create_result:
  assumes "orch_Create memory_store o1 ctx now id1 id2 inp s = (s', r)"
  defines "c \<equiv> new_call now (''call_'' @ id1) (''room_'' @ id2) inp"
  shows "case r of
      Inr c' \<Rightarrow> c' = c \<and> ms_calls (sv_store s') = (ms_calls (sv_store s))(c_ID c \<mapsto> c) \<and> c_State c = StateRinging \<and>
        (case or_Authz o1 of None \<Rightarrow> True | Some CanUserCall \<Rightarrow>
           CanUserCall ctx (in_AppID inp) (in_CallerID inp) (in_CalleeIDs inp) = None) \<and>
        (case or_SFU o1 of None \<Rightarrow> True | Some sfu \<Rightarrow>
           c_Mode c = ModeGroup \<longrightarrow> sp_CreateRoom (ss_provider sfu) ctx (c_RoomID c) = None)
    | Inl e \<Rightarrow> ms_calls (sv_store s') = ms_calls (sv_store s) \<or>
        e = Internal ''sfu room create failed'' \<and> ms_calls (sv_store s') = (ms_calls (sv_store s))(c_ID c \<mapsto>
          c\<lparr>c_State := StateFailed, c_EndedAt := Some now, c_Reason := ''sfu_room_failed''\<rparr>)"
proof -
  obtain s1 r1 where C: "Create memory_store ctx now id1 id2 inp s = (s1, r1)" by fastforce
  have c: "c_ID c = ''call_'' @ id1" "c_State c = StateRinging" "c_Transport c = TransportSFU \<longleftrightarrow> c_Mode c = ModeGroup"
    "\<not> IsTerminal c" by (simp_all add: c_def new_call_def IsTerminal_def)
  show ?thesis
  proof (cases r1)
    case (Inl e)
    then show ?thesis
      using Create_cases [OF C] assms(1) C by (auto simp: orch_Create_def split: option.splits)
  next
    case (Inr c')
    with Create_cases [OF C] have C1: "ctx = None" "c' = c" "ms_calls (sv_store s1) = (ms_calls (sv_store s))(c_ID c \<mapsto> c)"
      by (auto simp: c_def new_call_def)
    have "ms_calls (sv_store (fst (Fail memory_store None now (c_ID c) ''sfu_room_failed'' s1))) =
        (ms_calls (sv_store s))(c_ID c \<mapsto> c\<lparr>c_State := StateFailed, c_EndedAt := Some now, c_Reason := ''sfu_room_failed''\<rparr>)"
      using Fail_store [of s1 "c_ID c" c] C1(3) c(4) by simp
    then show ?thesis
      using assms(1) C Inr C1 c by (auto simp: orch_Create_def EnsureRoom_def split: option.splits if_splits)
  qed
qed

text \<open>
  What the orchestrator's create leaves behind on the in-process store. When it succeeds, the
  authorizer allowed the call, the call is stored ringing, and a group call has its room. When the room
  cannot be created the caller gets an error and the stored call is failed, not ringing. In
  every other error case the store is untouched. Other calls are never touched.
\<close>

theorem orch_Create_effect:
  assumes "orch_Create memory_store o1 ctx now id1 id2 inp s = (s', r)"
  defines "c \<equiv> new_call now (''call_'' @ id1) (''room_'' @ id2) inp"
  shows "case r of
      Inr c' \<Rightarrow> c' = c \<and> ms_calls (sv_store s') = (ms_calls (sv_store s))(c_ID c \<mapsto> c) \<and> c_State c = StateRinging \<and>
        (case or_Authz o1 of None \<Rightarrow> True | Some CanUserCall \<Rightarrow>
           CanUserCall ctx (in_AppID inp) (in_CallerID inp) (in_CalleeIDs inp) = None) \<and>
        (case or_SFU o1 of None \<Rightarrow> True | Some sfu \<Rightarrow>
           c_Mode c = ModeGroup \<longrightarrow> sp_CreateRoom (ss_provider sfu) ctx (c_RoomID c) = None)
    | Inl e \<Rightarrow> ms_calls (sv_store s') = ms_calls (sv_store s) \<or>
        e = Internal ''sfu room create failed'' \<and> ms_calls (sv_store s') = (ms_calls (sv_store s))(c_ID c \<mapsto>
          c\<lparr>c_State := StateFailed, c_EndedAt := Some now, c_Reason := ''sfu_room_failed''\<rparr>)"
  unfolding c_def by (rule orch_Create_result [OF assms(1)])

definition demo_orchestrator :: Orchestrator where
  "demo_orchestrator = \<lparr>or_Authz = None,
     or_SFU = Some (sfu_NewService ((NewStub '''')\<lparr>sp_CreateRoom := (\<lambda>_ _. Some (Other ''down''))\<rparr>) []),
     or_JWT = demo_validator, or_TokenTTL = Minute, or_ICEServers = []\<rparr>"

definition demo_create :: "string \<Rightarrow> CreateInput" where
  "demo_create mode = \<lparr>in_AppID = ''app'', in_CallerID = ''u'', in_CallerDevice = ''d'', in_CalleeIDs = [''v''],
     in_Type = [], in_Mode = mode, in_CallerName = []\<rparr>"

theorem orch_Create_effect_witness:
  "\<exists>s' c. orch_Create memory_store (demo_orchestrator\<lparr>or_SFU := Some (sfu_NewService (NewStub []) [])\<rparr>) None 1 ''1'' ''2''
       (demo_create ModeGroup) (NewService NewMemoryStore None 0) = (s', Inr c) \<and>
     ms_calls (sv_store s') = [''call_1'' \<mapsto> c] \<and> c_State c = StateRinging"
proof -
  let ?o = "demo_orchestrator\<lparr>or_SFU := Some (sfu_NewService (NewStub []) [])\<rparr>"
  let ?s = "NewService NewMemoryStore None 0"
  let ?c = "new_call 1 (''call_'' @ ''1'') (''room_'' @ ''2'') (demo_create ModeGroup)"
  obtain s' r where O: "orch_Create memory_store ?o None 1 ''1'' ''2'' (demo_create ModeGroup) ?s = (s', r)" by fastforce
  have c: "create_check (demo_create ModeGroup) = None" "c_ID ?c = ''call_1''"
    by (simp_all add: create_check_def demo_create_def create_type_def create_mode_def new_call_def)
  obtain s1 where "Create memory_store None 1 ''1'' ''2'' (demo_create ModeGroup) ?s = (s1, Inr ?c)"
    using c by (simp add: Create_def memory_store_def mem_Put_def Let_def)
  then have "r = Inr ?c"
    using O by (auto simp: orch_Create_def demo_orchestrator_def sfu_NewService_def EnsureRoom_def NewStub_def split: if_splits)
  then show ?thesis using orch_Create_effect [OF O] O c by (simp add: NewService_def NewMemoryStore_def)
qed

text \<open>
  A token is issued only to a participant of the call, for the call's room and with the
  participant's role; on a peer-to-peer call the token, read back before the announced time is
  over, names exactly that call, user, room, role and application.
\<close>

theorem IssueToken_names_participant:
  assumes "IssueToken st lib o1 ctx now callID userID s = Inr tr"
  shows "\<exists>c p. Get st ctx callID s = Inr c \<and> FindParticipant userID c = Some p \<and>
    tr_CallID tr = c_ID c \<and> tr_RoomID tr = c_RoomID c \<and> tr_Role tr = token_role p \<and> tr_ExpiresIn tr = whole_seconds (token_ttl o1) \<and>
    (c_Transport c \<noteq> TransportSFU \<and> jwt_ok lib \<and> c_ID c \<noteq> [] \<and> userID \<noteq> [] \<and> later < NewNumericDate (now + token_ttl o1) \<longrightarrow>
       ValidateCallToken lib (or_JWT o1) later (tr_Token tr) =
         Inr \<lparr>cc_CallID = c_ID c, cc_UserID = userID, cc_RoomID = c_RoomID c, cc_Role = token_role p, cc_App = c_AppID c\<rparr>)"
proof -
  obtain c p where c: "Get st ctx callID s = Inr c" "FindParticipant userID c = Some p"
    using assms by (auto simp: IssueToken_def split: sum.splits option.splits)
  show ?thesis
  proof (cases "c_Transport c = TransportSFU")
    case True
    then show ?thesis using assms c by (auto simp: IssueToken_def Let_def split: sum.splits option.splits)
  next
    case False
    with assms c obtain t where t: "IssueCallToken lib (or_JWT o1) now (c_ID c) userID (c_RoomID c) (token_role p) (c_AppID c)
        (token_ttl o1) = Inr t" and tr: "tr_Token tr = t" "tr_CallID tr = c_ID c" "tr_RoomID tr = c_RoomID c"
        "tr_Role tr = token_role p" "tr_ExpiresIn tr = whole_seconds (token_ttl o1)"
      by (auto simp: IssueToken_def Let_def split: sum.splits)
    have "ValidateCallToken lib (or_JWT o1) later t =
        Inr \<lparr>cc_CallID = c_ID c, cc_UserID = userID, cc_RoomID = c_RoomID c, cc_Role = token_role p, cc_App = c_AppID c\<rparr>"
      if "jwt_ok lib" "c_ID c \<noteq> []" "userID \<noteq> []" "later < NewNumericDate (now + token_ttl o1)"
      using that jwt_okD [OF that(1) t [unfolded IssueCallToken_def], of "NewNumericDate (now + token_ttl o1)" later]
      by (simp add: ValidateCallToken_def call_claims_def private_claim_def)
    then show ?thesis using c tr by auto
  qed
qed

definition demo_call :: Call where
  "demo_call = (new_call 0 ''c'' ''r'' (demo_create ModeDirect))\<lparr>c_State := StateCancelled, c_EndedAt := Some 0\<rparr>"

definition demo_service :: "MemoryStore Service" where
  "demo_service = NewService (NewMemoryStore\<lparr>ms_calls := [''c'' \<mapsto> demo_call]\<rparr>) None 0"

lemma demo_issue:
  "IssueToken memory_store demo_lib demo_orchestrator None 0 ''c'' ''u'' demo_service =
     Inr \<lparr>tr_CallID = ''c'', tr_RoomID = ''r'', tr_Token = ''tok'', tr_Transport = TransportP2P, tr_SFUURL = [],
          tr_ICEServers = [], tr_Role = ''caller'', tr_ExpiresIn = 60\<rparr>"
  using demo_token
  by (simp add: IssueToken_def Get_def memory_store_def mem_Get_def demo_service_def NewService_def demo_call_def new_call_def
      demo_create_def new_participants_def FindParticipant_def token_role_def token_ttl_def demo_orchestrator_def create_mode_def
      whole_seconds_def Let_def)

theorem IssueToken_names_participant_witness:
  "ValidateCallToken demo_lib demo_validator Second ''tok'' =
     Inr \<lparr>cc_CallID = ''c'', cc_UserID = ''u'', cc_RoomID = ''r'', cc_Role = ''caller'', cc_App = ''app''\<rparr>"
  using IssueToken_names_participant [OF demo_issue, of Second] demo_lib_ok
  by (auto simp: Get_def memory_store_def mem_Get_def demo_service_def NewService_def demo_call_def new_call_def
      demo_create_def new_participants_def FindParticipant_def token_role_def token_ttl_def demo_orchestrator_def create_mode_def
      NewNumericDate_def)

text \<open>
  The state of the call is not consulted: a participant of a call that is over still gets a
  token for its room.
\<close>

theorem IssueToken_after_end:
  "\<exists>c tr. Get memory_store None ''c'' demo_service = Inr c \<and> IsTerminal c \<and>
     IssueToken memory_store demo_lib demo_orchestrator None 0 ''c'' ''u'' demo_service = Inr tr \<and> tr_RoomID tr = c_RoomID c"
  unfolding demo_issue
  by (simp add: Get_def memory_store_def mem_Get_def demo_service_def NewService_def demo_call_def new_call_def IsTerminal_def)

end
