(* ===== verification/IncomingCall.thy ===== *)
theory IncomingCall
  imports CallService MessageProps
begin

text \<open>
  The bridge from the call runtime to the push pipeline (\<open>internal/incomingcall/service.go\<close>):
  push messages that ring the callees of a call, and that stop the ringing. The state is the database
  and the events handed to the bus. Every clock reading is an argument: the first one fixes the
  expiry, then one per callee; so are the identifiers each send draws.
\<close>

section \<open>Model (incomingcall/service.go)\<close>

record Incoming =
  ib_messages :: bool
  ib_bus :: bool
  ib_db :: Db
  ib_published :: "call_event list"

definition incomingcall_New :: "bool \<Rightarrow> bool \<Rightarrow> Db \<Rightarrow> Incoming" where
  "incomingcall_New messages bus db = \<lparr>ib_messages = messages, ib_bus = bus, ib_db = db, ib_published = []\<rparr>"

definition push_event :: "gotime \<Rightarrow> string \<Rightarrow> Call \<Rightarrow> string \<Rightarrow> Incoming \<Rightarrow> Incoming" where
  "push_event now typ c userID s =
     (if ib_bus s
      then s\<lparr>ib_published := ib_published s @
             [stamp_event now \<lparr>ev_Type = typ, ev_AppID = c_AppID c, ev_UserID = userID, ev_DeviceID = '''',
                ev_CallID = c_ID c, ev_Timestamp = 0, ev_Payload = Map.empty\<rparr>]\<rparr>
      else s)"

definition ringing_callees :: "Call \<Rightarrow> string list" where
  "ringing_callees c =
     map p_UserID (filter (\<lambda>p. p_UserID p \<noteq> c_CallerID c \<and>
       (p_State p = ParticipantRinging \<or> p_State p = ParticipantInvited)) (c_Participants c))"

definition incoming_key :: "Call \<Rightarrow> string \<Rightarrow> string" where
  "incoming_key c callee = ''incoming:'' @ c_ID c @ '':'' @ callee"

definition incoming_input :: "gotime \<Rightarrow> gotime \<Rightarrow> Call \<Rightarrow> string \<Rightarrow> string \<Rightarrow> SendIncomingCallInput" where
  "incoming_input expires now c callerName callee =
     \<lparr>si_AppID = c_AppID c, si_UserIDs = [callee], si_InstallationIDs = [],
       si_Call = \<lparr>ic_CallID = c_ID c, ic_CallerID = c_CallerID c, ic_CalleeID = callee, ic_MediaType = c_Type c,
         ic_CallerName = callerName, ic_Timestamp = now, ic_ExpiresAt = expires\<rparr>,
       si_IdempotencyKey = incoming_key c callee\<rparr>"

definition notify_callee ::
    "gotime \<Rightarrow> Call \<Rightarrow> string \<Rightarrow> gotime \<times> (nat \<Rightarrow> string) \<times> string \<Rightarrow> Incoming \<Rightarrow> Incoming" where
  "notify_callee expires c callerName =
     (\<lambda>(now, newID, callee) s.
        case SendIncomingCall now newID (incoming_input expires now c callerName callee) (ib_db s) of
          (db, Inl _) \<Rightarrow> push_event now PushFailed c callee (s\<lparr>ib_db := db\<rparr>)
        | (db, Inr _) \<Rightarrow> push_event now PushRequested c callee (s\<lparr>ib_db := db\<rparr>))"

text \<open>\<open>clock n\<close> and \<open>ids n\<close> are what the send to the n-th callee reads and draws.\<close>

definition NotifyRinging ::
    "gotime \<Rightarrow> (nat \<Rightarrow> gotime) \<Rightarrow> (nat \<Rightarrow> nat \<Rightarrow> string) \<Rightarrow> Call option \<Rightarrow> string \<Rightarrow> Incoming \<Rightarrow> Incoming" where
  "NotifyRinging now clock ids c0 callerName s =
     (case c0 of
        None \<Rightarrow> s
      | Some c \<Rightarrow>
          if \<not> ib_messages s then s
          else (let callees = ringing_callees c;
                    expires = now + DefaultIncomingCallTTL
                in fold (notify_callee expires c callerName)
                     (map (\<lambda>n. (clock n, ids n, callees ! n)) [0..<length callees]) s))"

definition notifyUsers ::
    "gotime \<Rightarrow> (nat \<Rightarrow> string) \<Rightarrow> Call \<Rightarrow> string list \<Rightarrow> string \<Rightarrow> string \<Rightarrow> Incoming \<Rightarrow> Incoming" where
  "notifyUsers now newID c userIDs reason idempotencyKey s =
     (if userIDs = [] then s
      else
        (let reason = (if reason = '''' then ''cancelled'' else reason)
         in case SendCallSignal now newID
                   \<lparr>sc_AppID = c_AppID c, sc_Type = MessageCallCancelled, sc_CallID = c_ID c, sc_UserIDs = userIDs,
                     sc_InstallationIDs = [], sc_Reason = reason, sc_IdempotencyKey = idempotencyKey\<rparr> (ib_db s) of
              (db, Inl _) \<Rightarrow> push_event now PushFailed c '''' (s\<lparr>ib_db := db\<rparr>)
            | (db, Inr _) \<Rightarrow> push_event now PushSent c '''' (s\<lparr>ib_db := db\<rparr>)))"

definition NotifyCancelled ::
    "gotime \<Rightarrow> (nat \<Rightarrow> string) \<Rightarrow> Call option \<Rightarrow> string \<Rightarrow> Incoming \<Rightarrow> Incoming" where
  "NotifyCancelled now newID c0 reason s =
     (case c0 of
        None \<Rightarrow> s
      | Some c \<Rightarrow>
          if \<not> ib_messages s then s
          else notifyUsers now newID c
                 (map p_UserID (filter (\<lambda>p. p_UserID p \<noteq> c_CallerID c) (c_Participants c)))
                 reason (''cancel:'' @ c_ID c) s)"

definition NotifyStopRinging ::
    "gotime \<Rightarrow> (nat \<Rightarrow> string) \<Rightarrow> Call option \<Rightarrow> string \<Rightarrow> string \<Rightarrow> Incoming \<Rightarrow> Incoming" where
  "NotifyStopRinging now newID c0 userID reason s =
     (case c0 of
        None \<Rightarrow> s
      | Some c \<Rightarrow>
          if \<not> ib_messages s \<or> userID = '''' then s
          else notifyUsers now newID c [userID] reason (''stop_ring:'' @ c_ID c @ '':'' @ userID) s)"

section \<open>Keys of a send\<close>

lemma resolveDevices_tables:
  assumes "resolveDevices app users insts db = (db', r)"
  shows "db_messages db' = db_messages db \<and> db_deliveries db' = db_deliveries db \<and> db_keys db' = db_keys db"
proof -
  have L: "db_messages d' = db_messages d \<and> db_deliveries d' = db_deliveries d \<and> db_keys d' = db_keys d"
    if "dev_ListActiveByUserIDs app users d = (d', x) \<or> dev_ListActiveByInstallationIDs app insts d = (d', x)" for d d' x
    using that
    by (auto simp: dev_ListActiveByUserIDs_def dev_ListActiveByInstallationIDs_def
        split: prod.splits option.splits if_splits dest: stmt_tables)
  obtain db1 r1 where l1: "dev_ListActiveByUserIDs app users db = (db1, r1)" by fastforce
  obtain db2 r2 where l2: "dev_ListActiveByInstallationIDs app insts db1 = (db2, r2)" by fastforce
  obtain db3 r3 where l3: "dev_ListActiveByInstallationIDs app insts db = (db3, r3)" by fastforce
  have "db' \<in> {db, db1, db2, db3}"
    using assms l1 l2 l3 by (auto simp: resolveDevices_def split: sum.splits prod.splits if_splits)
  then show ?thesis
    using L [of db db1 r1] L [of db1 db2 r2] L [of db db3 r3] l1 l2 l3 by auto
qed

lemma CreateMany_keys: "del_CreateMany now ds db = (db', e) \<Longrightarrow> db_keys db' = db_keys db"
proof (induction ds arbitrary: db)
  case (Cons x ds)
  obtain i d where x: "x = (i, d)" by fastforce
  obtain db1 e1 where ins: "del_insert now i d db = (db1, e1)" by fastforce
  have "db_keys db1 = db_keys db" using del_insert_cases [OF ins] by auto
  then show ?case using Cons x ins by (auto split: option.splits)
qed simp

lemma enqueueDeliveries_keys:
  assumes "enqueueDeliveries now newID m ds db = (db', e)"
  shows "db_keys db' = db_keys db"
proof -
  obtain db1 e1 where c: "del_CreateMany now (new_deliveries newID m ds) db = (db1, e1)" by fastforce
  obtain db2 e2 where q: "msg_MarkQueued now (m_ID m) db1 = (db2, e2)" by fastforce
  have "db_keys db2 = db_keys db1" using msg_ops_tables(2) [OF q [unfolded msg_MarkQueued_def]] by simp
  then show ?thesis using CreateMany_keys [OF c] c q assms by (auto simp: enqueueDeliveries_def split: option.splits)
qed

text \<open>
  Whatever a send with a key returns: keys stay bound, a success leaves its key bound, and a key that
  was bound keeps messages and deliveries as they are.
\<close>

lemma Send_keys:
  assumes "Send now newID inp db = (db', r)" "sm_IdempotencyKey inp \<noteq> []"
  defines "k \<equiv> (sm_AppID inp, sm_IdempotencyKey inp)"
  shows "(\<forall>j. db_keys db j \<noteq> None \<longrightarrow> db_keys db' j = db_keys db j) \<and>
    (db_keys db k = None \<or> db_messages db' = db_messages db \<and> db_deliveries db' = db_deliveries db \<and> db_keys db' = db_keys db) \<and>
    (\<forall>res. r = Inr res \<longrightarrow> db_keys db' k \<noteq> None)"
proof -
  let ?inp = "send_type inp"
  let ?m = "new_message now (newID 0) ?inp"
  have same: "sm_AppID ?inp = sm_AppID inp" "sm_IdempotencyKey ?inp = sm_IdempotencyKey inp" by (simp_all add: send_type_def)
  obtain db1 r1 where R: "resolveDevices (sm_AppID ?inp) (sm_UserIDs ?inp) (sm_InstallationIDs ?inp) db = (db1, r1)" by fastforce
  obtain db2 r2 where P: "persist_message now ?inp ?m db1 = (db2, r2)" by fastforce
  note t1 = resolveDevices_tables [OF R]
  have "CreateWithMessageAndIdempotency now (m_ID ?m) ?m (sm_IdempotencyKey inp) db1 = (db2, r2)"
    using P assms(2) same by (simp add: persist_message_def)
  from CreateWithMessageAndIdempotency_cases [OF this]
  have t2: "db_deliveries db2 = db_deliveries db1"
    "(r2 = Inr (m_ID (message_row (message_defaults now (m_ID ?m) ?m)), True) \<and> db_keys db1 k = None \<and>
        db_keys db2 = (db_keys db1)(k \<mapsto> m_ID (message_row (message_defaults now (m_ID ?m) ?m)))) \<or>
     db_messages db2 = db_messages db1 \<and> db_keys db2 = db_keys db1 \<and> ((\<exists>e. r2 = Inl e) \<or> (\<exists>mid. r2 = Inr (mid, False) \<and> db_keys db1 k = Some mid))"
    using same by (auto simp: k_def new_message_fields split: sum.splits prod.splits bool.splits)
  show ?thesis
  proof (cases "\<exists>mid. r2 = Inr (mid, True)")
    case True
    then obtain mid where r2: "r2 = Inr (mid, True)" by blast
    with t2(2) have K: "db_keys db k = None" "db_keys db2 = (db_keys db)(k \<mapsto> mid)" using t1 by auto
    obtain db3 r3 where T: "target_devices now newID ?inp (projr r1) db2 = (db3, r3)" by fastforce
    obtain db4 e4 where E: "enqueueDeliveries now (\<lambda>n. newID (n + 3)) (?m\<lparr>m_ID := mid\<rparr>) (projr r3) db3 = (db4, e4)" by fastforce
    have t34: "db_keys db3 = db_keys db2" "db_keys db4 = db_keys db3"
      using target_devices_tables [OF T] enqueueDeliveries_keys [OF E] by simp_all
    have "(db' = db \<or> db' = db1) \<and> (\<exists>e. r = Inl e) \<or> db' = db3 \<and> (\<exists>e. r = Inl e) \<or> db' = db4"
      using assms(1) R P r2 T E by (auto simp: Send_def Let_def split: option.splits sum.splits if_splits prod.splits bool.splits)
    then show ?thesis using K t1 t34 by auto
  next
    case False
    then have t: "db_messages db2 = db_messages db1" "db_keys db2 = db_keys db1"
      "(\<exists>e. r2 = Inl e) \<or> (\<exists>mid. r2 = Inr (mid, False) \<and> db_keys db1 k = Some mid)" using t2(2) by auto
    have "(db' = db \<or> db' = db1) \<and> (\<exists>e. r = Inl e) \<or> db' = db2 \<and> (\<forall>res. r = Inr res \<longrightarrow> (\<exists>mid. r2 = Inr (mid, False)))"
      using assms(1) R P False by (auto simp: Send_def Let_def split: option.splits sum.splits if_splits prod.splits bool.splits)
    then show ?thesis using t1 t2(1) t by auto
  qed
qed

lemma SendIncomingCall_keys:
  assumes "SendIncomingCall now newID (incoming_input expires now c name callee) db = (db', r)"
  defines "k \<equiv> (c_AppID c, incoming_key c callee)"
  shows "(\<forall>j. db_keys db j \<noteq> None \<longrightarrow> db_keys db' j = db_keys db j) \<and>
    (db_keys db k = None \<or> db_messages db' = db_messages db \<and> db_deliveries db' = db_deliveries db \<and> db_keys db' = db_keys db) \<and>
    (\<forall>res. r = Inr res \<longrightarrow> db_keys db' k \<noteq> None)"
proof -
  let ?i = "incoming_input expires now c name callee"
  let ?c = "incoming_defaults now (si_Call ?i)"
  let ?p = "push_input (si_AppID ?i) MessageIncomingCall (si_UserIDs ?i) (si_InstallationIDs ?i) (incoming_data ?c)
     (whole_seconds (time_Sub (ic_ExpiresAt ?c) now)) (incoming_key c callee)"
  have f: "sm_AppID ?p = c_AppID c" "sm_IdempotencyKey ?p = incoming_key c callee" "incoming_key c callee \<noteq> []"
    "si_IdempotencyKey ?i = incoming_key c callee"
    by (simp_all add: push_input_def incoming_input_def incoming_key_def)
  have "db' = db \<and> (\<exists>e. r = Inl e) \<or> Send now newID ?p db = (db', r)"
    using assms(1) f(3,4) by (auto simp: SendIncomingCall_def Let_def split: if_splits)
  then show ?thesis using Send_keys [of now newID ?p db db' r] f unfolding k_def by auto
qed

section \<open>Properties\<close>

definition bound :: "Call \<Rightarrow> string \<Rightarrow> Db \<Rightarrow> bool" where
  "bound c callee db \<longleftrightarrow> db_keys db (c_AppID c, incoming_key c callee) \<noteq> None"

definition push_announced :: "Call \<Rightarrow> string list \<Rightarrow> Db \<Rightarrow> call_event list \<Rightarrow> bool" where
  "push_announced c callees db evs \<longleftrightarrow> map ev_UserID evs = callees \<and>
     (\<forall>e \<in> set evs. ev_CallID e = c_ID c \<and> ev_AppID e = c_AppID c \<and>
        (ev_Type e = PushRequested \<and> bound c (ev_UserID e) db \<or> ev_Type e = PushFailed))"

lemma push_announced_mono:
  assumes "push_announced c us db evs" "\<And>u. bound c u db \<Longrightarrow> bound c u db'"
  shows "push_announced c us db' evs"
  using assms unfolding push_announced_def by meson

lemma notify_callee_effect:
  assumes "ib_bus s" and s'_def: "s' = notify_callee expires c name (now, ids, u) s"
  shows "ib_bus s'" "\<exists>e. ib_published s' = ib_published s @ [e] \<and> push_announced c [u] (ib_db s') [e]"
    "bound c v (ib_db s) \<Longrightarrow> bound c v (ib_db s')"
    "bound c u (ib_db s) \<Longrightarrow> db_messages (ib_db s') = db_messages (ib_db s) \<and> db_deliveries (ib_db s') = db_deliveries (ib_db s) \<and>
       db_keys (ib_db s') = db_keys (ib_db s)"
proof -
  obtain db r where S: "SendIncomingCall now ids (incoming_input expires now c name u) (ib_db s) = (db, r)" by fastforce
  note k = SendIncomingCall_keys [OF S]
  let ?t = "if \<exists>x. r = Inr x then PushRequested else PushFailed"
  have s': "s' = push_event now ?t c u (s\<lparr>ib_db := db\<rparr>)"
    using S unfolding s'_def notify_callee_def by (cases r) simp_all
  have db: "ib_db s' = db" by (simp add: s' push_event_def)
  show "ib_bus s'" using assms(1) by (simp add: s' push_event_def)
  show "\<exists>e. ib_published s' = ib_published s @ [e] \<and> push_announced c [u] (ib_db s') [e]"
    using assms(1) k unfolding db by (cases r) (auto simp: s' push_event_def push_announced_def bound_def)
  show "bound c v (ib_db s) \<Longrightarrow> bound c v (ib_db s')" using k unfolding db bound_def by metis
  show "bound c u (ib_db s) \<Longrightarrow> db_messages (ib_db s') = db_messages (ib_db s) \<and> db_deliveries (ib_db s') = db_deliveries (ib_db s) \<and>
       db_keys (ib_db s') = db_keys (ib_db s)" using conjunct1 [OF conjunct2 [OF k]] unfolding db bound_def by (elim disjE) auto
qed

lemma notify_fold:
  assumes "ib_bus s" and s'_def: "s' = fold (notify_callee expires c name) xs s"
  shows "ib_bus s' \<and> (\<exists>evs. ib_published s' = ib_published s @ evs \<and> push_announced c (map (snd \<circ> snd) xs) (ib_db s') evs) \<and>
    (\<forall>v. bound c v (ib_db s) \<longrightarrow> bound c v (ib_db s')) \<and>
    ((\<forall>x \<in> set xs. bound c (snd (snd x)) (ib_db s)) \<longrightarrow> db_messages (ib_db s') = db_messages (ib_db s) \<and>
       db_deliveries (ib_db s') = db_deliveries (ib_db s) \<and> db_keys (ib_db s') = db_keys (ib_db s))"
  unfolding s'_def using assms(1)
proof (induction xs arbitrary: s)
  case (Cons x xs)
  obtain now ids u where x: "x = (now, ids, u)" by (cases x) auto
  let ?s1 = "notify_callee expires c name x s"
  let ?s2 = "fold (notify_callee expires c name) xs ?s1"
  note E = notify_callee_effect [OF Cons.prems refl, where expires = expires and c = c and name = name and now = now and ids = ids and u = u, folded x]
  note IH = Cons.IH [OF E(1)]
  obtain e where e: "ib_published ?s1 = ib_published s @ [e]" "push_announced c [u] (ib_db ?s1) [e]" using E(2) by blast
  obtain evs where evs: "ib_published ?s2 = ib_published ?s1 @ evs" "push_announced c (map (snd \<circ> snd) xs) (ib_db ?s2) evs"
    using IH by blast
  have "push_announced c [u] (ib_db ?s2) [e]" using e(2) by (rule push_announced_mono) (use IH in blast)
  then have "push_announced c (map (snd \<circ> snd) (x # xs)) (ib_db ?s2) (e # evs)"
    using evs(2) unfolding push_announced_def x by auto
  moreover have "ib_published ?s2 = ib_published s @ (e # evs)" using e(1) evs(1) by simp
  moreover have "\<forall>v. bound c v (ib_db s) \<longrightarrow> bound c v (ib_db ?s2)" using E(3) IH by blast
  moreover have "db_messages (ib_db ?s2) = db_messages (ib_db s) \<and> db_deliveries (ib_db ?s2) = db_deliveries (ib_db s) \<and>
      db_keys (ib_db ?s2) = db_keys (ib_db s)" if "\<forall>y \<in> set (x # xs). bound c (snd (snd y)) (ib_db s)"
  proof -
    have "bound c u (ib_db s)" "\<forall>y \<in> set xs. bound c (snd (snd y)) (ib_db ?s1)" using that E(3) by (auto simp: x)
    then show ?thesis using E(4) IH by simp
  qed
  ultimately have all: "ib_bus ?s2 \<and> (\<exists>evs. ib_published ?s2 = ib_published s @ evs \<and>
        push_announced c (map (snd \<circ> snd) (x # xs)) (ib_db ?s2) evs) \<and> (\<forall>v. bound c v (ib_db s) \<longrightarrow> bound c v (ib_db ?s2)) \<and>
      ((\<forall>y \<in> set (x # xs). bound c (snd (snd y)) (ib_db s)) \<longrightarrow> db_messages (ib_db ?s2) = db_messages (ib_db s) \<and>
         db_deliveries (ib_db ?s2) = db_deliveries (ib_db s) \<and> db_keys (ib_db ?s2) = db_keys (ib_db s))"
    using IH by blast
  have f: "fold (notify_callee expires c name) (x # xs) s = ?s2" by simp
  show ?case unfolding f by (rule all)
qed (simp add: push_announced_def)

text \<open>
  C31. Ringing the callees of a call announces exactly one push event per ringing callee, in order,
  naming call and application, and one that says requested only if the push is recorded under the
  callee's idempotency key. Ringing callees a second time, after their pushes were recorded,
  creates no second message or delivery for anyone.
\<close>

theorem NotifyRinging_once:
  assumes "ib_messages s" "ib_bus s" "s' = NotifyRinging now clock ids (Some c) name s"
  shows "(\<exists>evs. ib_published s' = ib_published s @ evs \<and> push_announced c (ringing_callees c) (ib_db s') evs) \<and>
    ((\<forall>u \<in> set (ringing_callees c). bound c u (ib_db s)) \<longrightarrow>
       db_messages (ib_db s') = db_messages (ib_db s) \<and> db_deliveries (ib_db s') = db_deliveries (ib_db s))"
proof -
  let ?xs = "map (\<lambda>n. (clock n, ids n, ringing_callees c ! n)) [0..<length (ringing_callees c)]"
  have us: "map (snd \<circ> snd) ?xs = ringing_callees c" by (simp add: comp_def map_nth)
  have "s' = fold (notify_callee (now + DefaultIncomingCallTTL) c name) ?xs s"
    using assms(1,3) by (simp add: NotifyRinging_def Let_def)
  moreover have "(\<forall>x \<in> set ?xs. bound c (snd (snd x)) (ib_db s)) \<longleftrightarrow> (\<forall>u \<in> set (ringing_callees c). bound c u (ib_db s))"
  proof -
    have "set (ringing_callees c) = (snd \<circ> snd) ` set ?xs" using us by (metis list.set_map)
    then show ?thesis by auto
  qed
  ultimately show ?thesis
    using notify_fold [OF assms(2), of s' "now + DefaultIncomingCallTTL" c name ?xs] unfolding us by blast
qed

definition ringing_call :: Call where
  "ringing_call = new_call 1 ''c1'' ''r1'' \<lparr>in_AppID = ''app'', in_CallerID = ''u'', in_CallerDevice = ''d'', in_CalleeIDs = [''v''],
     in_Type = [], in_Mode = [], in_CallerName = []\<rparr>"

definition ringing_state :: Incoming where
  "ringing_state = incomingcall_New True True (empty_db\<lparr>db_keys := [(''app'', ''incoming:c1:v'') \<mapsto> ''m1'']\<rparr>)"

theorem NotifyRinging_once_witness:
  "\<exists>evs. ib_published (NotifyRinging 1 (\<lambda>_. 1) (\<lambda>_ _. ''x'') (Some ringing_call) [] ringing_state) = evs \<and>
     map ev_UserID evs = [''v''] \<and>
     db_messages (ib_db (NotifyRinging 1 (\<lambda>_. 1) (\<lambda>_ _. ''x'') (Some ringing_call) [] ringing_state)) = []"
proof -
  have c: "ringing_callees ringing_call = [''v'']" "bound ringing_call ''v'' (ib_db ringing_state)"
    "ib_messages ringing_state" "ib_bus ringing_state" "db_messages (ib_db ringing_state) = []" "ib_published ringing_state = []"
    by (simp_all add: ringing_callees_def ringing_call_def new_call_def new_participants_def bound_def incoming_key_def
        ringing_state_def incomingcall_New_def empty_db_def)
  from NotifyRinging_once [OF c(3,4) refl, of 1 "\<lambda>_. 1" "\<lambda>_ _. ''x''" ringing_call "[]"] c
  show ?thesis by (auto simp: push_announced_def)
qed

end
