(* ===== verification/Json.thy ===== *)
theory Json
  imports CallTypes
begin

text \<open>
  What the server uses of \<open>encoding/json\<close>: values of a JSON document, the encoding of the call
  structs by their field tags (\<open>internal/call/types.go\<close>) and the decoding back. A document is
  its tree; printing and parsing text is left out, and an instant, which the library writes as an
  RFC 3339 string, is a leaf of its own. Decoding reads a missing key or null as the zero value, takes the
  last of duplicate keys, and fails on a value of the wrong kind. Keys are matched exactly.
\<close>

section \<open>Documents\<close>

datatype json =
    JNull | JBool bool | JNum int | JStr string | JTime gotime | JArr "json list"
  | JObj "(string \<times> json) list"

definition json_error :: error where
  "json_error = Other ''json: cannot unmarshal''"

definition sum_bind :: "error + 'a \<Rightarrow> ('a \<Rightarrow> error + 'b) \<Rightarrow> error + 'b" where
  "sum_bind m f = (case m of Inl e \<Rightarrow> Inl e | Inr x \<Rightarrow> f x)"

definition field :: "string \<Rightarrow> (string \<times> json) list \<Rightarrow> json" where
  "field k kvs = (case map_of (rev kvs) k of None \<Rightarrow> JNull | Some j \<Rightarrow> j)"

fun obj_fields :: "json \<Rightarrow> error + (string \<times> json) list" where
  "obj_fields (JObj kvs) = Inr kvs"
| "obj_fields JNull = Inr []"
| "obj_fields _ = Inl json_error"

fun dec_str :: "json \<Rightarrow> error + string" where
  "dec_str (JStr s) = Inr s"
| "dec_str JNull = Inr ''''"
| "dec_str _ = Inl json_error"

fun dec_time :: "json \<Rightarrow> error + gotime" where
  "dec_time (JTime t) = Inr t"
| "dec_time JNull = Inr 0"
| "dec_time _ = Inl json_error"

fun dec_time_ptr :: "json \<Rightarrow> error + gotime option" where
  "dec_time_ptr (JTime t) = Inr (Some t)"
| "dec_time_ptr JNull = Inr None"
| "dec_time_ptr _ = Inl json_error"

fun dec_int_ptr :: "json \<Rightarrow> error + int option" where
  "dec_int_ptr (JNum n) = (if - (2 ^ 63) \<le> n \<and> n < 2 ^ 63 then Inr (Some n) else Inl json_error)"
| "dec_int_ptr JNull = Inr None"
| "dec_int_ptr _ = Inl json_error"

definition dec_int :: "json \<Rightarrow> error + int" where
  "dec_int j = sum_bind (dec_int_ptr j) (\<lambda>n. Inr (case n of None \<Rightarrow> 0 | Some n \<Rightarrow> n))"

fun dec_all :: "('a \<Rightarrow> error + 'b) \<Rightarrow> 'a list \<Rightarrow> error + 'b list" where
  "dec_all f [] = Inr []"
| "dec_all f (x # xs) = sum_bind (f x) (\<lambda>y. sum_bind (dec_all f xs) (\<lambda>ys. Inr (y # ys)))"

fun dec_arr :: "(json \<Rightarrow> error + 'b) \<Rightarrow> json \<Rightarrow> error + 'b list" where
  "dec_arr f (JArr xs) = dec_all f xs"
| "dec_arr f JNull = Inr []"
| "dec_arr f _ = Inl json_error"

text \<open>The option \<open>omitempty\<close> of a string and of a pointer to an instant.\<close>

definition omit_str :: "string \<Rightarrow> string \<Rightarrow> (string \<times> json) list" where
  "omit_str k s = (if s = '''' then [] else [(k, JStr s)])"

definition omit_time :: "string \<Rightarrow> gotime option \<Rightarrow> (string \<times> json) list" where
  "omit_time k t = (case t of None \<Rightarrow> [] | Some t \<Rightarrow> [(k, JTime t)])"

text \<open>
  Where the code ignores the error of decoding, the fields that could be read are there: the library
  skips a value of the wrong kind and goes on. \<open>None\<close> is a text that is no JSON.
\<close>

definition lenient_str :: "string \<Rightarrow> json option \<Rightarrow> string" where
  "lenient_str k body =
     (case body of
        Some (JObj kvs) \<Rightarrow> fold (\<lambda>(k', j) acc. case j of JStr s \<Rightarrow> if k' = k then s else acc | _ \<Rightarrow> acc) kvs ''''
      | _ \<Rightarrow> '''')"

definition lenient_int :: "string \<Rightarrow> json option \<Rightarrow> int" where
  "lenient_int k body =
     (case body of
        Some (JObj kvs) \<Rightarrow>
          fold (\<lambda>(k', j) acc. case j of
                  JNum n \<Rightarrow> if k' = k \<and> - (2 ^ 63) \<le> n \<and> n < 2 ^ 63 then n else acc | _ \<Rightarrow> acc) kvs 0
      | _ \<Rightarrow> 0)"

text \<open>A member of an object, kept undecoded (\<open>json.RawMessage\<close>) or decoded in a second step.\<close>

definition lenient_raw :: "string \<Rightarrow> json option \<Rightarrow> json option" where
  "lenient_raw k body =
     (case body of
        Some (JObj kvs) \<Rightarrow> fold (\<lambda>(k', j) acc. if k' = k then Some j else acc) kvs None
      | _ \<Rightarrow> None)"

section \<open>Calls (call/types.go)\<close>

fun state_name :: "CallState \<Rightarrow> string" where
  "state_name StateCreated = ''created''"
| "state_name StateRinging = ''ringing''"
| "state_name StateAccepted = ''accepted''"
| "state_name StateConnecting = ''connecting''"
| "state_name StateConnected = ''connected''"
| "state_name StateEnded = ''ended''"
| "state_name StateRejected = ''rejected''"
| "state_name StateCancelled = ''cancelled''"
| "state_name StateTimeout = ''timeout''"
| "state_name StateFailed = ''failed''"

fun participant_state_name :: "ParticipantState \<Rightarrow> string" where
  "participant_state_name ParticipantInvited = ''invited''"
| "participant_state_name ParticipantRinging = ''ringing''"
| "participant_state_name ParticipantAccepted = ''accepted''"
| "participant_state_name ParticipantConnecting = ''connecting''"
| "participant_state_name ParticipantConnected = ''connected''"
| "participant_state_name ParticipantLeft = ''left''"
| "participant_state_name ParticipantReconnecting = ''reconnecting''"
| "participant_state_name ParticipantDisconnected = ''disconnected''"
| "participant_state_name ParticipantRejected = ''rejected''"

text \<open>In the code a state is any string; the model reads back the names the code writes.\<close>

definition dec_state :: "json \<Rightarrow> error + CallState" where
  "dec_state j = sum_bind (dec_str j) (\<lambda>s.
     case find (\<lambda>x. state_name x = s) enum_class.enum of None \<Rightarrow> Inl json_error | Some x \<Rightarrow> Inr x)"

definition dec_participant_state :: "json \<Rightarrow> error + ParticipantState" where
  "dec_participant_state j = sum_bind (dec_str j) (\<lambda>s.
     case find (\<lambda>x. participant_state_name x = s) enum_class.enum of None \<Rightarrow> Inl json_error | Some x \<Rightarrow> Inr x)"

definition enc_participant :: "Participant \<Rightarrow> json" where
  "enc_participant p = JObj (
     [(''call_id'', JStr (p_CallID p)), (''user_id'', JStr (p_UserID p))] @
     omit_str ''device_id'' (p_DeviceID p) @
     [(''state'', JStr (participant_state_name (p_State p)))] @
     omit_time ''joined_at'' (p_JoinedAt p) @ omit_time ''left_at'' (p_LeftAt p) @
     omit_str ''role'' (p_Role p))"

definition enc_call :: "Call \<Rightarrow> json" where
  "enc_call c = JObj (
     [(''call_id'', JStr (c_ID c)), (''room_id'', JStr (c_RoomID c)), (''app_id'', JStr (c_AppID c)),
      (''caller_id'', JStr (c_CallerID c)), (''type'', JStr (c_Type c)), (''mode'', JStr (c_Mode c)),
      (''state'', JStr (state_name (c_State c))), (''transport'', JStr (c_Transport c)),
      (''created_at'', JTime (c_CreatedAt c))] @
     omit_time ''started_at'' (c_StartedAt c) @ omit_time ''ended_at'' (c_EndedAt c) @
     omit_str ''reason'' (c_Reason c) @
     [(''participants'', JArr (map enc_participant (c_Participants c)))])"

definition dec_participant :: "json \<Rightarrow> error + Participant" where
  "dec_participant j =
     sum_bind (obj_fields j) (\<lambda>kvs.
     sum_bind (dec_str (field ''call_id'' kvs)) (\<lambda>cid.
     sum_bind (dec_str (field ''user_id'' kvs)) (\<lambda>uid.
     sum_bind (dec_str (field ''device_id'' kvs)) (\<lambda>did.
     sum_bind (dec_participant_state (field ''state'' kvs)) (\<lambda>st.
     sum_bind (dec_time_ptr (field ''joined_at'' kvs)) (\<lambda>ja.
     sum_bind (dec_time_ptr (field ''left_at'' kvs)) (\<lambda>la.
     sum_bind (dec_str (field ''role'' kvs)) (\<lambda>role.
       Inr \<lparr>p_CallID = cid, p_UserID = uid, p_DeviceID = did, p_State = st, p_JoinedAt = ja,
             p_LeftAt = la, p_Role = role\<rparr>))))))))"

definition dec_call :: "json \<Rightarrow> error + Call" where
  "dec_call j =
     sum_bind (obj_fields j) (\<lambda>kvs.
     sum_bind (dec_str (field ''call_id'' kvs)) (\<lambda>cid.
     sum_bind (dec_str (field ''room_id'' kvs)) (\<lambda>room.
     sum_bind (dec_str (field ''app_id'' kvs)) (\<lambda>app.
     sum_bind (dec_str (field ''caller_id'' kvs)) (\<lambda>caller.
     sum_bind (dec_str (field ''type'' kvs)) (\<lambda>typ.
     sum_bind (dec_str (field ''mode'' kvs)) (\<lambda>mode.
     sum_bind (dec_state (field ''state'' kvs)) (\<lambda>st.
     sum_bind (dec_str (field ''transport'' kvs)) (\<lambda>tr.
     sum_bind (dec_time (field ''created_at'' kvs)) (\<lambda>ca.
     sum_bind (dec_time_ptr (field ''started_at'' kvs)) (\<lambda>sa.
     sum_bind (dec_time_ptr (field ''ended_at'' kvs)) (\<lambda>ea.
     sum_bind (dec_str (field ''reason'' kvs)) (\<lambda>reason.
     sum_bind (dec_arr dec_participant (field ''participants'' kvs)) (\<lambda>ps.
       Inr \<lparr>c_ID = cid, c_RoomID = room, c_AppID = app, c_CallerID = caller, c_Type = typ, c_Mode = mode,
             c_State = st, c_Transport = tr, c_CreatedAt = ca, c_StartedAt = sa, c_EndedAt = ea,
             c_Reason = reason, c_Participants = ps\<rparr>))))))))))))))"

section \<open>Lemmas\<close>

lemma sum_bind_Inr [simp]: "sum_bind (Inr x) f = f x" "sum_bind (Inl e) f = Inl e"
  by (simp_all add: sum_bind_def)

lemma dec_state_name [simp]: "dec_state (JStr (state_name s)) = Inr s"
  by (cases s) (simp_all add: dec_state_def enum_CallState_def)

lemma dec_participant_state_name [simp]: "dec_participant_state (JStr (participant_state_name s)) = Inr s"
  by (cases s) (simp_all add: dec_participant_state_def enum_ParticipantState_def)

lemma dec_all_map [simp]: "(\<And>x. f (g x) = Inr x) \<Longrightarrow> dec_all f (map g xs) = Inr xs"
  by (induction xs) simp_all

lemma dec_enc_participant [simp]: "dec_participant (enc_participant p) = Inr p"
  by (cases "p_DeviceID p = []"; cases "p_Role p = []"; cases "p_JoinedAt p"; cases "p_LeftAt p")
    (simp_all add: dec_participant_def enc_participant_def omit_str_def omit_time_def field_def)

lemma dec_enc_call [simp]: "dec_call (enc_call c) = Inr c"
  by (cases "c_Reason c = []"; cases "c_StartedAt c"; cases "c_EndedAt c")
    (simp_all add: dec_call_def enc_call_def omit_str_def omit_time_def field_def)

end
