(* ===== verification/RedisClient.thy ===== *)
theory RedisClient
  imports Json "HOL-Library.Char_ord" "HOL-Library.List_Lexorder"
begin

text \<open>
  The Redis client is outside the repository. It is a parameter: a record of the commands the server
  issues, over a state of the server-side data that the model does not look into. A value is the
  document it holds. \<open>redis_ok\<close> states what the documentation of Redis promises of these
  commands in terms of three views of the state: strings, sets and lists. A command may fail with any
  error; a failed transaction with \<open>TxFailedErr\<close> has had no effect, another failure of \<open>EXEC\<close>
  leaves open whether the transaction ran.
\<close>

datatype cmd =
    CSet string json duration
  | CSAdd string string
  | CSRem string "string list"
  | CExpire string duration
  | CRPush string json
  | CLTrim string nat

text \<open>
  \<open>rd_TxExec w key cmds s\<close> is \<open>EXEC\<close> in state \<open>s\<close> of a transaction whose
  \<open>WATCH key\<close> was issued in state \<open>w\<close>. \<open>CLTrim k n\<close> is \<open>LTRIM k -n -1\<close>.
\<close>

record 'r Redis =
  rd_Get :: "string \<Rightarrow> 'r \<Rightarrow> error + json option"
  rd_MGet :: "string list \<Rightarrow> 'r \<Rightarrow> error + json option list"
  rd_SMembers :: "string \<Rightarrow> 'r \<Rightarrow> error + string list"
  rd_LRange :: "string \<Rightarrow> 'r \<Rightarrow> error + json list"
  rd_Pipeline :: "cmd list \<Rightarrow> 'r \<Rightarrow> 'r \<times> error option"
  rd_TxExec :: "'r \<Rightarrow> string \<Rightarrow> cmd list \<Rightarrow> 'r \<Rightarrow> 'r \<times> error option"

definition TxFailedErr :: error where
  "TxFailedErr = Other ''redis: transaction failed''"

record data =
  strings :: "string \<Rightarrow> json option"
  sets :: "string \<Rightarrow> string set"
  lists :: "string \<Rightarrow> json list"

fun run_cmd :: "cmd \<Rightarrow> data \<Rightarrow> data" where
  "run_cmd (CSet k v _) d = d\<lparr>strings := (strings d)(k := Some v)\<rparr>"
| "run_cmd (CSAdd k x) d = d\<lparr>sets := (sets d)(k := insert x (sets d k))\<rparr>"
| "run_cmd (CSRem k xs) d = d\<lparr>sets := (sets d)(k := sets d k - set xs)\<rparr>"
| "run_cmd (CExpire _ _) d = d"
| "run_cmd (CRPush k v) d = d\<lparr>lists := (lists d)(k := lists d k @ [v])\<rparr>"
| "run_cmd (CLTrim k n) d = d\<lparr>lists := (lists d)(k := drop (length (lists d k) - n) (lists d k))\<rparr>"

definition run_cmds :: "cmd list \<Rightarrow> data \<Rightarrow> data" where
  "run_cmds cs d = fold run_cmd cs d"

definition redis_ok :: "'r Redis \<Rightarrow> ('r \<Rightarrow> data) \<Rightarrow> bool" where
  "redis_ok R view \<longleftrightarrow>
     (\<forall>k s v. rd_Get R k s = Inr v \<longrightarrow> v = strings (view s) k) \<and>
     (\<forall>ks s vs. rd_MGet R ks s = Inr vs \<longrightarrow> vs = map (strings (view s)) ks) \<and>
     (\<forall>k s xs. rd_SMembers R k s = Inr xs \<longrightarrow> distinct xs \<and> set xs = sets (view s) k) \<and>
     (\<forall>k s xs. rd_LRange R k s = Inr xs \<longrightarrow> xs = lists (view s) k) \<and>
     (\<forall>cs s s'. rd_Pipeline R cs s = (s', None) \<longrightarrow> view s' = run_cmds cs (view s)) \<and>
     (\<forall>w k cs s s'. rd_TxExec R w k cs s = (s', None) \<longrightarrow>
        strings (view s) k = strings (view w) k \<and> view s' = run_cmds cs (view s)) \<and>
     (\<forall>w k cs s s'. rd_TxExec R w k cs s = (s', Some TxFailedErr) \<longrightarrow> view s' = view s)"

text \<open>A client on plain data that never fails, and keeps to the promises.\<close>

definition plain_redis :: "data Redis" where
  "plain_redis = \<lparr>
     rd_Get = (\<lambda>k s. Inr (strings s k)),
     rd_MGet = (\<lambda>ks s. Inr (map (strings s) ks)),
     rd_SMembers = (\<lambda>k s. if finite (sets s k) then Inr (sorted_list_of_set (sets s k)) else Inl (Other ''too big'')),
     rd_LRange = (\<lambda>k s. Inr (lists s k)),
     rd_Pipeline = (\<lambda>cs s. (run_cmds cs s, None)),
     rd_TxExec = (\<lambda>w k cs s. if strings s k = strings w k then (run_cmds cs s, None) else (s, Some TxFailedErr))\<rparr>"

definition no_data :: data where
  "no_data = \<lparr>strings = (\<lambda>_. None), sets = (\<lambda>_. {}), lists = (\<lambda>_. [])\<rparr>"

section \<open>Lemmas\<close>

lemma redis_okD:
  assumes "redis_ok R view"
  shows "rd_Get R k s = Inr v \<Longrightarrow> strings (view s) k = v"
    "rd_MGet R ks s = Inr vs \<Longrightarrow> vs = map (strings (view s)) ks"
    "rd_SMembers R k s = Inr xs \<Longrightarrow> distinct xs \<and> set xs = sets (view s) k"
    "rd_LRange R k s = Inr js \<Longrightarrow> js = lists (view s) k"
    "rd_Pipeline R cs s = (s', None) \<Longrightarrow> view s' = run_cmds cs (view s)"
    "rd_TxExec R w k cs s = (s', None) \<Longrightarrow> strings (view s) k = strings (view w) k \<and> view s' = run_cmds cs (view s)"
    "rd_TxExec R w k cs s = (s', Some TxFailedErr) \<Longrightarrow> view s' = view s"
  using assms unfolding redis_ok_def by (elim conjE, metis)+

lemma run_cmds_simps [simp]:
  "run_cmds [] d = d" "run_cmds (c # cs) d = run_cmds cs (run_cmd c d)"
  "run_cmds (cs @ ds) d = run_cmds ds (run_cmds cs d)"
  by (simp_all add: run_cmds_def)

lemma plain_redis_ok: "redis_ok plain_redis (\<lambda>s. s)"
  by (auto simp: redis_ok_def plain_redis_def split: if_splits)

end
