(* ===== verification/CallRedis.thy ===== *)
theory CallRedis
  imports RedisClient CallStore
begin

text \<open>
  The call store on Redis (\<open>internal/call/store.go\<close>): calls as JSON under \<open>call:<id>\<close>, a set of
  call ids per user, and updates under optimistic locking with at most twenty attempts. Other
  clients act between the steps of an update: \<open>env n\<close> is what they do to the data at the n-th
  point where they can, twice in each attempt, before the read and between read and \<open>EXEC\<close>.
\<close>

section \<open>Model (call/store.go)\<close>

definition call_key :: "string \<Rightarrow> string" where
  "call_key callID = ''call:'' @ callID"

definition user_calls_key :: "string \<Rightarrow> string \<Rightarrow> string" where
  "user_calls_key appID userID = ''user_calls:'' @ appID @ '':'' @ userID"

abbreviation callExpiry :: duration where "callExpiry \<equiv> 24 * Hour"

text \<open>The commands of \<open>Put\<close> and of the transaction of \<open>Update\<close>.\<close>

definition store_cmds :: "string \<Rightarrow> Call \<Rightarrow> cmd list" where
  "store_cmds key c =
     CSet key (enc_call c) callExpiry #
     concat (map (\<lambda>p. let uk = user_calls_key (c_AppID c) (p_UserID p)
                       in [CSAdd uk (c_ID c), CExpire uk callExpiry]) (c_Participants c))"

definition redis_Put :: "'r Redis \<Rightarrow> Call \<Rightarrow> 'r \<Rightarrow> 'r \<times> error option" where
  "redis_Put R c s = rd_Pipeline R (store_cmds (call_key (c_ID c)) c) s"

definition redis_Get :: "'r Redis \<Rightarrow> string \<Rightarrow> 'r \<Rightarrow> error + Call" where
  "redis_Get R callID s =
     (case rd_Get R (call_key callID) s of
        Inl err \<Rightarrow> Inl err
      | Inr None \<Rightarrow> Inl CallNotFound
      | Inr (Some val) \<Rightarrow> dec_call val)"

text \<open>One run of the function given to \<open>Watch\<close>: it reads in state \<open>w\<close> and commits in \<open>s\<close>.\<close>

definition redis_attempt :: "'r Redis \<Rightarrow> string \<Rightarrow> update_fn \<Rightarrow> 'r \<Rightarrow> 'r \<Rightarrow> 'r \<times> (error + Call)" where
  "redis_attempt R key fn w s =
     (case rd_Get R key w of
        Inl err \<Rightarrow> (s, Inl err)
      | Inr None \<Rightarrow> (s, Inl CallNotFound)
      | Inr (Some val) \<Rightarrow>
          (case dec_call val of
             Inl err \<Rightarrow> (s, Inl err)
           | Inr c \<Rightarrow>
               (case fn c of
                  (_, Some err) \<Rightarrow> (s, Inl err)
                | (c, None) \<Rightarrow>
                    (case rd_TxExec R w key (store_cmds key c) s of
                       (s, Some err) \<Rightarrow> (s, Inl err)
                     | (s, None) \<Rightarrow> (s, Inr c)))))"

fun redis_attempts ::
    "'r Redis \<Rightarrow> string \<Rightarrow> update_fn \<Rightarrow> (nat \<Rightarrow> 'r \<Rightarrow> 'r) \<Rightarrow> nat \<Rightarrow> nat \<Rightarrow> 'r \<Rightarrow> 'r \<times> (error + Call)" where
  "redis_attempts R key fn env i 0 s = (s, Inl (Internal ''call update failed due to high concurrency''))"
| "redis_attempts R key fn env i (Suc n) s =
     (let w = env (2 * i) s
      in case redis_attempt R key fn w (env (2 * i + 1) w) of
           (s, Inl err) \<Rightarrow> if err = TxFailedErr then redis_attempts R key fn env (Suc i) n s else (s, Inl err)
         | (s, Inr c) \<Rightarrow> (s, Inr c))"

definition maxRetries :: nat where "maxRetries = 20"

definition redis_Update ::
    "'r Redis \<Rightarrow> (nat \<Rightarrow> 'r \<Rightarrow> 'r) \<Rightarrow> string \<Rightarrow> update_fn \<Rightarrow> 'r \<Rightarrow> 'r \<times> (error + Call)" where
  "redis_Update R env callID fn s = redis_attempts R (call_key callID) fn env 0 maxRetries s"

text \<open>
  The ids of a user's live calls and the ids to take out of the set; the removal runs in a goroutine,
  \<open>redis_cleanup\<close>, at some later state.
\<close>

definition active_of :: "(string \<times> json option) list \<Rightarrow> string list" where
  "active_of xs = concat (map (\<lambda>(i, val). case val of
       None \<Rightarrow> [] | Some v \<Rightarrow> (case dec_call v of Inl _ \<Rightarrow> [] | Inr c \<Rightarrow> if IsTerminal c then [] else [i])) xs)"

definition dead_of :: "(string \<times> json option) list \<Rightarrow> string list" where
  "dead_of xs = concat (map (\<lambda>(i, val). case val of
       None \<Rightarrow> [i] | Some v \<Rightarrow> (case dec_call v of Inl _ \<Rightarrow> [] | Inr c \<Rightarrow> if IsTerminal c then [i] else [])) xs)"

definition redis_ActiveCallIDsForUser ::
    "'r Redis \<Rightarrow> string \<Rightarrow> string \<Rightarrow> 'r \<Rightarrow> string list \<times> string list" where
  "redis_ActiveCallIDsForUser R appID userID s =
     (case rd_SMembers R (user_calls_key appID userID) s of
        Inl _ \<Rightarrow> ([], [])
      | Inr callIDs \<Rightarrow>
          if callIDs = [] then ([], [])
          else case rd_MGet R (map call_key callIDs) s of
                 Inl _ \<Rightarrow> ([], [])
               | Inr vals \<Rightarrow> (active_of (zip callIDs vals), dead_of (zip callIDs vals)))"

definition redis_cleanup :: "'r Redis \<Rightarrow> string \<Rightarrow> string \<Rightarrow> string list \<Rightarrow> 'r \<Rightarrow> 'r" where
  "redis_cleanup R appID userID toRemove s =
     (if toRemove = [] then s else fst (rd_Pipeline R [CSRem (user_calls_key appID userID) toRemove] s))"

section \<open>What other clients do\<close>

text \<open>The data changes only by what other clients do.\<close>

inductive drift :: "('r \<Rightarrow> data) \<Rightarrow> (nat \<Rightarrow> 'r \<Rightarrow> 'r) \<Rightarrow> 'r \<Rightarrow> 'r \<Rightarrow> bool" for view env where
  drift_refl: "drift view env s s"
| drift_env: "drift view env s s' \<Longrightarrow> drift view env s (env n s')"
| drift_same: "drift view env s s' \<Longrightarrow> view s'' = view s' \<Longrightarrow> drift view env s s''"

lemma drift_trans: "drift view env s' s'' \<Longrightarrow> drift view env s s' \<Longrightarrow> drift view env s s''"
  by (induction rule: drift.induct) (auto intro: drift.intros)

text \<open>What one attempt can end in.\<close>

lemma redis_attempt_cases:
  assumes "redis_ok R view" "redis_attempt R key fn w s = (s', r)"
  shows "case r of
      Inr c' \<Rightarrow> \<exists>j c. strings (view s) key = Some j \<and> dec_call j = Inr c \<and> fn c = (c', None) \<and>
        view s' = run_cmds (store_cmds key c') (view s)
    | Inl e \<Rightarrow> view s' = view s \<or> (e \<noteq> TxFailedErr \<and> (\<exists>c. rd_TxExec R w key (store_cmds key c) s = (s', Some e)))"
proof (cases "rd_Get R key w")
  case (Inr v)
  note g = redis_okD(1) [OF assms(1) Inr]
  show ?thesis
  proof (cases "\<exists>j c c'. v = Some j \<and> dec_call j = Inr c \<and> fn c = (c', None)")
    case True
    then obtain j c c' where d: "v = Some j" "dec_call j = Inr c" "fn c = (c', None)" by blast
    obtain s1 e where x: "rd_TxExec R w key (store_cmds key c') s = (s1, e)" by fastforce
    show ?thesis
    proof (cases e)
      case None
      then show ?thesis using assms(2) Inr d x g redis_okD(6) [OF assms(1), of w key "store_cmds key c'" s s1]
        by (auto simp: redis_attempt_def)
    next
      case (Some err)
      then show ?thesis using assms(2) Inr d x redis_okD(7) [OF assms(1), of w key "store_cmds key c'" s s1]
        by (auto simp: redis_attempt_def)
    qed
  next
    case False
    then show ?thesis using assms(2) Inr by (auto simp: redis_attempt_def split: option.splits sum.splits prod.splits)
  qed
qed (use assms(2) in \<open>auto simp: redis_attempt_def\<close>)

lemma store_cmds_effect:
  "strings (run_cmds (store_cmds key c) d) = (strings d)(key := Some (enc_call c))"
  "sets (run_cmds (store_cmds key c) d) k =
     sets d k \<union> (if \<exists>p \<in> set (c_Participants c). user_calls_key (c_AppID c) (p_UserID p) = k then {c_ID c} else {})"
proof -
  let ?f = "\<lambda>p. let uk = user_calls_key (c_AppID c) (p_UserID p) in [CSAdd uk (c_ID c), CExpire uk callExpiry]"
  have A: "strings (run_cmds (concat (map ?f ps)) e) = strings e" for ps e
    by (induction ps arbitrary: e) (simp_all add: Let_def)
  have B: "sets (run_cmds (concat (map ?f ps)) e) k =
      sets e k \<union> (if \<exists>p \<in> set ps. user_calls_key (c_AppID c) (p_UserID p) = k then {c_ID c} else {})" for ps e
    by (induction ps arbitrary: e) (auto simp: Let_def)
  show "strings (run_cmds (store_cmds key c) d) = (strings d)(key := Some (enc_call c))"
    unfolding store_cmds_def by (simp only: run_cmds_simps A) simp
  show "sets (run_cmds (store_cmds key c) d) k =
     sets d k \<union> (if \<exists>p \<in> set (c_Participants c). user_calls_key (c_AppID c) (p_UserID p) = k then {c_ID c} else {})"
    unfolding store_cmds_def by (simp only: run_cmds_simps B) simp
qed

lemma set_active_of:
  "set (active_of (map (\<lambda>i. (i, v i)) ids)) = {i \<in> set ids. \<exists>j c. v i = Some j \<and> dec_call j = Inr c \<and> \<not> IsTerminal c}"
proof (induction ids)
  case (Cons i ids)
  then show ?case by (cases "v i"; cases "dec_call (the (v i))") (auto simp: active_of_def)
qed (simp add: active_of_def)

lemma set_dead_of:
  "set (dead_of (map (\<lambda>i. (i, v i)) ids)) =
     {i \<in> set ids. v i = None \<or> (\<exists>j c. v i = Some j \<and> dec_call j = Inr c \<and> IsTerminal c)}"
proof (induction ids)
  case (Cons i ids)
  then show ?case by (cases "v i"; cases "dec_call (the (v i))") (auto simp: dead_of_def)
qed (simp add: dead_of_def)

section \<open>Properties\<close>

definition committed :: "'r Redis \<Rightarrow> ('r \<Rightarrow> data) \<Rightarrow> string \<Rightarrow> update_fn \<Rightarrow> 'r \<Rightarrow> 'r \<Rightarrow> Call \<Rightarrow> bool" where
  "committed R view key fn w s' c' \<longleftrightarrow> (\<exists>j c. strings (view w) key = Some j \<and> dec_call j = Inr c \<and> fn c = (c', None)) \<and>
     view s' = run_cmds (store_cmds key c') (view w)"

lemma redis_attempts_cases:
  assumes "redis_ok R view"
  shows "redis_attempts R key fn env i n s = (s', r) \<Longrightarrow>
    (case r of
       Inr c' \<Rightarrow> \<exists>w. drift view env s w \<and> committed R view key fn w s' c'
     | Inl e \<Rightarrow> drift view env s s' \<or>
         e \<noteq> TxFailedErr \<and> (\<exists>w w0 c. drift view env s w \<and> rd_TxExec R w0 key (store_cmds key c) w = (s', Some e)))"
proof (induction n arbitrary: i s)
  case 0
  then show ?case by (auto intro: drift.intros)
next
  case (Suc n)
  let ?w = "env (2 * i) s"
  let ?x = "env (2 * i + 1) ?w"
  obtain s1 r1 where a: "redis_attempt R key fn ?w ?x = (s1, r1)" by fastforce
  note A = redis_attempt_cases [OF assms a]
  have x: "drift view env s ?x" by (intro drift.intros)
  show ?case
  proof (cases "r1 = Inl TxFailedErr")
    case True
    then have "drift view env s s1" using A x by (auto intro: drift_same)
    moreover have "redis_attempts R key fn env (Suc i) n s1 = (s', r)" using Suc.prems a True by (simp add: Let_def)
    ultimately show ?thesis using Suc.IH [of "Suc i" s1] by (cases r) (auto intro: drift_trans)
  next
    case False
    then have "s' = s1" "r = r1" using Suc.prems a by (auto simp: Let_def split: sum.splits if_splits)
    then show ?thesis using A x by (cases r1) (auto simp: committed_def intro: drift_same)
  qed
qed

text \<open>
  C14. An update on Redis is atomic although it reads and writes in separate steps: when it succeeds,
  there is one state, reached by other clients' changes alone, in which the stored call was read,
  changed by the function and replaced, with the participants added to the index and no other call
  touched; and the call can be read back. When it fails, within twenty attempts, it wrote nothing, unless
  \<open>EXEC\<close> itself failed and left that open.
\<close>

theorem redis_Update_atomic:
  assumes "redis_ok R view" "redis_Update R env callID fn s = (s', r)"
  shows "case r of
      Inr c' \<Rightarrow> \<exists>w j c. drift view env s w \<and> strings (view w) (call_key callID) = Some j \<and> dec_call j = Inr c \<and> fn c = (c', None) \<and>
        strings (view s') = (strings (view w))(call_key callID := Some (enc_call c')) \<and>
        (\<forall>k. sets (view s') k = sets (view w) k \<union>
           {i. i = c_ID c' \<and> (\<exists>p \<in> set (c_Participants c'). user_calls_key (c_AppID c') (p_UserID p) = k)}) \<and>
        (\<forall>x. redis_Get R callID s' = Inr x \<longrightarrow> x = c')
    | Inl e \<Rightarrow> drift view env s s' \<or>
        e \<noteq> TxFailedErr \<and> (\<exists>w w0 c. drift view env s w \<and> rd_TxExec R w0 (call_key callID) (store_cmds (call_key callID) c) w = (s', Some e))"
proof (cases r)
  case (Inl e)
  then show ?thesis using redis_attempts_cases [OF assms(1) assms(2) [unfolded redis_Update_def]] by simp
next
  case (Inr c')
  then obtain w j c where w: "drift view env s w" "strings (view w) (call_key callID) = Some j" "dec_call j = Inr c" "fn c = (c', None)"
    and v: "view s' = run_cmds (store_cmds (call_key callID) c') (view w)"
    using redis_attempts_cases [OF assms(1) assms(2) [unfolded redis_Update_def]] by (auto simp: committed_def)
  have str: "strings (view s') = (strings (view w))(call_key callID := Some (enc_call c'))" by (simp add: v store_cmds_effect)
  have "x = c'" if "redis_Get R callID s' = Inr x" for x
    using that redis_okD(1) [OF assms(1), of "call_key callID" s'] str
    by (auto simp: redis_Get_def split: sum.splits option.splits)
  moreover have "sets (view s') k = sets (view w) k \<union>
      {i. i = c_ID c' \<and> (\<exists>p \<in> set (c_Participants c'). user_calls_key (c_AppID c') (p_UserID p) = k)}" for k
    by (auto simp: v store_cmds_effect)
  ultimately show ?thesis using Inr w str by auto
qed

definition redis_call :: Call where
  "redis_call = \<lparr>c_ID = ''c1'', c_RoomID = ''r1'', c_AppID = ''app'', c_CallerID = ''u'', c_Type = TypeAudio, c_Mode = ModeDirect,
     c_State = StateRinging, c_Transport = TransportP2P, c_CreatedAt = 1, c_StartedAt = None, c_EndedAt = None, c_Reason = [],
     c_Participants = [\<lparr>p_CallID = ''c1'', p_UserID = ''u'', p_DeviceID = [], p_State = ParticipantAccepted, p_JoinedAt = None,
       p_LeftAt = None, p_Role = []\<rparr>]\<rparr>"

definition redis_data :: data where
  "redis_data = fst (redis_Put plain_redis redis_call no_data)"

lemma redis_data_strings: "strings redis_data = [''call:c1'' \<mapsto> enc_call redis_call]"
  by (simp add: redis_data_def redis_Put_def plain_redis_def store_cmds_effect call_key_def redis_call_def no_data_def)

lemma redis_data_sets: "sets redis_data k = (if k = ''user_calls:app:u'' then {''c1''} else {})"
  by (simp add: redis_data_def redis_Put_def plain_redis_def store_cmds_effect no_data_def)
    (simp add: redis_call_def user_calls_key_def)

theorem redis_Update_atomic_witness:
  "\<exists>s'. redis_Update plain_redis (\<lambda>_ s. s) ''c1'' (\<lambda>c. (c\<lparr>c_Reason := ''busy''\<rparr>, None)) redis_data = (s', Inr (redis_call\<lparr>c_Reason := ''busy''\<rparr>)) \<and>
     strings s' ''call:c1'' = Some (enc_call (redis_call\<lparr>c_Reason := ''busy''\<rparr>))"
proof -
  obtain s' where u: "redis_Update plain_redis (\<lambda>_ s. s) ''c1'' (\<lambda>c. (c\<lparr>c_Reason := ''busy''\<rparr>, None)) redis_data =
      (s', Inr (redis_call\<lparr>c_Reason := ''busy''\<rparr>))"
    using redis_data_strings
    by (simp add: redis_Update_def maxRetries_def numeral_eq_Suc redis_attempt_def plain_redis_def call_key_def Let_def)
  from redis_Update_atomic [OF plain_redis_ok this] u show ?thesis by (auto simp: call_key_def)
qed

text \<open>
  When its reads succeed, the list of a user's calls is exactly the indexed calls that are stored
  and not over, and the lazy clean-up takes out only ids whose call was over or gone when it was
  read: no live call leaves the index.
\<close>

theorem redis_active_calls:
  assumes "redis_ok R view" "redis_ActiveCallIDsForUser R app u s = (live, dead)"
    and "rd_SMembers R (user_calls_key app u) s = Inr ids" "rd_MGet R (map call_key ids) s = Inr vals"
  shows "set live = {i \<in> sets (view s) (user_calls_key app u).
      \<exists>j c. strings (view s) (call_key i) = Some j \<and> dec_call j = Inr c \<and> \<not> IsTerminal c} \<and>
    set dead = {i \<in> sets (view s) (user_calls_key app u). strings (view s) (call_key i) = None \<or>
      (\<exists>j c. strings (view s) (call_key i) = Some j \<and> dec_call j = Inr c \<and> IsTerminal c)} \<and>
    (rd_Pipeline R [CSRem (user_calls_key app u) dead] s2 = (s3, None) \<longrightarrow>
       sets (view s3) (user_calls_key app u) = sets (view s2) (user_calls_key app u) - set dead)"
proof -
  have v: "vals = map (strings (view s)) (map call_key ids)" and m: "set ids = sets (view s) (user_calls_key app u)"
    using redis_okD(2,3) [OF assms(1)] assms(3,4) by blast+
  have z: "zip ids vals = map (\<lambda>i. (i, strings (view s) (call_key i))) ids" by (simp add: v zip_map2 comp_def zip_same_conv_map)
  have ld: "live = active_of (zip ids vals)" "dead = dead_of (zip ids vals)"
    using assms(2,3,4) by (auto simp: redis_ActiveCallIDsForUser_def active_of_def dead_of_def split: if_splits)
  have "set live = {i \<in> set ids. \<exists>j c. strings (view s) (call_key i) = Some j \<and> dec_call j = Inr c \<and> \<not> IsTerminal c}"
    unfolding ld z by (rule set_active_of)
  moreover have "set dead = {i \<in> set ids. strings (view s) (call_key i) = None \<or>
      (\<exists>j c. strings (view s) (call_key i) = Some j \<and> dec_call j = Inr c \<and> IsTerminal c)}"
    unfolding ld z by (rule set_dead_of)
  moreover have "sets (view s3) (user_calls_key app u) = sets (view s2) (user_calls_key app u) - set dead"
    if "rd_Pipeline R [CSRem (user_calls_key app u) dead] s2 = (s3, None)"
    using redis_okD(5) [OF assms(1) that] by simp
  ultimately show ?thesis unfolding m by blast
qed

theorem redis_active_calls_witness:
  "set (fst (redis_ActiveCallIDsForUser plain_redis ''app'' ''u'' redis_data)) = {''c1''}"
proof -
  have ids: "rd_SMembers plain_redis (user_calls_key ''app'' ''u'') redis_data = Inr [''c1'']"
    by (simp add: plain_redis_def redis_data_sets user_calls_key_def)
  have vals: "rd_MGet plain_redis (map call_key [''c1'']) redis_data = Inr [Some (enc_call redis_call)]"
    by (simp add: plain_redis_def redis_data_strings call_key_def)
  obtain live dead where a: "redis_ActiveCallIDsForUser plain_redis ''app'' ''u'' redis_data = (live, dead)" by fastforce
  have "\<not> IsTerminal redis_call" by (simp add: IsTerminal_def redis_call_def)
  with redis_active_calls [OF plain_redis_ok a ids vals, of redis_data no_data] a show ?thesis
    by (auto simp: redis_data_sets redis_data_strings user_calls_key_def call_key_def)
qed

end
