(* ===== verification/Signaling.thy ===== *)
theory Signaling
  imports Json Presence Orchestrator
begin

text \<open>
  The signaling protocol (\<open>internal/signaling/protocol/message.go\<close>) and the connection
  (\<open>internal/signaling/connection/conn.go\<close>): the envelope every WebSocket message travels in, the
  documents the server puts into it, and a connection with its bounded queue of outgoing
  envelopes. The socket itself is outside; what was written to it is \<open>cn_written\<close>.
\<close>

section \<open>Envelopes (signaling/protocol/message.go)\<close>

record Envelope =
  e_ID :: string
  e_Type :: string
  e_Timestamp :: gotime
  e_CallID :: string
  e_SenderID :: string
  e_Data :: "json option"

text \<open>\<open>newID\<close> is what \<open>idgen.New\<close> returns; \<open>data\<close> is already a document.\<close>

definition protocol_New :: "string \<Rightarrow> gotime \<Rightarrow> string \<Rightarrow> string \<Rightarrow> string \<Rightarrow> json option \<Rightarrow> Envelope" where
  "protocol_New newID now typ callID senderID data =
     \<lparr>e_ID = ''msg_'' @ newID, e_Type = typ, e_Timestamp = now, e_CallID = callID, e_SenderID = senderID,
       e_Data = data\<rparr>"

definition enc_envelope :: "Envelope \<Rightarrow> json" where
  "enc_envelope e = JObj (
     [(''id'', JStr (e_ID e)), (''type'', JStr (e_Type e)), (''timestamp'', JTime (e_Timestamp e))] @
     omit_str ''call_id'' (e_CallID e) @ omit_str ''sender_id'' (e_SenderID e) @
     (case e_Data e of None \<Rightarrow> [] | Some j \<Rightarrow> [(''data'', j)]))"

definition dec_envelope :: "json \<Rightarrow> error + Envelope" where
  "dec_envelope j =
     sum_bind (obj_fields j) (\<lambda>kvs.
     sum_bind (dec_str (field ''id'' kvs)) (\<lambda>i.
     sum_bind (dec_str (field ''type'' kvs)) (\<lambda>typ.
     sum_bind (dec_time (field ''timestamp'' kvs)) (\<lambda>ts.
     sum_bind (dec_str (field ''call_id'' kvs)) (\<lambda>cid.
     sum_bind (dec_str (field ''sender_id'' kvs)) (\<lambda>sid.
       Inr \<lparr>e_ID = i, e_Type = typ, e_Timestamp = ts, e_CallID = cid, e_SenderID = sid,
             e_Data = map_of (rev kvs) ''data''\<rparr>))))))"

text \<open>
  Decoding into a struct while ignoring the error: a field of the right kind is taken, any other leaves
  the field as it was.
\<close>

definition read_str :: "string \<Rightarrow> json \<Rightarrow> string \<Rightarrow> string" where
  "read_str k j old = (case obj_fields j of Inl _ \<Rightarrow> old | Inr kvs \<Rightarrow> (case field k kvs of JStr s \<Rightarrow> s | _ \<Rightarrow> old))"

definition read_bool :: "string \<Rightarrow> json \<Rightarrow> bool \<Rightarrow> bool" where
  "read_bool k j old = (case obj_fields j of Inl _ \<Rightarrow> old | Inr kvs \<Rightarrow> (case field k kvs of JBool b \<Rightarrow> b | _ \<Rightarrow> old))"

definition read_strs :: "string \<Rightarrow> json \<Rightarrow> string list" where
  "read_strs k j = (case obj_fields j of Inl _ \<Rightarrow> [] | Inr kvs \<Rightarrow>
     (case field k kvs of JArr xs \<Rightarrow> map (\<lambda>x. case x of JStr s \<Rightarrow> s | _ \<Rightarrow> '''') xs | _ \<Rightarrow> []))"

definition env_data :: "Envelope \<Rightarrow> json" where
  "env_data e = (case e_Data e of None \<Rightarrow> JNull | Some j \<Rightarrow> j)"

abbreviation TypeAuthenticate :: string where "TypeAuthenticate \<equiv> ''authenticate''"
abbreviation TypePing :: string where "TypePing \<equiv> ''ping''"
abbreviation TypePong :: string where "TypePong \<equiv> ''pong''"
abbreviation TypeCallCreate :: string where "TypeCallCreate \<equiv> ''call.create''"
abbreviation TypeCallAccept :: string where "TypeCallAccept \<equiv> ''call.accept''"
abbreviation TypeCallReject :: string where "TypeCallReject \<equiv> ''call.reject''"
abbreviation TypeCallCancel :: string where "TypeCallCancel \<equiv> ''call.cancel''"
abbreviation TypeCallJoin :: string where "TypeCallJoin \<equiv> ''call.join''"
abbreviation TypeCallLeave :: string where "TypeCallLeave \<equiv> ''call.leave''"
abbreviation TypeCallHangup :: string where "TypeCallHangup \<equiv> ''call.hangup''"
abbreviation TypeCallResume :: string where "TypeCallResume \<equiv> ''call.resume''"
abbreviation TypeSessionResume :: string where "TypeSessionResume \<equiv> ''session.resume''"
abbreviation TypeWebRTCOffer :: string where "TypeWebRTCOffer \<equiv> ''webrtc.offer''"
abbreviation TypeWebRTCAnswer :: string where "TypeWebRTCAnswer \<equiv> ''webrtc.answer''"
abbreviation TypeWebRTCICECandidate :: string where "TypeWebRTCICECandidate \<equiv> ''webrtc.ice_candidate''"
abbreviation TypeMediaMute :: string where "TypeMediaMute \<equiv> ''media.mute''"
abbreviation TypeMediaUnmute :: string where "TypeMediaUnmute \<equiv> ''media.unmute''"
abbreviation TypeMediaCameraOn :: string where "TypeMediaCameraOn \<equiv> ''media.camera_on''"
abbreviation TypeMediaCameraOff :: string where "TypeMediaCameraOff \<equiv> ''media.camera_off''"
abbreviation TypeAuthenticated :: string where "TypeAuthenticated \<equiv> ''authenticated''"
abbreviation TypeError :: string where "TypeError \<equiv> ''error''"
abbreviation TypeCallCreated :: string where "TypeCallCreated \<equiv> ''call.created''"
abbreviation TypeCallRinging :: string where "TypeCallRinging \<equiv> ''call.ringing''"
abbreviation TypeCallAccepted :: string where "TypeCallAccepted \<equiv> ''call.accepted''"
abbreviation TypeCallRejected :: string where "TypeCallRejected \<equiv> ''call.rejected''"
abbreviation TypeCallCancelled :: string where "TypeCallCancelled \<equiv> ''call.cancelled''"
abbreviation TypeCallParticipantJoined :: string where "TypeCallParticipantJoined \<equiv> ''call.participant_joined''"
abbreviation TypeCallParticipantLeft :: string where "TypeCallParticipantLeft \<equiv> ''call.participant_left''"
abbreviation TypeCallEnded :: string where "TypeCallEnded \<equiv> ''call.ended''"
abbreviation TypeCallState :: string where "TypeCallState \<equiv> ''call.state''"
abbreviation TypeCallStopRinging :: string where "TypeCallStopRinging \<equiv> ''call.stop_ringing''"
abbreviation TypePresenceUpdated :: string where "TypePresenceUpdated \<equiv> ''presence.updated''"

section \<open>Documents\<close>

definition enc_device_presence :: "DevicePresence \<Rightarrow> json" where
  "enc_device_presence d = JObj
     [(''device_id'', JStr (dp_DeviceID d)), (''user_id'', JStr (dp_UserID d)), (''app_id'', JStr (dp_AppID d)),
      (''status'', JStr (dp_Status d)), (''updated_at'', JTime (dp_UpdatedAt d))]"

definition enc_user_presence :: "UserPresence \<Rightarrow> json" where
  "enc_user_presence u = JObj
     [(''user_id'', JStr (up_UserID u)), (''app_id'', JStr (up_AppID u)), (''status'', JStr (up_Status u)),
      (''devices'', JArr (map enc_device_presence (up_Devices u))), (''updated_at'', JTime (up_UpdatedAt u))]"

definition enc_ice :: "ICEServer \<Rightarrow> json" where
  "enc_ice s = JObj ([(''urls'', JArr (map JStr (ice_URLs s)))] @ omit_str ''username'' (ice_Username s) @
     omit_str ''credential'' (ice_Credential s))"

definition omit_ice :: "ICEServer list \<Rightarrow> (string \<times> json) list" where
  "omit_ice xs = (if xs = [] then [] else [(''ice_servers'', JArr (map enc_ice xs))])"

definition enc_token :: "TokenResult \<Rightarrow> json" where
  "enc_token t = JObj (
     [(''call_id'', JStr (tr_CallID t)), (''room_id'', JStr (tr_RoomID t)), (''token'', JStr (tr_Token t)),
      (''transport'', JStr (tr_Transport t))] @ omit_str ''sfu_url'' (tr_SFUURL t) @ omit_ice (tr_ICEServers t) @
     [(''role'', JStr (tr_Role t)), (''expires_in'', JNum (tr_ExpiresIn t))])"

definition enc_resume :: "ResumeResult \<Rightarrow> json" where
  "enc_resume r = JObj (
     [(''call_id'', JStr (rr_CallID r)), (''state'', JStr (state_name (rr_State r))),
      (''participants'', JArr (map enc_participant (rr_Participants r))),
      (''room'', JObj (concat (map (\<lambda>k. case rr_Room r k of None \<Rightarrow> [] | Some v \<Rightarrow> [(k, JStr v)])
         [''room_id'', ''sfu_url'', ''transport'']))),
      (''call'', enc_call (rr_Call r))] @
     (case rr_Token r of None \<Rightarrow> [] | Some t \<Rightarrow> [(''token'', enc_token t)]) @ omit_ice (rr_ICEServers r))"

definition enc_error :: "string \<Rightarrow> string \<Rightarrow> json" where
  "enc_error code message = JObj [(''code'', JStr code), (''message'', JStr message)]"

definition enc_stop_ringing :: "string \<Rightarrow> string \<Rightarrow> string \<Rightarrow> json" where
  "enc_stop_ringing callID acceptedDevice reason =
     JObj ([(''call_id'', JStr callID)] @ omit_str ''accepted_device_id'' acceptedDevice @ omit_str ''reason'' reason)"

definition enc_authenticated :: "string \<Rightarrow> string \<Rightarrow> string \<Rightarrow> bool \<Rightarrow> Call list \<Rightarrow> json" where
  "enc_authenticated userID appID deviceID reconnect active =
     JObj ([(''user_id'', JStr userID)] @ omit_str ''app_id'' appID @ omit_str ''device_id'' deviceID @
       (if reconnect then [(''reconnect'', JBool True)] else []) @ [(''active_calls'', JArr (map enc_call active))])"

section \<open>Connections (signaling/connection/conn.go)\<close>

record Conn =
  cn_ID :: string
  cn_UserID :: string
  cn_AppID :: string
  cn_DeviceID :: string
  cn_send :: "Envelope list"
  cn_cap :: nat
  cn_closed :: bool
  cn_authed :: bool
  cn_lastSeen :: gotime
  cn_written :: "Envelope list"

definition conn_New :: "string \<Rightarrow> gotime \<Rightarrow> int \<Rightarrow> Conn" where
  "conn_New i now sendBuf =
     \<lparr>cn_ID = i, cn_UserID = '''', cn_AppID = '''', cn_DeviceID = '''', cn_send = [],
       cn_cap = nat (if sendBuf \<le> 0 then 64 else sendBuf), cn_closed = False, cn_authed = False,
       cn_lastSeen = now, cn_written = []\<rparr>"

definition SetIdentity :: "gotime \<Rightarrow> string \<Rightarrow> string \<Rightarrow> string \<Rightarrow> Conn \<Rightarrow> Conn" where
  "SetIdentity now userID appID deviceID c =
     c\<lparr>cn_UserID := userID, cn_AppID := appID, cn_DeviceID := deviceID, cn_authed := True, cn_lastSeen := now\<rparr>"

definition Touch :: "gotime \<Rightarrow> Conn \<Rightarrow> Conn" where
  "Touch now c = c\<lparr>cn_lastSeen := now\<rparr>"

definition conn_Send :: "Envelope \<Rightarrow> Conn \<Rightarrow> Conn \<times> bool" where
  "conn_Send env c =
     (if cn_closed c then (c, False)
      else if length (cn_send c) < cn_cap c then (c\<lparr>cn_send := cn_send c @ [env]\<rparr>, True)
      else (c, False))"

text \<open>The write pump takes the next envelope from the queue; after a close it drains what is left.\<close>

definition conn_write :: "Conn \<Rightarrow> Conn" where
  "conn_write c =
     (case cn_send c of
        [] \<Rightarrow> c
      | env # rest \<Rightarrow> c\<lparr>cn_send := rest, cn_written := cn_written c @ [env]\<rparr>)"

definition conn_Close :: "Conn \<Rightarrow> Conn" where
  "conn_Close c = (if cn_closed c then c else c\<lparr>cn_closed := True\<rparr>)"

section \<open>Lemmas\<close>

lemma dec_enc_envelope [simp]: "dec_envelope (enc_envelope e) = Inr e"
  by (cases "e_CallID e = []"; cases "e_SenderID e = []"; cases "e_Data e")
    (simp_all add: dec_envelope_def enc_envelope_def omit_str_def field_def)

lemma conn_Send_fields [simp]:
  "cn_ID (fst (conn_Send env c)) = cn_ID c" "cn_UserID (fst (conn_Send env c)) = cn_UserID c"
  "cn_AppID (fst (conn_Send env c)) = cn_AppID c" "cn_DeviceID (fst (conn_Send env c)) = cn_DeviceID c"
  "cn_closed (fst (conn_Send env c)) = cn_closed c" "cn_authed (fst (conn_Send env c)) = cn_authed c"
  "cn_cap (fst (conn_Send env c)) = cn_cap c" "cn_written (fst (conn_Send env c)) = cn_written c"
  "cn_lastSeen (fst (conn_Send env c)) = cn_lastSeen c"
  by (simp_all add: conn_Send_def)

end
