(* ===== verification/Hub.thy ===== *)
theory Hub
  imports Signaling RateLimit
begin

text \<open>
  The WebSocket hub (\<open>internal/signaling/websocket/hub.go\<close>): connections, the binding of
  connections to users, the Redis subscription per user, the dispatch of client messages to the
  orchestrator and the routing of envelopes to users. Connections are shared by pointer: the heap
  \<open>hb_heap\<close> holds them by id, the hub's maps hold ids. What the hub hands to others is
  recorded: events for the bus, messages published on Redis, pushes handed to the notifier.
  A handler runs under one clock reading; the identifiers of envelopes come from \<open>hb_ids\<close>.
\<close>

section \<open>State\<close>

datatype notification =
    NRinging Call string
  | NCancelled Call string
  | NStopRinging Call string string

text \<open>The oplog is an interface (\<open>internal/oplog/store.go\<close>).\<close>

record 'o OplogStore =
  ol_Append :: "string \<Rightarrow> Envelope \<Rightarrow> 'o \<Rightarrow> 'o \<times> error option"
  ol_GetRecent :: "string \<Rightarrow> 'o \<Rightarrow> error + Envelope list"

definition NoOpStore :: "'o OplogStore" where
  "NoOpStore = \<lparr>ol_Append = (\<lambda>_ _ s. (s, None)), ol_GetRecent = (\<lambda>_ _. Inr [])\<rparr>"

record ('s, 'o) Hub =
  hb_heap :: "string \<rightharpoonup> Conn"
  hb_conns :: "string list"
  hb_byUser :: index
  hb_userSubs :: "string \<rightharpoonup> nat"
  hb_nextSub :: nat
  hb_filled :: "nat list"
  hb_open :: "nat list"
  hb_msgLimiter :: Limiter
  hb_callLimiter :: Limiter
  hb_svc :: "'s Service"
  hb_presence :: "PresenceStore option"
  hb_oplog :: 'o
  hb_published :: "json Event list"
  hb_redisOut :: "(string \<times> json Event) list"
  hb_notified :: "notification list"
  hb_ids :: "nat \<Rightarrow> string"
  hb_idn :: nat

text \<open>
  What the hub was built with: the call store and orchestrator, the token validator, the oplog, whether
  there is an event bus and a notifier, and the Redis bus, if any, as the error of publishing.
\<close>

record ('s, 'o) HubDeps =
  hd_st :: "'s Store"
  hd_lib :: JwtLib
  hd_jwt :: JWTValidator
  hd_orch :: Orchestrator
  hd_oplog :: "'o OplogStore option"
  hd_bus :: bool
  hd_incoming :: bool
  hd_redis :: "(string \<Rightarrow> json Event \<Rightarrow> error option) option"

definition hub_limit :: "int \<Rightarrow> int \<Rightarrow> int" where
  "hub_limit n fallback = (if n \<le> 0 then fallback else n)"

definition NewHub ::
    "int \<Rightarrow> int \<Rightarrow> (nat \<Rightarrow> string) \<Rightarrow> 's Service \<Rightarrow> PresenceStore option \<Rightarrow> 'o \<Rightarrow> ('s, 'o) Hub" where
  "NewHub msgPerSec callsPerMinute ids svc presence oplog =
     \<lparr>hb_heap = Map.empty, hb_conns = [], hb_byUser = Map.empty, hb_userSubs = Map.empty, hb_nextSub = 0,
       hb_filled = [], hb_open = [], hb_msgLimiter = New (hub_limit msgPerSec 30) Second,
       hb_callLimiter = New (hub_limit callsPerMinute 20) Minute, hb_svc = svc, hb_presence = presence,
       hb_oplog = oplog, hb_published = [], hb_redisOut = [], hb_notified = [], hb_ids = ids, hb_idn = 0\<rparr>"

section \<open>Sending\<close>

definition set_conn :: "string \<Rightarrow> (Conn \<Rightarrow> Conn) \<Rightarrow> (string \<rightharpoonup> Conn) \<Rightarrow> (string \<rightharpoonup> Conn)" where
  "set_conn cid f heap = (case heap cid of None \<Rightarrow> heap | Some c \<Rightarrow> heap(cid \<mapsto> f c))"

definition send_to :: "string \<Rightarrow> Envelope \<Rightarrow> ('s, 'o) Hub \<Rightarrow> ('s, 'o) Hub" where
  "send_to cid env h = h\<lparr>hb_heap := set_conn cid (\<lambda>c. fst (conn_Send env c)) (hb_heap h)\<rparr>"

definition hub_envelope ::
    "gotime \<Rightarrow> string \<Rightarrow> string \<Rightarrow> string \<Rightarrow> json option \<Rightarrow> ('s, 'o) Hub \<Rightarrow> Envelope \<times> ('s, 'o) Hub" where
  "hub_envelope now typ callID senderID data h =
     (protocol_New (hb_ids h (hb_idn h)) now typ callID senderID data, h\<lparr>hb_idn := Suc (hb_idn h)\<rparr>)"

definition reply ::
    "gotime \<Rightarrow> string \<Rightarrow> string \<Rightarrow> string \<Rightarrow> string \<Rightarrow> json option \<Rightarrow> ('s, 'o) Hub \<Rightarrow> ('s, 'o) Hub" where
  "reply now cid typ callID senderID data h =
     (case hub_envelope now typ callID senderID data h of (env, h) \<Rightarrow> send_to cid env h)"

definition hub_key :: "string \<Rightarrow> string \<Rightarrow> string" where
  "hub_key appID userID = join_key ''|'' appID userID"

definition wants :: "string \<Rightarrow> Conn \<Rightarrow> bool" where
  "wants exceptDevice c \<longleftrightarrow> \<not> (exceptDevice \<noteq> '''' \<and> cn_DeviceID c = exceptDevice)"

definition deliverLocal :: "string \<Rightarrow> string \<Rightarrow> string \<Rightarrow> Envelope \<Rightarrow> ('s, 'o) Hub \<Rightarrow> ('s, 'o) Hub" where
  "deliverLocal appID userID exceptDevice env h =
     h\<lparr>hb_heap := fold (\<lambda>cid. set_conn cid (\<lambda>c. if wants exceptDevice c then fst (conn_Send env c) else c))
         (index_get (hb_byUser h) (hub_key appID userID)) (hb_heap h)\<rparr>"

definition UserTopic :: "string \<Rightarrow> string \<Rightarrow> string" where
  "UserTopic appID userID = ''user:'' @ appID @ '':'' @ userID"

definition deliver_event :: "gotime \<Rightarrow> string \<Rightarrow> string \<Rightarrow> string \<Rightarrow> Envelope \<Rightarrow> json Event" where
  "deliver_event now appID userID exceptDevice env =
     stamp_event now \<lparr>ev_Type = WSDeliver, ev_AppID = appID, ev_UserID = userID, ev_DeviceID = exceptDevice,
       ev_CallID = '''', ev_Timestamp = 0, ev_Payload = [''envelope'' \<mapsto> enc_envelope env]\<rparr>"

definition routeToUser ::
    "('s, 'o) HubDeps \<Rightarrow> gotime \<Rightarrow> string \<Rightarrow> string \<Rightarrow> string \<Rightarrow> Envelope \<Rightarrow> ('s, 'o) Hub \<Rightarrow> ('s, 'o) Hub" where
  "routeToUser d now appID userID exceptDevice env h =
     (case hd_redis d of
        None \<Rightarrow> deliverLocal appID userID exceptDevice env h
      | Some pub \<Rightarrow>
          (let e = deliver_event now appID userID exceptDevice env;
               topic = UserTopic appID userID
           in case pub topic e of
                None \<Rightarrow> h\<lparr>hb_redisOut := hb_redisOut h @ [(topic, e)]\<rparr>
              | Some _ \<Rightarrow> deliverLocal appID userID exceptDevice env h))"

definition envelopeFromDeliverEvent :: "json Event \<Rightarrow> error + Envelope" where
  "envelopeFromDeliverEvent e =
     (case ev_Payload e ''envelope'' of
        None \<Rightarrow> Inl (Other ''missing envelope in ws.deliver payload'')
      | Some JNull \<Rightarrow> Inl (Other ''missing envelope in ws.deliver payload'')
      | Some raw \<Rightarrow> dec_envelope raw)"

text \<open>One event of the loop of \<open>dispatchUserEvents\<close>.\<close>

definition dispatch_event :: "string \<Rightarrow> string \<Rightarrow> json Event \<Rightarrow> ('s, 'o) Hub \<Rightarrow> ('s, 'o) Hub" where
  "dispatch_event appID userID e h =
     (if ev_Type e \<noteq> WSDeliver then h
      else case envelopeFromDeliverEvent e of
             Inl _ \<Rightarrow> h
           | Inr env \<Rightarrow> deliverLocal appID userID (ev_DeviceID e) env h)"

definition broadcastCall ::
    "('s, 'o) HubDeps \<Rightarrow> gotime \<Rightarrow> Call \<Rightarrow> string \<Rightarrow> string \<Rightarrow> ('s, 'o) Hub \<Rightarrow> ('s, 'o) Hub" where
  "broadcastCall d now c typ sender h =
     (case hub_envelope now typ (c_ID c) sender (Some (enc_call c)) h of
        (env, h) \<Rightarrow> fold (\<lambda>p. routeToUser d now (c_AppID c) (p_UserID p) '''' env) (c_Participants c) h)"

definition broadcastPresence ::
    "('s, 'o) HubDeps \<Rightarrow> gotime \<Rightarrow> UserPresence \<Rightarrow> ('s, 'o) Hub \<Rightarrow> ('s, 'o) Hub" where
  "broadcastPresence d now up h =
     (case hub_envelope now TypePresenceUpdated '''' (up_UserID up) (Some (enc_user_presence up)) h of
        (env, h) \<Rightarrow> routeToUser d now (up_AppID up) (up_UserID up) '''' env h)"

definition hub_publish :: "('s, 'o) HubDeps \<Rightarrow> gotime \<Rightarrow> string \<Rightarrow> Conn \<Rightarrow> ('s, 'o) Hub \<Rightarrow> ('s, 'o) Hub" where
  "hub_publish d now typ c h =
     (if hd_bus d
      then h\<lparr>hb_published := hb_published h @
             [stamp_event now \<lparr>ev_Type = typ, ev_AppID = cn_AppID c, ev_UserID = cn_UserID c,
                ev_DeviceID = cn_DeviceID c, ev_CallID = '''', ev_Timestamp = 0, ev_Payload = Map.empty\<rparr>]\<rparr>
      else h)"

definition sendErr ::
    "gotime \<Rightarrow> string \<Rightarrow> string \<Rightarrow> string \<Rightarrow> ('s, 'o) Hub \<Rightarrow> ('s, 'o) Hub" where
  "sendErr now cid callID msg h =
     (case hb_heap h cid of
        None \<Rightarrow> h
      | Some c \<Rightarrow> reply now cid TypeError callID (cn_UserID c) (Some (enc_error ''ERROR'' msg)) h)"

definition ActiveConnections :: "('s, 'o) Hub \<Rightarrow> nat" where
  "ActiveConnections h = length (hb_conns h)"

section \<open>Connections and subscriptions\<close>

definition register :: "Conn \<Rightarrow> ('s, 'o) Hub \<Rightarrow> ('s, 'o) Hub" where
  "register c h = h\<lparr>hb_heap := (hb_heap h)(cn_ID c \<mapsto> c), hb_conns := List.insert (cn_ID c) (hb_conns h)\<rparr>"

definition bindUser :: "string \<Rightarrow> ('s, 'o) Hub \<Rightarrow> ('s, 'o) Hub" where
  "bindUser cid h =
     (case hb_heap h cid of
        None \<Rightarrow> h
      | Some c \<Rightarrow> h\<lparr>hb_byUser := index_add (hub_key (cn_AppID c) (cn_UserID c)) cid (hb_byUser h)\<rparr>)"

text \<open>
  \<open>ensureUserSubscription\<close> in its two critical sections: \<open>sub_reserve\<close> puts a placeholder,
  a fresh \<open>userSub\<close>, unless the user has one; \<open>sub_complete\<close> runs when Redis has answered,
  installs the subscription in its placeholder, or closes it again if the placeholder is gone.
  \<open>hb_open\<close> lists the subscriptions that are open on Redis.
\<close>

definition sub_reserve :: "('s, 'o) HubDeps \<Rightarrow> string \<Rightarrow> ('s, 'o) Hub \<Rightarrow> ('s, 'o) Hub \<times> nat option" where
  "sub_reserve d uk h =
     (if hd_redis d = None \<or> hb_userSubs h uk \<noteq> None then (h, None)
      else (h\<lparr>hb_userSubs := (hb_userSubs h)(uk \<mapsto> hb_nextSub h), hb_nextSub := Suc (hb_nextSub h)\<rparr>,
            Some (hb_nextSub h)))"

definition sub_complete :: "string \<Rightarrow> nat \<Rightarrow> ('s, 'o) Hub \<Rightarrow> ('s, 'o) Hub" where
  "sub_complete uk n h =
     (if hb_userSubs h uk = Some n
      then h\<lparr>hb_filled := n # hb_filled h, hb_open := n # hb_open h\<rparr> else h)"

definition ensureUserSubscription ::
    "('s, 'o) HubDeps \<Rightarrow> string \<Rightarrow> string \<Rightarrow> ('s, 'o) Hub \<Rightarrow> ('s, 'o) Hub" where
  "ensureUserSubscription d appID userID h =
     (case sub_reserve d (hub_key appID userID) h of
        (h, None) \<Rightarrow> h
      | (h, Some n) \<Rightarrow> sub_complete (hub_key appID userID) n h)"

definition index_remove :: "string \<Rightarrow> string \<Rightarrow> index \<Rightarrow> index" where
  "index_remove k v m =
     (let l = removeAll v (index_get m k)
      in if l = [] then m(k := None) else m(k \<mapsto> l))"

text \<open>The part of \<open>unregister\<close> under the lock, and the closing of the user's subscription after it.\<close>

definition unbind :: "string \<Rightarrow> ('s, 'o) Hub \<Rightarrow> ('s, 'o) Hub" where
  "unbind cid h =
     (let h1 = h\<lparr>hb_conns := removeAll cid (hb_conns h)\<rparr>
      in case hb_heap h cid of
           None \<Rightarrow> h1
         | Some c \<Rightarrow>
             (let uk = hub_key (cn_AppID c) (cn_UserID c)
              in if cn_UserID c = '''' \<or> hb_byUser h uk = None then h1
                 else
                   (let h2 = h1\<lparr>hb_byUser := index_remove uk cid (hb_byUser h)\<rparr>
                    in if hb_byUser h2 uk \<noteq> None then h2
                       else case hb_userSubs h uk of
                              None \<Rightarrow> h2
                            | Some n \<Rightarrow>
                                h2\<lparr>hb_userSubs := (hb_userSubs h)(uk := None),
                                   hb_open := (if n \<in> set (hb_filled h) then removeAll n (hb_open h)
                                               else hb_open h)\<rparr>)))"

definition unregister :: "('s, 'o) HubDeps \<Rightarrow> gotime \<Rightarrow> string \<Rightarrow> ('s, 'o) Hub \<Rightarrow> ('s, 'o) Hub" where
  "unregister d now cid h =
     (case hb_heap h cid of
        None \<Rightarrow> unbind cid h
      | Some c \<Rightarrow>
          (let h = unbind cid h;
               h = (case hb_presence h of
                      None \<Rightarrow> h
                    | Some ps \<Rightarrow>
                        if cn_authed c
                        then (case SetOffline Background now (cn_AppID c) (cn_UserID c) (cn_DeviceID c) ps of
                                (ps, up) \<Rightarrow> broadcastPresence d now up (h\<lparr>hb_presence := Some ps\<rparr>))
                        else h);
               h = (if cn_authed c then hub_publish d now DeviceDisconnected c h else h)
           in h\<lparr>hb_heap := set_conn cid conn_Close (hb_heap h)\<rparr>))"

section \<open>Authentication\<close>

record AuthenticateData =
  ad_Token :: string
  ad_DeviceID :: string
  ad_Reconnect :: bool

definition read_auth :: "json \<Rightarrow> AuthenticateData \<Rightarrow> AuthenticateData" where
  "read_auth j a = \<lparr>ad_Token = read_str ''token'' j (ad_Token a), ad_DeviceID = read_str ''device_id'' j (ad_DeviceID a),
     ad_Reconnect = read_bool ''reconnect'' j (ad_Reconnect a)\<rparr>"

definition auth_data :: "json \<Rightarrow> AuthenticateData" where
  "auth_data raw =
     (let a = read_auth raw \<lparr>ad_Token = '''', ad_DeviceID = '''', ad_Reconnect = False\<rparr>
      in if ad_Token a \<noteq> '''' then a
         else case dec_envelope raw of Inl _ \<Rightarrow> a | Inr env \<Rightarrow> read_auth (env_data env) a)"

definition handleAuth :: "('s, 'o) HubDeps \<Rightarrow> gotime \<Rightarrow> string \<Rightarrow> json \<Rightarrow> ('s, 'o) Hub \<Rightarrow> ('s, 'o) Hub" where
  "handleAuth d now cid raw h =
     (let data = auth_data raw
      in case Validate (hd_lib d) (hd_jwt d) now (ad_Token data) of
           Inl _ \<Rightarrow> reply now cid TypeError '''' '''' (Some (enc_error ''UNAUTHORIZED'' ''invalid token'')) h
         | Inr claims \<Rightarrow>
             (let deviceID = (if ad_DeviceID data \<noteq> '''' then ad_DeviceID data
                              else if uc_DeviceID claims \<noteq> '''' then uc_DeviceID claims
                              else ''device_'' @ cid);
                  appID = (if uc_App claims = '''' then ''unknown'' else uc_App claims);
                  userID = uc_Subject claims;
                  h = h\<lparr>hb_heap := set_conn cid (SetIdentity now userID appID deviceID) (hb_heap h)\<rparr>;
                  h = bindUser cid h;
                  h = ensureUserSubscription d appID userID h;
                  h = (case hb_presence h of
                         None \<Rightarrow> h
                       | Some ps \<Rightarrow>
                           (case SetOnline Background now appID userID deviceID ps of
                              (ps, up) \<Rightarrow> broadcastPresence d now up (h\<lparr>hb_presence := Some ps\<rparr>)));
                  h = (case hb_heap h cid of None \<Rightarrow> h | Some c \<Rightarrow> hub_publish d now DeviceConnected c h);
                  active = ListActiveForUser (hd_st d) Background appID userID (hb_svc h)
              in reply now cid TypeAuthenticated '''' userID
                   (Some (enc_authenticated userID appID deviceID (ad_Reconnect data) active)) h))"

section \<open>Client messages\<close>

text \<open>The second result of a wrapped operation: the call, or the text of the error.\<close>

definition callIDFrom :: "Envelope \<Rightarrow> string" where
  "callIDFrom env = (if e_CallID env = '''' then read_str ''call_id'' (env_data env) '''' else e_CallID env)"

definition mapCallEvent :: "string \<Rightarrow> string" where
  "mapCallEvent clientType =
     (if clientType = TypeCallAccept then TypeCallAccepted
      else if clientType = TypeCallReject then TypeCallRejected
      else if clientType = TypeCallCancel then TypeCallCancelled
      else if clientType = TypeCallJoin then TypeCallParticipantJoined
      else if clientType = TypeCallLeave then TypeCallParticipantLeft
      else if clientType = TypeCallHangup then TypeCallEnded
      else clientType)"

definition run_call ::
    "('s Service \<Rightarrow> 's Service \<times> (error + 'r)) \<Rightarrow> ('s, 'o) Hub \<Rightarrow> ('s, 'o) Hub \<times> (error + 'r)" where
  "run_call f h = (case f (hb_svc h) of (svc, r) \<Rightarrow> (h\<lparr>hb_svc := svc\<rparr>, r))"

definition notify :: "('s, 'o) HubDeps \<Rightarrow> notification \<Rightarrow> ('s, 'o) Hub \<Rightarrow> ('s, 'o) Hub" where
  "notify d n h = (if hd_incoming d then h\<lparr>hb_notified := hb_notified h @ [n]\<rparr> else h)"

definition wrapCall ::
    "('s, 'o) HubDeps \<Rightarrow> gotime \<Rightarrow> string \<Rightarrow> Conn \<Rightarrow> Envelope \<Rightarrow>
     (string \<Rightarrow> ('s, 'o) Hub \<Rightarrow> ('s, 'o) Hub \<times> (error + Call)) \<Rightarrow> ('s, 'o) Hub \<Rightarrow> ('s, 'o) Hub" where
  "wrapCall d now cid c env fn h =
     (let callID = callIDFrom env
      in if callID = '''' then sendErr now cid '''' ''call_id required'' h
         else case fn callID h of
                (h, Inl err) \<Rightarrow> sendErr now cid callID (Error err) h
              | (h, Inr updated) \<Rightarrow> broadcastCall d now updated (mapCallEvent (e_Type env)) (cn_UserID c) h)"

text \<open>The operation behind each of the message types that \<open>wrapCall\<close> serves.\<close>

definition call_operation ::
    "('s, 'o) HubDeps \<Rightarrow> gotime \<Rightarrow> Conn \<Rightarrow> string \<Rightarrow> string \<Rightarrow> ('s, 'o) Hub \<Rightarrow> ('s, 'o) Hub \<times> (error + Call)" where
  "call_operation d now c typ callID h =
     (if typ = TypeCallReject then run_call (Reject (hd_st d) Background now callID (cn_UserID c)) h
      else if typ = TypeCallCancel then
        (case run_call (Cancel (hd_st d) Background now callID (cn_UserID c)) h of
           (h, Inl err) \<Rightarrow> (h, Inl err)
         | (h, Inr c2) \<Rightarrow> (notify d (NCancelled c2 ''cancelled'') h, Inr c2))
      else if typ = TypeCallJoin then run_call (Join (hd_st d) Background now callID (cn_UserID c) (cn_DeviceID c)) h
      else if typ = TypeCallLeave then run_call (Leave (hd_st d) Background now callID (cn_UserID c)) h
      else run_call (Hangup (hd_st d) Background now callID (cn_UserID c)) h)"

definition create_input :: "Conn \<Rightarrow> Envelope \<Rightarrow> CreateInput" where
  "create_input c env =
     (let j = env_data env;
          callees = read_strs ''callee_ids'' j;
          callee = read_str ''callee_id'' j ''''
      in \<lparr>in_AppID = cn_AppID c, in_CallerID = cn_UserID c, in_CallerDevice = cn_DeviceID c,
          in_CalleeIDs = (if callees = [] \<and> callee \<noteq> '''' then [callee] else callees),
          in_Type = read_str ''type'' j '''', in_Mode = read_str ''mode'' j '''',
          in_CallerName = read_str ''caller_name'' j ''''\<rparr>)"

definition handleCallCreate ::
    "('s, 'o) HubDeps \<Rightarrow> gotime \<Rightarrow> string \<Rightarrow> Conn \<Rightarrow> Envelope \<Rightarrow> ('s, 'o) Hub \<Rightarrow> ('s, 'o) Hub" where
  "handleCallCreate d now cid c env h =
     (case Allow now (hub_key (cn_AppID c) (cn_UserID c)) (hb_callLimiter h) of
        (l, False) \<Rightarrow>
          reply now cid TypeError (e_CallID env) (cn_UserID c)
            (Some (enc_error ''RATE_LIMITED'' ''too many call creations'')) (h\<lparr>hb_callLimiter := l\<rparr>)
      | (l, True) \<Rightarrow>
          (let h = h\<lparr>hb_callLimiter := l, hb_idn := hb_idn h + 2\<rparr>;
               inp = create_input c env
           in case run_call (orch_Create (hd_st d) (hd_orch d) Background now (hb_ids h (hb_idn h - 2))
                     (hb_ids h (hb_idn h - 1)) inp) h of
                (h, Inl err) \<Rightarrow> sendErr now cid (e_CallID env) (Error err) h
              | (h, Inr created) \<Rightarrow>
                  (let h = broadcastCall d now created TypeCallCreated (cn_UserID c) h;
                       h = broadcastCall d now created TypeCallRinging (cn_UserID c) h
                   in notify d (NRinging created (in_CallerName inp)) h)))"

definition handleAccept ::
    "('s, 'o) HubDeps \<Rightarrow> gotime \<Rightarrow> string \<Rightarrow> Conn \<Rightarrow> Envelope \<Rightarrow> ('s, 'o) Hub \<Rightarrow> ('s, 'o) Hub" where
  "handleAccept d now cid c env h =
     (let callID = callIDFrom env
      in if callID = '''' then sendErr now cid '''' ''call_id required'' h
         else case run_call (Accept (hd_st d) Background now callID (cn_UserID c) (cn_DeviceID c)) h of
                (h, Inl err) \<Rightarrow> sendErr now cid callID (Error err) h
              | (h, Inr updated) \<Rightarrow>
                  (let h = broadcastCall d now updated TypeCallAccepted (cn_UserID c) h
                   in case hub_envelope now TypeCallStopRinging (c_ID updated) (cn_UserID c)
                             (Some (enc_stop_ringing (c_ID updated) (cn_DeviceID c) ''accepted_elsewhere'')) h of
                        (stop, h) \<Rightarrow>
                          notify d (NStopRinging updated (cn_UserID c) ''accepted_elsewhere'')
                            (routeToUser d now (c_AppID updated) (cn_UserID c) (cn_DeviceID c) stop h)))"

definition replay :: "string \<Rightarrow> Conn \<Rightarrow> Envelope list \<Rightarrow> ('s, 'o) Hub \<Rightarrow> ('s, 'o) Hub" where
  "replay cid c logs h = fold (\<lambda>env h. if e_SenderID env \<noteq> cn_UserID c then send_to cid env h else h) logs h"

definition handleResume ::
    "('s, 'o) HubDeps \<Rightarrow> gotime \<Rightarrow> string \<Rightarrow> Conn \<Rightarrow> Envelope \<Rightarrow> ('s, 'o) Hub \<Rightarrow> ('s, 'o) Hub" where
  "handleResume d now cid c env h =
     (let callID = callIDFrom env
      in if callID = '''' then sendErr now cid '''' ''call_id required'' h
         else case run_call (ResumeFull (hd_st d) (hd_lib d) (hd_orch d) Background now callID (cn_UserID c)
                     (cn_DeviceID c)) h of
                (h, Inl err) \<Rightarrow> sendErr now cid callID (Error err) h
              | (h, Inr snapshot) \<Rightarrow>
                  (let h = reply now cid TypeCallState (rr_CallID snapshot) (cn_UserID c) (Some (enc_resume snapshot)) h;
                       h = broadcastCall d now (rr_Call snapshot) TypeCallParticipantJoined (cn_UserID c) h
                   in case hd_oplog d of
                        None \<Rightarrow> h
                      | Some ol \<Rightarrow>
                          (case ol_GetRecent ol callID (hb_oplog h) of
                             Inl _ \<Rightarrow> h
                           | Inr recentLogs \<Rightarrow> replay cid c recentLogs h)))"

definition relay_append :: "('s, 'o) HubDeps \<Rightarrow> string \<Rightarrow> Envelope \<Rightarrow> ('s, 'o) Hub \<Rightarrow> ('s, 'o) Hub" where
  "relay_append d callID out h =
     (case hd_oplog d of
        None \<Rightarrow> h
      | Some ol \<Rightarrow> h\<lparr>hb_oplog := fst (ol_Append ol callID out (hb_oplog h))\<rparr>)"

definition relaySignaling ::
    "('s, 'o) HubDeps \<Rightarrow> gotime \<Rightarrow> string \<Rightarrow> Conn \<Rightarrow> Envelope \<Rightarrow> ('s, 'o) Hub \<Rightarrow> ('s, 'o) Hub" where
  "relaySignaling d now cid c env h =
     (if e_CallID env = '''' then sendErr now cid '''' ''call_id required'' h
      else case Get (hd_st d) Background (e_CallID env) (hb_svc h) of
             Inl err \<Rightarrow> sendErr now cid (e_CallID env) (Error err) h
           | Inr cl \<Rightarrow>
               if FindParticipant (cn_UserID c) cl = None
               then sendErr now cid (e_CallID env) ''not a participant'' h
               else
                 (case hub_envelope now (e_Type env) (e_CallID env) (cn_UserID c) (e_Data env) h of
                    (out, h) \<Rightarrow>
                      fold (\<lambda>p h. if p_UserID p = cn_UserID c then h
                                   else routeToUser d now (c_AppID cl) (p_UserID p) '''' out h)
                        (c_Participants cl) (relay_append d (e_CallID env) out h)))"

definition relayed :: "string \<Rightarrow> bool" where
  "relayed typ \<longleftrightarrow> typ \<in> {TypeWebRTCOffer, TypeWebRTCAnswer, TypeWebRTCICECandidate, TypeMediaMute,
     TypeMediaUnmute, TypeMediaCameraOn, TypeMediaCameraOff}"

definition handleAuthed ::
    "('s, 'o) HubDeps \<Rightarrow> gotime \<Rightarrow> string \<Rightarrow> Conn \<Rightarrow> Envelope \<Rightarrow> ('s, 'o) Hub \<Rightarrow> ('s, 'o) Hub" where
  "handleAuthed d now cid c env h =
     (let typ = e_Type env
      in if typ = TypeCallCreate then handleCallCreate d now cid c env h
         else if typ = TypeCallAccept then handleAccept d now cid c env h
         else if typ \<in> {TypeCallReject, TypeCallCancel, TypeCallJoin, TypeCallLeave, TypeCallHangup}
         then wrapCall d now cid c env (call_operation d now c typ) h
         else if typ = TypeCallResume \<or> typ = TypeSessionResume then handleResume d now cid c env h
         else if relayed typ then relaySignaling d now cid c env h
         else reply now cid TypeError (e_CallID env) (cn_UserID c)
                (Some (enc_error ''UNKNOWN_TYPE'' ''unknown message type'')) h)"

definition handle ::
    "('s, 'o) HubDeps \<Rightarrow> gotime \<Rightarrow> string \<Rightarrow> Envelope \<Rightarrow> json \<Rightarrow> ('s, 'o) Hub \<Rightarrow> ('s, 'o) Hub" where
  "handle d now cid env raw h =
     (case hb_heap h cid of
        None \<Rightarrow> h
      | Some c \<Rightarrow>
          if e_Type env = TypeAuthenticate then handleAuth d now cid raw h
          else if e_Type env = TypePing then reply now cid TypePong (e_CallID env) (cn_UserID c) None h
          else if \<not> cn_authed c
          then reply now cid TypeError (e_CallID env) ''''
                 (Some (enc_error ''UNAUTHORIZED'' ''authenticate first'')) h
          else if e_Type env = TypeSessionResume then handleAuthed d now cid c env h
          else (case Allow now cid (hb_msgLimiter h) of
                  (l, False) \<Rightarrow>
                    reply now cid TypeError (e_CallID env) (cn_UserID c)
                      (Some (enc_error ''RATE_LIMITED'' ''too many signaling messages'')) (h\<lparr>hb_msgLimiter := l\<rparr>)
                | (l, True) \<Rightarrow> handleAuthed d now cid c env (h\<lparr>hb_msgLimiter := l\<rparr>)))"

text \<open>One message read by \<open>readPump\<close>; \<open>None\<close> is a frame that is no JSON document.\<close>

definition read_message ::
    "('s, 'o) HubDeps \<Rightarrow> gotime \<Rightarrow> string \<Rightarrow> json option \<Rightarrow> ('s, 'o) Hub \<Rightarrow> ('s, 'o) Hub" where
  "read_message d now cid frame h =
     (let h = h\<lparr>hb_heap := set_conn cid (Touch now) (hb_heap h)\<rparr>;
          invalid = reply now cid TypeError '''' '''' (Some (enc_error ''INVALID_JSON'' ''invalid message'')) h
      in case frame of
           None \<Rightarrow> invalid
         | Some raw \<Rightarrow> (case dec_envelope raw of Inl _ \<Rightarrow> invalid | Inr env \<Rightarrow> handle d now cid env raw h))"

text \<open>One envelope written by \<open>writePump\<close>.\<close>

definition write_message :: "string \<Rightarrow> ('s, 'o) Hub \<Rightarrow> ('s, 'o) Hub" where
  "write_message cid h = h\<lparr>hb_heap := set_conn cid conn_write (hb_heap h)\<rparr>"

text \<open>The set-up of a connection by \<open>ServeHTTP\<close>, after the upgrade.\<close>

definition serve :: "gotime \<Rightarrow> ('s, 'o) Hub \<Rightarrow> ('s, 'o) Hub" where
  "serve now h =
     register (conn_New (''conn_'' @ hb_ids h (hb_idn h)) now 128) (h\<lparr>hb_idn := Suc (hb_idn h)\<rparr>)"

end
