(* ===== verification/HubProps.thy ===== *)
theory HubProps
  imports Hub
begin

text \<open>
  The properties of the hub: which connections a delivery reaches, what an unauthenticated
  connection can do, that relayed signaling goes to the other participants only and under the
  sender's own name, and the invariant that ties bindings and Redis subscriptions together in every state
  the hub reaches.
\<close>

section \<open>What the operations leave alone\<close>

definition identity :: "Conn \<Rightarrow> string \<times> string \<times> string \<times> string \<times> bool \<times> bool" where
  "identity c = (cn_ID c, cn_UserID c, cn_AppID c, cn_DeviceID c, cn_authed c, cn_closed c)"

definition core where
  "core h = (hb_conns h, hb_byUser h, hb_userSubs h, hb_nextSub h, hb_filled h, hb_open h,
     (\<lambda>x. map_option identity (hb_heap h x)))"

lemma set_conn_identity:
  "(\<And>c. identity (f c) = identity c) \<Longrightarrow> map_option identity (set_conn cid f heap x) = map_option identity (heap x)"
  by (simp add: set_conn_def option.map_comp split: option.splits)

lemma identity_simps [simp]:
  "identity (fst (conn_Send env c)) = identity c" "identity (Touch now c) = identity c" "identity (conn_write c) = identity c"
  by (simp_all add: identity_def Touch_def conn_write_def split: list.splits)

lemma core_updates [simp]:
  "core (h\<lparr>hb_svc := a\<rparr>) = core h" "core (h\<lparr>hb_presence := b\<rparr>) = core h" "core (h\<lparr>hb_oplog := c\<rparr>) = core h"
  "core (h\<lparr>hb_published := e\<rparr>) = core h" "core (h\<lparr>hb_redisOut := f\<rparr>) = core h" "core (h\<lparr>hb_notified := g\<rparr>) = core h"
  "core (h\<lparr>hb_idn := i\<rparr>) = core h" "core (h\<lparr>hb_msgLimiter := l\<rparr>) = core h" "core (h\<lparr>hb_callLimiter := l\<rparr>) = core h"
  by (simp_all add: core_def)

lemma core_send_to [simp]: "core (send_to cid env h) = core h"
  by (simp add: core_def send_to_def set_conn_identity fun_eq_iff)

lemma core_set_conn [simp]:
  "(\<And>c. identity (f c) = identity c) \<Longrightarrow> core (h\<lparr>hb_heap := set_conn cid f (hb_heap h)\<rparr>) = core h"
  by (simp add: core_def set_conn_identity fun_eq_iff)

lemma core_reply [simp]: "core (reply now cid typ callID sender data h) = core h"
  by (simp add: reply_def hub_envelope_def)

lemma core_sendErr [simp]: "core (sendErr now cid callID msg h) = core h"
  by (simp add: sendErr_def split: option.splits)

lemma fold_set_conn_identity:
  "(\<And>c. identity (f c) = identity c) \<Longrightarrow>
   map_option identity (fold (\<lambda>cid. set_conn cid f) ids heap x) = map_option identity (heap x)"
  by (induction ids arbitrary: heap) (simp_all add: set_conn_identity)

lemma core_deliverLocal [simp]: "core (deliverLocal app u ex env h) = core h"
  by (simp add: core_def deliverLocal_def fold_set_conn_identity fun_eq_iff)

lemma core_routeToUser [simp]: "core (routeToUser d now app u ex env h) = core h"
  by (simp add: routeToUser_def Let_def split: option.splits)

lemma core_fold:
  "(\<And>x h. core (f x h) = core h) \<Longrightarrow> core (fold f xs h) = core h"
  by (induction xs arbitrary: h) simp_all

lemma core_broadcast [simp]:
  "core (broadcastCall d now c typ sender h) = core h" "core (broadcastPresence d now up h) = core h"
  by (simp_all add: broadcastCall_def broadcastPresence_def hub_envelope_def core_fold)

lemma core_misc [simp]:
  "core (hub_publish d now typ c h) = core h" "core (notify d n h) = core h" "core (dispatch_event app u e h) = core h"
  "core (replay cid c logs h) = core h" "core (relay_append d callID out h) = core h" "core (write_message cid h) = core h"
  by (simp_all add: hub_publish_def notify_def dispatch_event_def replay_def core_fold relay_append_def write_message_def
      split: sum.splits option.splits)

lemma core_run_call [simp]: "core (fst (run_call f h)) = core h"
  by (simp add: run_call_def split: prod.splits)

lemma core_call_operation [simp]: "core (fst (call_operation d now c typ callID h)) = core h"
proof -
  have "core h1 = core h" if "run_call f h = (h1, r)" for f :: "'a Service \<Rightarrow> 'a Service \<times> (error + Call)" and h1 r
    using core_run_call [of f h] that by simp
  then show ?thesis by (auto simp: call_operation_def split: prod.splits sum.splits)
qed

lemma core_wrapCall:
  assumes "\<And>i h. core (fst (fn i h)) = core h"
  shows "core (wrapCall d now cid c env fn h) = core h"
proof -
  have "core h1 = core h" if "fn i h = (h1, r)" for i h1 r using assms [of i h] that by simp
  then show ?thesis by (auto simp: wrapCall_def Let_def split: prod.splits sum.splits)
qed

lemma core_handlers [simp]:
  "core (handleCallCreate d now cid c env h) = core h" "core (handleAccept d now cid c env h) = core h"
  "core (handleResume d now cid c env h) = core h" "core (relaySignaling d now cid c env h) = core h"
proof -
  have r: "core h1 = core h0" if "run_call f h0 = (h1, r)"
    for f :: "'a Service \<Rightarrow> 'a Service \<times> (error + 'r)" and h0 h1 :: "('a, 'b) Hub" and r
    using core_run_call [of f h0] that by simp
  show "core (handleCallCreate d now cid c env h) = core h"
    by (auto simp: handleCallCreate_def Let_def split: prod.splits sum.splits bool.splits dest: r)
  show "core (handleAccept d now cid c env h) = core h"
    by (auto simp: handleAccept_def Let_def hub_envelope_def split: prod.splits sum.splits dest: r)
  show "core (handleResume d now cid c env h) = core h"
    by (auto simp: handleResume_def Let_def split: prod.splits sum.splits option.splits dest: r)
  show "core (relaySignaling d now cid c env h) = core h"
    by (auto simp: relaySignaling_def hub_envelope_def intro!: trans [OF core_fold] split: sum.splits)
qed

lemma core_handleAuthed [simp]: "core (handleAuthed d now cid c env h) = core h"
  by (simp add: handleAuthed_def Let_def core_wrapCall)

section \<open>The invariant\<close>

text \<open>Application, user and whether it is authenticated, of a connection.\<close>

definition who :: "('s, 'o) Hub \<Rightarrow> string \<rightharpoonup> string \<times> string \<times> bool" where
  "who h cid = map_option (\<lambda>c. (cn_AppID c, cn_UserID c, cn_authed c)) (hb_heap h cid)"

text \<open>
  Bindings: no connection twice under a key, no empty entry, only known connections, a user id exactly
  if authenticated, and every registered authenticated connection bound under its own key.
\<close>

definition bindings_ok :: "('s, 'o) Hub \<Rightarrow> bool" where
  "bindings_ok h \<longleftrightarrow>
     (\<forall>k. distinct (index_get (hb_byUser h) k)) \<and> (\<forall>k. hb_byUser h k \<noteq> Some []) \<and>
     (\<forall>k cid. cid \<in> set (index_get (hb_byUser h) k) \<longrightarrow> who h cid \<noteq> None) \<and>
     (\<forall>cid a u b. who h cid = Some (a, u, b) \<longrightarrow> (b \<longleftrightarrow> u \<noteq> [])) \<and>
     (\<forall>cid. cid \<in> set (hb_conns h) \<longrightarrow> who h cid \<noteq> None) \<and>
     (\<forall>cid a u. cid \<in> set (hb_conns h) \<longrightarrow> who h cid = Some (a, u, True) \<longrightarrow>
        cid \<in> set (index_get (hb_byUser h) (hub_key a u)))"

text \<open>
  Subscriptions: with a Redis bus, one per key that has bindings, installed and open, and no other
  is open; without one, none.
\<close>

definition subs_ok :: "('s, 'o) HubDeps \<Rightarrow> ('s, 'o) Hub \<Rightarrow> bool" where
  "subs_ok d h \<longleftrightarrow>
     (if hd_redis d = None then hb_userSubs h = Map.empty else dom (hb_userSubs h) = dom (hb_byUser h)) \<and>
     (\<forall>k n. hb_userSubs h k = Some n \<longrightarrow> n \<in> set (hb_filled h) \<and> n < hb_nextSub h) \<and>
     (\<forall>k k' n. hb_userSubs h k = Some n \<longrightarrow> hb_userSubs h k' = Some n \<longrightarrow> k = k') \<and>
     set (hb_open h) = ran (hb_userSubs h) \<and> distinct (hb_open h)"

definition hub_inv :: "('s, 'o) HubDeps \<Rightarrow> ('s, 'o) Hub \<Rightarrow> bool" where
  "hub_inv d h \<longleftrightarrow> bindings_ok h \<and> subs_ok d h"

lemma hub_inv_cong:
  assumes "hb_conns h' = hb_conns h" "hb_byUser h' = hb_byUser h" "hb_userSubs h' = hb_userSubs h" "hb_nextSub h' = hb_nextSub h"
    "hb_filled h' = hb_filled h" "hb_open h' = hb_open h" "who h' = who h"
  shows "hub_inv d h' = hub_inv d h"
  using assms by (simp add: hub_inv_def bindings_ok_def subs_ok_def)

lemma who_identity:
  "who h x = map_option (\<lambda>(i, u, a, dv, b, cl). (a, u, b)) (map_option identity (hb_heap h x))"
  by (simp add: who_def option.map_comp comp_def identity_def)

lemma who_core:
  assumes "(\<lambda>x. map_option identity (hb_heap h' x)) = (\<lambda>x. map_option identity (hb_heap h x))"
  shows "who h' = who h"
proof
  fix x
  show "who h' x = who h x" using fun_cong [OF assms, of x] by (simp only: who_identity)
qed

lemma core_inv: "core h' = core h \<Longrightarrow> hub_inv d h' = hub_inv d h"
  by (rule hub_inv_cong) (auto simp: core_def intro: who_core)

lemma index_get_remove:
  "index_get (index_remove k v m) k' = (if k' = k then removeAll v (index_get m k) else index_get m k')"
  by (auto simp: index_remove_def index_get_def Let_def)

lemma index_remove_dom:
  "index_remove k v m k' = None \<longleftrightarrow> (if k' = k then removeAll v (index_get m k) = [] else m k' = None)"
  "(\<forall>k. m k \<noteq> Some []) \<Longrightarrow> index_remove k v m k' \<noteq> Some []"
  by (auto simp: index_remove_def Let_def)

lemma hub_inv_new: "hub_inv d (NewHub a b ids svc ps ol)"
  by (simp add: hub_inv_def bindings_ok_def subs_ok_def NewHub_def who_def)

lemma serve_inv:
  assumes "hub_inv d h" "hb_heap h (''conn_'' @ hb_ids h (hb_idn h)) = None"
  shows "hub_inv d (serve now h)"
proof -
  let ?i = "''conn_'' @ hb_ids h (hb_idn h)"
  have w: "who (serve now h) x = (if x = ?i then Some ([], [], False) else who h x)" for x
    by (simp add: who_def serve_def register_def conn_New_def)
  have f: "hb_byUser (serve now h) = hb_byUser h" "set (hb_conns (serve now h)) = insert ?i (set (hb_conns h))"
    by (simp_all add: serve_def register_def conn_New_def)
  have "bindings_ok (serve now h)" using assms(1) unfolding hub_inv_def bindings_ok_def f w by auto
  moreover have "subs_ok d (serve now h)" using assms(1) by (simp add: hub_inv_def subs_ok_def serve_def register_def)
  ultimately show ?thesis by (simp add: hub_inv_def)
qed

text \<open>Binding a connection to a user, with the subscription of that user.\<close>

definition auth_bind ::
    "('s, 'o) HubDeps \<Rightarrow> gotime \<Rightarrow> string \<Rightarrow> string \<Rightarrow> string \<Rightarrow> string \<Rightarrow> ('s, 'o) Hub \<Rightarrow> ('s, 'o) Hub" where
  "auth_bind d now cid appID userID deviceID h =
     ensureUserSubscription d appID userID
       (bindUser cid (h\<lparr>hb_heap := set_conn cid (SetIdentity now userID appID deviceID) (hb_heap h)\<rparr>))"

lemma ensure_fields [simp]:
  "hb_conns (ensureUserSubscription d a u h) = hb_conns h" "hb_byUser (ensureUserSubscription d a u h) = hb_byUser h"
  "hb_heap (ensureUserSubscription d a u h) = hb_heap h" "who (ensureUserSubscription d a u h) = who h"
  by (simp_all add: ensureUserSubscription_def sub_reserve_def sub_complete_def who_def fun_eq_iff)

lemma auth_bind_fields:
  assumes "hb_heap h cid = Some c"
  shows "hb_conns (auth_bind d now cid a u dv h) = hb_conns h"
    "hb_byUser (auth_bind d now cid a u dv h) = index_add (hub_key a u) cid (hb_byUser h)"
    "who (auth_bind d now cid a u dv h) = (who h)(cid \<mapsto> (a, u, True))"
    "hb_heap (auth_bind d now cid a u dv h) = (hb_heap h)(cid \<mapsto> SetIdentity now u a dv c)"
  using assms by (simp_all add: auth_bind_def bindUser_def set_conn_def SetIdentity_def who_def fun_eq_iff)

lemma auth_bind_bindings:
  assumes "bindings_ok h" "hb_heap h cid = Some c" "u \<noteq> []"
  shows "bindings_ok (auth_bind d now cid a u dv h)"
proof -
  have "hb_byUser h k \<noteq> Some []" for k using assms(1) by (simp add: bindings_ok_def)
  moreover have "index_add (hub_key a u) cid (hb_byUser h) k \<noteq> Some []" if "hb_byUser h k \<noteq> Some []" for k
    using that by (auto simp: index_add_def List.insert_def)
  ultimately show ?thesis
    using assms(1,3) unfolding bindings_ok_def auth_bind_fields [OF assms(2)] by auto
qed

lemma ensure_subs:
  assumes "subs_ok d h0" "hb_userSubs h = hb_userSubs h0" "hb_nextSub h = hb_nextSub h0" "hb_filled h = hb_filled h0"
    "hb_open h = hb_open h0" "dom (hb_byUser h) = insert (hub_key a u) (dom (hb_byUser h0))"
  shows "subs_ok d (ensureUserSubscription d a u h)"
proof (cases "hd_redis d = None \<or> hb_userSubs h (hub_key a u) \<noteq> None")
  case True
  then have "ensureUserSubscription d a u h = h" by (auto simp: ensureUserSubscription_def sub_reserve_def)
  then show ?thesis using assms True unfolding subs_ok_def by (auto split: if_splits)
next
  case False
  let ?n = "hb_nextSub h"
  have e: "hb_userSubs (ensureUserSubscription d a u h) = (hb_userSubs h)(hub_key a u \<mapsto> ?n)"
    "hb_nextSub (ensureUserSubscription d a u h) = Suc ?n" "hb_filled (ensureUserSubscription d a u h) = ?n # hb_filled h"
    "hb_open (ensureUserSubscription d a u h) = ?n # hb_open h"
    using False by (auto simp: ensureUserSubscription_def sub_reserve_def sub_complete_def)
  have old: "\<And>k n. hb_userSubs h k = Some n \<Longrightarrow> n \<in> set (hb_filled h) \<and> n < ?n"
    "\<And>k k' n. hb_userSubs h k = Some n \<Longrightarrow> hb_userSubs h k' = Some n \<Longrightarrow> k = k'"
    "set (hb_open h) = ran (hb_userSubs h)" "distinct (hb_open h)" "dom (hb_userSubs h) = dom (hb_byUser h0)"
    using assms(1-5) False unfolding subs_ok_def by auto
  have "?n \<notin> set (hb_open h)" unfolding old(3) using old(1) by (auto simp: ran_def)
  moreover have "ran ((hb_userSubs h)(hub_key a u \<mapsto> ?n)) = insert ?n (ran (hb_userSubs h))" using False by simp
  ultimately show ?thesis
    using False old assms(6) unfolding subs_ok_def e ensure_fields by (auto dest: less_imp_neq intro: less_SucI)
qed

lemma auth_bind_inv:
  assumes "hub_inv d h" "hb_heap h cid = Some c" "u \<noteq> []"
  shows "hub_inv d (auth_bind d now cid a u dv h)"
proof -
  have "subs_ok d (auth_bind d now cid a u dv h)" unfolding auth_bind_def
    by (rule ensure_subs [of d h]) (use assms in \<open>auto simp: hub_inv_def bindUser_def set_conn_def SetIdentity_def index_add_def\<close>)
  then show ?thesis using assms auth_bind_bindings by (auto simp: hub_inv_def)
qed

lemma core_presence [simp]:
  "core (case x of None \<Rightarrow> h | Some ps \<Rightarrow> (case f ps of (ps, up) \<Rightarrow> broadcastPresence d now up (h\<lparr>hb_presence := Some ps\<rparr>))) = core h"
  "core (case y of None \<Rightarrow> h | Some c \<Rightarrow> hub_publish d now typ c h) = core h"
  by (simp_all split: option.splits prod.splits)

lemma handleAuth_core:
  "core (handleAuth d now cid raw h) = core h \<or>
   (\<exists>a u dv. u \<noteq> [] \<and> core (handleAuth d now cid raw h) = core (auth_bind d now cid a u dv h))"
proof (cases "Validate (hd_lib d) (hd_jwt d) now (ad_Token (auth_data raw))")
  case (Inl e)
  then show ?thesis by (simp add: handleAuth_def Let_def)
next
  case (Inr claims)
  have u: "uc_Subject claims \<noteq> []" using Inr by (auto simp: Validate_def Let_def split: if_splits sum.splits)
  let ?a = "if uc_App claims = [] then ''unknown'' else uc_App claims"
  let ?dv = "if ad_DeviceID (auth_data raw) \<noteq> [] then ad_DeviceID (auth_data raw)
     else if uc_DeviceID claims \<noteq> [] then uc_DeviceID claims else ''device_'' @ cid"
  have "core (handleAuth d now cid raw h) = core (auth_bind d now cid ?a (uc_Subject claims) ?dv h)"
    unfolding handleAuth_def auth_bind_def Let_def Inr sum.case by (simp only: core_reply core_presence)
  then show ?thesis using u by blast
qed

lemma handle_inv:
  assumes "hub_inv d h"
  shows "hub_inv d (handle d now cid env raw h)"
proof (cases "hb_heap h cid")
  case (Some c)
  show ?thesis
  proof (cases "e_Type env = TypeAuthenticate")
    case True
    then have "handle d now cid env raw h = handleAuth d now cid raw h" using Some by (simp add: handle_def)
    then show ?thesis using handleAuth_core [of d now cid raw h] auth_bind_inv [OF assms Some] core_inv assms by metis
  next
    case False
    then have "core (handle d now cid env raw h) = core h"
      using Some by (auto simp: handle_def split: prod.splits bool.splits)
    then show ?thesis using core_inv assms by metis
  qed
qed (simp add: handle_def assms)

lemma unbind_who [simp]: "who (unbind cid h) = who h" "hb_conns (unbind cid h) = removeAll cid (hb_conns h)"
  by (auto simp: unbind_def who_def fun_eq_iff Let_def split: option.splits)

lemma unbind_frame [simp]: "hb_nextSub (unbind cid h) = hb_nextSub h" "hb_filled (unbind cid h) = hb_filled h"
  by (auto simp: unbind_def Let_def split: option.splits)

text \<open>Taking a connection out of its user's bindings.\<close>

lemma unbind_cases:
  obtains (same) "hb_byUser (unbind cid h) = hb_byUser h" "hb_userSubs (unbind cid h) = hb_userSubs h"
      "hb_open (unbind cid h) = hb_open h" "\<And>a u. who h cid = Some (a, u, b) \<Longrightarrow> u \<noteq> [] \<Longrightarrow> hb_byUser h (hub_key a u) = None"
  | (shrink) a u b l where "who h cid = Some (a, u, b)" "hb_byUser h (hub_key a u) = Some l" "removeAll cid l \<noteq> []"
      "hb_byUser (unbind cid h) = (hb_byUser h)(hub_key a u \<mapsto> removeAll cid l)"
      "hb_userSubs (unbind cid h) = hb_userSubs h" "hb_open (unbind cid h) = hb_open h"
  | (last) a u b l where "who h cid = Some (a, u, b)" "hb_byUser h (hub_key a u) = Some l" "removeAll cid l = []"
      "hb_byUser (unbind cid h) = (hb_byUser h)(hub_key a u := None)"
      "hb_userSubs (unbind cid h) = (hb_userSubs h)(hub_key a u := None)"
      "hb_open (unbind cid h) = (case hb_userSubs h (hub_key a u) of None \<Rightarrow> hb_open h | Some n \<Rightarrow>
         if n \<in> set (hb_filled h) then removeAll n (hb_open h) else hb_open h)"
proof (cases "hb_heap h cid")
  case None
  then show thesis by (intro same) (simp_all add: unbind_def Let_def who_def)
next
  case (Some c)
  let ?k = "hub_key (cn_AppID c) (cn_UserID c)"
  have w: "who h cid = Some (cn_AppID c, cn_UserID c, cn_authed c)" using Some by (simp add: who_def)
  show thesis
  proof (cases "cn_UserID c = [] \<or> hb_byUser h ?k = None")
    case True
    then show thesis using Some by (intro same) (auto simp: unbind_def Let_def w)
  next
    case False
    then obtain l where l: "hb_byUser h ?k = Some l" by blast
    show thesis
    proof (cases "removeAll cid l = []")
      case True
      have "(hb_userSubs h)(?k := None) = hb_userSubs h" if "hb_userSubs h ?k = None" using that by (simp add: fun_upd_idem)
      then show thesis
        using Some False l True
        by (intro last [OF w l]) (auto simp: unbind_def Let_def index_remove_def index_get_def split: option.splits)
    next
      case rest: False
      then show thesis
        using Some False l
        by (intro shrink [OF w l]) (auto simp: unbind_def Let_def index_remove_def index_get_def)
    qed
  qed
qed

lemma unbind_bindings:
  assumes "bindings_ok h"
  shows "bindings_ok (unbind cid h)"
proof -
  have "index_get (hb_byUser (unbind cid h)) k \<in> {index_get (hb_byUser h) k, removeAll cid (index_get (hb_byUser h) k)}" for k
    by (rule unbind_cases [of cid h]) (auto simp: index_get_def)
  then have i: "index_get (hb_byUser (unbind cid h)) k = index_get (hb_byUser h) k \<or>
      index_get (hb_byUser (unbind cid h)) k = removeAll cid (index_get (hb_byUser h) k)" for k by blast
  have ne: "hb_byUser (unbind cid h) k \<noteq> Some []" for k
    by (rule unbind_cases [of cid h]) (use assms in \<open>auto simp: bindings_ok_def\<close>)
  have "distinct (index_get (hb_byUser (unbind cid h)) k)" for k
    using i [of k] assms by (auto simp: bindings_ok_def distinct_removeAll)
  moreover have "set (index_get (hb_byUser (unbind cid h)) k) \<subseteq> set (index_get (hb_byUser h) k)" for k using i [of k] by auto
  moreover have "x \<in> set (index_get (hb_byUser (unbind cid h)) k)" if "x \<in> set (index_get (hb_byUser h) k)" "x \<noteq> cid" for x k
    using i [of k] that by auto
  ultimately have new: "distinct (index_get (hb_byUser (unbind cid h)) k)"
    "x \<in> set (index_get (hb_byUser (unbind cid h)) k) \<Longrightarrow> x \<in> set (index_get (hb_byUser h) k)"
    "x \<in> set (index_get (hb_byUser h) k) \<Longrightarrow> x \<noteq> cid \<Longrightarrow> x \<in> set (index_get (hb_byUser (unbind cid h)) k)" for x k by blast+
  have old: "x \<in> set (index_get (hb_byUser h) k) \<Longrightarrow> who h x \<noteq> None" "who h x = Some (a, u, b) \<Longrightarrow> b \<longleftrightarrow> u \<noteq> []"
    "x \<in> set (hb_conns h) \<Longrightarrow> who h x \<noteq> None"
    "x \<in> set (hb_conns h) \<Longrightarrow> who h x = Some (a, u, True) \<Longrightarrow> x \<in> set (index_get (hb_byUser h) (hub_key a u))" for x k a u b
    using assms unfolding bindings_ok_def by blast+
  show ?thesis
    unfolding bindings_ok_def unbind_who
  proof (intro conjI allI impI)
    fix k x assume "x \<in> set (index_get (hb_byUser (unbind cid h)) k)"
    then show "who h x \<noteq> None" by (rule old(1) [OF new(2)])
  next
    fix x a u assume "x \<in> set (removeAll cid (hb_conns h))" "who h x = Some (a, u, True)"
    then show "x \<in> set (index_get (hb_byUser (unbind cid h)) (hub_key a u))" by (intro new(3) old(4)) simp_all
  next
    fix x a u b assume "who h x = Some (a, u, b)"
    then show "b = (u \<noteq> [])" by (rule old(2))
  next
    fix x assume "x \<in> set (removeAll cid (hb_conns h))"
    then show "who h x \<noteq> None" by (intro old(3)) simp
  qed (rule new(1) ne)+
qed

lemma ran_delete:
  assumes "m k = Some n" "\<And>k'. m k' = Some n \<Longrightarrow> k' = k"
  shows "ran (m(k := None)) = ran m - {n}"
proof -
  have "v \<in> ran (m(k := None)) \<longleftrightarrow> (\<exists>x. x \<noteq> k \<and> m x = Some v)" for v by (auto simp: ran_def)
  moreover have "(\<exists>x. x \<noteq> k \<and> m x = Some v) \<longleftrightarrow> v \<in> ran m \<and> v \<noteq> n" for v
  proof (cases "v = n")
    case True
    then show ?thesis using assms(2) by blast
  next
    case False
    then have "x \<noteq> k" if "m x = Some v" for x using that assms(1) by auto
    then show ?thesis using False unfolding ran_def by blast
  qed
  ultimately show ?thesis by blast
qed

lemma unbind_subs:
  assumes "subs_ok d h"
  shows "subs_ok d (unbind cid h)"
proof (rule unbind_cases [of cid h])
  fix a u b l
  let ?k = "hub_key a u"
  assume L: "hb_byUser h ?k = Some l" "hb_byUser (unbind cid h) = (hb_byUser h)(?k := None)"
    "hb_userSubs (unbind cid h) = (hb_userSubs h)(?k := None)"
    "hb_open (unbind cid h) = (case hb_userSubs h ?k of None \<Rightarrow> hb_open h | Some n \<Rightarrow>
       if n \<in> set (hb_filled h) then removeAll n (hb_open h) else hb_open h)"
  show ?thesis
  proof (cases "hb_userSubs h ?k")
    case None
    then show ?thesis using assms L unfolding subs_ok_def by (auto simp: fun_upd_idem split: if_splits)
  next
    case (Some n)
    have "ran ((hb_userSubs h)(?k := None)) = ran (hb_userSubs h) - {n}"
      using assms Some unfolding subs_ok_def by (intro ran_delete) blast+
    then show ?thesis using assms L Some unfolding subs_ok_def unbind_frame
      by (auto simp: distinct_removeAll split: if_splits)
  qed
qed (use assms in \<open>auto simp: subs_ok_def split: if_splits\<close>)

lemma unregister_inv:
  assumes "hub_inv d h"
  shows "hub_inv d (unregister d now cid h)"
proof -
  have u: "hub_inv d (unbind cid h)" using assms unbind_bindings unbind_subs by (auto simp: hub_inv_def)
  show ?thesis
  proof (cases "hb_heap h cid")
    case None
    then show ?thesis using u by (simp add: unregister_def)
  next
    case (Some c)
    let ?h = "unbind cid h"
    let ?p = "case hb_presence ?h of None \<Rightarrow> ?h | Some ps \<Rightarrow> if cn_authed c
       then (case SetOffline Background now (cn_AppID c) (cn_UserID c) (cn_DeviceID c) ps of
               (ps, up) \<Rightarrow> broadcastPresence d now up (?h\<lparr>hb_presence := Some ps\<rparr>)) else ?h"
    define h1 where "h1 = (if cn_authed c then hub_publish d now DeviceDisconnected c ?p else ?p)"
    have "core ?p = core ?h" by (simp split: option.splits prod.splits)
    then have c1: "core h1 = core ?h" unfolding h1_def by (simp only: core_misc split: if_split) blast
    have h1: "unregister d now cid h = h1\<lparr>hb_heap := set_conn cid conn_Close (hb_heap h1)\<rparr>"
      unfolding unregister_def Some option.case Let_def h1_def by (rule refl)
    have "who (h1\<lparr>hb_heap := set_conn cid conn_Close (hb_heap h1)\<rparr>) = who h1"
      by (auto simp: who_def set_conn_def conn_Close_def fun_eq_iff split: option.splits)
    then have "hub_inv d (h1\<lparr>hb_heap := set_conn cid conn_Close (hb_heap h1)\<rparr>) = hub_inv d h1"
      by (intro hub_inv_cong) simp_all
    then show ?thesis unfolding h1 using u core_inv [OF c1, of d] by blast
  qed
qed

lemma read_message_inv:
  assumes "hub_inv d h"
  shows "hub_inv d (read_message d now cid frame h)"
proof -
  let ?h = "h\<lparr>hb_heap := set_conn cid (Touch now) (hb_heap h)\<rparr>"
  have h: "hub_inv d ?h" using assms core_inv [of ?h h d] by simp
  have r: "hub_inv d (reply now cid TypeError [] [] x ?h)" for x using h core_inv [OF core_reply] by blast
  show ?thesis using h r handle_inv [OF h] by (auto simp: read_message_def Let_def split: option.splits sum.splits)
qed

section \<open>The hub as a transition system\<close>

text \<open>
  A client connects, sends a frame or disconnects; the write pump writes; an event arrives from Redis; and
  other parts of the server change calls, presence and oplog.
\<close>

inductive hub_step :: "('s, 'o) HubDeps \<Rightarrow> ('s, 'o) Hub \<Rightarrow> ('s, 'o) Hub \<Rightarrow> bool" for d where
  connect: "hb_heap h (''conn_'' @ hb_ids h (hb_idn h)) = None \<Longrightarrow> hub_step d h (serve now h)"
| message: "cid \<in> set (hb_conns h) \<Longrightarrow> hub_step d h (read_message d now cid frame h)"
| disconnect: "cid \<in> set (hb_conns h) \<Longrightarrow> hub_step d h (unregister d now cid h)"
| written: "hub_step d h (write_message cid h)"
| event: "hub_step d h (dispatch_event app u e h)"
| others: "hub_step d h (h\<lparr>hb_svc := svc, hb_presence := ps, hb_oplog := ol\<rparr>)"

inductive hub_steps :: "('s, 'o) HubDeps \<Rightarrow> ('s, 'o) Hub \<Rightarrow> ('s, 'o) Hub \<Rightarrow> bool" for d where
  hub_refl: "hub_steps d h h"
| hub_trans: "hub_steps d h h' \<Longrightarrow> hub_step d h' h'' \<Longrightarrow> hub_steps d h h''"

lemma hub_step_inv: "hub_step d h h' \<Longrightarrow> hub_inv d h \<Longrightarrow> hub_inv d h'"
proof (induction rule: hub_step.induct)
  case (written h cid)
  then show ?case using core_inv [of "write_message cid h" h d] by simp
next
  case (event h app u e)
  then show ?case using core_inv [of "dispatch_event app u e h" h d] by simp
next
  case (others h ol ps svc)
  then show ?case using core_inv [of "h\<lparr>hb_svc := svc, hb_presence := ps, hb_oplog := ol\<rparr>" h d] by simp
qed (auto intro: serve_inv read_message_inv unregister_inv)

lemma hub_steps_inv: "hub_steps d h h' \<Longrightarrow> hub_inv d h \<Longrightarrow> hub_inv d h'"
  by (induction rule: hub_steps.induct) (auto intro: hub_step_inv)


section \<open>Delivery\<close>

lemma fold_set_conn:
  "distinct ids \<Longrightarrow> fold (\<lambda>cid. set_conn cid f) ids heap x = (if x \<in> set ids then map_option f (heap x) else heap x)"
  by (induction ids arbitrary: heap) (auto simp: set_conn_def split: option.splits)

lemma deliverLocal_heap:
  assumes "distinct (index_get (hb_byUser h) (hub_key app u))"
  shows "hb_heap (deliverLocal app u ex env h) x =
    (if x \<in> set (index_get (hb_byUser h) (hub_key app u))
     then map_option (\<lambda>c. if wants ex c then fst (conn_Send env c) else c) (hb_heap h x) else hb_heap h x)"
  by (simp add: deliverLocal_def fold_set_conn [OF assms])

lemma deliverLocal_byUser [simp]: "hb_byUser (deliverLocal app u ex env h) = hb_byUser h"
  by (simp add: deliverLocal_def)

text \<open>Sending one envelope to several users, no connection bound to two of them.\<close>

lemma deliver_fold_heap:
  assumes "\<And>k. distinct (index_get (hb_byUser h) k)" "distinct (map (hub_key app) us)"
    "\<And>u v. u \<in> set us \<Longrightarrow> v \<in> set us \<Longrightarrow> x \<in> set (index_get (hb_byUser h) (hub_key app u)) \<Longrightarrow>
       x \<in> set (index_get (hb_byUser h) (hub_key app v)) \<Longrightarrow> u = v"
  shows "hb_heap (fold (\<lambda>u. deliverLocal app u [] env) us h) x =
    (if \<exists>u \<in> set us. x \<in> set (index_get (hb_byUser h) (hub_key app u))
     then map_option (\<lambda>c. fst (conn_Send env c)) (hb_heap h x) else hb_heap h x)"
  using assms
proof (induction us arbitrary: h)
  case (Cons u us)
  let ?h = "deliverLocal app u [] env h"
  let ?b = "\<lambda>u. x \<in> set (index_get (hb_byUser h) (hub_key app u))"
  have IH: "hb_heap (fold (\<lambda>u. deliverLocal app u [] env) us ?h) x =
      (if \<exists>u \<in> set us. ?b u then map_option (\<lambda>c. fst (conn_Send env c)) (hb_heap ?h x) else hb_heap ?h x)"
    using Cons.IH [of ?h] Cons.prems by simp
  have d: "hb_heap ?h x = (if ?b u then map_option (\<lambda>c. fst (conn_Send env c)) (hb_heap h x) else hb_heap h x)"
    using deliverLocal_heap [of h app u "[]" env x] Cons.prems(1) by (simp add: wants_def)
  have "u \<notin> set us" using Cons.prems(2) by auto
  then have "\<not> (?b u \<and> (\<exists>v \<in> set us. ?b v))" using Cons.prems(3) [of u] by (metis list.set_intros)
  then show ?case using IH d by auto
qed simp

lemma fold_if_filter:
  "fold (\<lambda>p h. if q p then h else g (k p) h) ps h = fold g (map k (filter (\<lambda>p. \<not> q p) ps)) h"
  by (induction ps arbitrary: h) simp_all

lemma relay_append_fields [simp]:
  "hb_heap (relay_append d i out h) = hb_heap h" "hb_byUser (relay_append d i out h) = hb_byUser h"
  by (simp_all add: relay_append_def split: option.splits)


text \<open>
  C23. Until a connection has presented a valid token, nothing it sends has any effect but one reply
  to itself: a pong or an error. No call, presence, limiter, binding, event, push or oplog is touched, and
  no other connection hears of it.
\<close>

theorem unauthenticated_is_powerless:
  assumes "hb_heap h cid = Some c" "\<not> cn_authed c"
    and "e_Type env = TypeAuthenticate \<Longrightarrow>
      \<exists>e. Validate (hd_lib d) (hd_jwt d) now (ad_Token (auth_data raw)) = Inl e"
  shows "\<exists>out. handle d now cid env raw h = send_to cid out (h\<lparr>hb_idn := Suc (hb_idn h)\<rparr>) \<and>
    e_Type out \<in> {TypePong, TypeError}"
proof (cases "e_Type env = TypeAuthenticate")
  case True
  then obtain e where "Validate (hd_lib d) (hd_jwt d) now (ad_Token (auth_data raw)) = Inl e" using assms(3) by blast
  then show ?thesis
    using True assms(1) by (auto simp: handle_def handleAuth_def Let_def reply_def hub_envelope_def protocol_New_def)
next
  case False
  then show ?thesis
    using assms(1,2) by (auto simp: handle_def reply_def hub_envelope_def protocol_New_def)
qed

section \<open>Witnesses\<close>

definition demo_deps :: "(MemoryStore, unit) HubDeps" where
  "demo_deps = \<lparr>hd_st = memory_store, hd_lib = demo_lib, hd_jwt = demo_validator, hd_orch = demo_orchestrator,
     hd_oplog = Some NoOpStore, hd_bus = True, hd_incoming = True, hd_redis = Some (\<lambda>_ _. None)\<rparr>"

definition demo_hub :: "(MemoryStore, unit) Hub" where
  "demo_hub = NewHub 0 0 (\<lambda>n. replicate n CHR ''i'') demo_service None ()"

definition demo_frame :: json where
  "demo_frame = JObj [(''type'', JStr ''authenticate''), (''token'', JStr ''tok'')]"


definition peer :: "string \<Rightarrow> string \<Rightarrow> Conn" where
  "peer i u = SetIdentity 0 u ''app'' ''dev'' (conn_New i 0 8)"

definition peers_hub :: "(MemoryStore, unit) Hub" where
  "peers_hub = demo_hub\<lparr>hb_heap := [''cu'' \<mapsto> peer ''cu'' ''u'', ''cv'' \<mapsto> peer ''cv'' ''v''], hb_conns := [''cu'', ''cv''],
     hb_byUser := [''app|u'' \<mapsto> [''cu''], ''app|v'' \<mapsto> [''cv'']]\<rparr>"

definition demo_offer :: Envelope where
  "demo_offer = \<lparr>e_ID = [], e_Type = TypeWebRTCOffer, e_Timestamp = 0, e_CallID = ''c'', e_SenderID = ''mallory'', e_Data = Some JNull\<rparr>"

lemma peers_byUser: "index_get (hb_byUser peers_hub) k = (if k = ''app|u'' then [''cu''] else if k = ''app|v'' then [''cv''] else [])"
  by (simp add: peers_hub_def index_get_def)


theorem unauthenticated_is_powerless_witness:
  "\<exists>out. handle demo_deps 1 ''conn_'' (demo_offer\<lparr>e_Type := TypeCallCreate\<rparr>) JNull (serve 0 demo_hub) =
     send_to ''conn_'' out ((serve 0 demo_hub)\<lparr>hb_idn := Suc (hb_idn (serve 0 demo_hub))\<rparr>)"
proof -
  have c: "hb_heap (serve 0 demo_hub) ''conn_'' = Some (conn_New ''conn_'' 0 128)" "\<not> cn_authed (conn_New ''conn_'' 0 128)"
    by (simp_all add: serve_def register_def demo_hub_def NewHub_def conn_New_def)
  from unauthenticated_is_powerless [OF c, of "demo_offer\<lparr>e_Type := TypeCallCreate\<rparr>" demo_deps 1 JNull]
  show ?thesis by auto
qed

section \<open>Authenticating twice\<close>

lemma core_byUser: "core h' = core h \<Longrightarrow> hb_byUser h' = hb_byUser h"
  by (simp add: core_def)

lemma unregister_byUser: "hb_byUser (unregister d now cid h) = hb_byUser (unbind cid h)"
proof (cases "hb_heap h cid")
  case None
  then show ?thesis by (simp add: unregister_def)
next
  case (Some c)
  let ?h = "unbind cid h"
  let ?p = "case hb_presence ?h of None \<Rightarrow> ?h | Some ps \<Rightarrow> if cn_authed c
     then (case SetOffline Background now (cn_AppID c) (cn_UserID c) (cn_DeviceID c) ps of
             (ps, up) \<Rightarrow> broadcastPresence d now up (?h\<lparr>hb_presence := Some ps\<rparr>)) else ?h"
  have p: "hb_byUser ?p = hb_byUser ?h" by (rule core_byUser) (simp split: option.splits prod.splits)
  have "hb_byUser (if cn_authed c then hub_publish d now DeviceDisconnected c ?p else ?p) = hb_byUser ?p"
    by (simp only: core_byUser [OF core_misc(1)] split: if_split) blast
  then show ?thesis using p unfolding unregister_def Some option.case Let_def by simp
qed

text \<open>
  A connection that authenticates again as somebody else is not taken out of the first user's
  bindings, and disconnecting takes it out only of the bindings of the user it is then: the first user's
  envelopes go on being queued for it, and the binding outlives the connection.
\<close>

theorem reauthentication_keeps_old_binding:
  assumes "hb_heap h cid = Some c" "cid \<in> set (index_get (hb_byUser h) k)"
  shows "cid \<in> set (index_get (hb_byUser (handleAuth d now cid raw h)) k) \<and>
    (k \<noteq> hub_key (cn_AppID c) (cn_UserID c) \<longrightarrow> cid \<in> set (index_get (hb_byUser (unregister d now cid h)) k))"
proof (intro conjI impI)
  have "hb_byUser (handleAuth d now cid raw h) = hb_byUser h \<or>
      (\<exists>a u dv. hb_byUser (handleAuth d now cid raw h) = index_add (hub_key a u) cid (hb_byUser h))"
    using handleAuth_core [of d now cid raw h] auth_bind_fields(2) [OF assms(1)] core_byUser by metis
  then show "cid \<in> set (index_get (hb_byUser (handleAuth d now cid raw h)) k)" using assms(2) by auto
next
  assume "k \<noteq> hub_key (cn_AppID c) (cn_UserID c)"
  moreover have "who h cid = Some (cn_AppID c, cn_UserID c, cn_authed c)" using assms(1) by (simp add: who_def)
  ultimately have "index_get (hb_byUser (unbind cid h)) k = index_get (hb_byUser h) k"
    by (rule_tac unbind_cases [of cid h]) (auto simp: index_get_def)
  then show "cid \<in> set (index_get (hb_byUser (unregister d now cid h)) k)" using assms(2) by (simp add: unregister_byUser)
qed

theorem reauthentication_keeps_old_binding_witness:
  "''cu'' \<in> set (index_get (hb_byUser (handleAuth demo_deps 1 ''cu'' demo_frame
     (peers_hub\<lparr>hb_byUser := [''app|alice'' \<mapsto> [''cu'']]\<rparr>))) ''app|alice'') \<and>
   ''cu'' \<in> set (index_get (hb_byUser (unregister demo_deps 1 ''cu'' (peers_hub\<lparr>hb_byUser := [''app|alice'' \<mapsto> [''cu'']]\<rparr>))) ''app|alice'')"
proof -
  let ?h = "peers_hub\<lparr>hb_byUser := [''app|alice'' \<mapsto> [''cu'']]\<rparr>"
  have h: "hb_heap ?h ''cu'' = Some (peer ''cu'' ''u'')" "''cu'' \<in> set (index_get (hb_byUser ?h) ''app|alice'')"
    by (simp_all add: peers_hub_def index_get_def)
  have "hub_key (cn_AppID (peer ''cu'' ''u'')) (cn_UserID (peer ''cu'' ''u'')) = ''app|u''"
    by (simp add: peer_def SetIdentity_def hub_key_def join_key_def)
  then show ?thesis using reauthentication_keeps_old_binding [OF h, of demo_deps 1 demo_frame] by simp
qed

end
