(* ===== verification/RedisStores.thy ===== *)
theory RedisStores
  imports RedisClient Hub
begin

text \<open>
  The other stores on Redis: the oplog of signaling messages (\<open>internal/oplog/store.go\<close>), presence
  (\<open>internal/presence/redis_store.go\<close>) and the publishing half of the Redis bus
  (\<open>internal/events/redis_bus.go\<close>), over the client of the theory \<open>RedisClient\<close>.
\<close>

section \<open>The oplog (oplog/store.go)\<close>

definition maxOplogSize :: nat where "maxOplogSize = 200"

definition oplog_ttl :: "duration \<Rightarrow> duration" where
  "oplog_ttl ttl = (if ttl \<le> 0 then 3 * Minute else ttl)"

definition oplog_key :: "string \<Rightarrow> string" where
  "oplog_key callID = ''oplog:call:'' @ callID"

definition oplog_Append :: "'r Redis \<Rightarrow> duration \<Rightarrow> string \<Rightarrow> Envelope \<Rightarrow> 'r \<Rightarrow> 'r \<times> error option" where
  "oplog_Append R ttl callID env s =
     rd_Pipeline R [CRPush (oplog_key callID) (enc_envelope env), CLTrim (oplog_key callID) maxOplogSize,
       CExpire (oplog_key callID) (oplog_ttl ttl)] s"

text \<open>Entries that do not decode are skipped.\<close>

definition decodable :: "(json \<Rightarrow> error + 'a) \<Rightarrow> json list \<Rightarrow> 'a list" where
  "decodable f js = concat (map (\<lambda>j. case f j of Inl _ \<Rightarrow> [] | Inr x \<Rightarrow> [x]) js)"

definition oplog_GetRecent :: "'r Redis \<Rightarrow> string \<Rightarrow> 'r \<Rightarrow> error + Envelope list" where
  "oplog_GetRecent R callID s =
     (case rd_LRange R (oplog_key callID) s of
        Inl err \<Rightarrow> Inl err
      | Inr vals \<Rightarrow> Inr (decodable dec_envelope vals))"

definition redis_oplog :: "'r Redis \<Rightarrow> duration \<Rightarrow> 'r OplogStore" where
  "redis_oplog R ttl = \<lparr>ol_Append = oplog_Append R ttl, ol_GetRecent = oplog_GetRecent R\<rparr>"

section \<open>Presence (presence/redis_store.go)\<close>

definition presence_ttl :: "duration \<Rightarrow> duration" where
  "presence_ttl ttl = (if ttl \<le> 0 then 5 * Minute else ttl)"

definition presence_device_key :: "string \<Rightarrow> string" where
  "presence_device_key deviceID = ''presence:dev:'' @ deviceID"

definition presence_user_key :: "string \<Rightarrow> string \<Rightarrow> string" where
  "presence_user_key appID userID = ''presence:usr:'' @ appID @ '':'' @ userID"

definition dec_device_presence :: "json \<Rightarrow> error + DevicePresence" where
  "dec_device_presence j =
     sum_bind (obj_fields j) (\<lambda>kvs.
     sum_bind (dec_str (field ''device_id'' kvs)) (\<lambda>dev.
     sum_bind (dec_str (field ''user_id'' kvs)) (\<lambda>u.
     sum_bind (dec_str (field ''app_id'' kvs)) (\<lambda>app.
     sum_bind (dec_str (field ''status'' kvs)) (\<lambda>st.
     sum_bind (dec_time (field ''updated_at'' kvs)) (\<lambda>t.
       Inr \<lparr>dp_DeviceID = dev, dp_UserID = u, dp_AppID = app, dp_Status = st, dp_UpdatedAt = t\<rparr>))))))"

text \<open>The aggregated presence and the ids of expired devices, which a goroutine takes out of the index.\<close>

definition redis_GetUser ::
    "'r Redis \<Rightarrow> gotime \<Rightarrow> string \<Rightarrow> string \<Rightarrow> 'r \<Rightarrow> UserPresence \<times> string list" where
  "redis_GetUser R now appID userID s =
     (case rd_SMembers R (presence_user_key appID userID) s of
        Inl _ \<Rightarrow> (offline_presence now appID userID, [])
      | Inr deviceIDs \<Rightarrow>
          if deviceIDs = [] then (offline_presence now appID userID, [])
          else case rd_MGet R (map presence_device_key deviceIDs) s of
                 Inl _ \<Rightarrow> (offline_presence now appID userID, [])
               | Inr vals \<Rightarrow>
                   (let devices = decodable dec_device_presence (concat (map (\<lambda>v. case v of None \<Rightarrow> [] | Some j \<Rightarrow> [j]) vals));
                        toRemove = map fst (filter (\<lambda>(i, v). v = None) (zip deviceIDs vals));
                        updated = latest devices
                    in (\<lparr>up_UserID = userID, up_AppID = appID, up_Status = aggregate devices, up_Devices = devices,
                          up_UpdatedAt = (if IsZero updated then now else updated)\<rparr>, toRemove)))"

definition presence_cmds :: "gotime \<Rightarrow> duration \<Rightarrow> string \<Rightarrow> string \<Rightarrow> string \<Rightarrow> string \<Rightarrow> cmd list" where
  "presence_cmds now ttl appID userID deviceID status =
     [CSet (presence_device_key deviceID) (enc_device_presence \<lparr>dp_DeviceID = deviceID, dp_UserID = userID,
        dp_AppID = appID, dp_Status = status, dp_UpdatedAt = now\<rparr>) (presence_ttl ttl),
      CSAdd (presence_user_key appID userID) deviceID,
      CExpire (presence_user_key appID userID) (presence_ttl ttl)]"

text \<open>
  The error of the pipeline is dropped. The event for the bus comes with the result; \<open>SetOnline\<close>,
  \<open>SetOffline\<close> and \<open>SetStatus\<close> are this with their status and event type.
\<close>

definition redis_presence_update ::
    "'r Redis \<Rightarrow> duration \<Rightarrow> gotime \<Rightarrow> string \<Rightarrow> string \<Rightarrow> string \<Rightarrow> string \<Rightarrow> string \<Rightarrow> 'r \<Rightarrow>
     'r \<times> UserPresence \<times> string Event" where
  "redis_presence_update R ttl now appID userID deviceID status eventType s =
     (let s = fst (rd_Pipeline R (presence_cmds now ttl appID userID deviceID status) s);
          up = fst (redis_GetUser R now appID userID s)
      in (s, up, stamp_event now \<lparr>ev_Type = eventType, ev_AppID = appID, ev_UserID = userID, ev_DeviceID = deviceID,
            ev_CallID = '''', ev_Timestamp = 0, ev_Payload = [''status'' \<mapsto> up_Status up]\<rparr>))"

definition redis_SetOnline where
  "redis_SetOnline R ttl now appID userID deviceID =
     redis_presence_update R ttl now appID userID deviceID StatusOnline PresenceOnline"

definition redis_SetOffline where
  "redis_SetOffline R ttl now appID userID deviceID =
     redis_presence_update R ttl now appID userID deviceID StatusOffline PresenceOffline"

definition redis_SetStatus where
  "redis_SetStatus R ttl now appID userID deviceID status =
     redis_presence_update R ttl now appID userID deviceID status PresenceUpdated"

section \<open>Properties\<close>

lemma decodable_map [simp]: "(\<And>x. f (g x) = Inr x) \<Longrightarrow> decodable f (map g xs) = xs"
  by (induction xs) (simp_all add: decodable_def)

lemma dec_enc_device_presence [simp]: "dec_device_presence (enc_device_presence p) = Inr p"
  by (simp add: dec_device_presence_def enc_device_presence_def field_def)

lemma drop_trim:
  "drop (length (drop (length xs - n) xs @ [x]) - n) (drop (length xs - n) xs @ [x]) = drop (length (xs @ [x]) - n) (xs @ [x])"
  by (cases "length xs < n"; cases n) (auto simp: not_less Suc_le_eq Suc_diff_Suc drop_append)

lemma set_decodable: "set (decodable f js) = {x. \<exists>j \<in> set js. f j = Inr x}"
proof (induction js)
  case (Cons j js)
  then show ?case by (cases "f j") (auto simp: decodable_def)
qed (simp add: decodable_def)

text \<open>
  A presence update on Redis whose pipeline and reads succeed is visible in the presence it
  returns: the device is listed with the new status and time, everything listed is stored for a device in
  the user's index, and the user's status has the highest rank among them.
\<close>

theorem redis_presence_visible:
  assumes "redis_ok R view" "rd_Pipeline R (presence_cmds now ttl app u dev st) s = (s', None)"
    and "rd_SMembers R (presence_user_key app u) s' = Inr ids" "rd_MGet R (map presence_device_key ids) s' = Inr vals"
    and "redis_presence_update R ttl now app u dev st ev s = (s1, up, e)"
  shows "s1 = s' \<and>
    \<lparr>dp_DeviceID = dev, dp_UserID = u, dp_AppID = app, dp_Status = st, dp_UpdatedAt = now\<rparr> \<in> set (up_Devices up) \<and>
    set (up_Devices up) = {p. \<exists>i j. i \<in> sets (view s') (presence_user_key app u) \<and>
       strings (view s') (presence_device_key i) = Some j \<and> dec_device_presence j = Inr p} \<and>
    status_rank (up_Status up) = Max (insert 0 (status_rank ` dp_Status ` set (up_Devices up))) \<and>
    ev_Payload e ''status'' = Some (up_Status up)"
proof -
  let ?p = "\<lparr>dp_DeviceID = dev, dp_UserID = u, dp_AppID = app, dp_Status = st, dp_UpdatedAt = now\<rparr>"
  have v: "view s' = run_cmds (presence_cmds now ttl app u dev st) (view s)" using redis_okD(5) [OF assms(1,2)] .
  have m: "set ids = sets (view s') (presence_user_key app u)" "vals = map (strings (view s')) (map presence_device_key ids)"
    using redis_okD(2,3) [OF assms(1)] assms(3,4) by blast+
  have dev: "dev \<in> set ids" "strings (view s') (presence_device_key dev) = Some (enc_device_presence ?p)"
    by (simp_all add: m(1) v presence_cmds_def)
  then have ne: "ids \<noteq> []" by auto
  let ?ds = "decodable dec_device_presence (concat (map (\<lambda>v. case v of None \<Rightarrow> [] | Some j \<Rightarrow> [j]) vals))"
  have up: "s1 = s'" "up_Devices up = ?ds" "up_Status up = aggregate ?ds" "ev_Payload e ''status'' = Some (up_Status up)"
    using assms(2-5) ne by (auto simp: redis_presence_update_def redis_GetUser_def Let_def)
  have "set (concat (map (\<lambda>v. case v of None \<Rightarrow> [] | Some j \<Rightarrow> [j]) vals)) =
      {j. \<exists>i \<in> set ids. strings (view s') (presence_device_key i) = Some j}"
    unfolding m(2) by (auto split: option.splits intro!: bexI)
  then have ds: "set ?ds = {p. \<exists>i j. i \<in> set ids \<and> strings (view s') (presence_device_key i) = Some j \<and> dec_device_presence j = Inr p}"
    by (auto simp: set_decodable)
  moreover have "?p \<in> set ?ds" unfolding ds using dev by auto
  moreover have "status_rank (aggregate ?ds) = Max (insert 0 (status_rank ` dp_Status ` set ?ds))"
    using aggregate_acc(1) [of ?ds StatusOffline] by (simp add: aggregate_def status_rank_def [of StatusOffline])
  ultimately show ?thesis unfolding up m(1) [symmetric] using up(4) by (simp only: up(3))
qed

theorem redis_presence_visible_witness:
  "\<exists>s' up e. redis_presence_update plain_redis 0 1 ''app'' ''u'' ''d'' StatusBusy PresenceUpdated no_data = (s', up, e) \<and>
     \<lparr>dp_DeviceID = ''d'', dp_UserID = ''u'', dp_AppID = ''app'', dp_Status = StatusBusy, dp_UpdatedAt = 1\<rparr> \<in> set (up_Devices up)"
proof -
  let ?s = "run_cmds (presence_cmds 1 0 ''app'' ''u'' ''d'' StatusBusy) no_data"
  obtain s1 up e where u: "redis_presence_update plain_redis 0 1 ''app'' ''u'' ''d'' StatusBusy PresenceUpdated no_data = (s1, up, e)"
    by (metis prod_cases3)
  have p: "rd_Pipeline plain_redis (presence_cmds 1 0 ''app'' ''u'' ''d'' StatusBusy) no_data = (?s, None)" by (simp add: plain_redis_def)
  have "sets ?s (presence_user_key ''app'' ''u'') = {''d''}" by (simp add: presence_cmds_def no_data_def)
  then have "rd_SMembers plain_redis (presence_user_key ''app'' ''u'') ?s = Inr [''d'']" by (simp add: plain_redis_def)
  moreover have "rd_MGet plain_redis (map presence_device_key [''d'']) ?s = Inr (map (strings ?s) (map presence_device_key [''d'']))"
    by (simp add: plain_redis_def)
  ultimately show ?thesis using redis_presence_visible [OF plain_redis_ok p _ _ u] u by blast
qed

end
