(* ===== verification/Api.thy ===== *)
theory Api
  imports Hub IncomingCall
begin

text \<open>
  The HTTP API (\<open>internal/api/server.go\<close>, \<open>internal/api/calls.go\<close>): routing, the decoding of
  request bodies, one handler per route over the services, and the answers. The state is that of the
  services behind the handlers; a notification started with \<open>go\<close> is put on the list
  \<open>av_pending\<close> and run later. A request carries the segments of its path, unescaped (the mux
  redirects paths that are not clean before they reach a handler), the two headers the code reads and
  its body as a document, \<open>None\<close> when the body is no JSON. A handler runs under one clock reading. The
  endpoints \<open>/metrics\<close> and \<open>/ws\<close> are served by the Prometheus library and by the hub.
\<close>

section \<open>Requests and answers\<close>

record Request =
  rq_Method :: string
  rq_Path :: "string list"
  rq_Authorization :: string
  rq_IdempotencyKey :: string
  rq_Body :: "json option"
  rq_Ctx :: ctx

record Response =
  rs_Status :: int
  rs_Body :: json

record 's Server =
  av_svc :: "'s Service"
  av_incoming :: Incoming
  av_presence :: "PresenceStore option"
  av_pending :: "notification list"

text \<open>
  What the server was built with; \<open>ap_calls\<close> and \<open>ap_worker\<close> may be nil, \<open>ap_ping\<close>
  is what the database answers, \<open>ap_names\<close> what the registry's \<open>Names\<close> returns.
\<close>

record 's ServerDeps =
  ap_st :: "'s Store"
  ap_lib :: JwtLib
  ap_calls :: "Orchestrator option"
  ap_incoming :: bool
  ap_hub :: bool
  ap_ping :: "error option"
  ap_names :: "string list"
  ap_worker :: "bool option"
  ap_metrics :: json
  ap_ws :: Response

definition writeJSON :: "int \<Rightarrow> json \<Rightarrow> Response" where
  "writeJSON status v = \<lparr>rs_Status = status, rs_Body = v\<rparr>"

definition error_body :: "string \<Rightarrow> string \<Rightarrow> json" where
  "error_body code message = JObj [(''error'', JObj [(''code'', JStr code), (''message'', JStr message)])]"

text \<open>
  The model answers a panic, after which \<open>net/http\<close> aborts the connection, like any error that is
  no \<open>AppError\<close>.
\<close>

fun writeError :: "error \<Rightarrow> Response" where
  "writeError (App e) = writeJSON (ae_HTTPStatus e) (error_body (ae_Code e) (ae_Message e))"
| "writeError _ = writeJSON 500 (error_body ErrCodeInternalError ''internal error'')"

definition writeUnauthorized :: Response where
  "writeUnauthorized = writeJSON 401 (error_body ''UNAUTHORIZED'' ''Unauthorized'')"

definition writeSendResult :: "SendMessageResult \<Rightarrow> Response" where
  "writeSendResult r =
     writeJSON 202 (JObj [(''accepted'', JBool (sr_MessageAccepted r)), (''duplicate'', JBool (sr_Duplicate r)),
       (''message_id'', JStr (sr_MessageID r))])"

section \<open>Decoding\<close>

text \<open>A \<open>map[string]string\<close>; the last of duplicate keys is kept.\<close>

fun dec_strmap :: "json \<Rightarrow> error + (string \<times> string) list" where
  "dec_strmap (JObj kvs) =
     sum_bind (dec_all (\<lambda>(k, j). sum_bind (dec_str j) (\<lambda>v. Inr (k, v))) kvs)
       (\<lambda>kvs. Inr (AList.clearjunk (rev kvs)))"
| "dec_strmap JNull = Inr []"
| "dec_strmap _ = Inl json_error"

text \<open>A pointer to a struct.\<close>

definition dec_ptr :: "(json \<Rightarrow> error + 'a) \<Rightarrow> json \<Rightarrow> error + 'a option" where
  "dec_ptr f j = (if j = JNull then Inr None else sum_bind (f j) (\<lambda>x. Inr (Some x)))"

definition decodeJSON :: "(json \<Rightarrow> error + 'a) \<Rightarrow> Request \<Rightarrow> error + 'a" where
  "decodeJSON f r = (case rq_Body r of None \<Rightarrow> Inl json_error | Some j \<Rightarrow> f j)"

record callActorRequest =
  ca_UserID :: string
  ca_DeviceID :: string

definition actor_request :: "Request \<Rightarrow> callActorRequest" where
  "actor_request r =
     \<lparr>ca_UserID = lenient_str ''user_id'' (rq_Body r), ca_DeviceID = lenient_str ''device_id'' (rq_Body r)\<rparr>"

record createCallRequest =
  cq_CallerID :: string
  cq_CallerDevice :: string
  cq_CalleeID :: string
  cq_CalleeIDs :: "string list"
  cq_Type :: string
  cq_Mode :: string
  cq_CallerName :: string

definition dec_createCall :: "json \<Rightarrow> error + createCallRequest" where
  "dec_createCall j =
     sum_bind (obj_fields j) (\<lambda>kvs.
     sum_bind (dec_str (field ''caller_id'' kvs)) (\<lambda>caller.
     sum_bind (dec_str (field ''device_id'' kvs)) (\<lambda>device.
     sum_bind (dec_str (field ''callee_id'' kvs)) (\<lambda>callee.
     sum_bind (dec_arr dec_str (field ''callee_ids'' kvs)) (\<lambda>callees.
     sum_bind (dec_str (field ''type'' kvs)) (\<lambda>typ.
     sum_bind (dec_str (field ''mode'' kvs)) (\<lambda>mode.
     sum_bind (dec_str (field ''caller_name'' kvs)) (\<lambda>name.
       Inr \<lparr>cq_CallerID = caller, cq_CallerDevice = device, cq_CalleeID = callee, cq_CalleeIDs = callees,
             cq_Type = typ, cq_Mode = mode, cq_CallerName = name\<rparr>))))))))"

text \<open>
  A registration; the lists \<open>providers\<close> and \<open>capabilities\<close> are decoded and not used.
\<close>

definition dec_registerDevice :: "json \<Rightarrow> error + RegisterDeviceInput" where
  "dec_registerDevice j =
     sum_bind (obj_fields j) (\<lambda>kvs.
     sum_bind (dec_str (field ''installation_id'' kvs)) (\<lambda>inst.
     sum_bind (dec_str (field ''user_id'' kvs)) (\<lambda>user.
     sum_bind (dec_str (field ''platform'' kvs)) (\<lambda>platform.
     sum_bind (dec_str (field ''provider'' kvs)) (\<lambda>provider.
     sum_bind (dec_str (field ''token'' kvs)) (\<lambda>token.
     sum_bind (dec_str (field ''app_id'' kvs)) (\<lambda>app.
     sum_bind (dec_str (field ''app_version'' kvs)) (\<lambda>appv.
     sum_bind (dec_str (field ''os_version'' kvs)) (\<lambda>osv.
     sum_bind (dec_str (field ''device_model'' kvs)) (\<lambda>model.
     sum_bind (dec_str (field ''locale'' kvs)) (\<lambda>locale.
     sum_bind (dec_str (field ''timezone'' kvs)) (\<lambda>tz.
     sum_bind (dec_arr dec_str (field ''providers'' kvs)) (\<lambda>_.
     sum_bind (dec_arr dec_str (field ''capabilities'' kvs)) (\<lambda>_.
       Inr \<lparr>rd_InstallationID = inst, rd_UserID = user, rd_Platform = platform, rd_Provider = provider,
             rd_Token = token, rd_AppID = app, rd_AppVersion = appv, rd_OSVersion = osv, rd_DeviceModel = model,
             rd_Locale = locale, rd_Timezone = tz\<rparr>))))))))))))))"

record updateTokenRequest =
  ut_Provider :: string
  ut_Token :: string

definition dec_updateToken :: "json \<Rightarrow> error + updateTokenRequest" where
  "dec_updateToken j =
     sum_bind (obj_fields j) (\<lambda>kvs.
     sum_bind (dec_str (field ''provider'' kvs)) (\<lambda>provider.
     sum_bind (dec_str (field ''token'' kvs)) (\<lambda>token.
       Inr \<lparr>ut_Provider = provider, ut_Token = token\<rparr>)))"

definition dec_setUser :: "json \<Rightarrow> error + string" where
  "dec_setUser j = sum_bind (obj_fields j) (\<lambda>kvs. dec_str (field ''user_id'' kvs))"

definition dec_notification :: "json \<Rightarrow> error + string \<times> string" where
  "dec_notification j =
     sum_bind (obj_fields j) (\<lambda>kvs.
     sum_bind (dec_str (field ''title'' kvs)) (\<lambda>title.
     sum_bind (dec_str (field ''body'' kvs)) (\<lambda>body. Inr (title, body))))"

text \<open>
  The input of a send as the handler builds it: the application of the token and the idempotency key of
  the header beside the decoded body.
\<close>

definition dec_sendMessage :: "string \<Rightarrow> string \<Rightarrow> json \<Rightarrow> error + SendMessageInput" where
  "dec_sendMessage appID key j =
     sum_bind (obj_fields j) (\<lambda>kvs.
     sum_bind (dec_str (field ''type'' kvs)) (\<lambda>typ.
     sum_bind (dec_arr dec_str (field ''user_ids'' kvs)) (\<lambda>users.
     sum_bind (dec_arr dec_str (field ''installation_ids'' kvs)) (\<lambda>insts.
     sum_bind (dec_str (field ''provider'' kvs)) (\<lambda>provider.
     sum_bind (dec_str (field ''token'' kvs)) (\<lambda>token.
     sum_bind (dec_ptr dec_notification (field ''notification'' kvs)) (\<lambda>notif.
     sum_bind (dec_strmap (field ''data'' kvs)) (\<lambda>data.
     sum_bind (dec_str (field ''image_url'' kvs)) (\<lambda>image.
     sum_bind (dec_str (field ''priority'' kvs)) (\<lambda>prio.
     sum_bind (dec_int_ptr (field ''ttl_seconds'' kvs)) (\<lambda>ttl.
     sum_bind (dec_str (field ''collapse_key'' kvs)) (\<lambda>collapse.
     sum_bind (dec_str (field ''sound'' kvs)) (\<lambda>sound.
     sum_bind (dec_int_ptr (field ''badge'' kvs)) (\<lambda>badge.
     sum_bind (dec_str (field ''deep_link'' kvs)) (\<lambda>link.
     sum_bind (dec_str (field ''category'' kvs)) (\<lambda>category.
       Inr \<lparr>sm_AppID = appID, sm_Type = typ, sm_UserIDs = users, sm_InstallationIDs = insts,
             sm_Provider = provider, sm_Token = token,
             sm_Title = (case notif of None \<Rightarrow> '''' | Some (t, _) \<Rightarrow> t),
             sm_Body = (case notif of None \<Rightarrow> '''' | Some (_, b) \<Rightarrow> b),
             sm_Data = data, sm_ImageURL = image, sm_Priority = prio, sm_TTLSeconds = ttl,
             sm_CollapseKey = collapse, sm_Sound = sound, sm_Badge = badge, sm_DeepLink = link,
             sm_Category = category, sm_IdempotencyKey = key\<rparr>))))))))))))))))"

record incoming_body =
  iy_CallID :: string
  iy_CallerID :: string
  iy_CalleeID :: string
  iy_MediaType :: string
  iy_CallerName :: string
  iy_ExpiresAt :: int

definition dec_incoming_body :: "json \<Rightarrow> error + incoming_body" where
  "dec_incoming_body j =
     sum_bind (obj_fields j) (\<lambda>kvs.
     sum_bind (dec_str (field ''call_id'' kvs)) (\<lambda>cid.
     sum_bind (dec_str (field ''caller_id'' kvs)) (\<lambda>caller.
     sum_bind (dec_str (field ''callee_id'' kvs)) (\<lambda>callee.
     sum_bind (dec_str (field ''media_type'' kvs)) (\<lambda>media.
     sum_bind (dec_str (field ''caller_display_name'' kvs)) (\<lambda>name.
     sum_bind (dec_int (field ''expires_at'' kvs)) (\<lambda>expires.
       Inr \<lparr>iy_CallID = cid, iy_CallerID = caller, iy_CalleeID = callee, iy_MediaType = media,
             iy_CallerName = name, iy_ExpiresAt = expires\<rparr>)))))))"

record incomingCallRequest =
  iq_UserIDs :: "string list"
  iq_InstallationIDs :: "string list"
  iq_Call :: "incoming_body option"

definition dec_incomingCall :: "json \<Rightarrow> error + incomingCallRequest" where
  "dec_incomingCall j =
     sum_bind (obj_fields j) (\<lambda>kvs.
     sum_bind (dec_arr dec_str (field ''user_ids'' kvs)) (\<lambda>users.
     sum_bind (dec_arr dec_str (field ''installation_ids'' kvs)) (\<lambda>insts.
     sum_bind (dec_ptr dec_incoming_body (field ''call'' kvs)) (\<lambda>c.
       Inr \<lparr>iq_UserIDs = users, iq_InstallationIDs = insts, iq_Call = c\<rparr>))))"

definition dec_callSignal :: "string \<Rightarrow> MessageType \<Rightarrow> string \<Rightarrow> json \<Rightarrow> error + SendCallSignalInput" where
  "dec_callSignal appID typ key j =
     sum_bind (obj_fields j) (\<lambda>kvs.
     sum_bind (dec_str (field ''call_id'' kvs)) (\<lambda>cid.
     sum_bind (dec_arr dec_str (field ''user_ids'' kvs)) (\<lambda>users.
     sum_bind (dec_arr dec_str (field ''installation_ids'' kvs)) (\<lambda>insts.
     sum_bind (dec_str (field ''reason'' kvs)) (\<lambda>reason.
       Inr \<lparr>sc_AppID = appID, sc_Type = typ, sc_CallID = cid, sc_UserIDs = users,
             sc_InstallationIDs = insts, sc_Reason = reason, sc_IdempotencyKey = key\<rparr>)))))"

section \<open>Encoding of answers\<close>

definition status_body :: "string \<Rightarrow> json" where
  "status_body s = JObj [(''status'', JStr s)]"

section \<open>Health (api/server.go)\<close>

definition handleHealth :: Response where
  "handleHealth = writeJSON 200 (status_body ''ok'')"

fun join_names :: "string list \<Rightarrow> string" where
  "join_names [] = ''''"
| "join_names [n] = n"
| "join_names (n # ns) = n @ '','' @ join_names ns"

definition handleReady :: "'s ServerDeps \<Rightarrow> Response" where
  "handleReady d =
     (let (postgres, ok) = (if ap_ping d \<noteq> None then (''unavailable'', False) else (''ok'', True));
          (providers, ok) = (if ap_names d = [] then (''none'', False) else (join_names (ap_names d), ok));
          (worker, ok) = (if ap_worker d = Some True then (''ok'', ok) else (''stopped'', False));
          websocket = (if ap_hub d then ''ok'' else ''disabled'');
          (status, code) = (if ok then (''ok'', 200) else (''not_ready'', 503))
      in writeJSON code (JObj [(''checks'', JObj [(''postgres'', JStr postgres), (''providers'', JStr providers),
            (''websocket'', JStr websocket), (''worker'', JStr worker)]), (''status'', JStr status)]))"

section \<open>Devices and messages (api/server.go)\<close>

text \<open>The services share one database, held in \<open>av_incoming\<close>.\<close>

definition with_db :: "(Db \<Rightarrow> Db \<times> 'a) \<Rightarrow> 's Server \<Rightarrow> 's Server \<times> 'a" where
  "with_db f s =
     (case f (ib_db (av_incoming s)) of (db, r) \<Rightarrow> (s\<lparr>av_incoming := (av_incoming s)\<lparr>ib_db := db\<rparr>\<rparr>, r))"

definition respond :: "('a \<Rightarrow> Response) \<Rightarrow> 's Server \<times> (error + 'a) \<Rightarrow> 's Server \<times> Response" where
  "respond f x = (case x of (s, Inl err) \<Rightarrow> (s, writeError err) | (s, Inr v) \<Rightarrow> (s, f v))"

definition respond_ok :: "string \<Rightarrow> 's Server \<times> error option \<Rightarrow> 's Server \<times> Response" where
  "respond_ok status x =
     (case x of (s, Some err) \<Rightarrow> (s, writeError err) | (s, None) \<Rightarrow> (s, writeJSON 200 (status_body status)))"

text \<open>What every handler of an application does first: its application id, then its body.\<close>

definition with_app :: "AuthContext \<Rightarrow> 's Server \<Rightarrow> (string \<Rightarrow> 's Server \<times> Response) \<Rightarrow> 's Server \<times> Response" where
  "with_app ac s k = (case RequireAppID ac of Inl err \<Rightarrow> (s, writeError err) | Inr appID \<Rightarrow> k appID)"

definition with_body ::
    "(json \<Rightarrow> error + 'a) \<Rightarrow> Request \<Rightarrow> 's Server \<Rightarrow> ('a \<Rightarrow> 's Server \<times> Response) \<Rightarrow> 's Server \<times> Response" where
  "with_body f r s k =
     (case decodeJSON f r of Inl _ \<Rightarrow> (s, writeError (InvalidRequest ''invalid json'')) | Inr req \<Rightarrow> k req)"

definition handleRegisterDevice ::
    "gotime \<Rightarrow> (nat \<Rightarrow> string) \<Rightarrow> AuthContext \<Rightarrow> Request \<Rightarrow> 's Server \<Rightarrow> 's Server \<times> Response" where
  "handleRegisterDevice now ids ac r s =
     with_app ac s (\<lambda>appID. with_body dec_registerDevice r s (\<lambda>req.
       let req = (if rd_AppID req = '''' then req\<lparr>rd_AppID := appID\<rparr> else req)
       in if rd_AppID req \<noteq> appID then (s, writeError (Forbidden ''app_id mismatch''))
          else respond (\<lambda>d. writeJSON 200 (JObj [(''device_id'', JStr (d_ID d)),
                   (''installation_id'', JStr (d_InstallationID d)), (''status'', JStr (d_Status d))]))
                 (with_db (device_Register now (ids 0) req) s)))"

definition handleUpdateToken ::
    "gotime \<Rightarrow> (nat \<Rightarrow> string) \<Rightarrow> AuthContext \<Rightarrow> string \<Rightarrow> Request \<Rightarrow> 's Server \<Rightarrow> 's Server \<times> Response" where
  "handleUpdateToken now ids ac installationID r s =
     with_app ac s (\<lambda>appID. with_body dec_updateToken r s (\<lambda>req.
       respond (\<lambda>d. writeJSON 200 (status_body (d_Status d)))
         (with_db (device_UpdateToken now (ids 0) appID installationID (ut_Provider req) (ut_Token req)) s)))"

definition handleSetUser ::
    "gotime \<Rightarrow> AuthContext \<Rightarrow> string \<Rightarrow> Request \<Rightarrow> 's Server \<Rightarrow> 's Server \<times> Response" where
  "handleSetUser now ac installationID r s =
     with_app ac s (\<lambda>appID. with_body dec_setUser r s (\<lambda>userID.
       respond_ok ''ok'' (with_db (device_SetUserID now appID installationID userID) s)))"

definition handleClearUser ::
    "gotime \<Rightarrow> AuthContext \<Rightarrow> string \<Rightarrow> 's Server \<Rightarrow> 's Server \<times> Response" where
  "handleClearUser now ac installationID s =
     with_app ac s (\<lambda>appID. respond_ok ''ok'' (with_db (device_ClearUserID now appID installationID) s))"

text \<open>The route has no segment \<open>id\<close>, so its fall-back reads the empty string.\<close>

definition handleUnregister ::
    "gotime \<Rightarrow> AuthContext \<Rightarrow> string \<Rightarrow> 's Server \<Rightarrow> 's Server \<times> Response" where
  "handleUnregister now ac installationID s =
     with_app ac s (\<lambda>appID.
       let installationID = (if installationID = '''' then '''' else installationID)
       in respond_ok ''disabled'' (with_db (device_Unregister now appID installationID) s))"

definition handleSendMessage ::
    "gotime \<Rightarrow> (nat \<Rightarrow> string) \<Rightarrow> AuthContext \<Rightarrow> Request \<Rightarrow> 's Server \<Rightarrow> 's Server \<times> Response" where
  "handleSendMessage now ids ac r s =
     with_app ac s (\<lambda>appID. with_body (dec_sendMessage appID (rq_IdempotencyKey r)) r s (\<lambda>inp.
       respond writeSendResult (with_db (Send now ids inp) s)))"

definition incoming_payload :: "gotime \<Rightarrow> incoming_body \<Rightarrow> IncomingCall" where
  "incoming_payload now b =
     \<lparr>ic_CallID = iy_CallID b, ic_CallerID = iy_CallerID b, ic_CalleeID = iy_CalleeID b,
       ic_MediaType = iy_MediaType b, ic_CallerName = iy_CallerName b, ic_Timestamp = now,
       ic_ExpiresAt = (if iy_ExpiresAt b > 0 then (iy_ExpiresAt b + 62135596800) * Second else 0)\<rparr>"

definition handleIncomingCall ::
    "gotime \<Rightarrow> (nat \<Rightarrow> string) \<Rightarrow> AuthContext \<Rightarrow> Request \<Rightarrow> 's Server \<Rightarrow> 's Server \<times> Response" where
  "handleIncomingCall now ids ac r s =
     with_app ac s (\<lambda>appID. with_body dec_incomingCall r s (\<lambda>req.
       case iq_Call req of
         None \<Rightarrow> (s, writeError (InvalidRequest ''call is required''))
       | Some b \<Rightarrow>
           respond writeSendResult
             (with_db (SendIncomingCall now ids \<lparr>si_AppID = appID, si_UserIDs = iq_UserIDs req,
                si_InstallationIDs = iq_InstallationIDs req, si_Call = incoming_payload now b,
                si_IdempotencyKey = rq_IdempotencyKey r\<rparr>) s)))"

definition handleCallSignal ::
    "gotime \<Rightarrow> (nat \<Rightarrow> string) \<Rightarrow> AuthContext \<Rightarrow> MessageType \<Rightarrow> Request \<Rightarrow> 's Server \<Rightarrow> 's Server \<times> Response" where
  "handleCallSignal now ids ac typ r s =
     with_app ac s (\<lambda>appID. with_body (dec_callSignal appID typ (rq_IdempotencyKey r)) r s (\<lambda>inp.
       respond writeSendResult (with_db (SendCallSignal now ids inp) s)))"

section \<open>Calls (api/calls.go)\<close>

definition unavailable :: Response where
  "unavailable = writeError (Internal ''call service unavailable'')"

definition spawn :: "notification list \<Rightarrow> 's Server \<Rightarrow> 's Server" where
  "spawn ns s = s\<lparr>av_pending := av_pending s @ ns\<rparr>"

definition with_svc :: "('s Service \<Rightarrow> 's Service \<times> 'a) \<Rightarrow> 's Server \<Rightarrow> 's Server \<times> 'a" where
  "with_svc f s = (case f (av_svc s) of (svc, r) \<Rightarrow> (s\<lparr>av_svc := svc\<rparr>, r))"

definition actor_device :: "AuthContext \<Rightarrow> string \<Rightarrow> string" where
  "actor_device ac device = (if device \<noteq> '''' then device else ac_device ac)"

definition call_input :: "AuthContext \<Rightarrow> string \<Rightarrow> string \<Rightarrow> createCallRequest \<Rightarrow> CreateInput" where
  "call_input ac appID callerID req =
     \<lparr>in_AppID = appID, in_CallerID = callerID, in_CallerDevice = actor_device ac (cq_CallerDevice req),
       in_CalleeIDs = (if cq_CalleeIDs req = [] \<and> cq_CalleeID req \<noteq> '''' then [cq_CalleeID req]
                       else cq_CalleeIDs req),
       in_Type = cq_Type req, in_Mode = cq_Mode req, in_CallerName = cq_CallerName req\<rparr>"

definition handleCreateCall ::
    "'s ServerDeps \<Rightarrow> gotime \<Rightarrow> (nat \<Rightarrow> string) \<Rightarrow> AuthContext \<Rightarrow> Request \<Rightarrow> 's Server \<Rightarrow> 's Server \<times> Response" where
  "handleCreateCall d now ids ac r s =
     (case ap_calls d of
        None \<Rightarrow> (s, unavailable)
      | Some o1 \<Rightarrow>
          with_app ac s (\<lambda>appID. with_body dec_createCall r s (\<lambda>req.
            case RequireUserID ac (cq_CallerID req) of
              Inl err \<Rightarrow> (s, writeError err)
            | Inr callerID \<Rightarrow>
                (case with_svc (orch_Create (ap_st d) o1 (rq_Ctx r) now (ids 0) (ids 1)
                        (call_input ac appID callerID req)) s of
                   (s, Inl err) \<Rightarrow> (s, writeError err)
                 | (s, Inr created) \<Rightarrow>
                     (spawn (if ap_incoming d then [NRinging created (cq_CallerName req)] else []) s,
                      writeJSON 201 (enc_call created))))))"

definition handleGetCall :: "'s ServerDeps \<Rightarrow> string \<Rightarrow> Request \<Rightarrow> 's Server \<Rightarrow> Response" where
  "handleGetCall d callID r s =
     (case ap_calls d of
        None \<Rightarrow> unavailable
      | Some _ \<Rightarrow>
          (case Get (ap_st d) (rq_Ctx r) callID (av_svc s) of
             Inl err \<Rightarrow> writeError err
           | Inr c \<Rightarrow> writeJSON 200 (enc_call c)))"

definition handleResumeCall ::
    "'s ServerDeps \<Rightarrow> gotime \<Rightarrow> AuthContext \<Rightarrow> string \<Rightarrow> Request \<Rightarrow> 's Server \<Rightarrow> 's Server \<times> Response" where
  "handleResumeCall d now ac callID r s =
     (case ap_calls d of
        None \<Rightarrow> (s, unavailable)
      | Some o1 \<Rightarrow>
          (case RequireUserID ac (ca_UserID (actor_request r)) of
             Inl err \<Rightarrow> (s, writeError err)
           | Inr userID \<Rightarrow>
               respond (\<lambda>snapshot. writeJSON 200 (enc_resume snapshot))
                 (with_svc (ResumeFull (ap_st d) (ap_lib d) o1 (rq_Ctx r) now callID userID
                    (actor_device ac (ca_DeviceID (actor_request r)))) s)))"

definition withActor ::
    "'s ServerDeps \<Rightarrow> AuthContext \<Rightarrow> Request \<Rightarrow>
     (string \<Rightarrow> string \<Rightarrow> 's Server \<Rightarrow> 's Server \<times> (error + Call)) \<Rightarrow> 's Server \<Rightarrow> 's Server \<times> Response" where
  "withActor d ac r fn s =
     (case ap_calls d of
        None \<Rightarrow> (s, unavailable)
      | Some _ \<Rightarrow>
          (case RequireUserID ac (ca_UserID (actor_request r)) of
             Inl err \<Rightarrow> (s, writeError err)
           | Inr userID \<Rightarrow>
               respond (\<lambda>c. writeJSON 200 (enc_call c))
                 (fn userID (actor_device ac (ca_DeviceID (actor_request r))) s)))"

text \<open>The notification a closure starts when its operation succeeded.\<close>

definition then_notify ::
    "'s ServerDeps \<Rightarrow> (Call \<Rightarrow> notification) \<Rightarrow> 's Server \<times> (error + Call) \<Rightarrow> 's Server \<times> (error + Call)" where
  "then_notify d n x =
     (case x of
        (s, Inl err) \<Rightarrow> (s, Inl err)
      | (s, Inr c) \<Rightarrow> (spawn (if ap_incoming d then [n c] else []) s, Inr c))"

definition handleAcceptCall ::
    "'s ServerDeps \<Rightarrow> gotime \<Rightarrow> AuthContext \<Rightarrow> string \<Rightarrow> Request \<Rightarrow> 's Server \<Rightarrow> 's Server \<times> Response" where
  "handleAcceptCall d now ac callID r =
     withActor d ac r (\<lambda>userID deviceID s.
       then_notify d (\<lambda>c. NStopRinging c userID ''accepted_elsewhere'')
         (with_svc (Accept (ap_st d) (rq_Ctx r) now callID userID deviceID) s))"

definition handleRejectCall ::
    "'s ServerDeps \<Rightarrow> gotime \<Rightarrow> AuthContext \<Rightarrow> string \<Rightarrow> Request \<Rightarrow> 's Server \<Rightarrow> 's Server \<times> Response" where
  "handleRejectCall d now ac callID r =
     withActor d ac r (\<lambda>userID _. with_svc (Reject (ap_st d) (rq_Ctx r) now callID userID))"

definition handleCancelCall ::
    "'s ServerDeps \<Rightarrow> gotime \<Rightarrow> AuthContext \<Rightarrow> string \<Rightarrow> Request \<Rightarrow> 's Server \<Rightarrow> 's Server \<times> Response" where
  "handleCancelCall d now ac callID r =
     withActor d ac r (\<lambda>userID _ s.
       then_notify d (\<lambda>c. NCancelled c ''cancelled'')
         (with_svc (Cancel (ap_st d) (rq_Ctx r) now callID userID) s))"

definition handleJoinCall ::
    "'s ServerDeps \<Rightarrow> gotime \<Rightarrow> AuthContext \<Rightarrow> string \<Rightarrow> Request \<Rightarrow> 's Server \<Rightarrow> 's Server \<times> Response" where
  "handleJoinCall d now ac callID r =
     withActor d ac r (\<lambda>userID deviceID. with_svc (Join (ap_st d) (rq_Ctx r) now callID userID deviceID))"

definition handleLeaveCall ::
    "'s ServerDeps \<Rightarrow> gotime \<Rightarrow> AuthContext \<Rightarrow> string \<Rightarrow> Request \<Rightarrow> 's Server \<Rightarrow> 's Server \<times> Response" where
  "handleLeaveCall d now ac callID r =
     withActor d ac r (\<lambda>userID _. with_svc (Leave (ap_st d) (rq_Ctx r) now callID userID))"

definition handleHangupCall ::
    "'s ServerDeps \<Rightarrow> gotime \<Rightarrow> AuthContext \<Rightarrow> string \<Rightarrow> Request \<Rightarrow> 's Server \<Rightarrow> 's Server \<times> Response" where
  "handleHangupCall d now ac callID r =
     withActor d ac r (\<lambda>userID _. with_svc (Hangup (ap_st d) (rq_Ctx r) now callID userID))"

definition handleCallToken ::
    "'s ServerDeps \<Rightarrow> gotime \<Rightarrow> AuthContext \<Rightarrow> string \<Rightarrow> Request \<Rightarrow> 's Server \<Rightarrow> Response" where
  "handleCallToken d now ac callID r s =
     (case ap_calls d of
        None \<Rightarrow> unavailable
      | Some o1 \<Rightarrow>
          (case RequireUserID ac (ca_UserID (actor_request r)) of
             Inl err \<Rightarrow> writeError err
           | Inr userID \<Rightarrow>
               (case IssueToken (ap_st d) (ap_lib d) o1 (rq_Ctx r) now callID userID (av_svc s) of
                  Inl err \<Rightarrow> writeError err
                | Inr tok \<Rightarrow> writeJSON 200 (enc_token tok))))"

definition handleGetPresence :: "gotime \<Rightarrow> AuthContext \<Rightarrow> string \<Rightarrow> Request \<Rightarrow> 's Server \<Rightarrow> Response" where
  "handleGetPresence now ac userID r s =
     (case av_presence s of
        None \<Rightarrow> writeError (Internal ''presence unavailable'')
      | Some ps \<Rightarrow>
          (case RequireAppID ac of
             Inl err \<Rightarrow> writeError err
           | Inr appID \<Rightarrow> writeJSON 200 (enc_user_presence (GetUser (rq_Ctx r) now appID userID ps))))"

section \<open>Routes\<close>

datatype Route =
    Health | Ready | Metrics | Ws
  | RegisterDevice | UpdateToken string | SetUser string | ClearUser string | Unregister string
  | SendMessage | IncomingCallMessage | CallCancelledMessage | CallEndedMessage
  | CreateCall | GetCall string | AcceptCall string | RejectCall string | CancelCall string | JoinCall string
  | LeaveCall string | HangupCall string | CallToken string | ResumeCall string | GetPresence string

text \<open>The routes of a path with their methods; a wildcard matches one non-empty segment.\<close>

fun registerDeviceRoutes :: "string list \<Rightarrow> (string \<times> Route) list" where
  "registerDeviceRoutes [d] = (if d = ''devices'' then [(''POST'', RegisterDevice)] else [])"
| "registerDeviceRoutes [d, i] = (if d = ''devices'' \<and> i \<noteq> '''' then [(''DELETE'', Unregister i)] else [])"
| "registerDeviceRoutes [d, i, x] =
     (if d = ''devices'' \<and> i \<noteq> '''' then
        if x = ''token'' then [(''PUT'', UpdateToken i)]
        else if x = ''user'' then [(''PUT'', SetUser i), (''DELETE'', ClearUser i)] else []
      else [])"
| "registerDeviceRoutes _ = []"

fun registerMessageRoutes :: "string list \<Rightarrow> (string \<times> Route) list" where
  "registerMessageRoutes [m] = (if m = ''messages'' then [(''POST'', SendMessage)] else [])"
| "registerMessageRoutes [m, x] =
     (if m = ''messages'' then
        if x = ''incoming-call'' then [(''POST'', IncomingCallMessage)]
        else if x = ''call-cancelled'' then [(''POST'', CallCancelledMessage)]
        else if x = ''call-ended'' then [(''POST'', CallEndedMessage)] else []
      else [])"
| "registerMessageRoutes _ = []"

definition call_action :: "string \<Rightarrow> string \<Rightarrow> (string \<times> Route) list" where
  "call_action i x =
     (if x = ''accept'' then [(''POST'', AcceptCall i)] else if x = ''reject'' then [(''POST'', RejectCall i)]
      else if x = ''cancel'' then [(''POST'', CancelCall i)] else if x = ''join'' then [(''POST'', JoinCall i)]
      else if x = ''leave'' then [(''POST'', LeaveCall i)] else if x = ''hangup'' then [(''POST'', HangupCall i)]
      else if x = ''token'' then [(''POST'', CallToken i)] else if x = ''resume'' then [(''POST'', ResumeCall i)]
      else [])"

fun registerCallRoutes :: "string list \<Rightarrow> (string \<times> Route) list" where
  "registerCallRoutes [c] = (if c = ''calls'' then [(''POST'', CreateCall)] else [])"
| "registerCallRoutes [c, i] = (if c = ''calls'' \<and> i \<noteq> '''' then [(''GET'', GetCall i)] else [])"
| "registerCallRoutes [c, i, x] = (if c = ''calls'' \<and> i \<noteq> '''' then call_action i x else [])"
| "registerCallRoutes _ = []"

fun registerPresenceRoutes :: "string list \<Rightarrow> (string \<times> Route) list" where
  "registerPresenceRoutes [p, u] = (if p = ''presence'' \<and> u \<noteq> '''' then [(''GET'', GetPresence u)] else [])"
| "registerPresenceRoutes _ = []"

definition routes :: "bool \<Rightarrow> string list \<Rightarrow> (string \<times> Route) list" where
  "routes hub path =
     (if path = [''health''] then [(''GET'', Health)] else if path = [''ready''] then [(''GET'', Ready)]
      else if path = [''metrics''] then [(''GET'', Metrics)]
      else if path = [''ws''] then (if hub then [(''GET'', Ws)] else [])
      else if take 1 path = [''v1''] then registerDeviceRoutes (drop 1 path) @ registerMessageRoutes (drop 1 path)
      else if take 2 path = [''api'', ''v1''] then
        registerDeviceRoutes (drop 2 path) @ registerMessageRoutes (drop 2 path) @
        registerCallRoutes (drop 2 path) @ registerPresenceRoutes (drop 2 path)
      else [])"

text \<open>A pattern for GET also takes HEAD.\<close>

definition find_route :: "bool \<Rightarrow> string \<Rightarrow> string list \<Rightarrow> Response + Route" where
  "find_route hub meth path =
     (let rs = routes hub path; meth = (if meth = ''HEAD'' then ''GET'' else meth)
      in if rs = [] then Inl (writeJSON 404 (JStr ''404 page not found''))
         else case map_of rs meth of None \<Rightarrow> Inl (writeJSON 405 (JStr ''Method Not Allowed'')) | Some x \<Rightarrow> Inr x)"

fun handle_route ::
    "'s ServerDeps \<Rightarrow> gotime \<Rightarrow> (nat \<Rightarrow> string) \<Rightarrow> AuthContext \<Rightarrow> Request \<Rightarrow> 's Server \<Rightarrow> Route \<Rightarrow>
     's Server \<times> Response" where
  "handle_route d now ids ac r s Health = (s, handleHealth)"
| "handle_route d now ids ac r s Ready = (s, handleReady d)"
| "handle_route d now ids ac r s Metrics = (s, writeJSON 200 (ap_metrics d))"
| "handle_route d now ids ac r s Ws = (s, ap_ws d)"
| "handle_route d now ids ac r s RegisterDevice = handleRegisterDevice now ids ac r s"
| "handle_route d now ids ac r s (UpdateToken i) = handleUpdateToken now ids ac i r s"
| "handle_route d now ids ac r s (SetUser i) = handleSetUser now ac i r s"
| "handle_route d now ids ac r s (ClearUser i) = handleClearUser now ac i s"
| "handle_route d now ids ac r s (Unregister i) = handleUnregister now ac i s"
| "handle_route d now ids ac r s SendMessage = handleSendMessage now ids ac r s"
| "handle_route d now ids ac r s IncomingCallMessage = handleIncomingCall now ids ac r s"
| "handle_route d now ids ac r s CallCancelledMessage = handleCallSignal now ids ac MessageCallCancelled r s"
| "handle_route d now ids ac r s CallEndedMessage = handleCallSignal now ids ac MessageCallEnded r s"
| "handle_route d now ids ac r s CreateCall = handleCreateCall d now ids ac r s"
| "handle_route d now ids ac r s (GetCall i) = (s, handleGetCall d i r s)"
| "handle_route d now ids ac r s (AcceptCall i) = handleAcceptCall d now ac i r s"
| "handle_route d now ids ac r s (RejectCall i) = handleRejectCall d now ac i r s"
| "handle_route d now ids ac r s (CancelCall i) = handleCancelCall d now ac i r s"
| "handle_route d now ids ac r s (JoinCall i) = handleJoinCall d now ac i r s"
| "handle_route d now ids ac r s (LeaveCall i) = handleLeaveCall d now ac i r s"
| "handle_route d now ids ac r s (HangupCall i) = handleHangupCall d now ac i r s"
| "handle_route d now ids ac r s (CallToken i) = (s, handleCallToken d now ac i r s)"
| "handle_route d now ids ac r s (ResumeCall i) = handleResumeCall d now ac i r s"
| "handle_route d now ids ac r s (GetPresence u) = (s, handleGetPresence now ac u r s)"

text \<open>The path the middleware sees, and the handler it wraps around the mux.\<close>

definition url_path :: "string list \<Rightarrow> string" where
  "url_path segs = concat (map (\<lambda>x. ''/'' @ x) segs)"

definition ServeHTTP ::
    "'s ServerDeps \<Rightarrow> Authenticator \<Rightarrow> gotime \<Rightarrow> (nat \<Rightarrow> string) \<Rightarrow> Request \<Rightarrow> 's Server \<Rightarrow> 's Server \<times> Response" where
  "ServeHTTP d a now ids r s =
     (case Middleware (ap_lib d) a now (url_path (rq_Path r)) (rq_Authorization r) of
        None \<Rightarrow> (s, writeUnauthorized)
      | Some ac \<Rightarrow>
          (case find_route (ap_hub d) (rq_Method r) (rq_Path r) of
             Inl resp \<Rightarrow> (s, resp)
           | Inr route \<Rightarrow> handle_route d now ids ac r s route))"

text \<open>Running a notification: its clock readings and identifiers are arguments.\<close>

fun run_notification ::
    "gotime \<Rightarrow> (nat \<Rightarrow> gotime) \<Rightarrow> (nat \<Rightarrow> nat \<Rightarrow> string) \<Rightarrow> notification \<Rightarrow> Incoming \<Rightarrow> Incoming" where
  "run_notification now clock ids (NRinging c name) inc = NotifyRinging now clock ids (Some c) name inc"
| "run_notification now clock ids (NCancelled c reason) inc = NotifyCancelled now (ids 0) (Some c) reason inc"
| "run_notification now clock ids (NStopRinging c u reason) inc = NotifyStopRinging now (ids 0) (Some c) u reason inc"

end
