(* ===== verification/ApiProps.thy ===== *)
theory ApiProps
  imports Api CallProps
begin

text \<open>
  Properties of the HTTP API over the in-process call store: whose calls a request can change, what an
  answer says about the state, which requests need a token, and the way from a request that creates a
  call to the notification that rings the callees.
\<close>

section \<open>Calls behind a request\<close>

abbreviation calls_of :: "MemoryStore Service \<Rightarrow> string \<Rightarrow> Call option" where
  "calls_of svc \<equiv> ms_calls (sv_store svc)"

definition involved :: "string \<Rightarrow> Call \<Rightarrow> bool" where
  "involved u c \<longleftrightarrow> c_CallerID c = u \<or> FindParticipant u c \<noteq> None"

text \<open>One call at most differs, and the user is involved in it.\<close>

definition touches :: "string \<Rightarrow> MemoryStore Service \<Rightarrow> MemoryStore Service \<Rightarrow> bool" where
  "touches u s s' \<longleftrightarrow> calls_of s' = calls_of s \<or> (\<exists>i c. calls_of s' = (calls_of s)(i \<mapsto> c) \<and> involved u c)"

lemma touches_refl [simp]: "touches u s s"
  by (simp add: touches_def)

lemma involved_evolves: "evolves c c' \<Longrightarrow> involved u c \<Longrightarrow> involved u c'"
  by (auto simp: involved_def evolves_def keeps_identity_def FindParticipant_None)

lemma join_fn_involved:
  assumes "join_fn now cid u d c = (c', None)"
  shows "involved u c'"
proof -
  have "u \<in> p_UserID ` set (c_Participants c')"
    using assms
    by (cases "FindParticipant u c = None")
       (auto simp: fn_defs set_participant_user_set FindParticipant_None split: if_splits)
  then show ?thesis by (simp add: involved_def FindParticipant_None)
qed

lemma touches_update:
  assumes "run_update memory_store ctx cid fn s = (t, x)" "runtime_fn cid fn"
    and "\<And>c c'. fn c = (c', None) \<Longrightarrow> involved u c'" "sv_store s' = sv_store t"
  shows "touches u s s'"
proof (cases x)
  case (Inl e)
  then show ?thesis using mem_run_update_err [of ctx cid fn s t e] assms by (simp add: touches_def)
next
  case (Inr c)
  then show ?thesis using mem_run_update_ok [of ctx cid fn s t c] assms by (auto simp: touches_def)
qed

text \<open>Every closure of a user's operation leaves a call behind that the user is involved in.\<close>

lemma guarded_involved:
  assumes "runtime_fn cid fn" "fn c = (c', None)" "involved u c"
  shows "involved u c'"
  using runtime_fn_evolves [OF assms(1,2)] assms(3) by (rule involved_evolves)

lemma closures_involved:
  "accept_fn now u d c = (c', None) \<Longrightarrow> involved u c'"
  "reject_fn now u c = (c', None) \<Longrightarrow> involved u c'"
  "cancel_fn now u c = (c', None) \<Longrightarrow> involved u c'"
  "end_fn now u reason endCall c = (c', None) \<Longrightarrow> involved u c'"
  unfolding involved_def
  by (metis fn_guards(1) guarded_involved involved_def runtime_fn.accept,
      metis fn_guards(2) guarded_involved involved_def runtime_fn.reject,
      metis fn_guards(3) guarded_involved involved_def runtime_fn.cancel,
      metis fn_guards(6) guarded_involved involved_def runtime_fn.ends)

lemma operations_touch:
  "touches u s (fst (Accept memory_store ctx now cid u d s))"
  "touches u s (fst (Reject memory_store ctx now cid u s))"
  "touches u s (fst (Cancel memory_store ctx now cid u s))"
  "touches u s (fst (Join memory_store ctx now cid u d s))"
  "touches u s (fst (Leave memory_store ctx now cid u s))"
  "touches u s (fst (Hangup memory_store ctx now cid u s))"
proof -
  note upd = touches_update [where ctx = ctx and cid = cid and s = s, OF surjective_pairing]
  show "touches u s (fst (Accept memory_store ctx now cid u d s))"
    unfolding Accept_def
    by (rule upd [where fn = "accept_fn now u d", OF runtime_fn.accept closures_involved(1)]) (auto simp: Let_def split: prod.splits sum.splits)
  show "touches u s (fst (Reject memory_store ctx now cid u s))"
    unfolding Reject_def
    by (rule upd [where fn = "reject_fn now u", OF runtime_fn.reject closures_involved(2)]) (auto simp: Let_def split: prod.splits sum.splits)
  show "touches u s (fst (Cancel memory_store ctx now cid u s))"
    unfolding Cancel_def
    by (rule upd [where fn = "cancel_fn now u", OF runtime_fn.cancel closures_involved(3)]) (auto simp: Let_def split: prod.splits sum.splits)
  show "touches u s (fst (Join memory_store ctx now cid u d s))"
    unfolding Join_def
    by (rule upd [where fn = "join_fn now cid u d", OF runtime_fn.join join_fn_involved]) (auto simp: Let_def split: prod.splits sum.splits)
  show "touches u s (fst (Leave memory_store ctx now cid u s))"
    unfolding Leave_def endForUser_def
    by (rule upd [where fn = "end_fn now u ''left'' False", OF runtime_fn.ends closures_involved(4)]) (auto simp: Let_def split: prod.splits sum.splits)
  show "touches u s (fst (Hangup memory_store ctx now cid u s))"
    unfolding Hangup_def endForUser_def
    by (rule upd [where fn = "end_fn now u ''hangup'' True", OF runtime_fn.ends closures_involved(4)]) (auto simp: Let_def split: prod.splits sum.splits)
qed

lemma resume_fst: "fst (ResumeFull st lib o1 ctx now cid u d s) = fst (Resume st ctx cid u d s)"
  by (simp add: ResumeFull_def Let_def split: prod.splits sum.splits)

lemma mem_get: "Get memory_store ctx cid s =
    (case ctx of Some e \<Rightarrow> Inl e | None \<Rightarrow> (case calls_of s cid of None \<Rightarrow> Inl CallNotFound | Some c \<Rightarrow> Inr c))"
  by (simp add: Get_def memory_store_def mem_Get_def)

lemma resume_cases:
  assumes "Resume memory_store ctx cid u d s = (s', r)"
  shows "s' = s \<or> (\<exists>c c' v. calls_of s cid = Some c \<and> FindParticipant u c \<noteq> None \<and> r = Inr v \<and>
    fst (resume_fn u d c) = c' \<and> calls_of s' = (calls_of s)(cid \<mapsto> c'))"
proof (cases ctx)
  case None
  then show ?thesis
    using assms
    by (auto simp: Resume_def resume_check_def resume_apply_def mem_run_update resume_fn_def mem_get
        split: option.splits if_splits)
next
  case (Some e)
  then show ?thesis
    using assms by (simp add: Resume_def resume_check_def mem_get)
qed

lemma resume_touches: "touches u s (fst (Resume memory_store ctx cid u d s))"
proof -
  obtain s' r where R: "Resume memory_store ctx cid u d s = (s', r)" by fastforce
  have inv: "involved u (fst (resume_fn u d c))" if "FindParticipant u c \<noteq> None" for c
  proof (rule guarded_involved [OF runtime_fn.resume])
    show "resume_fn u d c = (fst (resume_fn u d c), None)" by (simp add: resume_fn_def)
    show "involved u c" using that by (simp add: involved_def)
  qed
  from resume_cases [OF R] show ?thesis
  proof
    assume "s' = s" with R show ?thesis by simp
  next
    assume "\<exists>c c' v. calls_of s cid = Some c \<and> FindParticipant u c \<noteq> None \<and> r = Inr v \<and>
      fst (resume_fn u d c) = c' \<and> calls_of s' = (calls_of s)(cid \<mapsto> c')"
    with R inv show ?thesis by (auto simp: touches_def)
  qed
qed

lemma touchesI: "calls_of s' = (calls_of s)(i \<mapsto> c) \<Longrightarrow> c_CallerID c = u \<Longrightarrow> touches u s s'"
  by (auto simp: touches_def involved_def)

lemma create_touches: "touches (in_CallerID inp) s (fst (orch_Create memory_store o1 ctx now id1 id2 inp s))"
proof -
  let ?c = "new_call now (''call_'' @ id1) (''room_'' @ id2) inp"
  obtain s' r where R: "orch_Create memory_store o1 ctx now id1 id2 inp s = (s', r)" by fastforce
  have caller: "c_CallerID ?c = in_CallerID inp" by (simp add: new_call_def)
  show ?thesis
  proof (cases r)
    case (Inl e)
    with orch_Create_result [OF R] consider "calls_of s' = calls_of s"
      | "calls_of s' = (calls_of s)(c_ID ?c \<mapsto> ?c\<lparr>c_State := StateFailed, c_EndedAt := Some now, c_Reason := ''sfu_room_failed''\<rparr>)"
      by auto
    then show ?thesis
      using R caller by cases (simp add: touches_def, simp, erule touchesI, simp)
  next
    case (Inr c)
    with orch_Create_result [OF R] have "calls_of s' = (calls_of s)(c_ID ?c \<mapsto> ?c)" by simp
    with R caller show ?thesis by (simp, intro touchesI) simp_all
  qed
qed

section \<open>Handlers\<close>

text \<open>What a handler leaves behind, by the exits it has.\<close>

lemma with_appI:
  assumes "\<And>e. Q (s, writeError e)" "\<And>appID. RequireAppID ac = Inr appID \<Longrightarrow> Q (k appID)"
  shows "Q (with_app ac s k)"
  using assms by (simp add: with_app_def split: sum.splits)

lemma with_bodyI:
  assumes "\<And>e. Q (s, writeError e)" "\<And>req. decodeJSON f r = Inr req \<Longrightarrow> Q (k req)"
  shows "Q (with_body f r s k)"
  using assms by (simp add: with_body_def split: sum.splits)

lemma respondI:
  assumes "\<And>s' e. x = (s', Inl e) \<Longrightarrow> Q (s', writeError e)" "\<And>s' v. x = (s', Inr v) \<Longrightarrow> Q (s', f v)"
  shows "Q (respond f x)"
  using assms by (simp add: respond_def split: prod.splits sum.splits)

lemma respond_okI:
  assumes "\<And>e. Q (fst x, writeError e)" "Q (fst x, writeJSON 200 (status_body st))"
  shows "Q (respond_ok st x)"
  using assms by (cases x) (simp add: respond_ok_def split: option.splits)

lemma fst_respond [simp]: "fst (respond f x) = fst x" "fst (respond_ok st y) = fst y"
  by (simp_all add: respond_def respond_ok_def split: prod.splits sum.splits option.splits)

lemma with_db_fst: "fst (with_db f s) = s\<lparr>av_incoming := (av_incoming s)\<lparr>ib_db := fst (f (ib_db (av_incoming s)))\<rparr>\<rparr>"
  by (simp add: with_db_def split: prod.splits)

lemma with_dbD: "with_db f s = (s', v) \<Longrightarrow> \<exists>db. s' = s\<lparr>av_incoming := (av_incoming s)\<lparr>ib_db := db\<rparr>\<rparr>"
  using with_db_fst [of f s] by auto

lemma with_svcD: "with_svc f s = (s', v) \<Longrightarrow> s' = s\<lparr>av_svc := fst (f (av_svc s))\<rparr> \<and> v = snd (f (av_svc s))"
  by (auto simp: with_svc_def split: prod.splits)

lemmas push_handler_defs = handleRegisterDevice_def handleUpdateToken_def handleSetUser_def handleClearUser_def
  handleUnregister_def handleSendMessage_def handleIncomingCall_def handleCallSignal_def

text \<open>The handlers of devices and messages reach the database only.\<close>

definition db_only :: "'s Server \<Rightarrow> 's Server \<Rightarrow> bool" where
  "db_only s s' \<longleftrightarrow> (\<exists>db. s' = s\<lparr>av_incoming := (av_incoming s)\<lparr>ib_db := db\<rparr>\<rparr>)"

lemma db_only_refl [simp]: "db_only s s"
  unfolding db_only_def by (rule exI [of _ "ib_db (av_incoming s)"]) simp

lemma db_only_with_db [simp]: "db_only s (fst (with_db f s))" "with_db f s = (s', v) \<Longrightarrow> db_only s s'"
  using with_db_fst [of f s] with_dbD [of f s s' v] by (auto simp: db_only_def)

lemma db_only_fields: "db_only s s' \<Longrightarrow> av_svc s' = av_svc s \<and> av_pending s' = av_pending s \<and> av_presence s' = av_presence s"
  by (auto simp: db_only_def)

lemma push_handlers_db_only:
  "db_only s (fst (handleRegisterDevice now ids ac r s))" "db_only s (fst (handleUpdateToken now ids ac i r s))"
  "db_only s (fst (handleSetUser now ac i r s))" "db_only s (fst (handleClearUser now ac i s))"
  "db_only s (fst (handleUnregister now ac i s))" "db_only s (fst (handleSendMessage now ids ac r s))"
  "db_only s (fst (handleIncomingCall now ids ac r s))" "db_only s (fst (handleCallSignal now ids ac typ r s))"
  unfolding push_handler_defs
  by (simp_all add: with_app_def with_body_def Let_def split: sum.splits option.splits)

lemmas push_handler_fields [simp] = push_handlers_db_only [THEN db_only_fields]

lemma RequireUserID_user: "ac_user ac \<noteq> '''' \<Longrightarrow> RequireUserID ac x = Inr (ac_user ac)"
  by (simp add: RequireUserID_def)

text \<open>The state a handler of a call leaves: the service after the operation, and what it started.\<close>

lemma spawn_fields [simp]: "av_svc (spawn ns s) = av_svc s" "av_incoming (spawn ns s) = av_incoming s"
  "av_pending (spawn ns s) = av_pending s @ ns"
  by (simp_all add: spawn_def)

lemma with_svc_fst [simp]: "fst (with_svc f s) = s\<lparr>av_svc := fst (f (av_svc s))\<rparr>"
  by (simp add: with_svc_def split: prod.splits)

lemma then_notify_svc [simp]: "av_svc (fst (then_notify d n x)) = av_svc (fst x)"
  by (simp add: then_notify_def split: prod.splits sum.splits)

lemma withActor_touches:
  assumes "ac_user ac \<noteq> ''''" "\<And>dev. touches (ac_user ac) (av_svc s) (av_svc (fst (fn (ac_user ac) dev s)))"
  shows "touches (ac_user ac) (av_svc s) (av_svc (fst (withActor d ac r fn s)))"
  using assms by (simp add: withActor_def RequireUserID_user split: option.splits)

lemma handleCreateCall_touches:
  assumes "ap_st d = memory_store" "ac_user ac \<noteq> ''''"
  shows "touches (ac_user ac) (av_svc s) (av_svc (fst (handleCreateCall d now ids ac r s)))"
proof (cases "ap_calls d")
  case None
  then show ?thesis by (simp add: handleCreateCall_def)
next
  case (Some o1)
  have "touches (ac_user ac) (av_svc s) (av_svc (fst (case with_svc (orch_Create memory_store o1 (rq_Ctx r) now (ids 0) (ids 1)
      (call_input ac appID (ac_user ac) req)) s of (s, Inl err) \<Rightarrow> (s, writeError err)
      | (s, Inr created) \<Rightarrow> (spawn (ns created) s, writeJSON 201 (enc_call created)))))" for appID req ns
    using create_touches [of "call_input ac appID (ac_user ac) req" "av_svc s" o1 "rq_Ctx r" now "ids 0" "ids 1"]
    by (auto simp: call_input_def split: prod.splits sum.splits dest!: with_svcD)
  then show ?thesis
    using assms Some by (simp add: handleCreateCall_def with_app_def with_body_def RequireUserID_user split: sum.splits)
qed

lemma actor_handlers_touch:
  assumes "ap_st d = memory_store" "ac_user ac \<noteq> ''''"
  shows "touches (ac_user ac) (av_svc s) (av_svc (fst (handleAcceptCall d now ac i r s)))"
    "touches (ac_user ac) (av_svc s) (av_svc (fst (handleRejectCall d now ac i r s)))"
    "touches (ac_user ac) (av_svc s) (av_svc (fst (handleCancelCall d now ac i r s)))"
    "touches (ac_user ac) (av_svc s) (av_svc (fst (handleJoinCall d now ac i r s)))"
    "touches (ac_user ac) (av_svc s) (av_svc (fst (handleLeaveCall d now ac i r s)))"
    "touches (ac_user ac) (av_svc s) (av_svc (fst (handleHangupCall d now ac i r s)))"
    "touches (ac_user ac) (av_svc s) (av_svc (fst (handleResumeCall d now ac i r s)))"
  using assms
  by (simp_all add: handleAcceptCall_def handleRejectCall_def handleCancelCall_def handleJoinCall_def
      handleLeaveCall_def handleHangupCall_def handleResumeCall_def RequireUserID_user resume_fst withActor_touches
      operations_touch resume_touches split: option.splits)

lemma route_touches:
  assumes "ap_st d = memory_store" "ac_user ac \<noteq> ''''"
  shows "touches (ac_user ac) (av_svc s) (av_svc (fst (handle_route d now ids ac r s route)))"
  using handleCreateCall_touches [OF assms] actor_handlers_touch [OF assms] by (cases route) simp_all

lemma Middleware_user:
  "Middleware lib a now path auth = Some ac \<Longrightarrow> ac_kind ac = AuthKindUser \<Longrightarrow> ac_user ac \<noteq> ''''"
  by (auto simp: Middleware_def Validate_def NoAuth_def Let_def split: if_splits option.splits sum.splits)


section \<open>Errors\<close>

lemma operations_error:
  "Accept memory_store ctx now cid u d s = (s', Inl e) \<Longrightarrow> s' = s"
  "Reject memory_store ctx now cid u s = (s', Inl e) \<Longrightarrow> s' = s"
  "Cancel memory_store ctx now cid u s = (s', Inl e) \<Longrightarrow> s' = s"
  "Join memory_store ctx now cid u d s = (s', Inl e) \<Longrightarrow> s' = s"
  "Leave memory_store ctx now cid u s = (s', Inl e) \<Longrightarrow> s' = s"
  "Hangup memory_store ctx now cid u s = (s', Inl e) \<Longrightarrow> s' = s"
  by (metis op_errorD mem_run_update_err runtime_fn.intros)+

lemma resume_error: "ResumeFull memory_store lib o1 ctx now cid u d s = (s', Inl e) \<Longrightarrow> s' = s"
  using resume_cases [of ctx cid u d s]
  by (auto simp: ResumeFull_def Let_def split: prod.splits sum.splits if_splits)

text \<open>An error answer of a handler comes with the state it started from.\<close>

definition error_safe :: "'s Server \<Rightarrow> 's Server \<times> Response \<Rightarrow> bool" where
  "error_safe s x \<longleftrightarrow> (400 \<le> rs_Status (snd x) \<longrightarrow> av_svc (fst x) = av_svc s \<and> av_pending (fst x) = av_pending s)"

lemma error_safe_same [simp]: "error_safe s (s, resp)"
  by (simp add: error_safe_def)

lemma error_safe_ok [simp]: "error_safe s (s', writeJSON 200 b)"
  by (simp add: error_safe_def writeJSON_def)

lemma error_safe_respond:
  assumes "\<And>s' e. x = (s', Inl e) \<Longrightarrow> av_svc s' = av_svc s \<and> av_pending s' = av_pending s"
  shows "error_safe s (respond (\<lambda>v. writeJSON 200 (f v)) x)"
  using assms by (cases x) (auto simp: respond_def error_safe_def writeJSON_def split: sum.splits)

lemma error_safe_withActor:
  assumes "\<And>u dev s' e. fn u dev s = (s', Inl e) \<Longrightarrow> av_svc s' = av_svc s \<and> av_pending s' = av_pending s"
  shows "error_safe s (withActor d ac r fn s)"
  using assms by (auto simp: withActor_def intro!: error_safe_respond split: option.splits sum.splits)

lemma with_svc_error:
  assumes "with_svc f s = (s', Inl e)" "\<And>t. f (av_svc s) = (t, Inl e) \<Longrightarrow> t = av_svc s"
  shows "s' = s"
  using assms by (auto simp: with_svc_def split: prod.splits)

lemma then_notify_error: "then_notify d n x = (s', Inl e) \<Longrightarrow> x = (s', Inl e)"
  by (auto simp: then_notify_def split: prod.splits sum.splits)

lemma actor_handlers_error_safe:
  assumes "ap_st d = memory_store"
  shows "error_safe s (handleAcceptCall d now ac i r s)" "error_safe s (handleRejectCall d now ac i r s)"
    "error_safe s (handleCancelCall d now ac i r s)" "error_safe s (handleJoinCall d now ac i r s)"
    "error_safe s (handleLeaveCall d now ac i r s)" "error_safe s (handleHangupCall d now ac i r s)"
    "error_safe s (handleResumeCall d now ac i r s)"
proof -
  show "error_safe s (handleAcceptCall d now ac i r s)"
    unfolding handleAcceptCall_def assms
    by (rule error_safe_withActor) (blast dest: then_notify_error with_svc_error operations_error(1))
  show "error_safe s (handleRejectCall d now ac i r s)"
    unfolding handleRejectCall_def assms
    by (rule error_safe_withActor) (blast dest: with_svc_error operations_error(2))
  show "error_safe s (handleCancelCall d now ac i r s)"
    unfolding handleCancelCall_def assms
    by (rule error_safe_withActor) (blast dest: then_notify_error with_svc_error operations_error(3))
  show "error_safe s (handleJoinCall d now ac i r s)"
    unfolding handleJoinCall_def assms
    by (rule error_safe_withActor) (blast dest: with_svc_error operations_error(4))
  show "error_safe s (handleLeaveCall d now ac i r s)"
    unfolding handleLeaveCall_def assms
    by (rule error_safe_withActor) (blast dest: with_svc_error operations_error(5))
  show "error_safe s (handleHangupCall d now ac i r s)"
    unfolding handleHangupCall_def assms
    by (rule error_safe_withActor) (blast dest: with_svc_error operations_error(6))
  show "error_safe s (handleResumeCall d now ac i r s)"
    unfolding handleResumeCall_def assms
    by (auto intro!: error_safe_respond dest: with_svc_error [OF _ resume_error] split: option.splits sum.splits)
qed

text \<open>The one exception: a call whose room could not be created stays behind as failed.\<close>

definition room_failed :: "'s Server \<Rightarrow> MemoryStore Server \<times> Response \<Rightarrow> (string \<Rightarrow> Call option) \<Rightarrow> bool" where
  "room_failed s x calls \<longleftrightarrow> av_pending (fst x) = av_pending s \<and> snd x = writeError (Internal ''sfu room create failed'') \<and>
     (\<exists>c. calls_of (av_svc (fst x)) = calls(c_ID c \<mapsto> c) \<and> c_State c = StateFailed \<and> c_Reason c = ''sfu_room_failed'')"

lemma create_error:
  assumes "orch_Create memory_store o1 ctx now id1 id2 inp s = (s', Inl e)"
  shows "calls_of s' = calls_of s \<or> e = Internal ''sfu room create failed'' \<and>
    (\<exists>c. calls_of s' = (calls_of s)(c_ID c \<mapsto> c) \<and> c_State c = StateFailed \<and> c_Reason c = ''sfu_room_failed'')"
proof -
  let ?c = "new_call now (''call_'' @ id1) (''room_'' @ id2) inp"
  let ?f = "?c\<lparr>c_State := StateFailed, c_EndedAt := Some now, c_Reason := ''sfu_room_failed''\<rparr>"
  have "c_ID ?f = c_ID ?c" "c_State ?f = StateFailed" "c_Reason ?f = ''sfu_room_failed''" by simp_all
  with orch_Create_result [OF assms] show ?thesis unfolding sum.case by metis
qed

lemma handleCreateCall_error:
  assumes "ap_st d = memory_store" "400 \<le> rs_Status (snd (handleCreateCall d now ids ac r s))"
  shows "calls_of (av_svc (fst (handleCreateCall d now ids ac r s))) = calls_of (av_svc s) \<and>
      av_pending (fst (handleCreateCall d now ids ac r s)) = av_pending s \<or>
    room_failed s (handleCreateCall d now ids ac r s) (calls_of (av_svc s))"
proof -
  define Q where "Q x \<longleftrightarrow> (400 \<le> rs_Status (snd x) \<longrightarrow>
    calls_of (av_svc (fst x)) = calls_of (av_svc s) \<and> av_pending (fst x) = av_pending s \<or> room_failed s x (calls_of (av_svc s)))"
    for x
  have exits: "Q (s, resp)" "Q (t, writeJSON 201 b)" for resp t b by (simp_all add: Q_def writeJSON_def)
  have create: "Q (case with_svc (orch_Create memory_store o1 (rq_Ctx r) now (ids 0) (ids 1) inp) s of
      (s, Inl err) \<Rightarrow> (s, writeError err) | (s, Inr created) \<Rightarrow> (spawn (ns created) s, writeJSON 201 (enc_call created)))"
    (is "Q (case ?x of (s, Inl err) \<Rightarrow> (s, writeError err) | (s, Inr created) \<Rightarrow> ?ok s created)") for o1 inp ns
  proof -
    obtain t v where x: "?x = (t, v)" by fastforce
    show ?thesis
    proof (cases v)
      case (Inl e)
      have "orch_Create memory_store o1 (rq_Ctx r) now (ids 0) (ids 1) inp (av_svc s) = (av_svc t, Inl e)" "av_pending t = av_pending s"
        using with_svcD [OF x] Inl by (auto intro: prod_eqI)
      with create_error [OF this(1)] show ?thesis
        unfolding x Inl prod.case sum.case Q_def room_failed_def fst_conv snd_conv by metis
    next
      case (Inr c)
      show ?thesis unfolding x Inr prod.case sum.case by (rule exits)
    qed
  qed
  have "Q (handleCreateCall d now ids ac r s)"
    unfolding handleCreateCall_def assms(1) with_app_def with_body_def
    by (auto simp only: exits create split: option.splits sum.splits)
  with assms(2) show ?thesis by (simp add: Q_def)
qed

text \<open>
  C19. An answer with an error status means that nothing happened to the calls: every call is as
  before and no notification was started. The one exception is a group call whose room could not be
  created, which is answered with an internal error and stays behind as a failed call.
\<close>

theorem error_answer_changes_no_call:
  assumes "ap_st d = memory_store" "ServeHTTP d a now ids r s = (s', resp)" "400 \<le> rs_Status resp"
  shows "av_pending s' = av_pending s \<and> (calls_of (av_svc s') = calls_of (av_svc s) \<or>
    resp = writeError (Internal ''sfu room create failed'') \<and>
    (\<exists>c. calls_of (av_svc s') = (calls_of (av_svc s))(c_ID c \<mapsto> c) \<and> c_State c = StateFailed \<and>
       c_Reason c = ''sfu_room_failed''))"
proof -
  have route: "calls_of (av_svc (fst x)) = calls_of (av_svc s) \<and> av_pending (fst x) = av_pending s \<or> room_failed s x (calls_of (av_svc s))"
    if x: "x = handle_route d now ids ac r s route" "400 \<le> rs_Status (snd x)" for x ac route
  proof (cases "route = CreateCall")
    case True
    then show ?thesis using handleCreateCall_error [OF assms(1)] x by simp
  next
    case False
    have "error_safe s x \<or> av_svc (fst x) = av_svc s \<and> av_pending (fst x) = av_pending s"
      using False x(1) actor_handlers_error_safe [OF assms(1)] by (cases route) simp_all
    then show ?thesis using x(2) by (auto simp: error_safe_def)
  qed
  show ?thesis
  proof (cases "\<exists>ac route. handle_route d now ids ac r s route = (s', resp)")
    case True
    then obtain ac route where "handle_route d now ids ac r s route = (s', resp)" by blast
    from route [OF this [symmetric]] assms(3) show ?thesis by (auto simp: room_failed_def)
  next
    case False
    with assms(2) have "s' = s" by (auto simp: ServeHTTP_def split: option.splits sum.splits)
    then show ?thesis by simp
  qed
qed

section \<open>Tokens\<close>

lemma open_path_segs:
  assumes "open_path (url_path p)"
  shows "p \<in> {[''health''], [''ready''], [''metrics''], [''ws'']}"
proof (cases p)
  case (Cons x q)
  show ?thesis
  proof (cases q)
    case Nil
    with assms Cons show ?thesis by (auto simp: open_path_def url_path_def)
  next
    case (Cons y q')
    then have "url_path p = CHR ''/'' # x @ CHR ''/'' # y @ url_path q'" using \<open>p = x # q\<close> by (simp add: url_path_def)
    moreover have "CHR ''/'' \<notin> set (tl (url_path p))" using assms by (auto simp: open_path_def)
    ultimately show ?thesis by simp
  qed
qed (use assms in \<open>simp add: open_path_def url_path_def\<close>)

lemma open_routes:
  "p \<in> {[''health''], [''ready''], [''metrics''], [''ws'']} \<Longrightarrow> find_route hub m p = Inr route \<Longrightarrow>
   route \<in> {Health, Ready, Metrics, Ws}"
  by (auto simp: find_route_def routes_def Let_def split: if_splits option.splits)


section \<open>Creating a call\<close>

lemma calls_route: "find_route hub ''POST'' [''api'', ''v1'', ''calls''] = Inr CreateCall"
  by (simp add: find_route_def routes_def)

text \<open>
  A request to create a direct call, with a token, a body that decodes and an input that is
  valid, is answered 201 with the call; the answer reads back as exactly the call that is stored,
  ringing, with the application of the token and the caller the token or the body names, every callee
  but the caller is ringing, and the one notification started is the one that rings them.
\<close>

theorem create_call_answer:
  assumes server: "ap_st d = memory_store" "ap_calls d = Some o1" "or_Authz o1 = None" "ap_incoming d"
    and request: "rq_Method r = ''POST''" "rq_Path r = [''api'', ''v1'', ''calls'']" "rq_Ctx r = None"
      "decodeJSON dec_createCall r = Inr req"
    and token: "Middleware (ap_lib d) a now (url_path (rq_Path r)) (rq_Authorization r) = Some ac"
      "RequireUserID ac (cq_CallerID req) = Inr caller"
    and input: "create_check (call_input ac (ac_app ac) caller req) = None"
      "create_mode (call_input ac (ac_app ac) caller req) = ModeDirect"
  shows "\<exists>s' resp c. ServeHTTP d a now ids r s = (s', resp) \<and> rs_Status resp = 201 \<and> dec_call (rs_Body resp) = Inr c \<and>
    calls_of (av_svc s') = (calls_of (av_svc s))(c_ID c \<mapsto> c) \<and> c_State c = StateRinging \<and>
    c_AppID c = ac_app ac \<and> c_CallerID c = caller \<and>
    ringing_callees c = filter (\<lambda>u. u \<noteq> caller) (in_CalleeIDs (call_input ac (ac_app ac) caller req)) \<and>
    av_pending s' = av_pending s @ [NRinging c (cq_CallerName req)]"
proof -
  let ?inp = "call_input ac (ac_app ac) caller req"
  let ?c = "new_call now (''call_'' @ ids 0) (''room_'' @ ids 1) ?inp"
  obtain svc v where O: "orch_Create memory_store o1 None now (ids 0) (ids 1) ?inp (av_svc s) = (svc, v)" by fastforce
  have "c_Transport ?c \<noteq> TransportSFU" using input(2) by (simp add: new_call_def)
  then have v: "v = Inr ?c"
    using O input(1) server(3)
    by (auto simp: orch_Create_def Create_def memory_store_def mem_Put_def new_call_def Let_def split: option.splits)
  have st: "calls_of svc = (calls_of (av_svc s))(c_ID ?c \<mapsto> ?c)" using orch_Create_result [OF O] v by simp
  have app: "RequireAppID ac = Inr (ac_app ac)"
    using token(1) request(2)
    by (auto simp: RequireAppID_def Middleware_def NoAuth_def url_path_def open_path_def Let_def
        split: if_splits option.splits sum.splits)
  have "ServeHTTP d a now ids r s = (spawn [NRinging ?c (cq_CallerName req)] (s\<lparr>av_svc := svc\<rparr>), writeJSON 201 (enc_call ?c))"
    using token(1) unfolding ServeHTTP_def request(1,2) calls_route
    by (simp add: handleCreateCall_def server app with_app_def with_body_def request token(2) with_svc_def O v
        del: One_nat_def)
  moreover have "ringing_callees ?c = filter (\<lambda>u. u \<noteq> caller) (in_CalleeIDs ?inp)"
    by (simp add: ringing_callees_def new_call_def new_participants_def call_input_def filter_map o_def)
  moreover have "c_State ?c = StateRinging" "c_AppID ?c = ac_app ac" "c_CallerID ?c = caller"
    by (simp_all add: new_call_def call_input_def)
  ultimately show ?thesis using st by (intro exI [of _ ?c] exI conjI) (auto simp: writeJSON_def)
qed

text \<open>A call is shown to anybody with a token of any application.\<close>

lemma get_call_ignores_application:
  assumes "ap_st d = memory_store" "ap_calls d = Some o1" "calls_of (av_svc s) i = Some c" "i \<noteq> ''''"
    and "rq_Method r = ''GET''" "rq_Path r = [''api'', ''v1'', ''calls'', i]" "rq_Ctx r = None"
    and "Middleware (ap_lib d) a now (url_path (rq_Path r)) (rq_Authorization r) = Some ac"
  shows "ServeHTTP d a now ids r s = (s, writeJSON 200 (enc_call c))"
proof -
  have "find_route (ap_hub d) (rq_Method r) (rq_Path r) = Inr (GetCall i)"
    using assms(4,5,6) by (simp add: find_route_def routes_def)
  then show ?thesis using assms by (simp add: ServeHTTP_def handleGetCall_def mem_get)
qed

section \<open>A server and requests to it\<close>

definition demo_api :: "MemoryStore ServerDeps" where
  "demo_api = \<lparr>ap_st = memory_store, ap_lib = demo_lib,
     ap_calls = Some \<lparr>or_Authz = None, or_SFU = None, or_JWT = demo_validator, or_TokenTTL = Minute, or_ICEServers = []\<rparr>,
     ap_incoming = True, ap_hub = True, ap_ping = None, ap_names = [''fcm''], ap_worker = Some True,
     ap_metrics = JNull, ap_ws = writeJSON 101 JNull\<rparr>"

definition demo_auth :: Authenticator where
  "demo_auth = WithJWT demo_validator (auth_New Map.empty)"

definition demo_server :: "MemoryStore Server" where
  "demo_server = \<lparr>av_svc = NewService NewMemoryStore None 0, av_incoming = incomingcall_New True False empty_db,
     av_presence = None, av_pending = []\<rparr>"

definition demo_request :: "string list \<Rightarrow> json \<Rightarrow> Request" where
  "demo_request path body = \<lparr>rq_Method = ''POST'', rq_Path = path, rq_Authorization = ''Bearer tok'', rq_IdempotencyKey = [],
     rq_Body = Some body, rq_Ctx = None\<rparr>"

definition demo_body :: json where
  "demo_body = JObj [(''caller_id'', JStr ''x''), (''callee_ids'', JArr [JStr ''v'', JStr ''u''])]"

definition demo_direct :: json where
  "demo_direct = JObj [(''callee_id'', JStr ''v''), (''caller_name'', JStr ''Uu'')]"

lemma demo_context:
  "\<not> open_path path \<Longrightarrow> Middleware demo_lib demo_auth 0 path ''Bearer tok'' =
     Some \<lparr>ac_app = ''app'', ac_user = ''u'', ac_device = [], ac_kind = AuthKindUser\<rparr>"
  by (simp add: Middleware_def demo_auth_def WithJWT_def auth_New_def HasPrefix_def bearer_token_def TrimPrefix_def
      TrimSpace_def is_space_def Validate_def demo_lib_def demo_claims_def user_claims_def private_claim_def demo_validator_def
      NewJWTValidator_def Let_def)

lemma demo_not_open: "\<not> open_path (url_path [''api'', ''v1'', ''calls''])"
  by (simp add: open_path_def url_path_def)

lemma demo_api_fields [simp]: "ap_st demo_api = memory_store" "ap_lib demo_api = demo_lib" "ap_incoming demo_api"
  by (simp_all add: demo_api_def)

lemma demo_request_fields [simp]: "rq_Path (demo_request p b) = p" "rq_Authorization (demo_request p b) = ''Bearer tok''"
  "rq_Method (demo_request p b) = ''POST''" "rq_Ctx (demo_request p b) = None" "rq_Body (demo_request p b) = Some b"
  by (simp_all add: demo_request_def)

theorem create_call_answer_witness:
  "\<exists>s' resp c. ServeHTTP demo_api demo_auth 0 (\<lambda>_. ''1'') (demo_request [''api'', ''v1'', ''calls''] demo_direct) demo_server = (s', resp) \<and>
     rs_Status resp = 201 \<and> dec_call (rs_Body resp) = Inr c \<and> c_CallerID c = ''u'' \<and> ringing_callees c = [''v''] \<and>
     av_pending s' = [NRinging c ''Uu'']"
proof -
  let ?ac = "\<lparr>ac_app = ''app'', ac_user = ''u'', ac_device = [], ac_kind = AuthKindUser\<rparr>"
  let ?r = "demo_request [''api'', ''v1'', ''calls''] demo_direct"
  let ?req = "\<lparr>cq_CallerID = [], cq_CallerDevice = [], cq_CalleeID = ''v'', cq_CalleeIDs = [], cq_Type = [], cq_Mode = [],
    cq_CallerName = ''Uu''\<rparr>"
  have dec: "decodeJSON dec_createCall ?r = Inr ?req"
    by (simp add: decodeJSON_def demo_direct_def dec_createCall_def sum_bind_def field_def)
  have inp: "call_input ?ac (ac_app ?ac) ''u'' ?req = \<lparr>in_AppID = ''app'', in_CallerID = ''u'', in_CallerDevice = [],
      in_CalleeIDs = [''v''], in_Type = [], in_Mode = [], in_CallerName = ''Uu''\<rparr>"
    by (simp add: call_input_def actor_device_def)
  have "\<exists>s' resp c. ServeHTTP demo_api demo_auth 0 (\<lambda>_. ''1'') ?r demo_server = (s', resp) \<and> rs_Status resp = 201 \<and>
      dec_call (rs_Body resp) = Inr c \<and>
      calls_of (av_svc s') = (calls_of (av_svc demo_server))(c_ID c \<mapsto> c) \<and> c_State c = StateRinging \<and>
      c_AppID c = ac_app ?ac \<and> c_CallerID c = ''u'' \<and>
      ringing_callees c = filter (\<lambda>u. u \<noteq> ''u'') (in_CalleeIDs (call_input ?ac (ac_app ?ac) ''u'' ?req)) \<and>
      av_pending s' = av_pending demo_server @ [NRinging c (cq_CallerName ?req)]"
    by (rule create_call_answer [where ?o1.0 = "the (ap_calls demo_api)"])
       (use dec inp demo_context [OF demo_not_open] in
         \<open>simp_all add: demo_api_def RequireUserID_def create_check_def create_type_def create_mode_def\<close>)
  then show ?thesis unfolding inp by (auto simp: demo_server_def)
qed


lemma demo_unknown:
  "ServeHTTP demo_api demo_auth 0 (\<lambda>_. ''1'') (demo_request [''api'', ''v1'', ''calls'', ''c'', ''hangup''] JNull) demo_server =
     (demo_server, writeError CallNotFound)"
proof -
  let ?p = "[''api'', ''v1'', ''calls'', ''c'', ''hangup'']"
  have m: "Middleware demo_lib demo_auth 0 (url_path ?p) ''Bearer tok'' =
      Some \<lparr>ac_app = ''app'', ac_user = ''u'', ac_device = [], ac_kind = AuthKindUser\<rparr>"
    by (rule demo_context) (simp add: open_path_def url_path_def)
  have f: "find_route hub ''POST'' ?p = Inr (HangupCall ''c'')" for hub
    by (simp add: find_route_def routes_def call_action_def)
  obtain o1 where o1: "ap_calls demo_api = Some o1" by (simp add: demo_api_def)
  have "calls_of (av_svc demo_server) = Map.empty" by (simp add: demo_server_def NewService_def NewMemoryStore_def Let_def)
  then show ?thesis
    using m by (simp add: ServeHTTP_def f handleHangupCall_def withActor_def o1 RequireUserID_def respond_def with_svc_def
        Hangup_def endForUser_def mem_run_update)
qed

theorem error_answer_changes_no_call_witness:
  "rs_Status (snd (ServeHTTP demo_api demo_auth 0 (\<lambda>_. ''1'') (demo_request [''api'', ''v1'', ''calls'', ''c'', ''hangup''] JNull) demo_server)) = 404 \<and>
   av_pending (fst (ServeHTTP demo_api demo_auth 0 (\<lambda>_. ''1'') (demo_request [''api'', ''v1'', ''calls'', ''c'', ''hangup''] JNull) demo_server)) =
     av_pending demo_server"
proof -
  have st: "rs_Status (writeError CallNotFound) = 404" by (simp add: CallNotFound_def NewAppError_def writeJSON_def)
  have "av_pending demo_server = av_pending demo_server"
    using error_answer_changes_no_call [OF _ demo_unknown] st by simp
  then show ?thesis unfolding demo_unknown by (simp add: st)
qed


end
