(* ===== verification/WorkerLoop.thy ===== *)
theory WorkerLoop
  imports PushProps
begin

text \<open>
  The loop of the delivery worker (\<open>internal/queue/worker.go\<close>): starting and stopping it, the ticks
  of its timer until it is cancelled, and that it drains the queue: with statements that succeed, enough
  ticks settle every delivery, whatever the providers answer.
\<close>

section \<open>Model\<close>

text \<open>\<open>wr_loops\<close> counts the goroutines in \<open>loop\<close>; \<open>Stop\<close> waits for them.\<close>

record WorkerRun =
  wr_running :: bool
  wr_loops :: nat

definition worker_Start :: "WorkerRun \<Rightarrow> WorkerRun" where
  "worker_Start s = (if wr_running s then s else s\<lparr>wr_running := True, wr_loops := wr_loops s + 1\<rparr>)"

definition worker_Stop :: "WorkerRun \<Rightarrow> WorkerRun" where
  "worker_Stop s = (if \<not> wr_running s then s else s\<lparr>wr_running := False, wr_loops := 0\<rparr>)"

definition Alive :: "WorkerRun \<Rightarrow> bool" where
  "Alive s \<longleftrightarrow> wr_running s"

text \<open>What the \<open>select\<close> of the loop receives. The error of a tick is only logged.\<close>

datatype loop_event = Ticked gotime | Cancelled

fun worker_loop :: "Worker \<Rightarrow> loop_event list \<Rightarrow> Db \<Rightarrow> Db" where
  "worker_loop w [] db = db"
| "worker_loop w (Cancelled # _) db = db"
| "worker_loop w (Ticked now # events) db = worker_loop w events (fst (tick w now db))"

text \<open>However it is started and stopped, at most one loop runs, and one exactly while the worker is alive.\<close>

lemma one_loop:
  "wr_loops s = of_bool (Alive s) \<Longrightarrow> wr_loops (worker_Start s) = of_bool (Alive (worker_Start s)) \<and>
     wr_loops (worker_Stop s) = of_bool (Alive (worker_Stop s))"
  by (simp add: Alive_def worker_Start_def worker_Stop_def)

section \<open>One delivery\<close>

definition is_done :: "Delivery \<Rightarrow> bool" where
  "is_done r \<longleftrightarrow> dl_Status r = DeliveryStatusAccepted \<or> dl_Status r = DeliveryStatusFailed"

text \<open>What processing makes of a claimed row: it is done, or put off by at most half an hour with attempts left.\<close>

definition put_off :: "int \<Rightarrow> gotime \<Rightarrow> Delivery \<Rightarrow> Delivery \<Rightarrow> bool" where
  "put_off mx now r r' \<longleftrightarrow> dl_ID r' = dl_ID r \<and> dl_Attempts r' = dl_Attempts r \<and>
     (is_done r' \<or> ready (now + 30 * Minute) r' \<and> dl_Attempts r < mx)"

lemma verdict_put_off: "put_off mx now d (verdict mx now d answer)"
  using DelayForAttempt_bounds [of "dl_Attempts d + 1"]
  by (auto simp: verdict_def put_off_def is_done_def ready_def Let_def split: sum.splits option.splits error.splits)

lemma marks_faultless:
  "db_faults db = [] \<Longrightarrow> db_faults (fst (del_MarkFailed i code text db)) = []"
  "db_faults db = [] \<Longrightarrow> db_faults (fst (del_MarkRetrying i code text t db)) = []"
  "db_faults db = [] \<Longrightarrow> db_faults (fst (del_MarkAccepted now i pid db)) = []"
  by (simp_all add: del_MarkFailed_def del_MarkRetrying_def del_MarkAccepted_def del_update_def)

lemma handle_faultless:
  assumes "db_faults db = []"
  shows "db_faults (handleError mx now d dev m err db) = []" "db_faults (handleResult mx now d dev m res db) = []"
  using assms
  by (auto simp: handleError_def handleResult_def maybeComplete_faultless marks_faultless MarkInvalid_ok Let_def
      split: error.splits option.splits)

lemma processDelivery_row:
  assumes "db_faults db = []" "distinct (map dl_ID (db_deliveries db))" "d \<in> set (db_deliveries db)"
  shows "\<exists>d'. put_off (w_maxAttempt w) now d d' \<and> db_faults (fst (processDelivery w now d db)) = [] \<and>
    db_deliveries (fst (processDelivery w now d db)) = set_row (dl_ID d) d' db"
proof -
  have failed: "put_off mx now d (d\<lparr>dl_Status := DeliveryStatusFailed, dl_ErrorCode := code, dl_ErrorMessage := tx,
      dl_NextRetryAt := None\<rparr>)" for mx code tx
    by (simp add: put_off_def is_done_def)
  have "\<exists>r1. dev_FindByID (dl_DeviceID d) db = (db, r1)"
    using assms(1) by (simp add: dev_FindByID_def split: option.splits)
  then obtain r1 where f: "dev_FindByID (dl_DeviceID d) db = (db, r1)" ..
  show ?thesis
  proof (cases r1)
    case (Inl e)
    then show ?thesis
      using f assms by (auto simp: processDelivery_def marks_row marks_faultless intro!: exI failed)
  next
    case (Inr dev)
    have "\<exists>r2. msg_FindByID (d_AppID dev) (dl_MessageID d) db = (db, r2)"
      using assms(1) by (simp add: msg_FindByID_def split: option.splits)
    then obtain r2 where g: "msg_FindByID (d_AppID dev) (dl_MessageID d) db = (db, r2)" ..
    show ?thesis
    proof (cases r2)
      case Inl
      then show ?thesis
        using f g Inr assms by (auto simp: processDelivery_def marks_row marks_faultless intro!: exI failed)
    next
      case msg: (Inr m)
      show ?thesis
      proof (cases "registry_Get (dl_Provider d) (w_registry w)")
        case Inl
        then show ?thesis
          using f g Inr msg assms
          by (auto simp: processDelivery_def marks_row marks_faultless maybeComplete_tables maybeComplete_faultless Let_def
              intro!: exI failed)
      next
        case prov: (Inr p)
        show ?thesis
          by (rule exI [of _ "verdict (w_maxAttempt w) now d (pv_Send p now m dev)"])
            (use f g Inr msg prov assms in \<open>auto simp: processDelivery_def handleError_outcome handleResult_outcome
              handle_faultless verdict_put_off split: sum.splits\<close>)
      qed
    qed
  qed
qed

section \<open>One tick\<close>

lemma processed_rows:
  assumes "db_faults db = []" "distinct (map dl_ID (db_deliveries db))" "set ds \<subseteq> set (db_deliveries db)"
    and "distinct (map dl_ID ds)"
  shows "\<exists>g. let db' = fold (\<lambda>d db. fst (processDelivery w now d db)) ds db in
    db_faults db' = [] \<and> db_deliveries db' = map (\<lambda>r. if r \<in> set ds then g r else r) (db_deliveries db) \<and>
    (\<forall>r \<in> set ds. put_off (w_maxAttempt w) now r (g r))"
  using assms
proof (induction ds arbitrary: db)
  case (Cons d ds)
  let ?db = "fst (processDelivery w now d db)"
  obtain d' where d': "put_off (w_maxAttempt w) now d d'" "db_faults ?db = []" "db_deliveries ?db = set_row (dl_ID d) d' db"
    using processDelivery_row [OF Cons.prems(1,2), of d w now] Cons.prems(3) by auto
  have row: "db_deliveries ?db = map (\<lambda>r. if r = d then d' else r) (db_deliveries db)"
    using d'(3) Cons.prems(3) id_unique [OF Cons.prems(2)] by (auto simp: set_row_def)
  have "map dl_ID (db_deliveries ?db) = map dl_ID (db_deliveries db)"
    using d'(1) by (simp add: row put_off_def)
  moreover have notin: "d \<notin> set ds" "d' \<notin> set ds" using Cons.prems(4) d'(1) by (auto simp: put_off_def image_iff)
  moreover have "set ds \<subseteq> set (db_deliveries ?db)" using Cons.prems(3) notin(1) by (auto simp: row)
  ultimately obtain g where g: "db_faults (fold (\<lambda>d db. fst (processDelivery w now d db)) ds ?db) = []"
    "db_deliveries (fold (\<lambda>d db. fst (processDelivery w now d db)) ds ?db) =
       map (\<lambda>r. if r \<in> set ds then g r else r) (db_deliveries ?db)"
    "\<forall>r \<in> set ds. put_off (w_maxAttempt w) now r (g r)"
    using Cons.IH [of ?db] d'(2) Cons.prems(2,4) by (auto simp: Let_def)
  have "map (\<lambda>r. if r \<in> set ds then g r else r) (db_deliveries ?db) =
      map (\<lambda>r. if r \<in> set (d # ds) then (g(d := d')) r else r) (db_deliveries db)"
    using notin by (auto simp: row)
  moreover have "\<forall>r \<in> set (d # ds). put_off (w_maxAttempt w) now r ((g(d := d')) r)"
    using g(3) d'(1) notin(1) by auto
  ultimately have "db_faults (fold (\<lambda>d db. fst (processDelivery w now d db)) (d # ds) db) = [] \<and>
      db_deliveries (fold (\<lambda>d db. fst (processDelivery w now d db)) (d # ds) db) =
        map (\<lambda>r. if r \<in> set (d # ds) then (g(d := d')) r else r) (db_deliveries db) \<and>
      (\<forall>r \<in> set (d # ds). put_off (w_maxAttempt w) now r ((g(d := d')) r))"
    using g(1,2) by simp
  then show ?case unfolding Let_def by blast
qed simp

lemma map_inj_part:
  assumes "distinct (map f xs)" "set ys \<subseteq> set xs" "x \<in> set xs"
  shows "f x \<in> set (map f ys) \<longleftrightarrow> x \<in> set ys"
  using assms by (auto simp: distinct_map dest: inj_onD)

text \<open>A tick settles or puts off the rows it claims, which are ready ones, and leaves the others.\<close>

lemma tick_rows:
  assumes "db_faults db = []" "distinct (map dl_ID (db_deliveries db))"
  shows "\<exists>C g. let db' = fst (tick w now db) in
    db_faults db' = [] \<and> db_deliveries db' = map (\<lambda>r. if r \<in> C then g r else r) (db_deliveries db) \<and>
    C \<subseteq> {r \<in> set (db_deliveries db). ready now r} \<and> (\<forall>r \<in> C. put_off (w_maxAttempt w) now (claim r) (g r)) \<and>
    (1 \<le> w_batchSize w \<and> (\<exists>r \<in> set (db_deliveries db). ready now r) \<longrightarrow> C \<noteq> {})"
proof -
  let ?rows = "db_deliveries db"
  let ?c = "take (w_batchSize w) (sort_key dl_CreatedAt (filter (ready now) ?rows))"
  let ?rows' = "map (\<lambda>r. if r \<in> set ?c then claim r else r) ?rows"
  let ?ds = "filter (\<lambda>r. dl_ID r \<in> set (map dl_ID ?c)) ?rows'"
  let ?db = "db\<lparr>db_deliveries := ?rows'\<rparr>"
  have sorted_empty: "sort_key dl_CreatedAt xs = [] \<longleftrightarrow> xs = []" for xs
    by (metis length_0_conv length_sort)
  have sub: "set ?c \<subseteq> {r \<in> set ?rows. ready now r}" by (auto dest: in_set_takeD)
  have mem: "dl_ID r \<in> set (map dl_ID ?c) \<longleftrightarrow> r \<in> set ?c" if "r \<in> set ?rows" for r
    using map_inj_part [OF assms(2) _ that] sub by blast
  have upd: "update_where (\<lambda>r. dl_ID r \<in> set (map dl_ID ?c)) claim ?rows = ?rows'"
    unfolding update_where_def using mem by (intro map_cong) auto
  have ids: "map dl_ID ?rows' = map dl_ID ?rows" by simp
  have claimed: "?ds = map claim (filter (\<lambda>r. r \<in> set ?c) ?rows)"
    using mem by (simp add: filter_map comp_def cong: filter_cong)
  have fst_tick: "fst (tick w now db) = fold (\<lambda>d db. fst (processDelivery w now d db)) ?ds ?db"
    using assms(1) upd by (simp add: tick_def del_ClaimReady_def stmt_def Let_def)
  have dist: "distinct (map dl_ID (db_deliveries ?db))" using assms(2) unfolding ids [symmetric] by simp
  then have "distinct (map dl_ID ?ds)" by (simp add: distinct_map_filter)
  then obtain g where g: "db_faults (fst (tick w now db)) = []"
    "db_deliveries (fst (tick w now db)) = map (\<lambda>r. if r \<in> set ?ds then g r else r) ?rows'"
    "\<forall>r \<in> set ?ds. put_off (w_maxAttempt w) now r (g r)"
    using processed_rows [of ?db ?ds w now] assms(1) dist unfolding fst_tick by (auto simp: Let_def)
  have in_ds: "(if r \<in> set ?c then claim r else r) \<in> set ?ds \<longleftrightarrow> r \<in> set ?c" if "r \<in> set ?rows" for r
    using mem [OF that] that by auto
  have "db_deliveries (fst (tick w now db)) = map (\<lambda>r. if r \<in> set ?c then (g \<circ> claim) r else r) ?rows"
    unfolding g(2) map_map by (rule map_cong [OF refl]) (use in_ds in \<open>auto simp del: set_filter\<close>)
  moreover have "\<forall>r \<in> set ?c. put_off (w_maxAttempt w) now (claim r) ((g \<circ> claim) r)"
    using g(3) sub unfolding claimed by auto
  moreover have "1 \<le> w_batchSize w \<and> (\<exists>r \<in> set ?rows. ready now r) \<longrightarrow> set ?c \<noteq> {}"
    by (cases "w_batchSize w") (auto simp: filter_empty_conv sorted_empty)
  ultimately show ?thesis using g(1) sub unfolding Let_def by blast
qed

section \<open>The queue\<close>

text \<open>How often a row can still be claimed.\<close>

definition attempts_left :: "int \<Rightarrow> Delivery \<Rightarrow> nat" where
  "attempts_left mx r = (if is_done r then 0 else nat (max 1 (mx - dl_Attempts r)))"

lemma attempts_left_claimed:
  assumes "ready now r" "put_off mx now (claim r) r'"
  shows "attempts_left mx r' < attempts_left mx r"
proof -
  have "\<not> is_done r" using ready_statusD [OF assms(1)] by (auto simp: is_done_def)
  then show ?thesis using assms(2) by (auto simp: attempts_left_def put_off_def)
qed

text \<open>A queue without rows left behind by a crash, whose open rows are all due at an instant.\<close>

definition queue_due :: "gotime \<Rightarrow> Db \<Rightarrow> bool" where
  "queue_due now db \<longleftrightarrow> db_faults db = [] \<and> distinct (map dl_ID (db_deliveries db)) \<and>
     (\<forall>r \<in> set (db_deliveries db). is_done r \<or> ready now r)"

lemma ready_later: "ready now r \<Longrightarrow> now \<le> later \<Longrightarrow> ready later r"
  by (auto simp: ready_def split: option.splits)

lemma queue_due_later: "queue_due now db \<Longrightarrow> now \<le> later \<Longrightarrow> queue_due later db"
  using ready_later by (auto simp: queue_due_def)

definition queue_left :: "int \<Rightarrow> Db \<Rightarrow> nat" where
  "queue_left mx db = sum_list (map (attempts_left mx) (db_deliveries db))"

lemma queue_left_0: "queue_left mx db = 0 \<longleftrightarrow> (\<forall>r \<in> set (db_deliveries db). is_done r)"
proof -
  have "attempts_left mx r = 0 \<longleftrightarrow> is_done r" for r by (simp add: attempts_left_def)
  then show ?thesis by (simp add: queue_left_def)
qed

lemma sum_list_map_less:
  assumes "\<forall>x \<in> set xs. f x \<le> g x" "\<exists>x \<in> set xs. f x < g x"
  shows "sum_list (map f xs) < (sum_list (map g xs) :: nat)"
  using assms
proof (induction xs)
  case (Cons x xs)
  have "sum_list (map f xs) \<le> sum_list (map g xs)" using Cons.prems(1) by (intro sum_list_mono) simp
  then show ?case using Cons by (cases "f x < g x") auto
qed simp

lemma tick_drains:
  assumes "queue_due now db" "1 \<le> w_batchSize w"
  shows "queue_due (now + 30 * Minute) (fst (tick w now db))"
    "queue_left (w_maxAttempt w) (fst (tick w now db)) \<le> queue_left (w_maxAttempt w) db - 1"
    "map dl_ID (db_deliveries (fst (tick w now db))) = map dl_ID (db_deliveries db)"
proof -
  let ?mx = "w_maxAttempt w" and ?rows = "db_deliveries db"
  obtain C g where t: "db_faults (fst (tick w now db)) = []"
    "db_deliveries (fst (tick w now db)) = map (\<lambda>r. if r \<in> C then g r else r) ?rows"
    "C \<subseteq> {r \<in> set ?rows. ready now r}" "\<forall>r \<in> C. put_off ?mx now (claim r) (g r)"
    "(\<exists>r \<in> set ?rows. ready now r) \<longrightarrow> C \<noteq> {}"
    using tick_rows [of db w now] assms by (auto simp: queue_due_def Let_def)
  show ids: "map dl_ID (db_deliveries (fst (tick w now db))) = map dl_ID ?rows"
    unfolding t(2) using t(4) by (auto simp: put_off_def)
  have due: "is_done r' \<or> ready (now + 30 * Minute) r'" if "r' \<in> set (db_deliveries (fst (tick w now db)))" for r'
  proof -
    from that obtain r where r: "r \<in> set ?rows" "r' = (if r \<in> C then g r else r)" unfolding t(2) by auto
    show ?thesis
    proof (cases "r \<in> C")
      case True
      with t(4) r(2) show ?thesis by (auto simp: put_off_def)
    next
      case False
      with assms(1) r show ?thesis using ready_later [of now r "now + 30 * Minute"] by (auto simp: queue_due_def)
    qed
  qed
  with t(1) ids assms(1) show "queue_due (now + 30 * Minute) (fst (tick w now db))" by (simp add: queue_due_def)
  have less: "attempts_left ?mx (g r) < attempts_left ?mx r" if "r \<in> C" for r
    using that t(3,4) attempts_left_claimed by blast
  show "queue_left ?mx (fst (tick w now db)) \<le> queue_left ?mx db - 1"
  proof (cases "C = {}")
    case True
    then have "\<forall>r \<in> set ?rows. is_done r" using t(5) assms(1) by (auto simp: queue_due_def)
    then have "queue_left ?mx db = 0" by (simp add: queue_left_0)
    moreover have "db_deliveries (fst (tick w now db)) = ?rows" using True by (simp add: t(2))
    ultimately have "queue_left ?mx (fst (tick w now db)) = 0" unfolding queue_left_def by (simp only:)
    then show ?thesis by simp
  next
    case False
    then have "queue_left ?mx (fst (tick w now db)) < queue_left ?mx db"
      unfolding queue_left_def t(2) map_map using less t(3)
      by (intro sum_list_map_less) (auto simp: less_imp_le)
    then show ?thesis by simp
  qed
qed

lemma loop_drains:
  assumes "queue_due now db" "1 \<le> w_batchSize w" "successively (\<lambda>a b. a + 30 * Minute \<le> b) (now # ts)"
  shows "queue_left (w_maxAttempt w) (worker_loop w (map Ticked (now # ts)) db) \<le> queue_left (w_maxAttempt w) db - (1 + length ts) \<and>
    map dl_ID (db_deliveries (worker_loop w (map Ticked (now # ts)) db)) = map dl_ID (db_deliveries db)"
  using assms
proof (induction ts arbitrary: now db)
  case Nil
  then show ?case using tick_drains [OF Nil(1,2)] by simp
next
  case (Cons t ts)
  let ?db = "fst (tick w now db)"
  note T = tick_drains [OF Cons.prems(1,2)]
  have "queue_due t ?db" using queue_due_later [OF T(1)] Cons.prems(3) by simp
  from Cons.IH [OF this Cons.prems(2)] Cons.prems(3) T(2,3) show ?case by auto
qed

section \<open>Property\<close>

text \<open>
  C13. The worker drains its queue: when no statement fails and no row was left behind by a crash, ticks
  at least half an hour apart, as many as there are deliveries times the attempts a delivery has (at
  least one), end with every delivery accepted or failed, whatever the providers answer and however
  small the batches are. No delivery is lost or added.
\<close>

theorem worker_drains_queue:
  assumes "db_faults db = []" "distinct (map dl_ID (db_deliveries db))" "1 \<le> w_batchSize w"
    and "\<forall>r \<in> set (db_deliveries db). 0 \<le> dl_Attempts r \<and> (is_done r \<or> ready now r)"
    and "successively (\<lambda>a b. a + 30 * Minute \<le> b) (now # ts)"
    and "length (db_deliveries db) * nat (max 1 (w_maxAttempt w)) \<le> length ts"
  shows "(\<forall>r \<in> set (db_deliveries (worker_loop w (map Ticked (now # ts)) db)). is_done r) \<and>
    map dl_ID (db_deliveries (worker_loop w (map Ticked (now # ts)) db)) = map dl_ID (db_deliveries db)"
proof -
  have "queue_left (w_maxAttempt w) db \<le> sum_list (map (\<lambda>_. nat (max 1 (w_maxAttempt w))) (db_deliveries db))"
    unfolding queue_left_def using assms(4) by (intro sum_list_mono) (auto simp: attempts_left_def)
  then have "queue_left (w_maxAttempt w) db \<le> length ts"
    using assms(6) by (simp add: sum_list_triv mult.commute)
  moreover have "queue_due now db" using assms(1,2,4) by (auto simp: queue_due_def)
  note loop_drains [OF this assms(3,5)]
  ultimately show ?thesis using queue_left_0 [of "w_maxAttempt w"] by (metis diff_is_0_eq le_add2 le_trans le_zero_eq)
qed

definition put_off_demo :: Db where
  "put_off_demo = empty_db\<lparr>db_deliveries := [demo_row, demo_row\<lparr>dl_ID := ''x2''\<rparr>]\<rparr>"

text \<open>Two deliveries, one attempt each, batches of ten: three ticks, and both are settled.\<close>

theorem worker_drains_queue_witness:
  "list_all is_done (db_deliveries (worker_loop (demo_worker\<lparr>w_maxAttempt := 1\<rparr>)
     (map Ticked [2, 2 + 30 * Minute, 2 + 60 * Minute]) put_off_demo))"
proof -
  have row: "is_done demo_row \<or> ready 2 demo_row" "dl_Attempts demo_row = 0" "dl_ID demo_row = ''x1''"
    using demo_row_fields by (simp_all add: ready_def)
  have row2: "is_done (demo_row\<lparr>dl_ID := ''x2''\<rparr>) \<or> ready 2 (demo_row\<lparr>dl_ID := ''x2''\<rparr>)"
    using demo_row_fields by (simp add: ready_def)
  show ?thesis
    using worker_drains_queue [of put_off_demo "demo_worker\<lparr>w_maxAttempt := 1\<rparr>" 2 "[2 + 30 * Minute, 2 + 60 * Minute]"]
      row row2 by (simp add: list_all_iff put_off_demo_def empty_db_def demo_worker_def)
qed

section \<open>Stopping within a batch\<close>

text \<open>
  \<open>Stop\<close> cancels the context of the statements: those of the batch at hand fail from then on, the one
  that would record a failure included.
\<close>

lemma processDelivery_cancelled:
  assumes "db_faults db = Some e # Some e' # fs"
  shows "fst (processDelivery w now d db) = db\<lparr>db_faults := fs\<rparr>"
  using assms by (simp add: processDelivery_def dev_FindByID_def del_MarkFailed_def del_update_def stmt_def)

lemma cancelled_batch:
  assumes "list_all (\<lambda>f. f \<noteq> None) fs" "2 * length ds \<le> length fs" "db_faults db = fs"
  shows "db_deliveries (fold (\<lambda>d db. fst (processDelivery w now d db)) ds db) = db_deliveries db"
  using assms
proof (induction ds arbitrary: fs db)
  case (Cons d ds)
  then obtain e e' fs' where fs: "fs = Some e # Some e' # fs'"
    by (cases fs; cases "tl fs") auto
  have "fst (processDelivery w now d db) = db\<lparr>db_faults := fs'\<rparr>"
    using processDelivery_cancelled Cons.prems(3) fs by blast
  moreover have "db_deliveries (fold (\<lambda>d db. fst (processDelivery w now d db)) ds (db\<lparr>db_faults := fs'\<rparr>)) = db_deliveries db"
    using Cons.IH [of fs' "db\<lparr>db_faults := fs'\<rparr>"] Cons.prems fs by simp
  ultimately show ?case by simp
qed simp

lemma claimed_at_most_batch:
  assumes "distinct (map dl_ID (db_deliveries db))" "del_ClaimReady now n db = (db', Inr rows)"
  shows "length rows \<le> n"
proof -
  from claim_cases [OF assms(2)] obtain ids where ids: "length ids \<le> n"
    "db_deliveries db' = update_where (\<lambda>r. dl_ID r \<in> set ids) claim (db_deliveries db)"
    "rows = filter (\<lambda>r. dl_ID r \<in> set ids) (db_deliveries db')" by auto
  have "map dl_ID (db_deliveries db') = map dl_ID (db_deliveries db)"
    unfolding ids(2) by (rule map_update_where) (simp add: claim_def)
  with assms(1) have "distinct (map dl_ID rows)" unfolding ids(3) by (simp add: distinct_map_filter)
  then have "length rows = card (set (map dl_ID rows))" using distinct_card by fastforce
  also have "\<dots> \<le> card (set ids)" by (rule card_mono) (auto simp: ids(3))
  also have "\<dots> \<le> n" using card_length [of ids] ids(1) by simp
  finally show ?thesis .
qed

text \<open>
  A worker that is stopped after it claimed a batch leaves the deliveries as it claimed them, in the
  state sending, and such a row is never ready again.
\<close>

theorem stopping_strands_batch:
  assumes "distinct (map dl_ID (db_deliveries db))" "db_faults db = None # fs" "list_all (\<lambda>f. f \<noteq> None) fs"
    and "2 * w_batchSize w \<le> length fs" "del_ClaimReady now (w_batchSize w) db = (db1, Inr rows)"
  shows "db_deliveries (fst (tick w now db)) = db_deliveries db1 \<and> set rows \<subseteq> set (db_deliveries db1) \<and>
    (\<forall>r \<in> set rows. dl_Status r = DeliveryStatusSending \<and> (\<forall>later. \<not> ready later r))"
proof -
  obtain ids where ids: "db_deliveries db1 = update_where (\<lambda>r. dl_ID r \<in> set ids) claim (db_deliveries db)"
    "rows = filter (\<lambda>r. dl_ID r \<in> set ids) (db_deliveries db1)" using claim_cases [OF assms(5)] by auto
  have "dl_Status r = DeliveryStatusSending" if "r \<in> set rows" for r
    using that unfolding ids by (auto simp: update_where_def claim_def split: if_splits)
  moreover have "db_faults db1 = fs" using assms(2,5) by (auto simp: del_ClaimReady_def stmt_def Let_def)
  moreover have "2 * length rows \<le> length fs" using claimed_at_most_batch [OF assms(1,5)] assms(4) by simp
  ultimately show ?thesis
    using cancelled_batch [OF assms(3), of rows db1 w now] assms(5) unfolding tick_def by (auto simp: ready_def ids(2))
qed

end
