(* ===== verification/ProviderHttp.thy ===== *)
theory ProviderHttp
  imports Config Worker Json
begin

text \<open>
  What the push providers (\<open>internal/provider/*\<close>) share: the HTTP exchange with a vendor as a
  parameter, the cache of an access token, the results they build, the data of a push, and the
  contract a provider has towards the worker, as a locale with what follows for a delivery. A request
  is what the provider builds, an answer is its status, headers, text and document (\<open>None\<close> when
  the text is no JSON). Objects that the code builds as Go maps are association lists; their order means
  nothing. Timeouts and limits on the size of an answer are left out.
\<close>

section \<open>The exchange with a vendor\<close>

datatype http_body = JsonBody json | FormBody "(string \<times> string) list"

record HttpRequest =
  hq_URL :: string
  hq_Headers :: "(string \<times> string) list"
  hq_Body :: http_body

record HttpResponse =
  hr_Status :: int
  hr_Headers :: "(string \<times> string) list"
  hr_Text :: string
  hr_Json :: "json option"

text \<open>
  \<open>net/http\<close> and \<open>encoding/json\<close>: whether a URL makes a request, the exchange, and the text of a
  document.
\<close>

record HttpClient =
  hc_NewRequest :: "string \<Rightarrow> error option"
  hc_Do :: "HttpRequest \<Rightarrow> error + HttpResponse"
  hc_Marshal :: "json \<Rightarrow> string"

definition header :: "string \<Rightarrow> HttpResponse \<Rightarrow> string" where
  "header k r = (case map_of (hr_Headers r) k of None \<Rightarrow> '''' | Some v \<Rightarrow> v)"

section \<open>Results\<close>

definition accepted :: "string \<Rightarrow> SendResult" where
  "accepted msgID = \<lparr>sr_Accepted = True, sr_ProviderMessageID = msgID, sr_Retryable = False, sr_ErrorCode = '''',
     sr_ErrorMessage = '''', sr_InvalidToken = False\<rparr>"

definition rejected :: "bool \<Rightarrow> string \<Rightarrow> string \<Rightarrow> SendResult" where
  "rejected retryable code msg = \<lparr>sr_Accepted = False, sr_ProviderMessageID = '''', sr_Retryable = retryable,
     sr_ErrorCode = code, sr_ErrorMessage = msg, sr_InvalidToken = False\<rparr>"

definition invalid_token :: "string \<Rightarrow> SendResult" where
  "invalid_token msg = \<lparr>sr_Accepted = False, sr_ProviderMessageID = '''', sr_Retryable = False,
     sr_ErrorCode = ErrCodeInvalidToken, sr_ErrorMessage = msg, sr_InvalidToken = True\<rparr>"

definition token_error :: "string \<Rightarrow> string \<Rightarrow> error" where
  "token_error name msg = Prov \<lparr>pe_Provider = name, pe_Code = ErrCodeInvalidToken, pe_Message = msg,
     pe_Retryable = False, pe_InvalidToken = True\<rparr>"

definition validate_nonblank :: "string \<Rightarrow> string \<Rightarrow> string \<Rightarrow> error option" where
  "validate_nonblank name msg token = (if TrimSpace token = '''' then Some (token_error name msg) else None)"

section \<open>Strings and data\<close>

fun Contains :: "string \<Rightarrow> string \<Rightarrow> bool" where
  "Contains [] sub \<longleftrightarrow> sub = []"
| "Contains (c # cs) sub \<longleftrightarrow> HasPrefix (c # cs) sub \<or> Contains cs sub"

definition set_if :: "bool \<Rightarrow> string \<Rightarrow> 'a \<Rightarrow> (string \<times> 'a) list \<Rightarrow> (string \<times> 'a) list" where
  "set_if b k v kvs = (if b then AList.update k v kvs else kvs)"

text \<open>The data of a push with the identity of its message, as five of the providers build it.\<close>

definition event_data :: "Message \<Rightarrow> (string \<times> string) list" where
  "event_data m =
     set_if (m_DeepLink m \<noteq> '''') ''deep_link'' (m_DeepLink m)
       (set_if (m_Type m \<noteq> '''') ''mgl_event_type'' (m_Type m)
         (set_if (m_ID m \<noteq> '''') ''mgl_event_id'' (m_ID m)
           (set_if (m_ID m \<noteq> '''') ''mgl_message_id'' (m_ID m) (m_Data m))))"

definition str_obj :: "(string \<times> string) list \<Rightarrow> json" where
  "str_obj kvs = JObj (map (\<lambda>(k, v). (k, JStr v)) kvs)"

definition data_of :: "Message \<Rightarrow> string \<Rightarrow> string option" where
  "data_of m k = map_of (m_Data m) k"

text \<open>A title and a text for vendors that only show notifications (\<open>oppo\<close>, \<open>vivo\<close>).\<close>

definition call_text :: "Message \<Rightarrow> string" where
  "call_text m = (case data_of m ''call_id'' of None \<Rightarrow> '' '' | Some v \<Rightarrow> if v = '''' then '' '' else v)"

definition shell_text :: "Message \<Rightarrow> string \<times> string" where
  "shell_text m =
     (if m_Title m \<noteq> '''' \<or> m_Body m \<noteq> '''' then (m_Title m, m_Body m)
      else if m_Type m = MessageIncomingCall then
        (''Incoming call'',
         case data_of m ''caller_display_name'' of
           Some name \<Rightarrow> if name \<noteq> '''' then name
                       else (case data_of m ''caller_id'' of Some i \<Rightarrow> i | None \<Rightarrow> '' '')
         | None \<Rightarrow> (case data_of m ''caller_id'' of Some i \<Rightarrow> i | None \<Rightarrow> '' ''))
      else if m_Type m = MessageCallCancelled then (''Call cancelled'', call_text m)
      else if m_Type m = MessageCallEnded then (''Call ended'', call_text m)
      else (''Notification'',
            case data_of m ''mgl_event_type'' of
              Some t \<Rightarrow> t
            | None \<Rightarrow> (case data_of m ''type'' of Some t \<Rightarrow> t | None \<Rightarrow> '' '')))"

text \<open>
  A number for a key (\<open>oppo\<close>, \<open>xiaomi\<close>): \<open>int32\<close> arithmetic wraps around, also when the
  sign is changed, and the remainder has the sign of the dividend.
\<close>

definition hash31 :: "string \<Rightarrow> 32 word" where
  "hash31 s = fold (\<lambda>c h. 31 * h + of_nat (of_char c)) s 0"

definition rem_trunc :: "int \<Rightarrow> int \<Rightarrow> int" where
  "rem_trunc a b = (if a < 0 then - ((- a) mod b) else a mod b)"

definition hashNotifyID :: "string \<Rightarrow> int" where
  "hashNotifyID s =
     (let h = hash31 s; h = (if sint h < 0 then - h else h)
      in rem_trunc (sint h) 100000000)"

definition UnixMilli :: "gotime \<Rightarrow> int" where
  "UnixMilli t = (t - 62135596800 * Second) div Millisecond"

text \<open>\<open>hex.EncodeToString\<close>: two lower-case digits per byte.\<close>

definition HexEncode :: "string \<Rightarrow> string" where
  "HexEncode s =
     concat (map (\<lambda>c. let n = of_char c :: nat
                      in [''0123456789abcdef'' ! (n div 16), ''0123456789abcdef'' ! (n mod 16)]) s)"

section \<open>Access tokens\<close>

record TokenCache =
  tc_token :: string
  tc_expiry :: gotime

definition NoToken :: TokenCache where
  "NoToken = \<lparr>tc_token = '''', tc_expiry = 0\<rparr>"

definition usable :: "gotime \<Rightarrow> TokenCache \<Rightarrow> bool" where
  "usable now c \<longleftrightarrow> tc_token c \<noteq> '''' \<and> now < tc_expiry c"

text \<open>A cached token while it is usable, a fresh one otherwise, which is then cached.\<close>

definition cached_token ::
    "(error + string \<times> gotime) \<Rightarrow> gotime \<Rightarrow> TokenCache \<Rightarrow> TokenCache \<times> (error + string)" where
  "cached_token fetch now c =
     (if usable now c then (c, Inr (tc_token c))
      else case fetch of
             Inl err \<Rightarrow> (c, Inl err)
           | Inr (tok, expiry) \<Rightarrow> (\<lparr>tc_token = tok, tc_expiry = expiry\<rparr>, Inr tok))"

text \<open>One request, with the error of building it or of the exchange.\<close>

definition exchange :: "HttpClient \<Rightarrow> HttpRequest \<Rightarrow> error + HttpResponse" where
  "exchange http q = (case hc_NewRequest http (hq_URL q) of Some err \<Rightarrow> Inl err | None \<Rightarrow> hc_Do http q)"

section \<open>The contract of a provider\<close>

text \<open>
  What the worker may rely on: a result says one thing. An accepted one is neither to be retried nor
  about the token; one about the token is final and says so in its code; one that is not accepted has a code.
\<close>

definition result_ok :: "SendResult \<Rightarrow> bool" where
  "result_ok r \<longleftrightarrow>
     (sr_Accepted r \<longrightarrow> \<not> sr_Retryable r \<and> \<not> sr_InvalidToken r \<and> sr_ErrorCode r = '''') \<and>
     (\<not> sr_Accepted r \<longrightarrow> sr_ErrorCode r \<noteq> '''') \<and>
     (sr_InvalidToken r \<longleftrightarrow> sr_ErrorCode r = ErrCodeInvalidToken) \<and>
     (sr_InvalidToken r \<longrightarrow> \<not> sr_Retryable r)"

fun classified :: "error + SendResult option \<Rightarrow> bool" where
  "classified (Inl _) \<longleftrightarrow> True"
| "classified (Inr None) \<longleftrightarrow> False"
| "classified (Inr (Some r)) \<longleftrightarrow> result_ok r"

lemma result_ok_accepted [simp]: "result_ok (accepted i)"
  by (simp add: result_ok_def accepted_def)

lemma result_ok_invalid [simp]: "result_ok (invalid_token msg)"
  by (simp add: result_ok_def invalid_token_def)

lemma result_ok_rejected [simp]: "result_ok (rejected b code msg) \<longleftrightarrow> code \<noteq> '''' \<and> code \<noteq> ErrCodeInvalidToken"
  by (auto simp: result_ok_def rejected_def)

text \<open>
  A provider with its state, in an environment (the vendor) that answers anything: its results are
  classified, and an empty token is refused without asking the vendor.
\<close>

locale push_provider =
  fixes send :: "'env \<Rightarrow> gotime \<Rightarrow> Message \<Rightarrow> Device \<Rightarrow> 'st \<Rightarrow> 'st \<times> (error + SendResult option)"
  assumes send_classified: "classified (snd (send env now m d st))"
    and send_empty: "d_Token d = '''' \<Longrightarrow> \<exists>msg. send env now m d st = (st, Inr (Some (invalid_token msg)))"
begin

text \<open>The registry's view of a provider in a state.\<close>

lemma worker_result:
  assumes "pv_Send p = (\<lambda>now m d. snd (send env now m d st))" "pv_Send p now m d = Inr r"
  shows "\<exists>x. r = Some x \<and> result_ok x"
  using assms send_classified [of env now m d st] by (cases r) auto

text \<open>
  A delivery to an empty token is over after one attempt: the device is marked invalid and the delivery failed.
\<close>

lemma empty_token_settled:
  assumes "pv_Send p = (\<lambda>now m d. snd (send env now m d st))" "registry_Get (dl_Provider d) (w_registry w) = Inr p"
    and "dev_FindByID (dl_DeviceID d) db = (db1, Inr device)" "d_Token device = ''''"
    and "msg_FindByID (d_AppID device) (dl_MessageID d) db1 = (db2, Inr msg)"
  shows "\<exists>text. processDelivery w now d db =
    (maybeCompleteMessage now (m_ID msg)
       (fst (del_MarkFailed (dl_ID d) ErrCodeInvalidToken text (fst (dev_MarkInvalid now (d_ID device) db2)))),
     [(msg, device)])"
proof -
  obtain t where "pv_Send p now msg device = Inr (Some (invalid_token t))"
    using assms(1) send_empty [OF assms(4), of env now msg st] by auto
  then show ?thesis
    using assms(2,3,5) by (auto simp: processDelivery_def handleResult_def invalid_token_def Let_def)
qed

end

section \<open>Cached tokens\<close>

lemma usable_earlier: "usable later c \<Longrightarrow> now \<le> later \<Longrightarrow> usable now c"
  by (simp add: usable_def)

lemma not_usable_NoToken [simp]: "\<not> usable now NoToken"
  by (simp add: usable_def NoToken_def)

lemma cached_token_Inr: "cached_token fetch now c = (c', Inr tok) \<Longrightarrow> tc_token c' = tok"
  by (auto simp: cached_token_def split: if_splits sum.splits)

lemma cached_token_Inl: "cached_token fetch now c = (c', Inl e) \<Longrightarrow> now \<le> later \<Longrightarrow> \<not> usable later c'"
  by (auto simp: cached_token_def dest: usable_earlier split: if_splits sum.splits)

text \<open>The vendor refused the access token of a push.\<close>

fun refused :: "error + HttpResponse \<Rightarrow> bool" where
  "refused (Inl _) \<longleftrightarrow> False"
| "refused (Inr res) \<longleftrightarrow> hr_Status res = 401 \<or> hr_Status res = 403"

end
