(* ===== verification/ProviderHuawei.thy ===== *)
theory ProviderHuawei
  imports ProviderHttp
begin

text \<open>
  The Huawei provider (\<open>internal/provider/huawei/huawei.go\<close>): the OAuth token with its cache, the
  body of a push, and what the answers of the push service mean.
\<close>

record HuaweiConfig =
  hw_AppID :: string
  hw_AppSecret :: string
  hw_TokenURL :: string
  hw_PushURL :: string

record Huawei =
  hw_cfg :: HuaweiConfig
  hw_cache :: TokenCache

definition huawei_New :: "HuaweiConfig \<Rightarrow> error + Huawei" where
  "huawei_New cfg =
     (if hw_AppID cfg = '''' \<or> hw_AppSecret cfg = '''' then Inl (Other ''huawei: app_id and app_secret required'')
      else
        (let cfg = (if hw_TokenURL cfg = ''''
                    then cfg\<lparr>hw_TokenURL := ''https://oauth-login.cloud.huawei.com/oauth2/v3/token''\<rparr> else cfg);
             cfg = (if hw_PushURL cfg = ''''
                    then cfg\<lparr>hw_PushURL := ''https://push-api.cloud.huawei.com/v1/'' @ hw_AppID cfg @ ''/messages:send''\<rparr>
                    else cfg)
         in Inr \<lparr>hw_cfg = cfg, hw_cache = NoToken\<rparr>))"

definition huawei_ValidateToken :: "string \<Rightarrow> error option" where
  "huawei_ValidateToken = validate_nonblank ProviderHuawei ''empty huawei token''"

definition huawei_mapPushResponse :: "HttpResponse \<Rightarrow> SendResult" where
  "huawei_mapPushResponse res =
     (let status = hr_Status res;
          code = lenient_str ''code'' (hr_Json res);
          msg = (let msg = lenient_str ''msg'' (hr_Json res) in if msg = '''' then hr_Text res else msg);
          requestID = lenient_str ''requestId'' (hr_Json res)
      in if code \<in> {''80000000'', ''80000001''} then accepted requestID
         else if code \<in> {''80300007'', ''80100003'', ''80200001'', ''80200003''} then invalid_token msg
         else if code = ''80100000'' then (accepted requestID)\<lparr>sr_ErrorMessage := msg\<rparr>
         else if code \<in> {''80300002'', ''80300008''} then rejected True ErrCodeProviderAuthError msg
         else if code = ''80300010'' then rejected True ErrCodeProviderRateLimit msg
         else if 200 \<le> status \<and> status < 300 \<and> code = '''' then accepted requestID
         else rejected (status \<ge> 500 \<or> code = '''') ErrCodeProviderTempError msg)"

definition huawei_notification :: "Message \<Rightarrow> (string \<times> json) list" where
  "huawei_notification m =
     set_if (m_DeepLink m \<noteq> '''') ''click_action'' (JObj [(''type'', JNum 1), (''intent'', JStr (m_DeepLink m))])
       (set_if (m_Category m \<noteq> '''') ''importance'' (JStr ''NORMAL'')
         (set_if (m_Category m \<noteq> '''') ''channel_id'' (JStr (m_Category m))
           (set_if (m_Sound m \<noteq> '''') ''sound'' (JStr (m_Sound m))
             (set_if (m_ImageURL m \<noteq> '''') ''image'' (JStr (m_ImageURL m))
               [(''title'', JStr (m_Title m)), (''body'', JStr (m_Body m)),
                (''click_action'', JObj [(''type'', JNum 3)])]))))"

definition huawei_hasNotification :: "Message \<Rightarrow> bool" where
  "huawei_hasNotification m \<longleftrightarrow> \<not> IsDataOnly (m_Type m) \<and> (m_Title m \<noteq> '''' \<or> m_Body m \<noteq> '''')"

definition huawei_android :: "Message \<Rightarrow> (string \<times> json) list" where
  "huawei_android m =
     set_if (huawei_hasNotification m) ''notification'' (JObj (huawei_notification m))
       (set_if (m_CollapseKey m \<noteq> '''' \<and> \<not> IsCallRelated (m_Type m)) ''bi_tag'' (JStr (m_CollapseKey m))
         (set_if (m_Priority m = PriorityHigh \<or> IsCallRelated (m_Type m)) ''urgency'' (JStr ''HIGH'')
           (set_if (m_TTL m > 0) ''ttl'' (JStr (FormatInt (whole_seconds (m_TTL m)) @ ''s'')) [])))"

definition huawei_message :: "(json \<Rightarrow> string) \<Rightarrow> Message \<Rightarrow> string \<Rightarrow> (string \<times> json) list" where
  "huawei_message marshal m deviceToken =
     set_if (huawei_android m \<noteq> []) ''android'' (JObj (huawei_android m))
       (set_if (huawei_hasNotification m) ''notification''
          (JObj [(''title'', JStr (m_Title m)), (''body'', JStr (m_Body m)), (''image'', JStr (m_ImageURL m))])
          [(''token'', JArr [JStr deviceToken]), (''data'', JStr (marshal (str_obj (event_data m))))])"

definition huawei_buildRequestBody :: "(json \<Rightarrow> string) \<Rightarrow> Message \<Rightarrow> string \<Rightarrow> json" where
  "huawei_buildRequestBody marshal m deviceToken =
     JObj [(''validate_only'', JBool False), (''message'', JObj (huawei_message marshal m deviceToken))]"

definition huawei_token_request :: "HuaweiConfig \<Rightarrow> HttpRequest" where
  "huawei_token_request cfg =
     \<lparr>hq_URL = hw_TokenURL cfg, hq_Headers = [(''Content-Type'', ''application/x-www-form-urlencoded'')],
       hq_Body = FormBody [(''grant_type'', ''client_credentials''), (''client_id'', hw_AppID cfg),
         (''client_secret'', hw_AppSecret cfg)]\<rparr>"

text \<open>Fetching a token: a body that is no object of the right kinds is an error here.\<close>

definition huawei_fetch :: "HttpClient \<Rightarrow> gotime \<Rightarrow> HuaweiConfig \<Rightarrow> error + string \<times> gotime" where
  "huawei_fetch http now cfg =
     sum_bind (exchange http (huawei_token_request cfg)) (\<lambda>res.
       if hr_Status res \<noteq> 200
       then Inl (Other (''huawei oauth status='' @ FormatInt (hr_Status res) @ '' body='' @ hr_Text res))
       else case hr_Json res of
              None \<Rightarrow> Inl json_error
            | Some j \<Rightarrow>
                sum_bind (obj_fields j) (\<lambda>kvs.
                sum_bind (dec_str (field ''access_token'' kvs)) (\<lambda>tok.
                sum_bind (dec_int (field ''expires_in'' kvs)) (\<lambda>expires.
                  if tok = '''' then Inl (Other ''huawei oauth: empty access_token'')
                  else (let ttl = int64 (expires * Second); ttl = (if ttl \<le> 0 then 55 * Minute else ttl)
                        in Inr (tok, now + (ttl - 60 * Second)))))))"

definition huawei_getAccessToken :: "HttpClient \<Rightarrow> gotime \<Rightarrow> Huawei \<Rightarrow> Huawei \<times> (error + string)" where
  "huawei_getAccessToken http now p =
     (case cached_token (huawei_fetch http now (hw_cfg p)) now (hw_cache p) of (c, r) \<Rightarrow> (p\<lparr>hw_cache := c\<rparr>, r))"

definition huawei_invalidateToken :: "Huawei \<Rightarrow> Huawei" where
  "huawei_invalidateToken p = p\<lparr>hw_cache := NoToken\<rparr>"

definition huawei_request :: "HttpClient \<Rightarrow> HuaweiConfig \<Rightarrow> string \<Rightarrow> Message \<Rightarrow> Device \<Rightarrow> HttpRequest" where
  "huawei_request http cfg token m d =
     \<lparr>hq_URL = hw_PushURL cfg,
       hq_Headers = [(''Content-Type'', ''application/json;charset=UTF-8''), (''Authorization'', ''Bearer '' @ token)],
       hq_Body = JsonBody (huawei_buildRequestBody (hc_Marshal http) m (d_Token d))\<rparr>"

definition huawei_Send ::
    "HttpClient \<Rightarrow> gotime \<Rightarrow> Message \<Rightarrow> Device \<Rightarrow> Huawei \<Rightarrow> Huawei \<times> (error + SendResult option)" where
  "huawei_Send http now m d p =
     (case huawei_ValidateToken (d_Token d) of
        Some err \<Rightarrow> (p, Inr (Some (invalid_token (Error err))))
      | None \<Rightarrow>
          (case huawei_getAccessToken http now p of
             (p, Inl err) \<Rightarrow> (p, Inr (Some (rejected True ErrCodeProviderAuthError (Error err))))
           | (p, Inr token) \<Rightarrow>
               (let q = huawei_request http (hw_cfg p) token m d
                in case hc_NewRequest http (hq_URL q) of
                     Some err \<Rightarrow> (p, Inl err)
                   | None \<Rightarrow>
                       (case hc_Do http q of
                          Inl err \<Rightarrow> (p, Inr (Some (rejected True ErrCodeProviderTempError (Error err))))
                        | Inr res \<Rightarrow>
                            if hr_Status res = 401 \<or> hr_Status res = 403
                            then (huawei_invalidateToken p,
                                  Inr (Some (rejected True ErrCodeProviderAuthError (hr_Text res))))
                            else if hr_Status res = 429
                            then (p, Inr (Some (rejected True ErrCodeProviderRateLimit (hr_Text res))))
                            else if hr_Status res \<ge> 500
                            then (p, Inr (Some (rejected True ErrCodeProviderTempError (hr_Text res))))
                            else (p, Inr (Some (huawei_mapPushResponse res)))))))"

section \<open>The contract\<close>

lemma huawei_map_ok: "result_ok (huawei_mapPushResponse res)"
  by (simp add: huawei_mapPushResponse_def Let_def) (simp add: result_ok_def accepted_def)

interpretation huawei: push_provider huawei_Send
proof
  fix http now m d p
  show "classified (snd (huawei_Send http now m d p))"
    by (simp add: huawei_Send_def Let_def huawei_map_ok split: option.splits prod.splits sum.splits)
  show "\<exists>msg. huawei_Send http now m d p = (p, Inr (Some (invalid_token msg)))" if "d_Token d = ''''"
    using that by (auto simp: huawei_Send_def huawei_ValidateToken_def validate_nonblank_def TrimSpace_def)
qed

end
