(* ===== verification/ProviderOppo.thy ===== *)
theory ProviderOppo
  imports ProviderHttp
begin

text \<open>
  The OPPO provider (\<open>internal/provider/oppo/oppo.go\<close>). SHA-256 is a parameter. The variable
  \<open>clickAction\<close> of the code is built and never used.
\<close>

record OppoConfig =
  op_AppKey :: string
  op_MasterSecret :: string
  op_Host :: string

record Oppo =
  op_cfg :: OppoConfig
  op_cache :: TokenCache

record OppoEnv =
  oe_http :: HttpClient
  oe_sha256 :: "string \<Rightarrow> string"

definition oppo_New :: "OppoConfig \<Rightarrow> error + Oppo" where
  "oppo_New cfg =
     (if op_AppKey cfg = '''' \<or> op_MasterSecret cfg = '''' then Inl (Other ''oppo: app_key and master_secret required'')
      else Inr \<lparr>op_cfg = (if op_Host cfg = '''' then cfg\<lparr>op_Host := ''https://api.push.oppomobile.com''\<rparr> else cfg),
                 op_cache = NoToken\<rparr>)"

definition oppo_ValidateToken :: "string \<Rightarrow> error option" where
  "oppo_ValidateToken = validate_nonblank ProviderOppo ''empty oppo registration id''"

definition oppo_mapResponse :: "HttpResponse \<Rightarrow> SendResult" where
  "oppo_mapResponse res =
     (let code = lenient_int ''code'' (hr_Json res);
          msg = (let msg = lenient_str ''message'' (hr_Json res) in if msg = '''' then hr_Text res else msg);
          data = lenient_raw ''data'' (hr_Json res);
          msgID = (let i = lenient_str ''messageId'' data in if i = '''' then lenient_str ''task_id'' data else i);
          lower = ToLower msg
      in if code = 0 then accepted msgID
         else if code \<in> {11, 33, 10000} then invalid_token msg
         else if code \<in> {12, 13} then rejected True ErrCodeProviderAuthError msg
         else if code \<in> {31, 41} then rejected True ErrCodeProviderRateLimit msg
         else if Contains lower ''registration'' \<or> Contains lower ''regid'' \<or> Contains lower ''invalid target''
         then invalid_token msg
         else rejected True ErrCodeProviderTempError msg)"

definition oppo_notification :: "(json \<Rightarrow> string) \<Rightarrow> Message \<Rightarrow> (string \<times> json) list" where
  "oppo_notification marshal m =
     set_if (event_data m \<noteq> []) ''action_parameters'' (JStr (marshal (str_obj (event_data m))))
       (set_if (m_DeepLink m \<noteq> '''') ''click_action_url'' (JStr (m_DeepLink m))
         (set_if (m_DeepLink m \<noteq> '''') ''click_action_activity'' (JStr (m_DeepLink m))
           (set_if (m_DeepLink m \<noteq> '''') ''click_action_type'' (JNum 1)
             (set_if (m_CollapseKey m \<noteq> '''') ''notify_id'' (JNum (hashNotifyID (m_CollapseKey m)))
               [(''style'', JNum 1), (''title'', JStr (fst (shell_text m))), (''content'', JStr (snd (shell_text m))),
                (''channel_id'', JStr (if m_Category m = '''' then ''mgl_default'' else m_Category m)),
                (''off_line'', JBool True), (''push_time_type'', JNum 0),
                (''off_line_ttl'', JNum (if m_TTL m > 0 then whole_seconds (m_TTL m) else 86400))]))))"

definition oppo_buildMessageJSON :: "(json \<Rightarrow> string) \<Rightarrow> Message \<Rightarrow> string \<Rightarrow> json" where
  "oppo_buildMessageJSON marshal m regID =
     JObj [(''target_type'', JNum 2), (''target_value'', JStr regID), (''verify_registration_id'', JBool True),
       (''notification'', JObj (oppo_notification marshal m))]"

definition sha256Hex :: "OppoEnv \<Rightarrow> string \<Rightarrow> string" where
  "sha256Hex env s = HexEncode (oe_sha256 env s)"

definition oppo_auth_request :: "OppoEnv \<Rightarrow> gotime \<Rightarrow> OppoConfig \<Rightarrow> HttpRequest" where
  "oppo_auth_request env now cfg =
     (let ts = FormatInt (UnixMilli now)
      in \<lparr>hq_URL = op_Host cfg @ ''/server/v1/auth'',
          hq_Headers = [(''Content-Type'', ''application/x-www-form-urlencoded'')],
          hq_Body = FormBody [(''app_key'', op_AppKey cfg), (''timestamp'', ts),
            (''sign'', sha256Hex env (op_AppKey cfg @ ts @ op_MasterSecret cfg))]\<rparr>)"

definition oppo_fetch :: "OppoEnv \<Rightarrow> gotime \<Rightarrow> OppoConfig \<Rightarrow> error + string \<times> gotime" where
  "oppo_fetch env now cfg =
     sum_bind (exchange (oe_http env) (oppo_auth_request env now cfg)) (\<lambda>res.
       if hr_Status res \<noteq> 200
       then Inl (Other (''oppo auth status='' @ FormatInt (hr_Status res) @ '' body='' @ hr_Text res))
       else case hr_Json res of
              None \<Rightarrow> Inl json_error
            | Some j \<Rightarrow>
                sum_bind (obj_fields j) (\<lambda>kvs.
                sum_bind (dec_int (field ''code'' kvs)) (\<lambda>code.
                sum_bind (dec_str (field ''message'' kvs)) (\<lambda>msg.
                sum_bind (obj_fields (field ''data'' kvs)) (\<lambda>data.
                sum_bind (dec_str (field ''auth_token'' data)) (\<lambda>tok.
                sum_bind (dec_int (field ''create_time'' data)) (\<lambda>_.
                  if code \<noteq> 0 \<or> tok = ''''
                  then Inl (Other (''oppo auth code='' @ FormatInt code @ '' message='' @ msg))
                  else Inr (tok, now + 20 * Hour))))))))"

definition oppo_getAuthToken :: "OppoEnv \<Rightarrow> gotime \<Rightarrow> Oppo \<Rightarrow> Oppo \<times> (error + string)" where
  "oppo_getAuthToken env now p =
     (case cached_token (oppo_fetch env now (op_cfg p)) now (op_cache p) of (c, r) \<Rightarrow> (p\<lparr>op_cache := c\<rparr>, r))"

definition oppo_invalidateAuth :: "Oppo \<Rightarrow> Oppo" where
  "oppo_invalidateAuth p = p\<lparr>op_cache := NoToken\<rparr>"

definition oppo_request :: "OppoEnv \<Rightarrow> OppoConfig \<Rightarrow> string \<Rightarrow> Message \<Rightarrow> Device \<Rightarrow> HttpRequest" where
  "oppo_request env cfg token m d =
     \<lparr>hq_URL = op_Host cfg @ ''/server/v1/message/notification/unicast'',
       hq_Headers = [(''Content-Type'', ''application/x-www-form-urlencoded'')],
       hq_Body = FormBody [(''auth_token'', token),
         (''message'', hc_Marshal (oe_http env) (oppo_buildMessageJSON (hc_Marshal (oe_http env)) m (d_Token d)))]\<rparr>"

definition oppo_Send ::
    "OppoEnv \<Rightarrow> gotime \<Rightarrow> Message \<Rightarrow> Device \<Rightarrow> Oppo \<Rightarrow> Oppo \<times> (error + SendResult option)" where
  "oppo_Send env now m d p =
     (case oppo_ValidateToken (d_Token d) of
        Some err \<Rightarrow> (p, Inr (Some (invalid_token (Error err))))
      | None \<Rightarrow>
          (case oppo_getAuthToken env now p of
             (p, Inl err) \<Rightarrow> (p, Inr (Some (rejected True ErrCodeProviderAuthError (Error err))))
           | (p, Inr token) \<Rightarrow>
               (let q = oppo_request env (op_cfg p) token m d
                in case hc_NewRequest (oe_http env) (hq_URL q) of
                     Some err \<Rightarrow> (p, Inl err)
                   | None \<Rightarrow>
                       (case hc_Do (oe_http env) q of
                          Inl err \<Rightarrow> (p, Inr (Some (rejected True ErrCodeProviderTempError (Error err))))
                        | Inr res \<Rightarrow>
                            if hr_Status res = 401 \<or> hr_Status res = 403
                            then (oppo_invalidateAuth p,
                                  Inr (Some (rejected True ErrCodeProviderAuthError (hr_Text res))))
                            else if hr_Status res = 429
                            then (p, Inr (Some (rejected True ErrCodeProviderRateLimit (hr_Text res))))
                            else if hr_Status res \<ge> 500
                            then (p, Inr (Some (rejected True ErrCodeProviderTempError (hr_Text res))))
                            else (p, Inr (Some (oppo_mapResponse res)))))))"

section \<open>The contract\<close>

lemma oppo_map_ok: "result_ok (oppo_mapResponse res)"
  by (simp add: oppo_mapResponse_def Let_def)

interpretation oppo: push_provider oppo_Send
proof
  fix env now m d p
  show "classified (snd (oppo_Send env now m d p))"
    by (simp add: oppo_Send_def Let_def oppo_map_ok split: option.splits prod.splits sum.splits)
  show "\<exists>msg. oppo_Send env now m d p = (p, Inr (Some (invalid_token msg)))" if "d_Token d = ''''"
    using that by (auto simp: oppo_Send_def oppo_ValidateToken_def validate_nonblank_def TrimSpace_def)
qed

end
