(* ===== verification/ProviderVivo.thy ===== *)
theory ProviderVivo
  imports ProviderHttp
begin

text \<open>
  The vivo provider (\<open>internal/provider/vivo/vivo.go\<close>). MD5 and the generator of identifiers are
  parameters. The cause that an error of the constructor wraps is left out.
\<close>

record VivoConfig =
  vv_AppID :: string
  vv_AppKey :: string
  vv_AppSecret :: string
  vv_Host :: string
  vv_PushMode :: int

record Vivo =
  vv_cfg :: VivoConfig
  vv_appIDInt :: int
  vv_cache :: TokenCache

record VivoEnv =
  ve_http :: HttpClient
  ve_md5 :: "string \<Rightarrow> string"
  ve_newID :: string

definition vivo_New :: "VivoConfig \<Rightarrow> error + Vivo" where
  "vivo_New cfg =
     (if vv_AppID cfg = '''' \<or> vv_AppKey cfg = '''' \<or> vv_AppSecret cfg = ''''
      then Inl (Other ''vivo: app_id, app_key and app_secret required'')
      else case Atoi (TrimSpace (vv_AppID cfg)) of
             None \<Rightarrow> Inl (Other ''vivo: app_id must be numeric'')
           | Some n \<Rightarrow>
               Inr \<lparr>vv_cfg = (if vv_Host cfg = '''' then cfg\<lparr>vv_Host := ''https://api-push.vivo.com.cn''\<rparr> else cfg),
                     vv_appIDInt = n, vv_cache = NoToken\<rparr>)"

definition vivo_ValidateToken :: "string \<Rightarrow> error option" where
  "vivo_ValidateToken = validate_nonblank ProviderVivo ''empty vivo regId''"

text \<open>The bytes of the Chinese word for invalid that the code looks for.\<close>

definition illegal_text :: string where
  "illegal_text = map char_of [228 :: nat, 184, 141, 229, 144, 136, 230, 179, 149]"

definition vivo_mapResponse :: "HttpResponse \<Rightarrow> SendResult" where
  "vivo_mapResponse res =
     (let code = lenient_int ''result'' (hr_Json res);
          desc = lenient_str ''desc'' (hr_Json res);
          msg = (if desc = '''' then lenient_str ''message'' (hr_Json res) else desc);
          msg = (if msg = '''' then hr_Text res else msg);
          lower = ToLower msg
      in if code = 0 then accepted (lenient_str ''taskId'' (hr_Json res))
         else if code \<in> {10302, 10307} then invalid_token msg
         else if code = 10000 then rejected True ErrCodeProviderAuthError msg
         else if code \<in> {10070, 10093} then rejected True ErrCodeProviderRateLimit msg
         else if Contains lower ''regid'' \<or> Contains lower illegal_text then invalid_token msg
         else rejected True ErrCodeProviderTempError msg)"

definition vivo_buildSendBody :: "string \<Rightarrow> Message \<Rightarrow> string \<Rightarrow> int \<Rightarrow> json" where
  "vivo_buildSendBody newID m regID pushMode =
     JObj
       (set_if (m_Category m \<noteq> '''') ''category'' (JStr (m_Category m))
         (set_if (m_DeepLink m \<noteq> '''') ''skipContent'' (JStr (m_DeepLink m))
           [(''regId'', JStr regID), (''notifyType'', JNum 4), (''title'', JStr (fst (shell_text m))),
            (''content'', JStr (snd (shell_text m))),
            (''timeToLive'', JNum (if m_TTL m > 0 then whole_seconds (m_TTL m) else 86400)),
            (''skipType'', JNum (if m_DeepLink m \<noteq> '''' then 3 else 1)),
            (''requestId'', JStr (take 64 (if m_ID m = '''' then newID else m_ID m))),
            (''pushMode'', JNum pushMode), (''clientCustomMap'', str_obj (event_data m))]))"

definition md5Hex :: "VivoEnv \<Rightarrow> string \<Rightarrow> string" where
  "md5Hex env s = HexEncode (ve_md5 env (TrimSpace s))"

definition vivo_auth_request :: "VivoEnv \<Rightarrow> gotime \<Rightarrow> Vivo \<Rightarrow> HttpRequest" where
  "vivo_auth_request env now p =
     (let cfg = vv_cfg p; ts = UnixMilli now
      in \<lparr>hq_URL = vv_Host cfg @ ''/message/auth'',
          hq_Headers = [(''Content-Type'', ''application/json;charset=UTF-8'')],
          hq_Body = JsonBody (JObj [(''appId'', JNum (vv_appIDInt p)), (''appKey'', JStr (vv_AppKey cfg)),
            (''timestamp'', JNum ts),
            (''sign'', JStr (md5Hex env (FormatInt (vv_appIDInt p) @ vv_AppKey cfg @ FormatInt ts @ vv_AppSecret cfg)))])\<rparr>)"

definition vivo_fetch :: "VivoEnv \<Rightarrow> gotime \<Rightarrow> Vivo \<Rightarrow> error + string \<times> gotime" where
  "vivo_fetch env now p =
     sum_bind (exchange (ve_http env) (vivo_auth_request env now p)) (\<lambda>res.
       if hr_Status res \<noteq> 200
       then Inl (Other (''vivo auth status='' @ FormatInt (hr_Status res) @ '' body='' @ hr_Text res))
       else case hr_Json res of
              None \<Rightarrow> Inl json_error
            | Some j \<Rightarrow>
                sum_bind (obj_fields j) (\<lambda>kvs.
                sum_bind (dec_int (field ''result'' kvs)) (\<lambda>code.
                sum_bind (dec_str (field ''desc'' kvs)) (\<lambda>desc.
                sum_bind (dec_str (field ''authToken'' kvs)) (\<lambda>tok.
                  if code \<noteq> 0 \<or> tok = ''''
                  then Inl (Other (''vivo auth result='' @ FormatInt code @ '' desc='' @ desc))
                  else Inr (tok, now + 2 * Hour))))))"

definition vivo_getAuthToken :: "VivoEnv \<Rightarrow> gotime \<Rightarrow> Vivo \<Rightarrow> Vivo \<times> (error + string)" where
  "vivo_getAuthToken env now p =
     (case cached_token (vivo_fetch env now p) now (vv_cache p) of (c, r) \<Rightarrow> (p\<lparr>vv_cache := c\<rparr>, r))"

definition vivo_invalidateAuth :: "Vivo \<Rightarrow> Vivo" where
  "vivo_invalidateAuth p = p\<lparr>vv_cache := NoToken\<rparr>"

definition vivo_request :: "VivoEnv \<Rightarrow> VivoConfig \<Rightarrow> string \<Rightarrow> Message \<Rightarrow> Device \<Rightarrow> HttpRequest" where
  "vivo_request env cfg token m d =
     \<lparr>hq_URL = vv_Host cfg @ ''/message/send'',
       hq_Headers = [(''Content-Type'', ''application/json;charset=UTF-8''), (''authToken'', token)],
       hq_Body = JsonBody (vivo_buildSendBody (ve_newID env) m (d_Token d) (vv_PushMode cfg))\<rparr>"

definition vivo_Send ::
    "VivoEnv \<Rightarrow> gotime \<Rightarrow> Message \<Rightarrow> Device \<Rightarrow> Vivo \<Rightarrow> Vivo \<times> (error + SendResult option)" where
  "vivo_Send env now m d p =
     (case vivo_ValidateToken (d_Token d) of
        Some err \<Rightarrow> (p, Inr (Some (invalid_token (Error err))))
      | None \<Rightarrow>
          (case vivo_getAuthToken env now p of
             (p, Inl err) \<Rightarrow> (p, Inr (Some (rejected True ErrCodeProviderAuthError (Error err))))
           | (p, Inr token) \<Rightarrow>
               (let q = vivo_request env (vv_cfg p) token m d
                in case hc_NewRequest (ve_http env) (hq_URL q) of
                     Some err \<Rightarrow> (p, Inl err)
                   | None \<Rightarrow>
                       (case hc_Do (ve_http env) q of
                          Inl err \<Rightarrow> (p, Inr (Some (rejected True ErrCodeProviderTempError (Error err))))
                        | Inr res \<Rightarrow>
                            if hr_Status res = 401 \<or> hr_Status res = 403
                            then (vivo_invalidateAuth p,
                                  Inr (Some (rejected True ErrCodeProviderAuthError (hr_Text res))))
                            else if hr_Status res = 429 \<or> hr_Status res \<ge> 500
                            then (p, Inr (Some (rejected True
                                   (if hr_Status res = 429 then ErrCodeProviderRateLimit else ErrCodeProviderTempError)
                                   (hr_Text res))))
                            else (p, Inr (Some (vivo_mapResponse res)))))))"

section \<open>The contract\<close>

lemma vivo_map_ok: "result_ok (vivo_mapResponse res)"
  by (simp add: vivo_mapResponse_def Let_def)

interpretation vivo: push_provider vivo_Send
proof
  fix env now m d p
  show "classified (snd (vivo_Send env now m d p))"
    by (simp add: vivo_Send_def Let_def vivo_map_ok split: option.splits prod.splits sum.splits)
  show "\<exists>msg. vivo_Send env now m d p = (p, Inr (Some (invalid_token msg)))" if "d_Token d = ''''"
    using that by (auto simp: vivo_Send_def vivo_ValidateToken_def validate_nonblank_def TrimSpace_def)
qed

end
