(* ===== verification/ProviderXiaomi.thy ===== *)
theory ProviderXiaomi
  imports ProviderHttp
begin

text \<open>The Xiaomi provider (\<open>internal/provider/xiaomi/xiaomi.go\<close>), which has no access token.\<close>

record XiaomiConfig =
  xm_AppSecret :: string
  xm_PackageName :: string
  xm_SendURL :: string

definition xiaomi_New :: "XiaomiConfig \<Rightarrow> error + XiaomiConfig" where
  "xiaomi_New cfg =
     (if xm_AppSecret cfg = '''' then Inl (Other ''xiaomi: app_secret required'')
      else Inr (if xm_SendURL cfg = '''' then cfg\<lparr>xm_SendURL := ''https://api.xmpush.xiaomi.com/v3/message/regid''\<rparr>
                else cfg))"

definition xiaomi_ValidateToken :: "string \<Rightarrow> error option" where
  "xiaomi_ValidateToken = validate_nonblank ProviderXiaomi ''empty xiaomi registration id''"

definition xiaomi_mapResponse :: "HttpResponse \<Rightarrow> SendResult" where
  "xiaomi_mapResponse res =
     (let j = hr_Json res;
          code = lenient_int ''code'' j;
          msgID = (let i = lenient_str ''id'' (lenient_raw ''data'' j); t = lenient_str ''trace_id'' j
                   in if i = '''' \<and> t \<noteq> '''' then t else i);
          result = ToLower (lenient_str ''result'' j);
          reason = ToLower (lenient_str ''reason'' j @ '' '' @ lenient_str ''description'' j @ '' '' @ lenient_str ''info'' j)
      in if result = ''ok'' \<or> code = 0 then accepted msgID
         else if Contains reason ''invalid registration'' \<or> (Contains reason ''regid'' \<and> Contains reason ''invalid'') \<or>
                 Contains reason ''not registered'' \<or> code \<in> {20301, 20302, 10001}
         then invalid_token (hr_Text res)
         else if code = 10002 \<or> Contains reason ''quota'' \<or> Contains reason ''rate''
         then rejected True ErrCodeProviderRateLimit (hr_Text res)
         else if code = 10008 \<or> Contains reason ''auth'' \<or> Contains reason ''secret''
         then rejected False ErrCodeProviderAuthError (hr_Text res)
         else rejected (hr_Status res \<ge> 500 \<or> result = '''' \<or> result = ''error'') ErrCodeProviderTempError (hr_Text res))"

definition package_char :: "char \<Rightarrow> bool" where
  "package_char c \<longleftrightarrow>
     (let n = of_char c :: nat
      in 97 \<le> n \<and> n \<le> 122 \<or> 65 \<le> n \<and> n \<le> 90 \<or> 48 \<le> n \<and> n \<le> 57 \<or> c = CHR ''.'' \<or> c = CHR ''_'')"

definition looksLikeAndroidPackage :: "string \<Rightarrow> bool" where
  "looksLikeAndroidPackage s \<longleftrightarrow> \<not> (s = '''' \<or> \<not> Contains s ''.'') \<and> list_all package_char s"

definition xiaomi_hasNotification :: "Message \<Rightarrow> bool" where
  "xiaomi_hasNotification m \<longleftrightarrow> \<not> IsDataOnly (m_Type m) \<and> (m_Title m \<noteq> '''' \<or> m_Body m \<noteq> '''')"

text \<open>The fields of a notification, and of a message the application gets in silence.\<close>

definition xiaomi_notification :: "Message \<Rightarrow> (string \<times> string) list \<Rightarrow> (string \<times> string) list" where
  "xiaomi_notification m form =
     (if xiaomi_hasNotification m then
        set_if (m_Category m \<noteq> '''') ''extra.channel_id'' (m_Category m)
          (set_if (m_Sound m \<noteq> '''') ''extra.sound_uri'' (m_Sound m)
            (set_if (m_DeepLink m \<noteq> '''') ''extra.intent_uri'' (m_DeepLink m)
              (form @ [(''title'', m_Title m), (''description'', m_Body m), (''pass_through'', ''0''),
                 (''notify_type'', ''-1'')])))
      else form @ [(''pass_through'', ''1'')])"

definition xiaomi_buildForm :: "(json \<Rightarrow> string) \<Rightarrow> Message \<Rightarrow> Device \<Rightarrow> string \<Rightarrow> error + (string \<times> string) list" where
  "xiaomi_buildForm marshal m d configuredPkg =
     (let pkg = (if configuredPkg = '''' \<and> looksLikeAndroidPackage (d_AppID d) then d_AppID d else configuredPkg)
      in if pkg = ''''
         then Inl (Other ''xiaomi: restricted_package_name required (set MGL_PUSH_XIAOMI_PACKAGE_NAME)'')
         else
           (let form = xiaomi_notification m
                  [(''registration_id'', d_Token d), (''restricted_package_name'', pkg),
                   (''payload'', marshal (str_obj (event_data m)))]
            in Inr
                 (set_if (m_Priority m = PriorityHigh \<or> IsCallRelated (m_Type m)) ''extra.cb'' ''1''
                   (set_if (m_CollapseKey m \<noteq> '''' \<and> \<not> IsCallRelated (m_Type m)) ''notify_id''
                      (FormatInt (hashNotifyID (m_CollapseKey m)))
                      (set_if (m_TTL m > 0) ''time_to_live'' (FormatInt (m_TTL m div Millisecond)) form)))))"

definition xiaomi_request :: "XiaomiConfig \<Rightarrow> (string \<times> string) list \<Rightarrow> HttpRequest" where
  "xiaomi_request cfg form =
     \<lparr>hq_URL = xm_SendURL cfg,
       hq_Headers = [(''Content-Type'', ''application/x-www-form-urlencoded''), (''Authorization'', ''key='' @ xm_AppSecret cfg)],
       hq_Body = FormBody form\<rparr>"

definition xiaomi_Send ::
    "HttpClient \<Rightarrow> gotime \<Rightarrow> Message \<Rightarrow> Device \<Rightarrow> XiaomiConfig \<Rightarrow> XiaomiConfig \<times> (error + SendResult option)" where
  "xiaomi_Send http now m d cfg =
     (cfg,
      case xiaomi_ValidateToken (d_Token d) of
        Some err \<Rightarrow> Inr (Some (invalid_token (Error err)))
      | None \<Rightarrow>
          (case xiaomi_buildForm (hc_Marshal http) m d (xm_PackageName cfg) of
             Inl err \<Rightarrow> Inr (Some (rejected False ErrCodeInvalidRequest (Error err)))
           | Inr form \<Rightarrow>
               (let q = xiaomi_request cfg form
                in case hc_NewRequest http (hq_URL q) of
                     Some err \<Rightarrow> Inl err
                   | None \<Rightarrow>
                       (case hc_Do http q of
                          Inl err \<Rightarrow> Inr (Some (rejected True ErrCodeProviderTempError (Error err)))
                        | Inr res \<Rightarrow>
                            if hr_Status res = 401 \<or> hr_Status res = 403
                            then Inr (Some (rejected False ErrCodeProviderAuthError (hr_Text res)))
                            else if hr_Status res = 429
                            then Inr (Some (rejected True ErrCodeProviderRateLimit (hr_Text res)))
                            else if hr_Status res \<ge> 500
                            then Inr (Some (rejected True ErrCodeProviderTempError (hr_Text res)))
                            else Inr (Some (xiaomi_mapResponse res))))))"

section \<open>The contract\<close>

lemma xiaomi_map_ok: "result_ok (xiaomi_mapResponse res)"
  by (simp add: xiaomi_mapResponse_def Let_def)

interpretation xiaomi: push_provider xiaomi_Send
proof
  fix http now m d cfg
  show "classified (snd (xiaomi_Send http now m d cfg))"
    by (simp add: xiaomi_Send_def Let_def xiaomi_map_ok split: option.splits prod.splits sum.splits)
  show "\<exists>msg. xiaomi_Send http now m d cfg = (cfg, Inr (Some (invalid_token msg)))" if "d_Token d = ''''"
    using that by (auto simp: xiaomi_Send_def xiaomi_ValidateToken_def validate_nonblank_def TrimSpace_def)
qed

end
