(* ===== verification/ProviderApns.thy ===== *)
theory ProviderApns
  imports ProviderHttp
begin

text \<open>
  The APNs provider (\<open>internal/provider/apns/apns.go\<close>). The file with the private key and the
  libraries that parse and use it are parameters, and the transport is taken to be configured. The token is cached as the others are, for fifty minutes.
\<close>

record ApnsConfig =
  ax_TeamID :: string
  ax_KeyID :: string
  ax_BundleID :: string
  ax_PrivateKey :: string
  ax_Production :: bool

text \<open>
  The private key: the file system, and the decoding of a PEM block and of the two forms of a key, are
  parameters. A key is the function that signs a token for a team and a key id at an instant; a PKCS8 block
  may hold a key of another kind.
\<close>

type_synonym signer = "string \<Rightarrow> string \<Rightarrow> gotime \<Rightarrow> error + string"

record Apns =
  ax_cfg :: ApnsConfig
  ax_sign :: signer
  ax_host :: string
  ax_cache :: TokenCache

record KeyFiles =
  kf_ReadFile :: "string \<Rightarrow> error + string"
  kf_PemDecode :: "string \<Rightarrow> string option"
  kf_ParsePKCS8 :: "string \<Rightarrow> error + signer option"
  kf_ParseEC :: "string \<Rightarrow> error + signer"

definition loadPrivateKeyPEM :: "KeyFiles \<Rightarrow> string \<Rightarrow> error + string" where
  "loadPrivateKeyPEM kf v =
     (let v = TrimSpace v
      in if Contains v ''BEGIN'' then Inr v
         else case kf_ReadFile kf v of
                Inl err \<Rightarrow> Inl (Other (''apns: read private key: '' @ Error err))
              | Inr b \<Rightarrow> Inr b)"

definition parseECPrivateKey :: "KeyFiles \<Rightarrow> string \<Rightarrow> error + signer" where
  "parseECPrivateKey kf pemBytes =
     (case kf_PemDecode kf pemBytes of
        None \<Rightarrow> Inl (Other ''no PEM block found'')
      | Some block \<Rightarrow>
          (case kf_ParsePKCS8 kf block of
             Inr key \<Rightarrow> (case key of None \<Rightarrow> Inl (Other ''not ECDSA private key'') | Some ec \<Rightarrow> Inr ec)
           | Inl _ \<Rightarrow> kf_ParseEC kf block))"

definition apns_New :: "KeyFiles \<Rightarrow> ApnsConfig \<Rightarrow> error + Apns" where
  "apns_New kf cfg =
     (if ax_TeamID cfg = '''' \<or> ax_KeyID cfg = '''' \<or> ax_BundleID cfg = '''' \<or> ax_PrivateKey cfg = ''''
      then Inl (Other ''apns: team_id, key_id, bundle_id and private_key are required'')
      else sum_bind (loadPrivateKeyPEM kf (ax_PrivateKey cfg)) (\<lambda>pemBytes.
        case parseECPrivateKey kf pemBytes of
          Inl err \<Rightarrow> Inl (Other (''apns: parse private key: '' @ Error err))
        | Inr sign \<Rightarrow>
            Inr \<lparr>ax_cfg = cfg, ax_sign = sign,
                  ax_host = (if ax_Production cfg then ''https://api.push.apple.com''
                             else ''https://api.sandbox.push.apple.com''),
                  ax_cache = NoToken\<rparr>))"

definition apns_ValidateToken :: "string \<Rightarrow> error option" where
  "apns_ValidateToken token =
     (let t = TrimSpace token
      in if t = '''' \<or> length t < 16 then Some (token_error ProviderAPNs ''invalid apns device token'') else None)"

definition mapAPNsError :: "HttpResponse \<Rightarrow> SendResult" where
  "mapAPNsError res =
     (let r = lenient_str ''reason'' (hr_Json res);
          reason = ToLower r;
          msg = (if r \<noteq> '''' then r else hr_Text res);
          status = hr_Status res
      in if reason \<in> {''baddevicetoken'', ''unregistered'', ''devicetokennotfortopic''} then invalid_token msg
         else if status = 400 then rejected False ErrCodeInvalidRequest msg
         else if status = 403 then rejected False ErrCodeProviderAuthError msg
         else if status = 410 then invalid_token msg
         else if status = 429 then rejected True ErrCodeProviderRateLimit msg
         else rejected True ErrCodeProviderTempError msg)"

definition apns_dataOnly :: "Message \<Rightarrow> bool" where
  "apns_dataOnly m \<longleftrightarrow> IsDataOnly (m_Type m) \<or> (m_Title m = '''' \<and> m_Body m = '''')"

definition apns_aps :: "Message \<Rightarrow> (string \<times> json) list" where
  "apns_aps m =
     set_if (apns_dataOnly m) ''content-available'' (JNum 1)
       (set_if (m_Category m \<noteq> '''') ''category'' (JStr (m_Category m))
         ((case m_Badge m of None \<Rightarrow> id | Some n \<Rightarrow> AList.update ''badge'' (JNum n))
           (if \<not> apns_dataOnly m \<and> (m_Title m \<noteq> '''' \<or> m_Body m \<noteq> '''')
            then [(''alert'', JObj (set_if (m_Body m \<noteq> '''') ''body'' (JStr (m_Body m))
                     (set_if (m_Title m \<noteq> '''') ''title'' (JStr (m_Title m)) []))),
                  (''sound'', JStr (if m_Sound m = '''' then ''default'' else m_Sound m))]
            else [])))"

text \<open>An entry of the data named \<open>aps\<close> is skipped.\<close>

definition apns_payload :: "Message \<Rightarrow> (string \<times> json) list" where
  "apns_payload m =
     set_if (m_ImageURL m \<noteq> '''') ''image_url'' (JStr (m_ImageURL m))
       (set_if (m_DeepLink m \<noteq> '''') ''deep_link'' (JStr (m_DeepLink m))
         (set_if (m_Type m \<noteq> '''') ''mgl_event_type'' (JStr (m_Type m))
           (set_if (m_ID m \<noteq> '''') ''mgl_event_id'' (JStr (m_ID m))
             (set_if (m_ID m \<noteq> '''') ''mgl_message_id'' (JStr (m_ID m))
               ((''aps'', JObj (apns_aps m)) #
                map (\<lambda>(k, v). (k, JStr v)) (filter (\<lambda>(k, v). k \<noteq> ''aps'') (m_Data m)))))))"

definition apns_buildPayload :: "Message \<Rightarrow> json" where
  "apns_buildPayload m = JObj (apns_payload m)"

definition pushType :: "Message \<Rightarrow> string" where
  "pushType m =
     (if m_Type m \<in> {MessageIncomingCall, MessageSilent, MessageBackground, MessageCallCancelled, MessageCallEnded}
      then ''background''
      else if m_Title m \<noteq> '''' \<or> m_Body m \<noteq> '''' then ''alert'' else ''background'')"

definition apnsPriority :: "string \<Rightarrow> string" where
  "apnsPriority p = (if p = PriorityHigh then ''10'' else ''5'')"

definition truncate :: "string \<Rightarrow> nat \<Rightarrow> string" where
  "truncate s n = (if length s \<le> n then s else take n s)"

definition normalizeAPNsID :: "string \<Rightarrow> string" where
  "normalizeAPNsID i = truncate i 64"

definition bearerToken :: "gotime \<Rightarrow> Apns \<Rightarrow> Apns \<times> (error + string)" where
  "bearerToken now p =
     (case cached_token
             (sum_bind (ax_sign p (ax_TeamID (ax_cfg p)) (ax_KeyID (ax_cfg p)) now)
                (\<lambda>signed. Inr (signed, now + 50 * Minute))) now (ax_cache p) of
        (c, r) \<Rightarrow> (p\<lparr>ax_cache := c\<rparr>, r))"

definition apns_headers :: "gotime \<Rightarrow> Apns \<Rightarrow> string \<Rightarrow> Message \<Rightarrow> Device \<Rightarrow> (string \<times> string) list" where
  "apns_headers now p token m d =
     (let voip = (d_Provider d = ProviderAPNsVoIP)
      in set_if (m_TTL m > 0) ''apns-expiration'' (FormatInt (Unix (now + m_TTL m)))
           (set_if (m_ID m \<noteq> '''') ''apns-id'' (normalizeAPNsID (m_ID m))
             (set_if (m_CollapseKey m \<noteq> '''') ''apns-collapse-id'' (truncate (m_CollapseKey m) 64)
               [(''authorization'', ''bearer '' @ token),
                (''apns-topic'', ax_BundleID (ax_cfg p) @ (if voip then ''.voip'' else '''')),
                (''apns-push-type'', if voip then ''voip'' else pushType m),
                (''apns-priority'', if m_Type m = MessageIncomingCall then ''10'' else apnsPriority (m_Priority m))])))"

definition apns_request :: "gotime \<Rightarrow> Apns \<Rightarrow> string \<Rightarrow> Message \<Rightarrow> Device \<Rightarrow> HttpRequest" where
  "apns_request now p token m d =
     \<lparr>hq_URL = ax_host p @ ''/3/device/'' @ d_Token d, hq_Headers = apns_headers now p token m d,
       hq_Body = JsonBody (apns_buildPayload m)\<rparr>"

definition apns_Send ::
    "HttpClient \<Rightarrow> gotime \<Rightarrow> Message \<Rightarrow> Device \<Rightarrow> Apns \<Rightarrow> Apns \<times> (error + SendResult option)" where
  "apns_Send http now m d p =
     (case apns_ValidateToken (d_Token d) of
        Some err \<Rightarrow> (p, Inr (Some (invalid_token (Error err))))
      | None \<Rightarrow>
          (case bearerToken now p of
             (p, Inl err) \<Rightarrow> (p, Inr (Some (rejected True ErrCodeProviderAuthError (Error err))))
           | (p, Inr token) \<Rightarrow>
               (let q = apns_request now p token m d
                in (p, case hc_NewRequest http (hq_URL q) of
                         Some err \<Rightarrow> Inl err
                       | None \<Rightarrow>
                           (case hc_Do http q of
                              Inl err \<Rightarrow> Inr (Some (rejected True ErrCodeProviderTempError (Error err)))
                            | Inr res \<Rightarrow>
                                if hr_Status res = 200 then Inr (Some (accepted (header ''apns-id'' res)))
                                else Inr (Some (mapAPNsError res)))))))"

section \<open>The contract\<close>

lemma apns_map_ok: "result_ok (mapAPNsError res)"
  by (simp add: mapAPNsError_def Let_def)

interpretation apns: push_provider apns_Send
proof
  fix http now m d p
  show "classified (snd (apns_Send http now m d p))"
    by (simp add: apns_Send_def Let_def apns_map_ok split: option.splits prod.splits sum.splits)
  show "\<exists>msg. apns_Send http now m d p = (p, Inr (Some (invalid_token msg)))" if "d_Token d = ''''"
    using that by (auto simp: apns_Send_def apns_ValidateToken_def TrimSpace_def)
qed

end
