(* ===== verification/ProviderFcm.thy ===== *)
theory ProviderFcm
  imports ProviderHttp
begin

text \<open>
  The FCM provider (\<open>internal/provider/fcm/fcm.go\<close>) and the stub that accepts everything
  (\<open>internal/provider/noop/noop.go\<close>). The Firebase client is a parameter: it answers a message with an
  identifier or an error, and an error with the library's classification of it.
\<close>

section \<open>FCM (provider/fcm/fcm.go)\<close>

record FcmNotification =
  fn_Title :: string
  fn_Body :: string
  fn_ImageURL :: string

record AndroidNotification =
  an_Title :: string
  an_Body :: string
  an_Sound :: string
  an_ImageURL :: string
  an_ClickAction :: string
  an_ChannelID :: string

record FcmMessage =
  fm_Token :: string
  fm_Data :: "(string \<times> string) list"
  fm_Priority :: string
  fm_TTL :: "duration option"
  fm_CollapseKey :: string
  fm_Notification :: "FcmNotification option"
  fm_AndroidNotification :: "AndroidNotification option"

record FcmError =
  fe_Text :: string
  fe_Unregistered :: bool
  fe_InvalidArgument :: bool
  fe_QuotaExceeded :: bool
  fe_Unavailable :: bool
  fe_Internal :: bool
  fe_SenderIDMismatch :: bool
  fe_ThirdPartyAuthError :: bool
  fe_ProviderError :: "ProviderError option"

type_synonym FcmClient = "FcmMessage \<Rightarrow> FcmError + string"

text \<open>
  \<open>newApp\<close> and \<open>messaging\<close> are the Firebase library: an application of a file with credentials, and
  its client.
\<close>

definition fcm_NewFromCredentialsFile ::
    "(string \<Rightarrow> error + 'app) \<Rightarrow> ('app \<Rightarrow> error + FcmClient) \<Rightarrow> string \<Rightarrow> error + FcmClient" where
  "fcm_NewFromCredentialsFile newApp messaging credentialsFile =
     (if credentialsFile = '''' then Inl (Other ''fcm: credentials file required'')
      else case newApp credentialsFile of
             Inl err \<Rightarrow> Inl (Other (''fcm: firebase app: '' @ Error err))
           | Inr app \<Rightarrow>
               (case messaging app of
                  Inl err \<Rightarrow> Inl (Other (''fcm: messaging client: '' @ Error err))
                | Inr client \<Rightarrow> Inr client))"

definition fcm_ValidateToken :: "string \<Rightarrow> error option" where
  "fcm_ValidateToken = validate_nonblank ProviderFCM ''empty token''"

definition androidPriority :: "string \<Rightarrow> string" where
  "androidPriority p = (if p = PriorityHigh then ''high'' else ''normal'')"

definition fcm_hasNotification :: "Message \<Rightarrow> bool" where
  "fcm_hasNotification m \<longleftrightarrow>
     \<not> IsDataOnly (m_Type m) \<and> (m_Title m \<noteq> '''' \<or> m_Body m \<noteq> '''' \<or> m_ImageURL m \<noteq> '''')"

definition fcm_buildMessage :: "Message \<Rightarrow> Device \<Rightarrow> FcmMessage" where
  "fcm_buildMessage m d =
     \<lparr>fm_Token = d_Token d, fm_Data = event_data m,
       fm_Priority = (if IsCallRelated (m_Type m) then ''high'' else androidPriority (m_Priority m)),
       fm_TTL = (if m_TTL m > 0 then Some (m_TTL m) else None),
       fm_CollapseKey = (if m_CollapseKey m \<noteq> '''' \<and> \<not> IsCallRelated (m_Type m) then m_CollapseKey m else ''''),
       fm_Notification =
         (if fcm_hasNotification m
          then Some \<lparr>fn_Title = m_Title m, fn_Body = m_Body m, fn_ImageURL = m_ImageURL m\<rparr> else None),
       fm_AndroidNotification =
         (if fcm_hasNotification m
          then Some \<lparr>an_Title = m_Title m, an_Body = m_Body m, an_Sound = m_Sound m, an_ImageURL = m_ImageURL m,
                     an_ClickAction = m_DeepLink m, an_ChannelID = m_Category m\<rparr>
          else None)\<rparr>"

definition fcm_mapSendError :: "FcmError \<Rightarrow> error + SendResult option" where
  "fcm_mapSendError err =
     (let msg = fe_Text err; lower = ToLower msg
      in if fe_Unregistered err \<or> Contains lower ''registration-token-not-registered'' \<or>
            Contains lower ''invalid-registration-token'' \<or> Contains lower ''unregistered''
         then Inr (Some (invalid_token msg))
         else if fe_InvalidArgument err then Inr (Some (rejected False ErrCodeInvalidRequest msg))
         else if fe_QuotaExceeded err \<or> Contains lower ''quota'' \<or> Contains lower ''429''
         then Inr (Some (rejected True ErrCodeProviderRateLimit msg))
         else if fe_Unavailable err \<or> fe_Internal err \<or> Contains lower ''503'' \<or> Contains lower ''500'' \<or>
                 Contains lower ''timeout'' \<or> Contains lower ''connection''
         then Inr (Some (rejected True ErrCodeProviderTempError msg))
         else if fe_SenderIDMismatch err \<or> fe_ThirdPartyAuthError err \<or>
                 Contains lower ''authentication'' \<or> Contains lower ''permission''
         then Inr (Some (rejected False ErrCodeProviderAuthError msg))
         else case fe_ProviderError err of
                Some pe \<Rightarrow> Inl (Prov pe)
              | None \<Rightarrow> Inr (Some (rejected True ErrCodeProviderTempError msg)))"

definition fcm_Send ::
    "FcmClient option \<Rightarrow> Message \<Rightarrow> Device \<Rightarrow> error + SendResult option" where
  "fcm_Send client m d =
     (case client of
        None \<Rightarrow> Inl (Prov \<lparr>pe_Provider = ProviderFCM, pe_Code = ErrCodeProviderNotAvailable,
                      pe_Message = ''fcm client not configured'', pe_Retryable = False, pe_InvalidToken = False\<rparr>)
      | Some send \<Rightarrow>
          (case fcm_ValidateToken (d_Token d) of
             Some err \<Rightarrow> Inr (Some (invalid_token (Error err)))
           | None \<Rightarrow>
               (case send (fcm_buildMessage m d) of
                  Inl err \<Rightarrow> fcm_mapSendError err
                | Inr i \<Rightarrow> Inr (Some (accepted i)))))"

section \<open>The stub (provider/noop/noop.go)\<close>

record Noop =
  np_name :: string
  np_seq :: "64 word"

definition noop_New :: "string \<Rightarrow> Noop" where
  "noop_New name = \<lparr>np_name = name, np_seq = 0\<rparr>"

definition noop_Send :: "Message \<Rightarrow> Device \<Rightarrow> Noop \<Rightarrow> Noop \<times> (error + SendResult option)" where
  "noop_Send m d p =
     (if d_Token d = '''' \<or> d_Token d = ''invalid'' then (p, Inr (Some (invalid_token ''invalid token'')))
      else (let i = np_seq p + 1
            in (p\<lparr>np_seq := i\<rparr>,
                Inr (Some (accepted (np_name p @ ''-'' @ m_ID m @ ''-'' @ nat_digits (unat i)))))))"

definition noop_ValidateToken :: "Noop \<Rightarrow> string \<Rightarrow> error option" where
  "noop_ValidateToken p token =
     (if token = '''' \<or> token = ''invalid'' then Some (token_error (np_name p) ''invalid token'') else None)"

section \<open>The contract\<close>

lemma fcm_map_ok: "classified (fcm_mapSendError err)"
  by (simp add: fcm_mapSendError_def Let_def split: option.splits)

interpretation fcm: push_provider "\<lambda>client now m d st. (st, fcm_Send (Some client) m d)"
proof
  fix client :: FcmClient and m d and st :: 'st
  show "classified (snd (st, fcm_Send (Some client) m d))"
    by (simp add: fcm_Send_def fcm_map_ok split: option.splits sum.splits)
  show "\<exists>msg. (st, fcm_Send (Some client) m d) = (st, Inr (Some (invalid_token msg)))" if "d_Token d = ''''"
    using that by (auto simp: fcm_Send_def fcm_ValidateToken_def validate_nonblank_def TrimSpace_def)
qed

interpretation noop: push_provider "\<lambda>_ now. noop_Send"
  by unfold_locales (auto simp: noop_Send_def Let_def)

end
