(* ===== verification/ProviderProps.thy ===== *)
theory ProviderProps
  imports ProviderHuawei ProviderOppo ProviderVivo ProviderXiaomi ProviderApns ProviderFcm
begin

text \<open>
  Properties of the push providers: their results keep the contract the worker relies on whatever the
  vendor answers, a push carries the identity of its message, pushes about calls are urgent and silent
  where the vendor can deliver in silence, a revoked access token is not used again, and the range of the
  number made of a collapse key.
\<close>

section \<open>Results\<close>

text \<open>
  Whatever a vendor answers and whatever goes wrong on the way, each of the seven providers returns
  an error or a result that says one thing: accepted and then neither to be retried nor about the token,
  or not accepted and then with a code; a result about the token is never to be retried.
\<close>

theorem provider_answers_classified:
  "classified (snd (apns_Send http now m d apns)) \<and> classified (fcm_Send client m d) \<and>
   classified (snd (huawei_Send http now m d huawei)) \<and> classified (snd (oppo_Send oenv now m d oppo)) \<and>
   classified (snd (vivo_Send venv now m d vivo)) \<and> classified (snd (xiaomi_Send http now m d xiaomi)) \<and>
   classified (snd (noop_Send m d noop))"
proof -
  have "classified (fcm_Send client m d)"
    using fcm.send_classified by (cases client) (auto simp: fcm_Send_def)
  then show ?thesis
    by (simp add: apns.send_classified huawei.send_classified oppo.send_classified vivo.send_classified
        xiaomi.send_classified noop.send_classified)
qed

text \<open>
  An answer that cannot be read counts as a success with three vendors: the missing code decodes as
  zero, and zero is their code for success.
\<close>

lemma unreadable_answer_accepted:
  assumes "hr_Json res = None"
  shows "sr_Accepted (oppo_mapResponse res)" "sr_Accepted (vivo_mapResponse res)" "sr_Accepted (xiaomi_mapResponse res)"
  using assms
  by (simp_all add: oppo_mapResponse_def vivo_mapResponse_def xiaomi_mapResponse_def lenient_int_def lenient_str_def
      lenient_raw_def accepted_def Let_def)

section \<open>What a push carries\<close>

lemma map_of_set_if: "map_of (set_if b k v kvs) k' = (if b \<and> k' = k then Some v else map_of kvs k')"
  by (simp add: set_if_def update_conv')

lemma map_of_data_strings:
  "map_of (map (\<lambda>(k, v). (k, JStr v)) (filter (\<lambda>(k, v). k \<noteq> x) kvs)) k =
     (if k = x then None else map_option JStr (map_of kvs k))"
  by (induction kvs) auto

text \<open>
  A push tells its message: the identity and the type of the message are in the data of every push,
  whatever entries of the same names the data had, and every other entry of the data is passed on as it
  is; on APNs the data cannot replace the part that controls how the push is shown.
\<close>

theorem push_carries_its_message:
  assumes "m_ID m \<noteq> ''''" "m_Type m \<noteq> ''''"
  shows "map_of (event_data m) ''mgl_message_id'' = Some (m_ID m) \<and>
    map_of (event_data m) ''mgl_event_type'' = Some (m_Type m) \<and>
    (\<forall>k. k \<in> {''mgl_message_id'', ''mgl_event_id'', ''mgl_event_type'', ''deep_link''} \<or>
       map_of (event_data m) k = map_of (m_Data m) k) \<and>
    map_of (apns_payload m) ''aps'' = Some (JObj (apns_aps m)) \<and>
    map_of (apns_payload m) ''mgl_message_id'' = Some (JStr (m_ID m)) \<and>
    map_of (apns_payload m) ''mgl_event_type'' = Some (JStr (m_Type m)) \<and>
    (\<forall>k. k \<in> {''aps'', ''mgl_message_id'', ''mgl_event_id'', ''mgl_event_type'', ''deep_link'', ''image_url''} \<or>
       map_of (apns_payload m) k = map_option JStr (map_of (m_Data m) k))"
  using assms
  by (simp add: event_data_def apns_payload_def map_of_set_if map_of_data_strings)

definition demo_push :: Message where
  "demo_push = \<lparr>m_ID = ''m1'', m_Type = MessageIncomingCall, m_Title = [], m_Body = [],
     m_Data = [(''call_id'', ''c1''), (''aps'', ''x''), (''mgl_message_id'', ''y'')], m_ImageURL = [], m_Priority = PriorityNormal,
     m_TTL = 30 * Second, m_CollapseKey = ''c'', m_Sound = [], m_Badge = None, m_DeepLink = [], m_Category = [],
     m_AppID = ''app'', m_Status = [], m_CreatedAt = 0, m_QueuedAt = None, m_CompletedAt = None\<rparr>"

theorem push_carries_its_message_witness:
  "map_of (event_data demo_push) ''mgl_message_id'' = Some ''m1'' \<and>
   map_of (apns_payload demo_push) ''aps'' = Some (JObj (apns_aps demo_push)) \<and>
   map_of (apns_payload demo_push) ''call_id'' = Some (JStr ''c1'')"
  using push_carries_its_message [of demo_push] by (auto simp: demo_push_def dest!: spec [of _ "''call_id''"])

text \<open>
  A push about a call is urgent and silent: FCM, Huawei and Xiaomi get it with high urgency, without
  anything to show and never collapsed with another, APNs gets it as a background update without an alert.
\<close>

theorem call_push_urgent_and_silent:
  assumes "IsCallRelated (m_Type m)"
  shows "(let q = fcm_buildMessage m d in fm_Priority q = ''high'' \<and> fm_CollapseKey q = '''' \<and> fm_Notification q = None \<and>
      fm_AndroidNotification q = None) \<and>
    map_of (huawei_message marshal m tok) ''notification'' = None \<and>
    map_of (huawei_android m) ''notification'' = None \<and> map_of (huawei_android m) ''bi_tag'' = None \<and>
    map_of (huawei_android m) ''urgency'' = Some (JStr ''HIGH'') \<and>
    (case xiaomi_buildForm marshal m d pkg of
       Inl _ \<Rightarrow> True
     | Inr form \<Rightarrow> map_of form ''pass_through'' = Some ''1'' \<and> map_of form ''title'' = None \<and>
         map_of form ''notify_id'' = None \<and> map_of form ''extra.cb'' = Some ''1'') \<and>
    map_of (apns_aps m) ''alert'' = None \<and> map_of (apns_aps m) ''content-available'' = Some (JNum 1) \<and>
    pushType m = ''background''"
proof -
  have data: "IsDataOnly (m_Type m)" using assms by (auto simp: IsCallRelated_def IsDataOnly_def)
  then have none: "\<not> fcm_hasNotification m" "\<not> huawei_hasNotification m" "\<not> xiaomi_hasNotification m" "apns_dataOnly m"
    by (simp_all add: fcm_hasNotification_def huawei_hasNotification_def xiaomi_hasNotification_def apns_dataOnly_def)
  have "pushType m = ''background''" using assms by (auto simp: pushType_def IsCallRelated_def)
  moreover have "map_of (apns_aps m) ''alert'' = None" "map_of (apns_aps m) ''content-available'' = Some (JNum 1)"
    using none by (simp_all add: apns_aps_def map_of_set_if update_conv' split: option.splits)
  moreover have "case xiaomi_buildForm marshal m d pkg of
       Inl _ \<Rightarrow> True
     | Inr form \<Rightarrow> map_of form ''pass_through'' = Some ''1'' \<and> map_of form ''title'' = None \<and>
         map_of form ''notify_id'' = None \<and> map_of form ''extra.cb'' = Some ''1''"
    using none assms
    by (simp add: xiaomi_buildForm_def xiaomi_notification_def map_of_set_if Let_def split: sum.splits)
  ultimately show ?thesis
    using none assms by (simp add: fcm_buildMessage_def huawei_message_def huawei_android_def map_of_set_if Let_def)
qed

theorem call_push_urgent_and_silent_witness:
  "map_of (huawei_android demo_push) ''urgency'' = Some (JStr ''HIGH'') \<and> pushType demo_push = ''background''"
  using call_push_urgent_and_silent [of demo_push] by (simp add: demo_push_def IsCallRelated_def)

section \<open>Collapse keys\<close>

text \<open>
  The number made of a collapse key lies between zero and a hundred million, except for the keys
  whose hash is the least 32-bit number: changing its sign changes nothing, and the number is negative.
\<close>

theorem hashNotifyID_range:
  "0 \<le> hashNotifyID s \<and> hashNotifyID s < 100000000 \<or>
   sint (hash31 s) = - (2 ^ 31) \<and> hashNotifyID s = - 47483648"
proof -
  let ?h = "sint (hash31 s)"
  have neg: "sint (- hash31 s) = signed_take_bit 31 (- ?h)" by (simp add: sint_word_ariths(4))
  have range: "- (2 ^ 31) \<le> ?h" "?h < 2 ^ 31" using sint_range_size [of "hash31 s"] by (simp_all add: word_size)
  show ?thesis
  proof (cases "?h = - (2 ^ 31)")
    case True
    then have "sint (- hash31 s) = - (2 ^ 31)" unfolding neg by (simp add: signed_take_bit_int_eq_self_iff)
    with True show ?thesis by (simp add: hashNotifyID_def rem_trunc_def Let_def)
  next
    case False
    with range have "?h < 0 \<Longrightarrow> sint (- hash31 s) = - ?h" unfolding neg by (simp add: signed_take_bit_int_eq_self_iff)
    then show ?thesis by (simp add: hashNotifyID_def rem_trunc_def Let_def)
  qed
qed

lemma hashNotifyID_negative: "hashNotifyID ''polygenelubricants'' = - 47483648"
  by code_simp

section \<open>Access tokens\<close>

lemma huawei_refused:
  assumes "TrimSpace (d_Token d) \<noteq> ''''" "hc_NewRequest http = (\<lambda>_. None)" "now \<le> later"
    and "usable later (hw_cache (fst (huawei_Send http now m d p)))"
  shows "\<not> refused (hc_Do http (huawei_request http (hw_cfg p) (tc_token (hw_cache (fst (huawei_Send http now m d p)))) m d))"
proof -
  obtain c r where C: "cached_token (huawei_fetch http now (hw_cfg p)) now (hw_cache p) = (c, r)" by fastforce
  show ?thesis
    using assms C cached_token_Inl [of _ now _ c _ later] cached_token_Inr [of _ now _ c]
    by (cases r) (auto simp: huawei_Send_def huawei_getAccessToken_def huawei_invalidateToken_def huawei_ValidateToken_def
        validate_nonblank_def Let_def split: sum.splits if_splits)
qed

lemma oppo_refused:
  assumes "TrimSpace (d_Token d) \<noteq> ''''" "hc_NewRequest (oe_http env) = (\<lambda>_. None)" "now \<le> later"
    and "usable later (op_cache (fst (oppo_Send env now m d p)))"
  shows "\<not> refused (hc_Do (oe_http env) (oppo_request env (op_cfg p) (tc_token (op_cache (fst (oppo_Send env now m d p)))) m d))"
proof -
  obtain c r where C: "cached_token (oppo_fetch env now (op_cfg p)) now (op_cache p) = (c, r)" by fastforce
  show ?thesis
    using assms C cached_token_Inl [of _ now _ c _ later] cached_token_Inr [of _ now _ c]
    by (cases r) (auto simp: oppo_Send_def oppo_getAuthToken_def oppo_invalidateAuth_def oppo_ValidateToken_def
        validate_nonblank_def Let_def split: sum.splits if_splits)
qed

lemma vivo_refused:
  assumes "TrimSpace (d_Token d) \<noteq> ''''" "hc_NewRequest (ve_http env) = (\<lambda>_. None)" "now \<le> later"
    and "usable later (vv_cache (fst (vivo_Send env now m d p)))"
  shows "\<not> refused (hc_Do (ve_http env) (vivo_request env (vv_cfg p) (tc_token (vv_cache (fst (vivo_Send env now m d p)))) m d))"
proof -
  obtain c r where C: "cached_token (vivo_fetch env now p) now (vv_cache p) = (c, r)" by fastforce
  show ?thesis
    using assms C cached_token_Inl [of _ now _ c _ later] cached_token_Inr [of _ now _ c]
    by (cases r) (auto simp: vivo_Send_def vivo_getAuthToken_def vivo_invalidateAuth_def vivo_ValidateToken_def
        validate_nonblank_def Let_def split: sum.splits if_splits)
qed

text \<open>
  C38. An access token that the vendor refused is not kept: whatever token Huawei's, OPPO's or vivo's
  provider has left in its cache after a send, usable then or later, the vendor did not answer this push
  under it with unauthorized or forbidden. So the next attempt asks for a new token.
\<close>

theorem refused_token_not_kept:
  assumes "TrimSpace (d_Token d) \<noteq> ''''" "now \<le> later"
    and "hc_NewRequest http = (\<lambda>_. None)" "oe_http oenv = http" "ve_http venv = http"
  shows "(let p = fst (huawei_Send http now m d hw) in usable later (hw_cache p) \<longrightarrow>
      \<not> refused (hc_Do http (huawei_request http (hw_cfg hw) (tc_token (hw_cache p)) m d))) \<and>
    (let p = fst (oppo_Send oenv now m d op) in usable later (op_cache p) \<longrightarrow>
      \<not> refused (hc_Do http (oppo_request oenv (op_cfg op) (tc_token (op_cache p)) m d))) \<and>
    (let p = fst (vivo_Send venv now m d vv) in usable later (vv_cache p) \<longrightarrow>
      \<not> refused (hc_Do http (vivo_request venv (vv_cfg vv) (tc_token (vv_cache p)) m d)))"
  using assms huawei_refused [of d http now later m hw] oppo_refused [of d oenv now later m op]
    vivo_refused [of d venv now later m vv]
  by (simp add: Let_def)

definition demo_http :: "int \<Rightarrow> HttpClient" where
  "demo_http status = \<lparr>hc_NewRequest = (\<lambda>_. None),
     hc_Do = (\<lambda>_. Inr \<lparr>hr_Status = status, hr_Headers = [], hr_Text = [], hr_Json = None\<rparr>), hc_Marshal = (\<lambda>_. [])\<rparr>"

definition demo_device :: Device where
  "demo_device = \<lparr>d_ID = ''d1'', d_UserID = ''u'', d_InstallationID = ''i'', d_Platform = PlatformAndroid,
     d_Provider = ProviderHuawei, d_Token = ''tok'', d_AppID = ''app'', d_AppVersion = [], d_OSVersion = [], d_DeviceModel = [],
     d_Locale = [], d_Timezone = [], d_Status = DeviceStatusActive, d_CreatedAt = 0, d_UpdatedAt = 0, d_LastSeenAt = 0\<rparr>"

text \<open>With a cached token and a vendor that answers 401, the cache is empty after the send.\<close>

theorem refused_token_not_kept_witness:
  "\<not> usable 5 (hw_cache (fst (huawei_Send (demo_http 401) 5 demo_push demo_device
     \<lparr>hw_cfg = \<lparr>hw_AppID = ''a'', hw_AppSecret = ''s'', hw_TokenURL = [], hw_PushURL = []\<rparr>,
      hw_cache = \<lparr>tc_token = ''t'', tc_expiry = 10\<rparr>\<rparr>)))"
proof -
  have "TrimSpace (d_Token demo_device) \<noteq> []" by (simp add: demo_device_def TrimSpace_def is_space_def)
  moreover have "refused (hc_Do (demo_http 401) q)" "hc_NewRequest (demo_http 401) = (\<lambda>_. None)" for q
    by (simp_all add: demo_http_def)
  ultimately show ?thesis
    using refused_token_not_kept [of demo_device 5 5 "demo_http 401"
      "\<lparr>oe_http = demo_http 401, oe_sha256 = id\<rparr>" "\<lparr>ve_http = demo_http 401, ve_md5 = id, ve_newID = []\<rparr>" demo_push
      "\<lparr>hw_cfg = \<lparr>hw_AppID = ''a'', hw_AppSecret = ''s'', hw_TokenURL = [], hw_PushURL = []\<rparr>,
        hw_cache = \<lparr>tc_token = ''t'', tc_expiry = 10\<rparr>\<rparr>"]
    by (auto simp: Let_def)
qed

end
