(* ===== verification/External.thy ===== *)
theory External
  imports ProviderHttp Orchestrator "HOL-Library.Sublist"
begin

text \<open>
  The clients of other services: the Phoenix authorizer (\<open>internal/phoenix/client.go\<close>) and the event bus
  over Redis (\<open>internal/events/redis_bus.go\<close>). HTTP, Redis and the text of an event are parameters.
\<close>

section \<open>Phoenix (phoenix/client.go)\<close>

record PhoenixClient =
  px_baseURL :: string
  px_token :: string
  px_timeout :: duration

definition TrimRight :: "string \<Rightarrow> char \<Rightarrow> string" where
  "TrimRight s c = rev (dropWhile (\<lambda>x. x = c) (rev s))"

definition NewHTTPClient :: "string \<Rightarrow> string \<Rightarrow> duration \<Rightarrow> PhoenixClient" where
  "NewHTTPClient baseURL token timeout =
     \<lparr>px_baseURL = TrimRight baseURL (CHR ''/''), px_token = token,
       px_timeout = (if timeout \<le> 0 then 3 * Second else timeout)\<rparr>"

definition canCall_request :: "PhoenixClient \<Rightarrow> string \<Rightarrow> string \<Rightarrow> string list \<Rightarrow> HttpRequest" where
  "canCall_request c appID callerID calleeIDs =
     \<lparr>hq_URL = px_baseURL c @ ''/v1/calls/authorize'',
       hq_Headers = [(''Content-Type'', ''application/json'')] @
         (if px_token c \<noteq> '''' then [(''Authorization'', ''Bearer '' @ px_token c)] else []),
       hq_Body = JsonBody (JObj [(''app_id'', JStr appID), (''caller_id'', JStr callerID),
         (''callee_ids'', JArr (map JStr calleeIDs))])\<rparr>"

fun dec_bool :: "json \<Rightarrow> error + bool" where
  "dec_bool (JBool b) = Inr b"
| "dec_bool JNull = Inr False"
| "dec_bool _ = Inl json_error"

definition dec_canCall :: "json \<Rightarrow> error + bool \<times> string" where
  "dec_canCall j =
     sum_bind (obj_fields j) (\<lambda>kvs.
     sum_bind (dec_bool (field ''allowed'' kvs)) (\<lambda>allowed.
     sum_bind (dec_str (field ''reason'' kvs)) (\<lambda>reason. Inr (allowed, reason))))"

definition phoenix_CanUserCall ::
    "HttpClient \<Rightarrow> PhoenixClient \<Rightarrow> string \<Rightarrow> string \<Rightarrow> string list \<Rightarrow> error option" where
  "phoenix_CanUserCall http c appID callerID calleeIDs =
     (let q = canCall_request c appID callerID calleeIDs
      in case hc_NewRequest http (hq_URL q) of
           Some err \<Rightarrow> Some err
         | None \<Rightarrow>
             (case hc_Do http q of
                Inl err \<Rightarrow> Some (Other (''phoenix unavailable: '' @ Error err))
              | Inr resp \<Rightarrow>
                  if hr_Status resp \<ge> 500
                  then Some (Other (''phoenix unavailable: status '' @ FormatInt (hr_Status resp)))
                  else case (case hr_Json resp of None \<Rightarrow> Inl json_error | Some j \<Rightarrow> dec_canCall j) of
                         Inl err \<Rightarrow> Some (Other (''phoenix response: '' @ Error err))
                       | Inr (allowed, reason) \<Rightarrow>
                           if \<not> allowed then Some (Other (if reason = '''' then ''not allowed'' else reason)) else None))"

text \<open>The authorizer of the orchestrator; without an address everything is allowed.\<close>

definition phoenix_NewFromConfig ::
    "HttpClient \<Rightarrow> string \<Rightarrow> string \<Rightarrow> duration \<Rightarrow> ctx \<Rightarrow> string \<Rightarrow> string \<Rightarrow> string list \<Rightarrow> error option" where
  "phoenix_NewFromConfig http baseURL token timeout =
     (if TrimSpace baseURL = '''' then (\<lambda>ctx appID callerID calleeIDs. None)
      else (\<lambda>ctx. phoenix_CanUserCall http (NewHTTPClient baseURL token timeout)))"

section \<open>The bus over Redis (events/redis_bus.go)\<close>

definition redis_bus_Publish ::
    "(string \<Rightarrow> json Event \<Rightarrow> error option) \<Rightarrow> gotime \<Rightarrow> string \<Rightarrow> json Event \<Rightarrow> error option" where
  "redis_bus_Publish client now topic e = client topic (stamp_event now e)"

text \<open>
  The goroutine of a subscription: a message that does not decode is skipped, one that finds the channel of
  64 places full is dropped. The receiver takes from the front.
\<close>

abbreviation channel_size :: nat where "channel_size \<equiv> 64"

definition sub_receive :: "('t \<Rightarrow> 'e option) \<Rightarrow> 't \<Rightarrow> 'e list \<Rightarrow> 'e list" where
  "sub_receive decode msg ch =
     (case decode msg of
        None \<Rightarrow> ch
      | Some e \<Rightarrow> if length ch < channel_size then ch @ [e] else ch)"

text \<open>
  What happens to a subscription: a message arrives, the receiver takes an event, or the goroutine ends
  because its context is done or the subscription was closed. Whether a message that arrives on a context
  that is done is still stored is up to the scheduler: any sequence of steps is a run.
\<close>

datatype 't sub_step = Arrive 't | Take | Quit

record 'e Subscription =
  sub_open :: bool
  sub_ch :: "'e list"
  sub_taken :: "'e list"

definition SubscribeUserTopic :: "'e Subscription" where
  "SubscribeUserTopic = \<lparr>sub_open = True, sub_ch = [], sub_taken = []\<rparr>"

fun sub_apply :: "('t \<Rightarrow> 'e option) \<Rightarrow> 't sub_step \<Rightarrow> 'e Subscription \<Rightarrow> 'e Subscription" where
  "sub_apply decode (Arrive msg) s = (if sub_open s then s\<lparr>sub_ch := sub_receive decode msg (sub_ch s)\<rparr> else s)"
| "sub_apply decode Take s =
     (case sub_ch s of [] \<Rightarrow> s | e # ch \<Rightarrow> s\<lparr>sub_ch := ch, sub_taken := sub_taken s @ [e]\<rparr>)"
| "sub_apply decode Quit s = s\<lparr>sub_open := False\<rparr>"

definition sub_run :: "('t \<Rightarrow> 'e option) \<Rightarrow> 't sub_step list \<Rightarrow> 'e Subscription" where
  "sub_run decode steps = fold (sub_apply decode) steps SubscribeUserTopic"

fun arrivals :: "('t \<Rightarrow> 'e option) \<Rightarrow> 't sub_step list \<Rightarrow> 'e list" where
  "arrivals decode [] = []"
| "arrivals decode (Arrive msg # steps) = (case decode msg of None \<Rightarrow> [] | Some e \<Rightarrow> [e]) @ arrivals decode steps"
| "arrivals decode (_ # steps) = arrivals decode steps"

section \<open>Properties\<close>

lemma sum_bind_eq_Inr: "sum_bind m f = Inr y \<longleftrightarrow> (\<exists>x. m = Inr x \<and> f x = Inr y)"
  by (cases m) (simp_all add: sum_bind_def)

text \<open>
  C39. The authorizer fails closed: with Phoenix configured a call is allowed only if Phoenix
  answered, with a status below 500 and a document that says so; an address that cannot be reached, an
  answer that cannot be read and one that does not mention the decision refuse the call.
\<close>

theorem phoenix_fails_closed:
  assumes "TrimSpace baseURL \<noteq> ''''" "phoenix_NewFromConfig http baseURL token timeout ctx app caller callees = None"
  shows "\<exists>resp kvs. hc_Do http (canCall_request (NewHTTPClient baseURL token timeout) app caller callees) = Inr resp \<and>
    hr_Status resp < 500 \<and> hr_Json resp = Some (JObj kvs) \<and> field ''allowed'' kvs = JBool True"
proof -
  have decision: "\<exists>kvs. j = JObj kvs \<and> field ''allowed'' kvs = JBool True" if dec: "dec_canCall j = Inr (True, r)" for j r
  proof -
    obtain kvs where j: "obj_fields j = Inr kvs" "dec_bool (field ''allowed'' kvs) = Inr True"
      using dec by (auto simp: dec_canCall_def sum_bind_eq_Inr)
    from j(2) have a: "field ''allowed'' kvs = JBool True" by (cases "field ''allowed'' kvs") auto
    with j(1) show ?thesis by (cases j) (auto simp: field_def)
  qed
  show ?thesis
    using assms
    by (auto simp: phoenix_NewFromConfig_def phoenix_CanUserCall_def Let_def split: option.splits sum.splits if_splits
        dest!: decision)
qed

lemma phoenix_fails_closed_ready:
  "phoenix_NewFromConfig \<lparr>hc_NewRequest = (\<lambda>_. None), hc_Do = (\<lambda>_. Inr \<lparr>hr_Status = 200, hr_Headers = [], hr_Text = [],
     hr_Json = Some (JObj [(''allowed'', JBool True)])\<rparr>), hc_Marshal = (\<lambda>_. [])\<rparr> ''http://phoenix'' [] 0 None ''app'' ''u'' [''v''] = None"
  by (simp add: phoenix_NewFromConfig_def TrimSpace_def is_space_def phoenix_CanUserCall_def dec_canCall_def sum_bind_def field_def)

theorem phoenix_fails_closed_witness:
  "\<exists>kvs. Some (JObj [(''allowed'', JBool True)]) = Some (JObj kvs) \<and> field ''allowed'' kvs = JBool True"
  using phoenix_fails_closed [OF _ phoenix_fails_closed_ready] by (auto simp: TrimSpace_def is_space_def)

text \<open>
  The channel of a subscription never holds more than 64 events, and what the receiver gets is
  a selection of what arrived, in the order of arrival: events are dropped, never duplicated, invented or
  reordered.
\<close>

theorem subscription_keeps_order:
  "length (sub_ch (sub_run decode steps)) \<le> channel_size \<and>
   subseq (sub_taken (sub_run decode steps) @ sub_ch (sub_run decode steps)) (arrivals decode steps)"
proof -
  have "length (sub_ch (fold (sub_apply decode) steps s)) \<le> channel_size \<and>
      subseq (sub_taken (fold (sub_apply decode) steps s) @ sub_ch (fold (sub_apply decode) steps s))
        (sub_taken s @ sub_ch s @ arrivals decode steps)"
    if "length (sub_ch s) \<le> channel_size" for s
    using that
  proof (induction steps arbitrary: s)
    case (Cons x steps)
    let ?s = "sub_apply decode x s"
    have len: "length (sub_ch ?s) \<le> channel_size"
      using Cons.prems by (cases x) (auto simp: sub_receive_def split: option.splits list.splits)
    have "subseq (sub_taken ?s @ sub_ch ?s @ arrivals decode steps) (sub_taken s @ sub_ch s @ arrivals decode (x # steps))"
      by (cases x) (auto simp: sub_receive_def subseq_append' subseq_Cons' split: option.splits list.splits)
    with Cons.IH [OF len] show ?case by (auto intro: subseq_order.order_trans)
  qed simp
  from this [of SubscribeUserTopic] show ?thesis by (simp add: sub_run_def SubscribeUserTopic_def)
qed

end
