(* ===== verification/LiveKit.thy ===== *)
theory LiveKit
  imports Config Json Orchestrator
begin

text \<open>
  The LiveKit provider of media rooms (\<open>internal/sfu/livekit/livekit.go\<close>): the claims of an access token,
  its text with the URL form of base64, and that a token reads back as what it grants. The text of a
  document and the keyed hash are parameters.
\<close>

section \<open>LiveKit (sfu/livekit/livekit.go)\<close>

record Livekit =
  lk_url :: string
  lk_apiKey :: string
  lk_apiSecret :: string

definition video_grant :: "string \<Rightarrow> string \<Rightarrow> json" where
  "video_grant roomID role =
     JObj ([(''roomJoin'', JBool True), (''room'', JStr roomID)] @
       (if role \<in> {''publisher'', ''caller'', ''callee'', ''''}
        then [(''canPublish'', JBool True), (''canSubscribe'', JBool True)]
        else if role = ''subscriber'' then [(''canPublish'', JBool False), (''canSubscribe'', JBool True)]
        else []))"

definition livekit_claims :: "gotime \<Rightarrow> Livekit \<Rightarrow> string \<Rightarrow> string \<Rightarrow> string \<Rightarrow> duration \<Rightarrow> json" where
  "livekit_claims now p roomID userID role ttl =
     JObj [(''iss'', JStr (lk_apiKey p)), (''sub'', JStr userID), (''nbf'', JNum (Unix (now - Second))),
       (''exp'', JNum (Unix (now + ttl))), (''video'', video_grant roomID role), (''name'', JStr userID)]"

text \<open>
  \<open>base64.RawURLEncoding\<close>: three bytes are four characters, the rest is not padded.
\<close>

definition b64_alphabet :: string where
  "b64_alphabet = ''ABCDEFGHIJKLMNOPQRSTUVWXYZabcdefghijklmnopqrstuvwxyz0123456789-_''"

definition b64_char :: "nat \<Rightarrow> char" where
  "b64_char n = b64_alphabet ! n"

fun b64_groups :: "nat list \<Rightarrow> nat list" where
  "b64_groups [] = []"
| "b64_groups [a] = [a div 4, a mod 4 * 16]"
| "b64_groups [a, b] = [a div 4, a mod 4 * 16 + b div 16, b mod 16 * 4]"
| "b64_groups (a # b # c # rest) =
     [a div 4, a mod 4 * 16 + b div 16, b mod 16 * 4 + c div 64, c mod 64] @ b64_groups rest"

definition EncodeToString :: "string \<Rightarrow> string" where
  "EncodeToString s = map b64_char (b64_groups (map of_char s))"

text \<open>
  \<open>jwt_marshal\<close> is the text of a document, \<open>jwt_hmac\<close> the bytes of HMAC-SHA256 for a secret and a text.
  The claims are maps of strings, numbers and booleans, on which the encoding does not fail.
\<close>

record JwtCodec =
  jwt_marshal :: "json \<Rightarrow> string"
  jwt_hmac :: "string \<Rightarrow> string \<Rightarrow> string"

definition jwt_header :: string where
  "jwt_header = ''{'' @ [CHR 0x22] @ ''alg'' @ [CHR 0x22] @ '':'' @ [CHR 0x22] @ ''HS256'' @ [CHR 0x22] @ '','' @
     [CHR 0x22] @ ''typ'' @ [CHR 0x22] @ '':'' @ [CHR 0x22] @ ''JWT'' @ [CHR 0x22] @ ''}''"

definition signJWT :: "JwtCodec \<Rightarrow> json \<Rightarrow> string \<Rightarrow> string" where
  "signJWT codec claims secret =
     (let header = EncodeToString jwt_header;
          body = header @ ''.'' @ EncodeToString (jwt_marshal codec claims);
          sig = EncodeToString (jwt_hmac codec secret body)
      in body @ ''.'' @ sig)"

definition livekit_JoinToken ::
    "JwtCodec \<Rightarrow> gotime \<Rightarrow> Livekit \<Rightarrow> ctx \<Rightarrow> string \<Rightarrow> string \<Rightarrow> string \<Rightarrow> duration \<Rightarrow> error + string" where
  "livekit_JoinToken codec now p ctx roomID userID role ttl =
     (if lk_apiKey p = '''' \<or> lk_apiSecret p = '''' then Inl (Other ''livekit credentials missing'')
      else (let ttl = (if ttl \<le> 0 then 5 * Minute else ttl)
            in Inr (signJWT codec (livekit_claims now p roomID userID role ttl) (lk_apiSecret p))))"

definition livekit_New :: "JwtCodec \<Rightarrow> gotime \<Rightarrow> string \<Rightarrow> string \<Rightarrow> string \<Rightarrow> SfuProvider" where
  "livekit_New codec now url apiKey apiSecret =
     \<lparr>sp_CreateRoom = (\<lambda>_ _. None), sp_DeleteRoom = (\<lambda>_ _. None),
       sp_JoinToken = livekit_JoinToken codec now \<lparr>lk_url = url, lk_apiKey = apiKey, lk_apiSecret = apiSecret\<rparr>,
       sp_URL = url\<rparr>"

section \<open>Reading a token\<close>

text \<open>The inverse of the encoding.\<close>

definition b64_value :: "char \<Rightarrow> nat" where
  "b64_value c = length (takeWhile (\<lambda>x. x \<noteq> c) b64_alphabet)"

fun b64_bytes :: "nat list \<Rightarrow> nat list" where
  "b64_bytes (a # b # c # d # rest) = [a * 4 + b div 16, b mod 16 * 16 + c div 4, c mod 4 * 64 + d] @ b64_bytes rest"
| "b64_bytes [a, b, c] = [a * 4 + b div 16, b mod 16 * 16 + c div 4]"
| "b64_bytes [a, b] = [a * 4 + b div 16]"
| "b64_bytes _ = []"

definition DecodeString :: "string \<Rightarrow> string" where
  "DecodeString s = map char_of (b64_bytes (map b64_value s))"

lemma b64_groups_small: "\<forall>x \<in> set xs. x < 256 \<Longrightarrow> \<forall>x \<in> set (b64_groups xs). x < 64"
  by (induction xs rule: b64_groups.induct) (auto simp: less_mult_imp_div_less)

lemma b64_bytes_groups: "\<forall>x \<in> set xs. x < 256 \<Longrightarrow> b64_bytes (b64_groups xs) = xs"
proof (induction xs rule: b64_groups.induct)
  case (4 a b c rest)
  then have "b div 16 < 16" "c div 64 < 4" by (auto simp: less_mult_imp_div_less)
  with 4 show ?case by simp
qed auto

lemma b64_char_value: "n < 64 \<Longrightarrow> b64_value (b64_char n) = n"
proof -
  have "list_all (\<lambda>n. b64_value (b64_char n) = n) [0..<64]" by code_simp
  then show "n < 64 \<Longrightarrow> b64_value (b64_char n) = n" by (simp add: list_all_iff)
qed

lemma b64_char_alphabet: "n < 64 \<Longrightarrow> b64_char n \<in> set b64_alphabet"
  unfolding b64_char_def by (rule nth_mem) (simp add: b64_alphabet_def)

lemma byte_small: "(of_char c :: nat) < 256"
  by (metis nat_of_char_less_256)

lemma groups_of_string: "x \<in> set (b64_groups (map of_char s)) \<Longrightarrow> x < 64"
  using b64_groups_small [of "map of_char s"] byte_small by auto

lemma Decode_Encode: "DecodeString (EncodeToString s) = s"
proof -
  have "map b64_value (EncodeToString s) = b64_groups (map of_char s)"
    by (auto simp: EncodeToString_def comp_def b64_char_value groups_of_string intro!: map_idI)
  then show ?thesis using b64_bytes_groups [of "map of_char s"] byte_small by (simp add: DecodeString_def comp_def)
qed

lemma Encode_no_dot: "CHR ''.'' \<notin> set (EncodeToString s)"
proof
  assume "CHR ''.'' \<in> set (EncodeToString s)"
  then have "CHR ''.'' \<in> set b64_alphabet"
    unfolding EncodeToString_def using b64_char_alphabet groups_of_string by (metis (no_types, lifting) imageE list.set_map)
  then show False by (simp add: b64_alphabet_def)
qed

lemma livekit_claims_fields:
  "\<exists>kvs video. livekit_claims now p roomID userID role ttl = JObj kvs \<and> field ''iss'' kvs = JStr (lk_apiKey p) \<and>
    field ''sub'' kvs = JStr userID \<and> field ''exp'' kvs = JNum (Unix (now + ttl)) \<and>
    field ''video'' kvs = JObj video \<and> field ''room'' video = JStr roomID \<and>
    (field ''canPublish'' video = JBool True) = (role \<in> {''publisher'', ''caller'', ''callee'', ''''})"
  by (auto simp: livekit_claims_def video_grant_def field_def)

section \<open>Properties\<close>

text \<open>
  C40. A LiveKit token reads back as what it grants: it has three parts, the third signs the first two
  with the secret of the API key, and the second holds the claims: issued by the API key, for the user, to
  join the room and no other, publishing exactly with the roles of a call, until the end of its time to
  live (five minutes when none is given).
\<close>

theorem livekit_token_reads_back:
  assumes "lk_apiKey p \<noteq> ''''" "lk_apiSecret p \<noteq> ''''"
  shows "\<exists>token header claims sig. livekit_JoinToken codec now p ctx roomID userID role ttl = Inr token \<and>
    Split (CHR ''.'') token = [header, claims, sig] \<and>
    DecodeString sig = jwt_hmac codec (lk_apiSecret p) (header @ ''.'' @ claims) \<and>
    (\<exists>kvs video. DecodeString claims = jwt_marshal codec (JObj kvs) \<and> field ''iss'' kvs = JStr (lk_apiKey p) \<and>
      field ''sub'' kvs = JStr userID \<and> field ''exp'' kvs = JNum (Unix (now + (if ttl \<le> 0 then 5 * Minute else ttl))) \<and>
      field ''video'' kvs = JObj video \<and> field ''room'' video = JStr roomID \<and>
      (field ''canPublish'' video = JBool True) = (role \<in> {''publisher'', ''caller'', ''callee'', ''''}))"
proof -
  let ?ttl = "if ttl \<le> 0 then 5 * Minute else ttl"
  let ?j = "livekit_claims now p roomID userID role ?ttl"
  let ?h = "EncodeToString jwt_header" and ?c = "EncodeToString (jwt_marshal codec ?j)"
  let ?s = "EncodeToString (jwt_hmac codec (lk_apiSecret p) (?h @ ''.'' @ ?c))"
  have token: "livekit_JoinToken codec now p ctx roomID userID role ttl = Inr (?h @ ''.'' @ ?c @ ''.'' @ ?s)"
    using assms by (simp add: livekit_JoinToken_def signJWT_def Let_def)
  have parts: "Split (CHR ''.'') (?h @ ''.'' @ ?c @ ''.'' @ ?s) = [?h, ?c, ?s]"
    by (simp add: Split_append Split_single Encode_no_dot)
  have claims: "DecodeString ?c = jwt_marshal codec ?j" by (simp add: Decode_Encode)
  show ?thesis
    using token parts livekit_claims_fields [of now p roomID userID role ?ttl] claims Decode_Encode by metis
qed

theorem livekit_token_reads_back_witness:
  "\<exists>token claims. livekit_JoinToken \<lparr>jwt_marshal = (\<lambda>_. ''x''), jwt_hmac = (\<lambda>k m. k @ m)\<rparr> 7
     \<lparr>lk_url = [], lk_apiKey = ''key'', lk_apiSecret = ''secret''\<rparr> None ''room'' ''u'' ''caller'' 0 = Inr token \<and>
     Split (CHR ''.'') token ! 1 = claims \<and> DecodeString claims = ''x''"
  using livekit_token_reads_back [of "\<lparr>lk_url = [], lk_apiKey = ''key'', lk_apiSecret = ''secret''\<rparr>"
    "\<lparr>jwt_marshal = (\<lambda>_. ''x''), jwt_hmac = (\<lambda>k m. k @ m)\<rparr>" 7 None "''room''" "''u''" "''caller''" 0] by auto

end
