(* ===== verification/Cluster.thy ===== *)
theory Cluster
  imports CallRedis CallRuntime "HOL-Library.Sublist"
begin

text \<open>
  The call runtime on the store on Redis, on any number of nodes: the same operations as over the
  in-process store, with other nodes acting on the shared data between the steps of an update and
  between operations. Each node relies on the others to change calls only as the runtime does, and keeps
  that promise itself, also when a command fails and leaves open whether it ran. Expiry of the
  entries, a day after the last write, is left out: what is shown holds as long as they live.
\<close>

section \<open>The store behind the operations of the runtime\<close>

lemma op_stores:
  "sv_store (fst (Accept st ctx now cid u d s)) = fst (st_Update st ctx cid (accept_fn now u d) (sv_store s))"
  "sv_store (fst (Reject st ctx now cid u s)) = fst (st_Update st ctx cid (reject_fn now u) (sv_store s))"
  "sv_store (fst (Cancel st ctx now cid u s)) = fst (st_Update st ctx cid (cancel_fn now u) (sv_store s))"
  "sv_store (fst (Join st ctx now cid u d s)) = fst (st_Update st ctx cid (join_fn now cid u d) (sv_store s))"
  "sv_store (fst (MarkConnected st ctx now cid u s)) = fst (st_Update st ctx cid (connected_fn now u) (sv_store s))"
  "sv_store (fst (Leave st ctx now cid u s)) = fst (st_Update st ctx cid (end_fn now u ''left'' False) (sv_store s))"
  "sv_store (fst (Hangup st ctx now cid u s)) = fst (st_Update st ctx cid (end_fn now u ''hangup'' True) (sv_store s))"
  "sv_store (fst (Fail st ctx now cid reason s)) = fst (st_Update st ctx cid (fail_fn now reason) (sv_store s))"
  "sv_store (fst (resume_apply st ctx cid u d s)) = fst (st_Update st ctx cid (resume_fn u d) (sv_store s))"
  by (simp_all add: Accept_def Reject_def Cancel_def Join_def MarkConnected_def Leave_def Hangup_def endForUser_def Fail_def
      resume_apply_def run_update_def Let_def split: prod.splits sum.splits)

lemma timeout_store:
  "sv_store (fire_timeout st now cid s) = fst (st_Update st Background cid (timeout_fn now) (sv_store s))"
  by (simp add: fire_timeout_def run_update_def Let_def split: prod.splits sum.splits)

lemma Create_store:
  "sv_store (fst (Create st ctx now id1 id2 inp s)) = (if create_check inp = None
     then fst (st_Put st ctx (new_call now (''call_'' @ id1) (''room_'' @ id2) inp) (sv_store s)) else sv_store s)"
  by (simp add: Create_def Let_def split: option.splits prod.splits)

section \<open>What the runtime relies on when the store is shared\<close>

text \<open>
  A weaker contract than \<open>call_store\<close>: an operation takes the store from good to good and changes calls
  only as the runtime does, possibly more than one of them, since others act on the store too, and also
  when it reports an error. A store that keeps the contract of the in-process one keeps this one.
\<close>

locale shared_store =
  fixes st :: "'s Store"
    and calls :: "'s \<Rightarrow> string \<Rightarrow> Call option"
    and good :: "'s \<Rightarrow> bool"
  assumes get_missing: "good s \<Longrightarrow> st_Get st Background cid s = Inl CallNotFound \<Longrightarrow> calls s cid = None"
    and put_keeps: "good s \<Longrightarrow> call_ok c \<Longrightarrow> c_State c = StateRinging \<Longrightarrow> calls s (c_ID c) = None \<Longrightarrow>
      st_Put st ctx c s = (s', e) \<Longrightarrow> good s' \<and> changes\<^sup>*\<^sup>* (calls s) (calls s')"
    and update_keeps: "good s \<Longrightarrow> runtime_fn cid fn \<Longrightarrow> st_Update st ctx cid fn s = (s', r) \<Longrightarrow>
      good s' \<and> changes\<^sup>*\<^sup>* (calls s) (calls s')"
begin

text \<open>A step of the runtime.\<close>

lemma step_keeps:
  assumes "call_step st r r'" "good (sv_store (rt_svc r))"
  shows "good (sv_store (rt_svc r')) \<and> changes\<^sup>*\<^sup>* (calls (sv_store (rt_svc r))) (calls (sv_store (rt_svc r')))"
proof -
  have U: "good (fst (st_Update st ctx cid fn s)) \<and> changes\<^sup>*\<^sup>* (calls s) (calls (fst (st_Update st ctx cid fn s)))"
    if "good s" "runtime_fn cid fn" for ctx cid fn s
    using update_keeps [OF that] by (metis prod.collapse)
  show ?thesis
    using assms(1)
  proof cases
    case (create id1 ctx now id2 inp)
    let ?c = "new_call now (''call_'' @ id1) (''room_'' @ id2) inp"
    show ?thesis
    proof (cases "create_check inp")
      case None
      have "call_ok ?c" "c_State ?c = StateRinging" using new_call_ok [OF None] by (simp_all add: new_call_def)
      moreover have "calls (sv_store (rt_svc r)) (c_ID ?c) = None"
        using get_missing [OF assms(2)] create(2) by (simp add: Get_def new_call_def)
      ultimately show ?thesis
        using put_keeps [OF assms(2)] create(1) None by (simp add: Create_store) (metis prod.collapse)
    next
      case (Some e)
      then show ?thesis using create(1) assms(2) by (simp add: Create_store)
    qed
  qed (simp_all add: op_stores timeout_store U assms(2) runtime_fn.intros)
qed

end

sublocale call_store \<subseteq> shared: shared_store st lookup
  "\<lambda>s. invar s \<and> (\<forall>cid c. lookup s cid = Some c \<longrightarrow> call_ok c)"
proof (unfold_locales, goal_cases)
  case (1 s cid)
  then show ?case by (simp add: get_background split: option.splits)
next
  case (2 s c ctx s' e)
  show ?case
  proof (cases e)
    case None
    then have l: "lookup s' = (lookup s)(c_ID c \<mapsto> c)" "invar s'" using put_ok [of s c ctx s'] 2 by blast+
    have "changes (lookup s) (lookup s')" unfolding l(1) changes_def using 2(2-4) by blast
    with l 2(1,2) show ?thesis by auto
  next
    case (Some x)
    then show ?thesis using put_err 2(1,5) by blast
  qed
next
  case (3 s cid fn ctx s' r)
  have inv: "invar s" and ok: "\<forall>i x. lookup s i = Some x \<longrightarrow> call_ok x \<and> c_ID x = i" using 3(1) lookup_id by blast+
  show ?case
  proof (cases rule: update_cases [OF inv runtime_fn_well_behaved [OF 3(2)] 3(3)])
    case (1 c c')
    then have "changes (lookup s) (lookup s')" unfolding changes_def updates_def using 3(2) by blast
    with 1(5) changes_ok [OF this ok] show ?thesis by blast
  next
    case (2 e)
    with ok show ?thesis by simp
  qed
qed

section \<open>The store\<close>

text \<open>A context that is done shows as a command that fails.\<close>

definition redis_store :: "'r Redis \<Rightarrow> (nat \<Rightarrow> 'r \<Rightarrow> 'r) \<Rightarrow> 'r Store" where
  "redis_store R env = \<lparr>
     st_Put = (\<lambda>_. redis_Put R),
     st_Get = (\<lambda>_. redis_Get R),
     st_Update = (\<lambda>_. redis_Update R env),
     st_ActiveCallIDsForUser = (\<lambda>_ appID userID s. fst (redis_ActiveCallIDsForUser R appID userID s))\<rparr>"

text \<open>
  What a failing command may have done: a transaction ran as a whole or not at all, a pipeline ran some
  of its commands in order; the error for a missing call is the server's own.
\<close>

definition redis_failures :: "'r Redis \<Rightarrow> ('r \<Rightarrow> data) \<Rightarrow> bool" where
  "redis_failures R view \<longleftrightarrow>
     (\<forall>w k cs s s' e. rd_TxExec R w k cs s = (s', Some e) \<longrightarrow>
        view s' = view s \<or> strings (view s) k = strings (view w) k \<and> view s' = run_cmds cs (view s)) \<and>
     (\<forall>cs s s' e. rd_Pipeline R cs s = (s', Some e) \<longrightarrow> (\<exists>cs'. subseq cs' cs \<and> view s' = run_cmds cs' (view s))) \<and>
     (\<forall>k s. rd_Get R k s \<noteq> Inl CallNotFound)"

section \<open>The calls in the data\<close>

definition stored_calls :: "data \<Rightarrow> string \<Rightarrow> Call option" where
  "stored_calls d cid =
     (case strings d (call_key cid) of
        None \<Rightarrow> None
      | Some j \<Rightarrow> (case dec_call j of Inl _ \<Rightarrow> None | Inr c \<Rightarrow> Some c))"

definition calls_ok :: "data \<Rightarrow> bool" where
  "calls_ok d \<longleftrightarrow> (\<forall>cid j. strings d (call_key cid) = Some j \<longrightarrow> (\<exists>c. dec_call j = Inr c \<and> c_ID c = cid \<and> call_ok c))"

text \<open>What nodes promise each other: from good data to good data, by the changes of the runtime.\<close>

definition promise :: "data \<Rightarrow> data \<Rightarrow> bool" where
  "promise d d' \<longleftrightarrow> calls_ok d \<longrightarrow> calls_ok d' \<and> changes\<^sup>*\<^sup>* (stored_calls d) (stored_calls d')"

lemma promise_refl [simp]: "promise d d"
  by (simp add: promise_def)

lemma promise_trans: "promise d d' \<Longrightarrow> promise d' d'' \<Longrightarrow> promise d d''"
  unfolding promise_def by (meson rtranclp_trans)

lemma calls_okD: "calls_ok d \<Longrightarrow> stored_calls d cid = Some c \<Longrightarrow> call_ok c \<and> c_ID c = cid"
  by (fastforce simp: stored_calls_def calls_ok_def split: option.splits sum.splits)

lemma call_key_inject [simp]: "call_key a = call_key b \<longleftrightarrow> a = b"
  by (simp add: call_key_def)

text \<open>Writing one call.\<close>

lemma write_promise:
  assumes "calls_ok d \<Longrightarrow> changes (stored_calls d) ((stored_calls d)(c_ID c \<mapsto> c))"
    and "strings d' = (strings d)(call_key (c_ID c) := Some (enc_call c))"
  shows "promise d d'"
  unfolding promise_def
proof
  assume ok: "calls_ok d"
  have calls: "stored_calls d' = (stored_calls d)(c_ID c \<mapsto> c)"
    by (rule ext) (simp add: stored_calls_def assms(2))
  have "\<forall>i x. ((stored_calls d)(c_ID c \<mapsto> c)) i = Some x \<longrightarrow> call_ok x"
    using changes_ok [OF assms(1) [OF ok]] calls_okD [OF ok] by blast
  then have "call_ok c" by (meson fun_upd_same)
  with ok have "calls_ok d'" by (simp add: calls_ok_def assms(2))
  with assms(1) [OF ok] show "calls_ok d' \<and> changes\<^sup>*\<^sup>* (stored_calls d) (stored_calls d')" unfolding calls by auto
qed

lemma same_strings_promise: "strings d' = strings d \<Longrightarrow> promise d d'"
  by (simp add: promise_def calls_ok_def stored_calls_def [abs_def])

lemma subseq_Cons_cases:
  assumes "subseq ys (x # xs)"
  shows "subseq ys xs \<or> (\<exists>zs. ys = x # zs \<and> subseq zs xs)"
  using assms by (cases rule: list_emb.cases) auto

lemma index_cmds_strings:
  assumes "\<forall>c \<in> set cs. \<forall>k v e. c \<noteq> CSet k v e"
  shows "strings (run_cmds cs d) = strings d"
  using assms
proof (induction cs arbitrary: d)
  case (Cons c cs)
  then show ?case by (cases c) auto
qed simp

lemma redis_store_simps [simp]:
  "st_Put (redis_store R env) ctx = redis_Put R" "st_Get (redis_store R env) ctx = redis_Get R"
  "st_Update (redis_store R env) ctx = redis_Update R env"
  by (simp_all add: redis_store_def)

lemma plain_redis_failures: "redis_failures plain_redis (\<lambda>d. d)"
  by (auto simp: redis_failures_def plain_redis_def split: if_splits)

section \<open>One operation of the store on Redis\<close>

text \<open>A node: Redis as documented, and other nodes that keep the promise wherever they can act.\<close>

locale redis_cluster =
  fixes R :: "'r Redis" and view :: "'r \<Rightarrow> data" and env :: "nat \<Rightarrow> 'r \<Rightarrow> 'r"
  assumes redis: "redis_ok R view"
    and failures: "redis_failures R view"
    and rely: "promise (view s) (view (env n s))"

begin

lemma attempt_promise:
  assumes fn: "runtime_fn cid fn"
    and a: "redis_attempt R (call_key cid) fn w s = (s', r)"
  shows "promise (view s) (view s')"
proof (cases "\<exists>j c c'. rd_Get R (call_key cid) w = Inr (Some j) \<and> dec_call j = Inr c \<and> fn c = (c', None)")
  case False
  then have "s' = s" using a by (auto simp: redis_attempt_def split: sum.splits option.splits prod.splits)
  then show ?thesis by simp
next
  case True
  then obtain j c c' where g: "rd_Get R (call_key cid) w = Inr (Some j)" "dec_call j = Inr c" "fn c = (c', None)" by blast
  obtain s1 e where x: "rd_TxExec R w (call_key cid) (store_cmds (call_key cid) c') s = (s1, e)" by fastforce
  have s1: "s' = s1" using a g x by (auto simp: redis_attempt_def split: option.splits)
  have "view s1 = view s \<or> strings (view s) (call_key cid) = strings (view w) (call_key cid) \<and>
      view s1 = run_cmds (store_cmds (call_key cid) c') (view s)"
    using x failures redis_okD(6) [OF redis] unfolding redis_failures_def by (cases e) blast+
  then show ?thesis
  proof
    assume w: "strings (view s) (call_key cid) = strings (view w) (call_key cid) \<and>
      view s1 = run_cmds (store_cmds (call_key cid) c') (view s)"
    then have j: "strings (view s) (call_key cid) = Some j" using redis_okD(1) [OF redis g(1)] by simp
    have id: "c_ID c' = c_ID c"
      using runtime_fn_evolves [OF fn g(3)] by (simp add: evolves_def keeps_identity_def)
    have "promise (view s) (view s1)" if ok: "calls_ok (view s)"
    proof (rule write_promise)
      have L: "stored_calls (view s) cid = Some c" "c_ID c = cid"
        using j g(2) calls_okD [OF ok, of cid c] by (simp_all add: stored_calls_def)
      show "changes (stored_calls (view s)) ((stored_calls (view s))(c_ID c' \<mapsto> c'))"
        unfolding changes_def updates_def id L(2) using fn L(1) g(3) by blast
      show "strings (view s1) = (strings (view s))(call_key (c_ID c') := Some (enc_call c'))"
        using w id L(2) by (simp add: store_cmds_effect)
    qed
    then show ?thesis unfolding s1 promise_def by blast
  qed (simp add: s1)
qed

lemma attempts_promise:
  assumes "runtime_fn cid fn"
  shows "promise (view s) (view (fst (redis_attempts R (call_key cid) fn env i n s)))"
proof (induction n arbitrary: i s)
  case (Suc n)
  let ?w = "env (2 * i) s"
  let ?x = "env (2 * i + 1) ?w"
  obtain s1 r1 where a: "redis_attempt R (call_key cid) fn ?w ?x = (s1, r1)" by fastforce
  have p: "promise (view s) (view s1)"
    using attempt_promise [OF assms a] rely promise_trans by blast
  then have "promise (view s) (view (fst (redis_attempts R (call_key cid) fn env (Suc i) n s1)))"
    using Suc promise_trans by blast
  with p a show ?case by (auto simp: Let_def split: sum.splits)
qed simp

text \<open>A new call is written as a whole or not at all, also when the pipeline fails half-way.\<close>

lemma Put_promise:
  assumes "call_ok c" "c_State c = StateRinging"
    and "stored_calls (view s) (c_ID c) = None"
  shows "promise (view s) (view (fst (redis_Put R c s)))"
proof -
  obtain s' e where p: "rd_Pipeline R (store_cmds (call_key (c_ID c)) c) s = (s', e)" by fastforce
  let ?cs = "store_cmds (call_key (c_ID c)) c"
  obtain cs where cs: "subseq cs ?cs" "view s' = run_cmds cs (view s)"
    using p redis_okD(5) [OF redis] failures unfolding redis_failures_def by (cases e) blast+
  let ?ix = "tl ?cs"
  have head: "?cs = CSet (call_key (c_ID c)) (enc_call c) callExpiry # ?ix" by (simp add: store_cmds_def)
  have ix: "\<forall>x \<in> set ?ix. \<forall>k v e. x \<noteq> CSet k v e" by (auto simp: store_cmds_def Let_def)
  have idx: "strings (run_cmds zs d) = strings d" if "subseq zs ?ix" for zs d
    using ix list_emb_set [OF that] by (intro index_cmds_strings) blast
  from cs(1) head have "subseq cs ?ix \<or> (\<exists>zs. cs = CSet (call_key (c_ID c)) (enc_call c) callExpiry # zs \<and> subseq zs ?ix)"
    using subseq_Cons_cases by metis
  then have "strings (view s') = strings (view s) \<or>
      strings (view s') = (strings (view s))(call_key (c_ID c) := Some (enc_call c))"
    unfolding cs(2) using idx by fastforce
  moreover have "changes (stored_calls (view s)) ((stored_calls (view s))(c_ID c \<mapsto> c))"
    using assms unfolding changes_def by blast
  ultimately show ?thesis
    using p same_strings_promise write_promise by (auto simp: redis_Put_def)
qed

lemma Get_not_found:
  assumes "calls_ok (view s)" "redis_Get R cid s = Inl CallNotFound"
  shows "stored_calls (view s) cid = None"
proof (cases "rd_Get R (call_key cid) s")
  case (Inl e)
  with assms(2) failures show ?thesis by (auto simp: redis_Get_def redis_failures_def)
next
  case (Inr v)
  then have "strings (view s) (call_key cid) = v" using redis_okD(1) [OF redis] by blast
  moreover have False if "v = Some j" for j
  proof -
    obtain c where "dec_call j = Inr c" using calculation assms(1) \<open>v = Some j\<close> unfolding calls_ok_def by blast
    then show False using assms(2) Inr \<open>v = Some j\<close> by (simp add: redis_Get_def)
  qed
  ultimately show ?thesis by (cases v) (simp_all add: stored_calls_def)
qed

end

sublocale redis_cluster \<subseteq> shared_store "redis_store R env" "\<lambda>s. stored_calls (view s)" "\<lambda>s. calls_ok (view s)"
proof (unfold_locales, goal_cases)
  case (1 s cid)
  then show ?case using Get_not_found by simp
next
  case (2 s c ctx s' e)
  then show ?case using Put_promise [of c s] by (auto simp: promise_def)
next
  case (3 s cid fn ctx s' r)
  then show ?case using attempts_promise [of cid fn s 0 maxRetries] by (auto simp: promise_def redis_Update_def)
qed

context redis_cluster
begin

text \<open>
  The promise of a node: whatever the others do within theirs, and whether its commands succeed or
  not, a step of its runtime keeps it.
\<close>

lemma node_step_promise:
  "call_step (redis_store R env) r r' \<Longrightarrow> promise (view (sv_store (rt_svc r))) (view (sv_store (rt_svc r')))"
  using step_keeps unfolding promise_def by blast

end

interpretation plain_cluster: redis_cluster plain_redis "\<lambda>d. d" "\<lambda>_ s. s"
  by unfold_locales (simp_all add: plain_redis_ok plain_redis_failures)

section \<open>The cluster\<close>

text \<open>
  A node with the shared data as its store: its own steps, and what the others do in between. The
  behaviour of the others during an update may differ from step to step.
\<close>

inductive node_steps :: "'r Redis \<Rightarrow> ('r \<Rightarrow> data) \<Rightarrow> 'r Runtime \<Rightarrow> 'r Runtime \<Rightarrow> bool" for R view where
  start: "node_steps R view r r"
| own: "node_steps R view r r' \<Longrightarrow> (\<And>n s. promise (view s) (view (env n s))) \<Longrightarrow>
     call_step (redis_store R env) r' r'' \<Longrightarrow> node_steps R view r r''"
| others: "node_steps R view r r' \<Longrightarrow> promise (view (sv_store (rt_svc r'))) (view s) \<Longrightarrow>
     node_steps R view r (r'\<lparr>rt_svc := (rt_svc r')\<lparr>sv_store := s\<rparr>\<rparr>)"

lemma node_steps_promise:
  assumes "redis_ok R view" "redis_failures R view" "node_steps R view r r'"
  shows "promise (view (sv_store (rt_svc r))) (view (sv_store (rt_svc r')))"
  using assms(3)
proof induction
  case (own r r' env r'')
  with redis_cluster.node_step_promise [OF redis_cluster.intro [OF assms(1,2) own.hyps(2)] own.hyps(3)]
  show ?case using promise_trans by blast
qed (auto intro: promise_trans)

lemma changes_trans_evolves:
  "changes\<^sup>*\<^sup>* L L' \<Longrightarrow> L cid = Some c \<Longrightarrow> \<exists>c'. L' cid = Some c' \<and> evolves c c'"
proof (induction rule: rtranclp_induct)
  case (step L' L'')
  then show ?case by (meson changes_evolves evolves_trans)
qed simp

section \<open>Properties\<close>

text \<open>
  C15. A node of a cluster keeps its promise to the others: when Redis is as documented, and whatever the
  other nodes do to the data within the same promise, at every point where they can, a step of the
  runtime on the store on Redis leaves every stored call readable, filed under its id and well
  formed, and changes calls only by creating one or by applying an operation of the runtime to one. This
  holds also when a command fails and leaves open whether it ran.
\<close>

theorem cluster_node_keeps_promise:
  assumes "redis_ok R view" "redis_failures R view"
    and "\<forall>n s. promise (view s) (view (env n s))" "call_step (redis_store R env) r r'"
    and "calls_ok (view (sv_store (rt_svc r)))"
  shows "calls_ok (view (sv_store (rt_svc r'))) \<and>
    changes\<^sup>*\<^sup>* (stored_calls (view (sv_store (rt_svc r)))) (stored_calls (view (sv_store (rt_svc r'))))"
  using redis_cluster.node_step_promise [OF redis_cluster.intro [OF assms(1,2)] assms(4)] assms(3,5) by (auto simp: promise_def)

text \<open>
  C16. On a cluster ended calls stay ended: from data in which every call is well formed, whatever the
  node and the others do, no call is lost, its identity, creation and start never change, and a call
  that is over keeps its state, end time and reason.
\<close>

theorem cluster_ended_calls_stay_ended:
  assumes "redis_ok R view" "redis_failures R view" "node_steps R view r r'"
    and "calls_ok (view (sv_store (rt_svc r)))" "stored_calls (view (sv_store (rt_svc r))) cid = Some c"
  shows "\<exists>c'. stored_calls (view (sv_store (rt_svc r'))) cid = Some c' \<and> call_ok c' \<and> c_ID c' = cid \<and>
    c_CallerID c' = c_CallerID c \<and> c_RoomID c' = c_RoomID c \<and> c_CreatedAt c' = c_CreatedAt c \<and>
    (IsTerminal c \<longrightarrow> c_State c' = c_State c \<and> c_EndedAt c' = c_EndedAt c \<and> c_Reason c' = c_Reason c)"
proof -
  have "calls_ok (view (sv_store (rt_svc r'))) \<and>
      changes\<^sup>*\<^sup>* (stored_calls (view (sv_store (rt_svc r)))) (stored_calls (view (sv_store (rt_svc r'))))"
    using node_steps_promise [OF assms(1-3)] assms(4) by (simp add: promise_def)
  then have ok: "calls_ok (view (sv_store (rt_svc r')))"
    and steps: "changes\<^sup>*\<^sup>* (stored_calls (view (sv_store (rt_svc r)))) (stored_calls (view (sv_store (rt_svc r'))))" by simp_all
  obtain c' where c': "stored_calls (view (sv_store (rt_svc r'))) cid = Some c'" "evolves c c'"
    using changes_trans_evolves [OF steps, of cid c] assms(5) by blast
  with calls_okD [OF ok c'(1)] show ?thesis by (simp add: evolves_def)
qed

definition cluster_input :: CreateInput where
  "cluster_input = \<lparr>in_AppID = ''app'', in_CallerID = ''u'', in_CallerDevice = ''d'', in_CalleeIDs = [''v''],
     in_Type = [], in_Mode = [], in_CallerName = []\<rparr>"

definition cluster_call :: Call where
  "cluster_call = new_call 1 ''call_1'' ''room_1'' cluster_input"

definition cluster_cancelled :: Call where
  "cluster_cancelled = fst (cancel_fn 5 ''u'' cluster_call)"

definition cluster_data :: data where
  "cluster_data = no_data\<lparr>strings := [call_key ''call_1'' \<mapsto> enc_call cluster_cancelled]\<rparr>"

lemma cluster_check: "create_check cluster_input = None"
  by (simp add: cluster_input_def create_check_def create_type_def create_mode_def)

lemma cluster_cancelled_fields:
  "call_ok cluster_cancelled" "c_ID cluster_cancelled = ''call_1''" "c_State cluster_cancelled = StateCancelled"
proof -
  have f: "cancel_fn 5 ''u'' cluster_call = (cluster_cancelled, None)" "c_ID cluster_cancelled = ''call_1''"
    "c_State cluster_cancelled = StateCancelled"
    by (simp_all add: cluster_cancelled_def cancel_fn_def cluster_call_def new_call_def cluster_input_def IsTerminal_def)
  have "call_ok cluster_call" using new_call_ok [OF cluster_check] by (simp add: cluster_call_def)
  with f show "call_ok cluster_cancelled" "c_ID cluster_cancelled = ''call_1''" "c_State cluster_cancelled = StateCancelled"
    using call_ok_cancel by blast+
qed

text \<open>A node creates a call on empty data.\<close>

theorem cluster_node_keeps_promise_witness:
  "calls_ok (sv_store (fst (Create (redis_store plain_redis (\<lambda>_ s. s)) None 1 ''1'' ''1'' cluster_input
     (rt_svc (new_runtime no_data None 0)))))"
proof -
  let ?st = "redis_store plain_redis (\<lambda>_ s. s)" and ?r = "new_runtime no_data None 0"
  have g: "Get ?st Background (''call_'' @ ''1'') (rt_svc ?r) = Inl CallNotFound"
    by (simp add: Get_def redis_Get_def plain_redis_def new_runtime_def NewService_def SetRingTimeoutHandler_def no_data_def)
  have ok: "calls_ok (sv_store (rt_svc ?r))"
    by (simp add: calls_ok_def new_runtime_def NewService_def SetRingTimeoutHandler_def no_data_def)
  have "\<forall>n s. promise s ((\<lambda>_ s. s) n s)" by simp
  from cluster_node_keeps_promise [OF plain_redis_ok plain_redis_failures this call_step.create [OF g] ok]
  show ?thesis by simp
qed

text \<open>Connecting to a cancelled call leaves it cancelled.\<close>

theorem cluster_ended_calls_stay_ended_witness:
  "\<exists>c'. stored_calls (sv_store (fst (MarkConnected (redis_store plain_redis (\<lambda>_ s. s)) None 9 ''call_1'' ''v''
     (rt_svc (new_runtime cluster_data None 0))))) ''call_1'' = Some c' \<and> c_State c' = StateCancelled"
proof -
  let ?st = "redis_store plain_redis (\<lambda>_ s. s)" and ?r = "new_runtime cluster_data None 0"
  have s: "sv_store (rt_svc ?r) = cluster_data"
    by (simp add: new_runtime_def NewService_def SetRingTimeoutHandler_def)
  have ok: "calls_ok (sv_store (rt_svc ?r))" "stored_calls (sv_store (rt_svc ?r)) ''call_1'' = Some cluster_cancelled"
    using cluster_cancelled_fields unfolding s by (auto simp: calls_ok_def stored_calls_def cluster_data_def no_data_def)
  have "node_steps plain_redis (\<lambda>d. d) ?r (?r\<lparr>rt_svc := fst (MarkConnected ?st None 9 ''call_1'' ''v'' (rt_svc ?r))\<rparr>)"
    by (rule node_steps.own [OF node_steps.start _ call_step.connected]) simp
  from cluster_ended_calls_stay_ended [OF plain_redis_ok plain_redis_failures this ok]
  show ?thesis using cluster_cancelled_fields(3) by (auto simp: IsTerminal_def)
qed

end
