(* ===== verification/Startup.thy ===== *)
theory Startup
  imports ProviderProps External LiveKit ApiProps RedisStores Cluster
begin

text \<open>
  How the process is put together (\<open>cmd/mgl-push/main.go\<close>): which push provider stands behind which
  name, the authorizer, media provider and orchestrator made of the configuration, the authenticator, and
  the handler of ring timeouts that ties the call runtime to the push pipeline, and what the hub is
  built with, on one node and on a cluster. Connecting, listening and shutting down are in the theory
  \<open>Process\<close>.
\<close>

section \<open>Providers (registerProviders)\<close>

text \<open>
  A registered provider with its state. The one for VoIP pushes shares the APNs provider: it is registered
  as another name for it.
\<close>

datatype Vendor =
    VHuawei Huawei | VXiaomi XiaomiConfig | VOppo Oppo | VVivo Vivo | VFcm FcmClient | VApns Apns
  | VNamed string | VNoop Noop

text \<open>What the libraries make of a key and of a file with credentials.\<close>

record 'app Loaders =
  ld_key :: KeyFiles
  ld_newApp :: "string \<Rightarrow> error + 'app"
  ld_messaging :: "'app \<Rightarrow> error + FcmClient"

definition or_noop :: "string \<Rightarrow> error + Vendor \<Rightarrow> Vendor" where
  "or_noop name r = (case r of Inl _ \<Rightarrow> VNoop (noop_New name) | Inr v \<Rightarrow> v)"

definition huawei_vendor :: "Config \<Rightarrow> Vendor" where
  "huawei_vendor cfg =
     (if cf_HuaweiAppID cfg \<noteq> '''' \<and> cf_HuaweiAppSecret cfg \<noteq> ''''
      then or_noop ProviderHuawei (sum_bind (huawei_New \<lparr>hw_AppID = cf_HuaweiAppID cfg,
             hw_AppSecret = cf_HuaweiAppSecret cfg, hw_TokenURL = '''', hw_PushURL = ''''\<rparr>) (Inr \<circ> VHuawei))
      else VNoop (noop_New ProviderHuawei))"

definition xiaomi_vendor :: "Config \<Rightarrow> Vendor" where
  "xiaomi_vendor cfg =
     (if cf_XiaomiAppSecret cfg \<noteq> ''''
      then or_noop ProviderXiaomi (sum_bind (xiaomi_New \<lparr>xm_AppSecret = cf_XiaomiAppSecret cfg,
             xm_PackageName = cf_XiaomiPackageName cfg, xm_SendURL = ''''\<rparr>) (Inr \<circ> VXiaomi))
      else VNoop (noop_New ProviderXiaomi))"

definition oppo_vendor :: "Config \<Rightarrow> Vendor" where
  "oppo_vendor cfg =
     (if cf_OppoAppKey cfg \<noteq> '''' \<and> cf_OppoMasterSecret cfg \<noteq> ''''
      then or_noop ProviderOppo (sum_bind (oppo_New \<lparr>op_AppKey = cf_OppoAppKey cfg,
             op_MasterSecret = cf_OppoMasterSecret cfg, op_Host = ''''\<rparr>) (Inr \<circ> VOppo))
      else VNoop (noop_New ProviderOppo))"

definition vivo_vendor :: "Config \<Rightarrow> Vendor" where
  "vivo_vendor cfg =
     (if cf_VivoAppID cfg \<noteq> '''' \<and> cf_VivoAppKey cfg \<noteq> '''' \<and> cf_VivoAppSecret cfg \<noteq> ''''
      then or_noop ProviderVivo (sum_bind (vivo_New \<lparr>vv_AppID = cf_VivoAppID cfg, vv_AppKey = cf_VivoAppKey cfg,
             vv_AppSecret = cf_VivoAppSecret cfg, vv_Host = '''', vv_PushMode = 0\<rparr>) (Inr \<circ> VVivo))
      else VNoop (noop_New ProviderVivo))"

definition fcm_vendor :: "'app Loaders \<Rightarrow> Config \<Rightarrow> Vendor" where
  "fcm_vendor ld cfg =
     (if cf_FCMCredentialsFile cfg \<noteq> ''''
      then or_noop ProviderFCM (sum_bind (fcm_NewFromCredentialsFile (ld_newApp ld) (ld_messaging ld) (cf_FCMCredentialsFile cfg)) (Inr \<circ> VFcm))
      else VNoop (noop_New ProviderFCM))"

definition apns_vendors :: "'app Loaders \<Rightarrow> Config \<Rightarrow> (string \<times> Vendor) list" where
  "apns_vendors ld cfg =
     (let noops = [(ProviderAPNs, VNoop (noop_New ProviderAPNs)), (ProviderAPNsVoIP, VNoop (noop_New ProviderAPNsVoIP))]
      in if cf_APNsTeamID cfg \<noteq> '''' \<and> cf_APNsKeyID cfg \<noteq> '''' \<and> cf_APNsPrivateKey cfg \<noteq> '''' \<and> cf_APNsBundleID cfg \<noteq> ''''
         then case apns_New (ld_key ld) \<lparr>ax_TeamID = cf_APNsTeamID cfg, ax_KeyID = cf_APNsKeyID cfg,
                      ax_BundleID = cf_APNsBundleID cfg, ax_PrivateKey = cf_APNsPrivateKey cfg,
                      ax_Production = cf_APNsProduction cfg\<rparr> of
                Inl _ \<Rightarrow> noops
              | Inr p \<Rightarrow> [(ProviderAPNs, VApns p), (ProviderAPNsVoIP, VNamed ProviderAPNs)]
         else noops)"

definition registerProviders :: "'app Loaders \<Rightarrow> Config \<Rightarrow> (string \<times> Vendor) list" where
  "registerProviders ld cfg =
     [(ProviderHuawei, huawei_vendor cfg), (ProviderXiaomi, xiaomi_vendor cfg), (ProviderOppo, oppo_vendor cfg),
      (ProviderVivo, vivo_vendor cfg), (ProviderFCM, fcm_vendor ld cfg)] @ apns_vendors ld cfg"

text \<open>Sending through a registered provider, in the environments of the vendors.\<close>

record VendorEnv =
  vn_http :: HttpClient
  vn_sha256 :: "string \<Rightarrow> string"
  vn_md5 :: "string \<Rightarrow> string"
  vn_newID :: string

definition oppo_env :: "VendorEnv \<Rightarrow> OppoEnv" where
  "oppo_env env = \<lparr>oe_http = vn_http env, oe_sha256 = vn_sha256 env\<rparr>"

definition vivo_env :: "VendorEnv \<Rightarrow> VivoEnv" where
  "vivo_env env = \<lparr>ve_http = vn_http env, ve_md5 = vn_md5 env, ve_newID = vn_newID env\<rparr>"

fun vendor_Send :: "VendorEnv \<Rightarrow> gotime \<Rightarrow> Message \<Rightarrow> Device \<Rightarrow> Vendor \<Rightarrow> Vendor \<times> (error + SendResult option)" where
  "vendor_Send env now m d (VHuawei p) = map_prod VHuawei id (huawei_Send (vn_http env) now m d p)"
| "vendor_Send env now m d (VXiaomi p) = map_prod VXiaomi id (xiaomi_Send (vn_http env) now m d p)"
| "vendor_Send env now m d (VOppo p) = map_prod VOppo id (oppo_Send (oppo_env env) now m d p)"
| "vendor_Send env now m d (VVivo p) = map_prod VVivo id (vivo_Send (vivo_env env) now m d p)"
| "vendor_Send env now m d (VFcm c) = (VFcm c, fcm_Send (Some c) m d)"
| "vendor_Send env now m d (VApns p) = map_prod VApns id (apns_Send (vn_http env) now m d p)"
| "vendor_Send env now m d (VNoop p) = map_prod VNoop id (noop_Send m d p)"
| "vendor_Send env now m d (VNamed n) = (VNamed n, Inl nil_pointer)"

text \<open>
  The registry: the provider under a name, a shared one under the name it stands for. The new state of
  the provider that was used is kept there.
\<close>

definition resolve_name :: "(string \<times> Vendor) list \<Rightarrow> string \<Rightarrow> string" where
  "resolve_name vs n = (case map_of vs n of Some (VNamed n') \<Rightarrow> n' | _ \<Rightarrow> n)"

definition registry_Send ::
    "VendorEnv \<Rightarrow> gotime \<Rightarrow> string \<Rightarrow> Message \<Rightarrow> Device \<Rightarrow> (string \<times> Vendor) list \<Rightarrow>
     (string \<times> Vendor) list \<times> (error + SendResult option) option" where
  "registry_Send env now name m d vs =
     (let n = resolve_name vs name
      in case map_of vs n of
           None \<Rightarrow> (vs, None)
         | Some v \<Rightarrow> (case vendor_Send env now m d v of (v, r) \<Rightarrow> (AList.update n v vs, Some r)))"

section \<open>The rest of the wiring (main)\<close>

definition sfu_of :: "JwtCodec \<Rightarrow> gotime \<Rightarrow> Config \<Rightarrow> SfuService" where
  "sfu_of codec now cfg =
     sfu_NewService
       (if cf_LiveKitAPIKey cfg \<noteq> '''' \<and> cf_LiveKitAPISecret cfg \<noteq> ''''
        then livekit_New codec now (cf_LiveKitURL cfg) (cf_LiveKitAPIKey cfg) (cf_LiveKitAPISecret cfg)
        else NewStub (cf_LiveKitURL cfg))
       (cf_ICEServers cfg)"

definition validator_of :: "Config \<Rightarrow> JWTValidator" where
  "validator_of cfg = NewJWTValidator (cf_JWTSecret cfg) (cf_JWTIssuer cfg)"

definition orchestrator_of :: "HttpClient \<Rightarrow> JwtCodec \<Rightarrow> gotime \<Rightarrow> Config \<Rightarrow> Orchestrator" where
  "orchestrator_of http codec now cfg =
     \<lparr>or_Authz = Some (phoenix_NewFromConfig http (cf_PhoenixBaseURL cfg) (cf_PhoenixToken cfg) (cf_PhoenixTimeout cfg)),
       or_SFU = Some (sfu_of codec now cfg), or_JWT = validator_of cfg, or_TokenTTL = cf_CallTokenTTL cfg,
       or_ICEServers = cf_ICEServers cfg\<rparr>"

definition authenticator_of :: "Config \<Rightarrow> Authenticator" where
  "authenticator_of cfg = WithJWT (validator_of cfg) (auth_New (map_of (cf_ServiceTokens cfg)))"

text \<open>
  The stores follow the address of Redis: without one everything is in process and the oplog keeps
  nothing, with one the calls and an oplog of three minutes are on Redis and events go over its bus.
\<close>

definition runtime_of :: "Config \<Rightarrow> 's \<Rightarrow> 's Service" where
  "runtime_of cfg store = SetRingTimeoutHandler (NewService store (Some (NewBus 512)) (cf_CallRingTimeout cfg))"

definition hub_deps_of ::
    "HttpClient \<Rightarrow> JwtCodec \<Rightarrow> JwtLib \<Rightarrow> gotime \<Rightarrow> Config \<Rightarrow> (MemoryStore, unit) HubDeps" where
  "hub_deps_of http codec lib now cfg =
     \<lparr>hd_st = memory_store, hd_lib = lib, hd_jwt = validator_of cfg, hd_orch = orchestrator_of http codec now cfg,
       hd_oplog = Some NoOpStore, hd_bus = True, hd_incoming = True, hd_redis = None\<rparr>"

definition redis_hub_deps_of ::
    "'r Redis \<Rightarrow> (nat \<Rightarrow> 'r \<Rightarrow> 'r) \<Rightarrow> (string \<Rightarrow> json Event \<Rightarrow> error option) \<Rightarrow> HttpClient \<Rightarrow> JwtCodec \<Rightarrow> JwtLib \<Rightarrow>
     gotime \<Rightarrow> Config \<Rightarrow> ('r, 'r) HubDeps" where
  "redis_hub_deps_of R env client http codec lib now cfg =
     \<lparr>hd_st = redis_store R env, hd_lib = lib, hd_jwt = validator_of cfg, hd_orch = orchestrator_of http codec now cfg,
       hd_oplog = Some (redis_oplog R (3 * Minute)), hd_bus = True, hd_incoming = True,
       hd_redis = Some (redis_bus_Publish client now)\<rparr>"

definition hub_of ::
    "Config \<Rightarrow> (nat \<Rightarrow> string) \<Rightarrow> 's Service \<Rightarrow> PresenceStore \<Rightarrow> 'o \<Rightarrow> ('s, 'o) Hub" where
  "hub_of cfg ids svc presence oplog =
     NewHub (cf_WSMsgPerSec cfg) (cf_CallsPerMinute cfg) ids svc (Some presence) oplog"

text \<open>The handler of a ring timeout: the call as it is stored now is announced as cancelled.\<close>

definition ring_timeout_handler ::
    "'s Store \<Rightarrow> gotime \<Rightarrow> (nat \<Rightarrow> string) \<Rightarrow> string \<Rightarrow> 's Service \<Rightarrow> Incoming \<Rightarrow> Incoming" where
  "ring_timeout_handler st now ids callID svc inc =
     (case Get st Background callID svc of
        Inl _ \<Rightarrow> inc
      | Inr c \<Rightarrow> NotifyCancelled now ids (Some c) ''ring_timeout'' inc)"

section \<open>Lemmas\<close>

lemma vendor_Send_classified: "classified (snd (vendor_Send env now m d v))"
  by (cases v) (simp_all add: apns.send_classified huawei.send_classified oppo.send_classified vivo.send_classified
      xiaomi.send_classified noop.send_classified fcm.send_classified [simplified])

lemma apns_vendors_names: "map fst (apns_vendors ld cfg) = [ProviderAPNs, ProviderAPNsVoIP]"
  by (simp add: apns_vendors_def Let_def split: sum.splits)

lemma registerProviders_names: "map fst (registerProviders ld cfg) = allowedProviders"
  by (simp add: registerProviders_def apns_vendors_names allowedProviders_def)

text \<open>A registry in use: its names are the valid ones, and a shared provider stands for a registered one.\<close>

definition registry_ok :: "(string \<times> Vendor) list \<Rightarrow> bool" where
  "registry_ok vs \<longleftrightarrow> map fst vs = allowedProviders \<and>
     (\<forall>n n'. map_of vs n = Some (VNamed n') \<longrightarrow> n' \<in> set allowedProviders)"

lemma registered_iff: "registry_ok vs \<Longrightarrow> (\<exists>v. map_of vs n = Some v) \<longleftrightarrow> n \<in> set allowedProviders"
  by (metis registry_ok_def domIff dom_map_of_conv_image_fst image_set not_Some_eq)

lemma registry_ok_named:
  assumes "map fst vs = allowedProviders" "\<forall>v \<in> snd ` set vs. \<forall>n. v = VNamed n \<longrightarrow> n \<in> set allowedProviders"
  shows "registry_ok vs"
  using assms unfolding registry_ok_def by (fastforce dest: map_of_SomeD)

lemma or_noop_named: "or_noop n r = VNamed n' \<Longrightarrow> r = Inr (VNamed n')"
  by (auto simp: or_noop_def split: sum.splits)

lemma registerProviders_ok: "registry_ok (registerProviders ld cfg)"
proof (rule registry_ok_named [OF registerProviders_names])
  have "huawei_vendor cfg \<noteq> VNamed n" "xiaomi_vendor cfg \<noteq> VNamed n" "oppo_vendor cfg \<noteq> VNamed n"
    "vivo_vendor cfg \<noteq> VNamed n" "fcm_vendor ld cfg \<noteq> VNamed n" for n
    by (auto simp: huawei_vendor_def xiaomi_vendor_def oppo_vendor_def vivo_vendor_def fcm_vendor_def sum_bind_def
        dest!: or_noop_named split: sum.splits if_splits)
  moreover have "\<forall>v \<in> snd ` set (apns_vendors ld cfg). \<forall>n. v = VNamed n \<longrightarrow> n \<in> set allowedProviders"
    by (auto simp: apns_vendors_def allowedProviders_def Let_def split: sum.splits)
  ultimately show "\<forall>v \<in> snd ` set (registerProviders ld cfg). \<forall>n. v = VNamed n \<longrightarrow> n \<in> set allowedProviders"
    by (auto simp: registerProviders_def)
qed

lemma vendor_Send_named: "vendor_Send env now m d v = (VNamed n, r) \<Longrightarrow> v = VNamed n"
  by (cases v) (auto simp: map_prod_def split: prod.splits)

lemma resolve_name_valid: "registry_ok vs \<Longrightarrow> resolve_name vs n \<in> set allowedProviders \<longleftrightarrow> n \<in> set allowedProviders"
  using registered_iff [of vs n] by (auto simp: resolve_name_def registry_ok_def split: option.splits Vendor.splits)

lemma registry_Send_answer:
  assumes "registry_ok vs"
  shows "if n \<in> set allowedProviders then \<exists>r. snd (registry_Send env now n m d vs) = Some r \<and> classified r
    else registry_Send env now n m d vs = (vs, None)"
proof (cases "map_of vs (resolve_name vs n)")
  case None
  then show ?thesis using registered_iff [OF assms, of "resolve_name vs n"] resolve_name_valid [OF assms]
    by (simp add: registry_Send_def Let_def)
next
  case (Some v)
  moreover from Some have "n \<in> set allowedProviders"
    using registered_iff [OF assms, of "resolve_name vs n"] resolve_name_valid [OF assms] by blast
  ultimately show ?thesis
    using vendor_Send_classified [of env now m d v] by (auto simp: registry_Send_def Let_def split: prod.splits)
qed

lemma registry_Send_ok:
  assumes "registry_ok vs"
  shows "registry_ok (fst (registry_Send env now n m d vs))"
proof (cases "map_of vs (resolve_name vs n)")
  case (Some v)
  let ?n = "resolve_name vs n"
  have "?n \<in> set (map fst vs)" using Some by (force dest: map_of_SomeD)
  then have "map fst (AList.update ?n v' vs) = map fst vs" for v' by (simp add: update_keys)
  then show ?thesis
    using assms Some
    by (auto dest!: vendor_Send_named simp: registry_Send_def registry_ok_def Let_def update_conv' split: prod.splits if_splits)
qed (use assms in \<open>simp add: registry_Send_def Let_def\<close>)

lemma registry_sends_ok: "registry_ok vs \<Longrightarrow>
    registry_ok (fold (\<lambda>(env, now, n, m, d) vs. fst (registry_Send env now n m d vs)) sends vs)"
  by (induction sends arbitrary: vs) (auto intro: registry_Send_ok)

section \<open>Properties\<close>

text \<open>
  C37. Whatever the configuration and whichever keys and files cannot be read, every provider a device
  may register with stands in the registry, and no other, also after any number of pushes: a push for a
  registered device always finds a provider, and its answer is an error or a classified result.
\<close>

theorem every_valid_provider_registered:
  "let vs = fold (\<lambda>(env, now, n, m, d) vs. fst (registry_Send env now n m d vs)) sends (registerProviders ld cfg)
   in map fst vs = allowedProviders \<and>
     (if name \<in> set allowedProviders then \<exists>r. snd (registry_Send env now name m d vs) = Some r \<and> classified r
      else registry_Send env now name m d vs = (vs, None))"
proof -
  have ok: "registry_ok (fold (\<lambda>(env, now, n, m, d) vs. fst (registry_Send env now n m d vs)) sends (registerProviders ld cfg))"
    by (rule registry_sends_ok [OF registerProviders_ok])
  show ?thesis unfolding Let_def
    by (rule conjI [OF conjunct1 [OF ok [unfolded registry_ok_def]] registry_Send_answer [OF ok]])
qed

text \<open>
  Without credentials a vendor is replaced by one that accepts every push with a token, in every
  environment.
\<close>

lemma unconfigured_vendor_accepts:
  assumes "cf_HuaweiAppID cfg = ''''" "d_Token d \<noteq> ''''" "d_Token d \<noteq> ''invalid''"
  shows "\<exists>i. snd (registry_Send env now ProviderHuawei m d (registerProviders ld cfg)) = Some (Inr (Some (accepted i)))"
  using assms by (auto simp: registry_Send_def resolve_name_def registerProviders_def huawei_vendor_def noop_Send_def
      noop_New_def accepted_def Let_def split: prod.splits)

text \<open>The call a ring timeout leaves in the in-process store.\<close>

lemma fire_timeout_Get:
  assumes "ms_calls (sv_store s) cid = Some c" "c_State c = StateRinging"
  shows "Get memory_store Background cid (fire_timeout memory_store now cid s) = Inr (fst (timeout_fn now c))"
  using assms by (simp add: fire_timeout_def mem_op_defs timeout_fn_def Let_def)

lemma SendCallSignal_keys:
  assumes "SendCallSignal now newID inp db = (db', r)" "sc_IdempotencyKey inp \<noteq> ''''"
  defines "k \<equiv> (sc_AppID inp, sc_IdempotencyKey inp)"
  shows "(db_keys db k = None \<or> db_messages db' = db_messages db \<and> db_deliveries db' = db_deliveries db \<and> db_keys db' = db_keys db) \<and>
    (\<forall>res. r = Inr res \<longrightarrow> db_keys db' k \<noteq> None)"
proof -
  let ?p = "push_input (sc_AppID inp) (sc_Type inp) (sc_UserIDs inp) (sc_InstallationIDs inp)
    ((''call_id'', sc_CallID inp) # (if sc_Reason inp \<noteq> '''' then [(''reason'', sc_Reason inp)] else [])) 30 (sc_IdempotencyKey inp)"
  have f: "sm_AppID ?p = sc_AppID inp" "sm_IdempotencyKey ?p = sc_IdempotencyKey inp" by (simp_all add: push_input_def)
  have "db' = db \<and> (\<exists>e. r = Inl e) \<or> Send now newID ?p db = (db', r)"
    using assms(1,2) by (auto simp: SendCallSignal_def Let_def split: if_splits)
  then show ?thesis using Send_keys [of now newID ?p db db' r] assms(2) f unfolding k_def by auto
qed

lemma notifyUsers_effect:
  assumes "users \<noteq> []" "key \<noteq> ''''" "ib_bus inc" and inc'_def: "inc' = notifyUsers now ids c users reason key inc"
  shows "(\<exists>e. ib_published inc' = ib_published inc @ [e] \<and> ev_CallID e = c_ID c \<and> ev_AppID e = c_AppID c \<and>
      (ev_Type e = PushSent \<and> db_keys (ib_db inc') (c_AppID c, key) \<noteq> None \<or> ev_Type e = PushFailed)) \<and>
    (db_keys (ib_db inc) (c_AppID c, key) = None \<or>
      db_messages (ib_db inc') = db_messages (ib_db inc) \<and> db_deliveries (ib_db inc') = db_deliveries (ib_db inc))"
proof -
  let ?i = "\<lparr>sc_AppID = c_AppID c, sc_Type = MessageCallCancelled, sc_CallID = c_ID c, sc_UserIDs = users, sc_InstallationIDs = [],
    sc_Reason = if reason = '''' then ''cancelled'' else reason, sc_IdempotencyKey = key\<rparr>"
  obtain db r where S: "SendCallSignal now ids ?i (ib_db inc) = (db, r)" by fastforce
  let ?t = "if \<exists>x. r = Inr x then PushSent else PushFailed"
  have inc': "inc' = push_event now ?t c '''' (inc\<lparr>ib_db := db\<rparr>)"
    using S assms(1) unfolding inc'_def notifyUsers_def Let_def by (cases r) simp_all
  show ?thesis
    using SendCallSignal_keys [OF S] assms(2,3) by (cases r) (auto simp: inc' push_event_def)
qed

text \<open>
  C32. When the timer of a ringing call fires, the callees are told through the push pipeline: the handler
  of the timeout announces one push about the call, and one that says sent is recorded under the key of
  the call's cancellation. If the cancellation had been pushed before, no second message or delivery is
  created.
\<close>

theorem ring_timeout_is_pushed:
  assumes "ms_calls (sv_store s) cid = Some c" "c_State c = StateRinging"
    and "\<exists>p \<in> set (c_Participants c). p_UserID p \<noteq> c_CallerID c" "ib_messages inc" "ib_bus inc"
    and "inc' = ring_timeout_handler memory_store now ids cid (fire_timeout memory_store now cid s) inc"
  shows "(\<exists>e. ib_published inc' = ib_published inc @ [e] \<and> ev_CallID e = c_ID c \<and> ev_AppID e = c_AppID c \<and>
      (ev_Type e = PushSent \<and> db_keys (ib_db inc') (c_AppID c, ''cancel:'' @ c_ID c) \<noteq> None \<or> ev_Type e = PushFailed)) \<and>
    (db_keys (ib_db inc) (c_AppID c, ''cancel:'' @ c_ID c) = None \<or>
      db_messages (ib_db inc') = db_messages (ib_db inc) \<and> db_deliveries (ib_db inc') = db_deliveries (ib_db inc))"
proof -
  let ?c = "fst (timeout_fn now c)"
  let ?users = "map p_UserID (filter (\<lambda>p. p_UserID p \<noteq> c_CallerID ?c) (c_Participants ?c))"
  have same: "c_ID ?c = c_ID c" "c_AppID ?c = c_AppID c" using assms(2) by (simp_all add: timeout_fn_def)
  have "p_UserID (disconnect_ringing now p) = p_UserID p" for p by (simp add: disconnect_ringing_def)
  then have users: "?users \<noteq> []" using assms(2,3) by (auto simp: timeout_fn_def filter_empty_conv)
  have "inc' = notifyUsers now ids ?c ?users ''ring_timeout'' (''cancel:'' @ c_ID ?c) inc"
    using assms(4,6) fire_timeout_Get [OF assms(1,2)] by (simp add: ring_timeout_handler_def NotifyCancelled_def)
  from notifyUsers_effect [OF users _ assms(5) this] show ?thesis unfolding same by simp
qed

definition ringing_runtime :: "MemoryStore Service" where
  "ringing_runtime = (NewService NewMemoryStore None 0)\<lparr>sv_store := NewMemoryStore\<lparr>ms_calls := [''c1'' \<mapsto> ringing_call]\<rparr>\<rparr>"

theorem ring_timeout_is_pushed_witness:
  "\<exists>e. ib_published (ring_timeout_handler memory_store 9 (\<lambda>_. ''x'') ''c1''
     (fire_timeout memory_store 9 ''c1'' ringing_runtime) ringing_state) = [e] \<and> ev_CallID e = ''c1''"
proof -
  have c: "ms_calls (sv_store ringing_runtime) ''c1'' = Some ringing_call" by (simp add: ringing_runtime_def)
  have "c_State ringing_call = StateRinging" "\<exists>p \<in> set (c_Participants ringing_call). p_UserID p \<noteq> c_CallerID ringing_call"
    "c_ID ringing_call = ''c1''" "ib_messages ringing_state" "ib_bus ringing_state" "ib_published ringing_state = []"
    by (simp_all add: ringing_call_def new_call_def new_participants_def ringing_state_def incomingcall_New_def)
  then show ?thesis using ring_timeout_is_pushed [OF c _ _ _ _ refl, where now = 9 and ids = "\<lambda>_. ''x''" and inc = ringing_state]
    by auto
qed

end
