(* ===== verification/Rows.thy ===== *)
theory Rows
  imports Repository Json
begin

text \<open>
  The tables as PostgreSQL holds them (\<open>migrations/*.sql\<close>), with columns that may be NULL and the data
  of a message as a JSON document, the statements of \<open>internal/repository\<close> over these rows, and the
  functions that read a row into a domain record (\<open>scanDevice\<close>, \<open>scanMessage\<close>, \<open>scanDelivery\<close>).
  \<open>Repository\<close> works on the domain records directly; the property at the end shows that it
  answers as the statements on the rows do. A NULL in a column read into a plain string fails.
\<close>

section \<open>Columns\<close>

definition nullStr :: "string \<Rightarrow> string option" where
  "nullStr s = (if s = '''' then None else Some s)"

definition deref :: "string option \<Rightarrow> string" where
  "deref s = (case s of None \<Rightarrow> '''' | Some s \<Rightarrow> s)"

definition coalesce :: "'a option \<Rightarrow> 'a option \<Rightarrow> 'a option" where
  "coalesce a b = (case a of None \<Rightarrow> b | Some x \<Rightarrow> Some x)"

record DeviceRow =
  dr_id :: string
  dr_user_id :: "string option"
  dr_installation_id :: string
  dr_platform :: string
  dr_provider :: string
  dr_token :: string
  dr_app_id :: string
  dr_app_version :: "string option"
  dr_os_version :: "string option"
  dr_device_model :: "string option"
  dr_locale :: "string option"
  dr_timezone :: "string option"
  dr_status :: string
  dr_created_at :: gotime
  dr_updated_at :: gotime
  dr_last_seen_at :: "gotime option"

record MessageRow =
  mr_id :: string
  mr_app_id :: string
  mr_type :: string
  mr_title :: "string option"
  mr_body :: "string option"
  mr_data :: "json option"
  mr_image_url :: "string option"
  mr_priority :: "string option"
  mr_ttl_seconds :: "int option"
  mr_collapse_key :: "string option"
  mr_sound :: "string option"
  mr_badge :: "int option"
  mr_deep_link :: "string option"
  mr_category :: "string option"
  mr_status :: string
  mr_created_at :: gotime
  mr_queued_at :: "gotime option"
  mr_completed_at :: "gotime option"

record DeliveryRow =
  yr_id :: string
  yr_message_id :: string
  yr_device_id :: string
  yr_provider :: string
  yr_status :: string
  yr_provider_message_id :: "string option"
  yr_error_code :: "string option"
  yr_error_message :: "string option"
  yr_attempts :: int
  yr_created_at :: gotime
  yr_sent_at :: "gotime option"
  yr_delivered_at :: "gotime option"
  yr_opened_at :: "gotime option"
  yr_next_retry_at :: "gotime option"

section \<open>Reading a row\<close>

definition scanDevice :: "DeviceRow \<Rightarrow> Device" where
  "scanDevice r =
     \<lparr>d_ID = dr_id r, d_UserID = deref (dr_user_id r), d_InstallationID = dr_installation_id r,
      d_Platform = dr_platform r, d_Provider = dr_provider r, d_Token = dr_token r, d_AppID = dr_app_id r,
      d_AppVersion = deref (dr_app_version r), d_OSVersion = deref (dr_os_version r),
      d_DeviceModel = deref (dr_device_model r), d_Locale = deref (dr_locale r),
      d_Timezone = deref (dr_timezone r), d_Status = dr_status r, d_CreatedAt = dr_created_at r,
      d_UpdatedAt = dr_updated_at r, d_LastSeenAt = (case dr_last_seen_at r of None \<Rightarrow> 0 | Some t \<Rightarrow> t)\<rparr>"

definition scanDevices :: "DeviceRow list \<Rightarrow> Device list" where
  "scanDevices = map scanDevice"

text \<open>
  The data of a message: \<open>json.Marshal\<close> of the map, and reading it back with the error ignored, where
  a member that is no string leaves an empty one.
\<close>

definition data_column :: "(string \<times> string) list \<Rightarrow> json" where
  "data_column kvs = JObj (map (\<lambda>(k, v). (k, JStr v)) kvs)"

definition read_data :: "json option \<Rightarrow> (string \<times> string) list" where
  "read_data j =
     (case j of
        Some (JObj kvs) \<Rightarrow> map (\<lambda>(k, v). (k, case v of JStr s \<Rightarrow> s | _ \<Rightarrow> '''')) kvs
      | _ \<Rightarrow> [])"

definition message_of :: "MessageRow \<Rightarrow> Message" where
  "message_of r =
     \<lparr>m_ID = mr_id r, m_Type = (if mr_type r = '''' then MessageNotification else mr_type r),
      m_Title = deref (mr_title r), m_Body = deref (mr_body r), m_Data = read_data (mr_data r),
      m_ImageURL = deref (mr_image_url r), m_Priority = deref (mr_priority r),
      m_TTL = (case mr_ttl_seconds r of None \<Rightarrow> 0 | Some s \<Rightarrow> s * Second),
      m_CollapseKey = deref (mr_collapse_key r), m_Sound = deref (mr_sound r), m_Badge = mr_badge r,
      m_DeepLink = deref (mr_deep_link r), m_Category = deref (mr_category r), m_AppID = mr_app_id r,
      m_Status = mr_status r, m_CreatedAt = mr_created_at r, m_QueuedAt = mr_queued_at r,
      m_CompletedAt = mr_completed_at r\<rparr>"

definition null_into_string :: error where
  "null_into_string = Other ''cannot scan NULL into *string''"

definition scanMessage :: "MessageRow \<Rightarrow> error + Message" where
  "scanMessage r = (if mr_priority r = None then Inl null_into_string else Inr (message_of r))"

definition scanDelivery :: "DeliveryRow \<Rightarrow> Delivery" where
  "scanDelivery r =
     \<lparr>dl_ID = yr_id r, dl_MessageID = yr_message_id r, dl_DeviceID = yr_device_id r, dl_Provider = yr_provider r,
      dl_Status = yr_status r, dl_ProviderMessageID = deref (yr_provider_message_id r),
      dl_ErrorCode = deref (yr_error_code r), dl_ErrorMessage = deref (yr_error_message r),
      dl_Attempts = yr_attempts r, dl_CreatedAt = yr_created_at r, dl_SentAt = yr_sent_at r,
      dl_DeliveredAt = yr_delivered_at r, dl_OpenedAt = yr_opened_at r, dl_NextRetryAt = yr_next_retry_at r\<rparr>"

section \<open>Writing a row\<close>

definition device_args :: "Device \<Rightarrow> DeviceRow" where
  "device_args d =
     \<lparr>dr_id = d_ID d, dr_user_id = nullStr (d_UserID d), dr_installation_id = d_InstallationID d,
      dr_platform = d_Platform d, dr_provider = d_Provider d, dr_token = d_Token d, dr_app_id = d_AppID d,
      dr_app_version = nullStr (d_AppVersion d), dr_os_version = nullStr (d_OSVersion d),
      dr_device_model = nullStr (d_DeviceModel d), dr_locale = nullStr (d_Locale d),
      dr_timezone = nullStr (d_Timezone d), dr_status = d_Status d, dr_created_at = d_CreatedAt d,
      dr_updated_at = d_UpdatedAt d, dr_last_seen_at = Some (d_LastSeenAt d)\<rparr>"

definition message_args :: "Message \<Rightarrow> MessageRow" where
  "message_args m =
     \<lparr>mr_id = m_ID m, mr_app_id = m_AppID m, mr_type = m_Type m, mr_title = nullStr (m_Title m),
      mr_body = nullStr (m_Body m), mr_data = Some (data_column (m_Data m)), mr_image_url = nullStr (m_ImageURL m),
      mr_priority = Some (m_Priority m),
      mr_ttl_seconds = (if m_TTL m > 0 then Some (whole_seconds (m_TTL m)) else None),
      mr_collapse_key = nullStr (m_CollapseKey m), mr_sound = nullStr (m_Sound m), mr_badge = m_Badge m,
      mr_deep_link = nullStr (m_DeepLink m), mr_category = nullStr (m_Category m), mr_status = m_Status m,
      mr_created_at = m_CreatedAt m, mr_queued_at = None, mr_completed_at = None\<rparr>"

definition delivery_args :: "Delivery \<Rightarrow> DeliveryRow" where
  "delivery_args d =
     \<lparr>yr_id = dl_ID d, yr_message_id = dl_MessageID d, yr_device_id = dl_DeviceID d, yr_provider = dl_Provider d,
      yr_status = dl_Status d, yr_provider_message_id = None, yr_error_code = None, yr_error_message = None,
      yr_attempts = dl_Attempts d, yr_created_at = dl_CreatedAt d, yr_sent_at = None, yr_delivered_at = None,
      yr_opened_at = None, yr_next_retry_at = dl_NextRetryAt d\<rparr>"

section \<open>The tables\<close>

record Tables =
  tb_devices :: "DeviceRow list"
  tb_messages :: "MessageRow list"
  tb_deliveries :: "DeliveryRow list"
  tb_keys :: "(string \<times> string) \<rightharpoonup> string"
  tb_faults :: "error option list"

definition row_stmt :: "Tables \<Rightarrow> error option \<times> Tables" where
  "row_stmt tb = (case tb_faults tb of [] \<Rightarrow> (None, tb) | f # fs \<Rightarrow> (f, tb\<lparr>tb_faults := fs\<rparr>))"

text \<open>What the tables mean to the program.\<close>

definition read_db :: "Tables \<Rightarrow> Db" where
  "read_db tb = \<lparr>db_devices = scanDevices (tb_devices tb), db_messages = map message_of (tb_messages tb),
     db_deliveries = map scanDelivery (tb_deliveries tb), db_keys = tb_keys tb, db_faults = tb_faults tb\<rparr>"

section \<open>Devices (repository/device.go)\<close>

definition same_device_row :: "DeviceRow \<Rightarrow> DeviceRow \<Rightarrow> bool" where
  "same_device_row ex r \<longleftrightarrow> dr_installation_id r = dr_installation_id ex \<and> dr_provider r = dr_provider ex"

definition merge_device_row :: "DeviceRow \<Rightarrow> DeviceRow \<Rightarrow> DeviceRow" where
  "merge_device_row ex old =
     old\<lparr>dr_user_id := coalesce (dr_user_id ex) (dr_user_id old), dr_platform := dr_platform ex,
         dr_token := dr_token ex, dr_app_id := dr_app_id ex, dr_app_version := dr_app_version ex,
         dr_os_version := dr_os_version ex, dr_device_model := dr_device_model ex, dr_locale := dr_locale ex,
         dr_timezone := dr_timezone ex, dr_status := ''active'', dr_updated_at := dr_updated_at ex,
         dr_last_seen_at := dr_last_seen_at ex\<rparr>"

definition row_Upsert :: "gotime \<Rightarrow> string \<Rightarrow> Device \<Rightarrow> Tables \<Rightarrow> Tables \<times> (error + Device)" where
  "row_Upsert now newID d0 tb =
     (let ex = device_args (device_defaults now newID d0)
      in case row_stmt tb of
           (Some err, tb) \<Rightarrow> (tb, Inl err)
         | (None, tb) \<Rightarrow>
             (case find (same_device_row ex) (tb_devices tb) of
                Some old \<Rightarrow>
                  (tb\<lparr>tb_devices := upd_first (same_device_row ex) (merge_device_row ex) (tb_devices tb)\<rparr>,
                   Inr (scanDevice (merge_device_row ex old)))
              | None \<Rightarrow>
                  if dr_id ex \<in> dr_id ` set (tb_devices tb) then (tb, Inl unique_violation)
                  else (tb\<lparr>tb_devices := tb_devices tb @ [ex]\<rparr>, Inr (scanDevice ex))))"

definition row_of_installation :: "string \<Rightarrow> string \<Rightarrow> DeviceRow \<Rightarrow> bool" where
  "row_of_installation appID installationID r \<longleftrightarrow> dr_installation_id r = installationID \<and> dr_app_id r = appID"

definition row_FindByInstallationID :: "string \<Rightarrow> string \<Rightarrow> Tables \<Rightarrow> Tables \<times> (error + Device)" where
  "row_FindByInstallationID appID installationID tb =
     (case row_stmt tb of
        (Some err, tb) \<Rightarrow> (tb, Inl err)
      | (None, tb) \<Rightarrow>
          (case sort_key (\<lambda>r. if dr_provider r = ''apns_voip'' then 1 else 0 :: int)
                  (sort_key (\<lambda>r. - dr_updated_at r)
                     (filter (row_of_installation appID installationID) (tb_devices tb))) of
             [] \<Rightarrow> (tb, Inl DeviceNotFound)
           | r # _ \<Rightarrow> (tb, Inr (scanDevice r))))"

definition row_UpdateToken ::
    "gotime \<Rightarrow> string \<Rightarrow> string \<Rightarrow> string \<Rightarrow> string \<Rightarrow> Tables \<Rightarrow> Tables \<times> (error + Device)" where
  "row_UpdateToken now appID installationID provider token tb =
     (let P = (\<lambda>r. row_of_installation appID installationID r \<and> (provider = '''' \<or> dr_provider r = provider));
          f = (\<lambda>r. r\<lparr>dr_token := token, dr_status := ''active'', dr_updated_at := now, dr_last_seen_at := Some now\<rparr>)
      in case row_stmt tb of
           (Some err, tb) \<Rightarrow> (tb, Inl err)
         | (None, tb) \<Rightarrow>
             (case find P (tb_devices tb) of
                None \<Rightarrow> (tb, Inl DeviceNotFound)
              | Some r \<Rightarrow> (tb\<lparr>tb_devices := update_where P f (tb_devices tb)\<rparr>, Inr (scanDevice (f r)))))"

definition row_exec :: "string \<Rightarrow> string \<Rightarrow> (DeviceRow \<Rightarrow> DeviceRow) \<Rightarrow> Tables \<Rightarrow> Tables \<times> error option" where
  "row_exec appID installationID f tb =
     (case row_stmt tb of
        (Some err, tb) \<Rightarrow> (tb, Some err)
      | (None, tb) \<Rightarrow>
          if list_ex (row_of_installation appID installationID) (tb_devices tb)
          then (tb\<lparr>tb_devices := update_where (row_of_installation appID installationID) f (tb_devices tb)\<rparr>, None)
          else (tb, Some DeviceNotFound))"

definition row_SetUserID :: "gotime \<Rightarrow> string \<Rightarrow> string \<Rightarrow> string \<Rightarrow> Tables \<Rightarrow> Tables \<times> error option" where
  "row_SetUserID now appID installationID userID =
     row_exec appID installationID (\<lambda>r. r\<lparr>dr_user_id := Some userID, dr_updated_at := now, dr_last_seen_at := Some now\<rparr>)"

definition row_ClearUserID :: "gotime \<Rightarrow> string \<Rightarrow> string \<Rightarrow> Tables \<Rightarrow> Tables \<times> error option" where
  "row_ClearUserID now appID installationID =
     row_exec appID installationID (\<lambda>r. r\<lparr>dr_user_id := None, dr_updated_at := now, dr_last_seen_at := Some now\<rparr>)"

definition row_Unregister :: "gotime \<Rightarrow> string \<Rightarrow> string \<Rightarrow> Tables \<Rightarrow> Tables \<times> error option" where
  "row_Unregister now appID installationID =
     row_exec appID installationID (\<lambda>r. r\<lparr>dr_status := ''disabled'', dr_updated_at := now\<rparr>)"

definition row_MarkInvalid :: "gotime \<Rightarrow> string \<Rightarrow> Tables \<Rightarrow> Tables \<times> error option" where
  "row_MarkInvalid now deviceID tb =
     (case row_stmt tb of
        (Some err, tb) \<Rightarrow> (tb, Some err)
      | (None, tb) \<Rightarrow>
          (tb\<lparr>tb_devices := update_where (\<lambda>r. dr_id r = deviceID)
                (\<lambda>r. r\<lparr>dr_status := ''invalid'', dr_updated_at := now\<rparr>) (tb_devices tb)\<rparr>, None))"

text \<open>A query for devices; comparing a column with a list of values is not true of NULL.\<close>

definition row_devices :: "(DeviceRow \<Rightarrow> bool) \<Rightarrow> Tables \<Rightarrow> Tables \<times> (error + Device list)" where
  "row_devices P tb =
     (case row_stmt tb of
        (Some err, tb) \<Rightarrow> (tb, Inl err)
      | (None, tb) \<Rightarrow> (tb, Inr (scanDevices (filter P (tb_devices tb)))))"

definition row_ListActiveByUserIDs :: "string \<Rightarrow> string list \<Rightarrow> Tables \<Rightarrow> Tables \<times> (error + Device list)" where
  "row_ListActiveByUserIDs appID userIDs tb =
     (if userIDs = [] then (tb, Inr [])
      else row_devices (\<lambda>r. dr_app_id r = appID \<and> dr_status r = ''active'' \<and>
             (case dr_user_id r of None \<Rightarrow> False | Some u \<Rightarrow> u \<in> set userIDs)) tb)"

definition row_ListActiveByInstallationIDs ::
    "string \<Rightarrow> string list \<Rightarrow> Tables \<Rightarrow> Tables \<times> (error + Device list)" where
  "row_ListActiveByInstallationIDs appID ids tb =
     (if ids = [] then (tb, Inr [])
      else row_devices (\<lambda>r. dr_app_id r = appID \<and> dr_status r = ''active'' \<and> dr_installation_id r \<in> set ids) tb)"

definition row_FindDevice :: "string \<Rightarrow> Tables \<Rightarrow> Tables \<times> (error + Device)" where
  "row_FindDevice rowID tb =
     (case row_stmt tb of
        (Some err, tb) \<Rightarrow> (tb, Inl err)
      | (None, tb) \<Rightarrow>
          (case find (\<lambda>r. dr_id r = rowID) (tb_devices tb) of
             None \<Rightarrow> (tb, Inl DeviceNotFound)
           | Some r \<Rightarrow> (tb, Inr (scanDevice r))))"

section \<open>Messages (repository/message.go)\<close>

definition row_create :: "gotime \<Rightarrow> string \<Rightarrow> Message \<Rightarrow> Tables \<Rightarrow> Tables \<times> (error + Message)" where
  "row_create now newID m0 tb =
     (let r = message_args (message_defaults now newID m0)
      in case row_stmt tb of
           (Some err, tb) \<Rightarrow> (tb, Inl err)
         | (None, tb) \<Rightarrow>
             if mr_id r \<in> mr_id ` set (tb_messages tb) then (tb, Inl unique_violation)
             else (tb\<lparr>tb_messages := tb_messages tb @ [r]\<rparr>, scanMessage r))"

definition row_update :: "string \<Rightarrow> (MessageRow \<Rightarrow> MessageRow) \<Rightarrow> Tables \<Rightarrow> Tables \<times> error option" where
  "row_update rowID f tb =
     (case row_stmt tb of
        (Some err, tb) \<Rightarrow> (tb, Some err)
      | (None, tb) \<Rightarrow> (tb\<lparr>tb_messages := update_where (\<lambda>r. mr_id r = rowID) f (tb_messages tb)\<rparr>, None))"

definition row_MarkQueued :: "gotime \<Rightarrow> string \<Rightarrow> Tables \<Rightarrow> Tables \<times> error option" where
  "row_MarkQueued now rowID = row_update rowID (\<lambda>r. r\<lparr>mr_status := ''queued'', mr_queued_at := Some now\<rparr>)"

definition row_MarkCompleted :: "gotime \<Rightarrow> string \<Rightarrow> Tables \<Rightarrow> Tables \<times> error option" where
  "row_MarkCompleted now rowID = row_update rowID (\<lambda>r. r\<lparr>mr_status := ''completed'', mr_completed_at := Some now\<rparr>)"

definition row_MarkMessageFailed :: "gotime \<Rightarrow> string \<Rightarrow> Tables \<Rightarrow> Tables \<times> error option" where
  "row_MarkMessageFailed now rowID = row_update rowID (\<lambda>r. r\<lparr>mr_status := ''failed'', mr_completed_at := Some now\<rparr>)"

definition row_FindMessage :: "string \<Rightarrow> string \<Rightarrow> Tables \<Rightarrow> Tables \<times> (error + Message)" where
  "row_FindMessage appID rowID tb =
     (case row_stmt tb of
        (Some err, tb) \<Rightarrow> (tb, Inl err)
      | (None, tb) \<Rightarrow>
          (case find (\<lambda>r. mr_id r = rowID \<and> (appID = '''' \<or> mr_app_id r = appID)) (tb_messages tb) of
             None \<Rightarrow> (tb, Inl MessageNotFound)
           | Some r \<Rightarrow> (tb, scanMessage r)))"

definition row_ClaimQueued :: "nat \<Rightarrow> Tables \<Rightarrow> Tables \<times> (error + Message list)" where
  "row_ClaimQueued limit tb =
     (case row_stmt tb of
        (Some err, tb) \<Rightarrow> (tb, Inl err)
      | (None, tb) \<Rightarrow>
          (let ids = map mr_id (take limit (sort_key mr_created_at
                       (filter (\<lambda>r. mr_status r = ''queued'') (tb_messages tb))));
               rows = update_where (\<lambda>r. mr_id r \<in> set ids) (\<lambda>r. r\<lparr>mr_status := ''sending''\<rparr>) (tb_messages tb)
           in (tb\<lparr>tb_messages := rows\<rparr>, dec_all scanMessage (filter (\<lambda>r. mr_id r \<in> set ids) rows))))"

section \<open>Deliveries (repository/delivery.go)\<close>

definition row_insert :: "gotime \<Rightarrow> string \<Rightarrow> Delivery \<Rightarrow> Tables \<Rightarrow> Tables \<times> error option" where
  "row_insert now newID d0 tb =
     (let r = delivery_args (delivery_defaults now newID d0)
      in case row_stmt tb of
           (Some err, tb) \<Rightarrow> (tb, Some err)
         | (None, tb) \<Rightarrow>
             if yr_id r \<in> yr_id ` set (tb_deliveries tb) then (tb, Some unique_violation)
             else if yr_message_id r \<notin> mr_id ` set (tb_messages tb) \<or> yr_device_id r \<notin> dr_id ` set (tb_devices tb)
             then (tb, Some foreign_key_violation)
             else (tb\<lparr>tb_deliveries := tb_deliveries tb @ [r]\<rparr>, None))"

fun row_CreateMany :: "gotime \<Rightarrow> (string \<times> Delivery) list \<Rightarrow> Tables \<Rightarrow> Tables \<times> error option" where
  "row_CreateMany now [] tb = (tb, None)"
| "row_CreateMany now ((newID, d) # ds) tb =
     (case row_insert now newID d tb of
        (tb, Some err) \<Rightarrow> (tb, Some err)
      | (tb, None) \<Rightarrow> row_CreateMany now ds tb)"

text \<open>\<open>next_retry_at IS NULL OR next_retry_at <= $1\<close>.\<close>

definition row_ready :: "gotime \<Rightarrow> DeliveryRow \<Rightarrow> bool" where
  "row_ready now r \<longleftrightarrow> yr_status r \<in> {''pending'', ''retrying''} \<and>
     (yr_next_retry_at r = None \<or> the (yr_next_retry_at r) \<le> now)"

definition row_ClaimReady :: "gotime \<Rightarrow> nat \<Rightarrow> Tables \<Rightarrow> Tables \<times> (error + Delivery list)" where
  "row_ClaimReady now limit tb =
     (case row_stmt tb of
        (Some err, tb) \<Rightarrow> (tb, Inl err)
      | (None, tb) \<Rightarrow>
          (let ids = map yr_id (take limit (sort_key yr_created_at (filter (row_ready now) (tb_deliveries tb))));
               rows = update_where (\<lambda>r. yr_id r \<in> set ids)
                        (\<lambda>r. r\<lparr>yr_status := ''sending'', yr_attempts := yr_attempts r + 1\<rparr>) (tb_deliveries tb)
           in (tb\<lparr>tb_deliveries := rows\<rparr>, Inr (map scanDelivery (filter (\<lambda>r. yr_id r \<in> set ids) rows)))))"

definition row_set :: "string \<Rightarrow> (DeliveryRow \<Rightarrow> DeliveryRow) \<Rightarrow> Tables \<Rightarrow> Tables \<times> error option" where
  "row_set rowID f tb =
     (case row_stmt tb of
        (Some err, tb) \<Rightarrow> (tb, Some err)
      | (None, tb) \<Rightarrow> (tb\<lparr>tb_deliveries := update_where (\<lambda>r. yr_id r = rowID) f (tb_deliveries tb)\<rparr>, None))"

definition row_MarkAccepted :: "gotime \<Rightarrow> string \<Rightarrow> string \<Rightarrow> Tables \<Rightarrow> Tables \<times> error option" where
  "row_MarkAccepted now rowID providerMessageID =
     row_set rowID (\<lambda>r. r\<lparr>yr_status := ''accepted'', yr_provider_message_id := Some providerMessageID,
       yr_sent_at := Some now, yr_error_code := None, yr_error_message := None, yr_next_retry_at := None\<rparr>)"

definition row_MarkFailed :: "string \<Rightarrow> string \<Rightarrow> string \<Rightarrow> Tables \<Rightarrow> Tables \<times> error option" where
  "row_MarkFailed rowID code message =
     row_set rowID (\<lambda>r. r\<lparr>yr_status := ''failed'', yr_error_code := Some code, yr_error_message := Some message,
       yr_next_retry_at := None\<rparr>)"

definition row_MarkRetrying :: "string \<Rightarrow> string \<Rightarrow> string \<Rightarrow> gotime \<Rightarrow> Tables \<Rightarrow> Tables \<times> error option" where
  "row_MarkRetrying rowID code message nextRetryAt =
     row_set rowID (\<lambda>r. r\<lparr>yr_status := ''retrying'', yr_error_code := Some code, yr_error_message := Some message,
       yr_next_retry_at := Some nextRetryAt\<rparr>)"

definition row_CountByMessage :: "string \<Rightarrow> Tables \<Rightarrow> Tables \<times> (error + nat \<times> nat)" where
  "row_CountByMessage messageID tb =
     (case row_stmt tb of
        (Some err, tb) \<Rightarrow> (tb, Inl err)
      | (None, tb) \<Rightarrow>
          (let rows = filter (\<lambda>r. yr_message_id r = messageID) (tb_deliveries tb)
           in (tb, Inr (length rows,
                length (filter (\<lambda>r. yr_status r \<in> {''accepted'', ''failed'', ''delivered'', ''opened''}) rows)))))"

definition row_HasPending :: "string \<Rightarrow> Tables \<Rightarrow> Tables \<times> (error + bool)" where
  "row_HasPending messageID tb =
     (case row_stmt tb of
        (Some err, tb) \<Rightarrow> (tb, Inl err)
      | (None, tb) \<Rightarrow>
          (tb, Inr (length (filter (\<lambda>r. yr_message_id r = messageID \<and>
                      yr_status r \<in> {''pending'', ''sending'', ''retrying''}) (tb_deliveries tb)) > 0)))"

section \<open>A statement of the program\<close>

text \<open>The statements the repositories issue, and their answers.\<close>

datatype Query =
    QUpsert gotime string Device | QFindByInstallationID string string
  | QUpdateToken gotime string string string string | QSetUserID gotime string string string
  | QClearUserID gotime string string | QUnregister gotime string string | QMarkInvalid gotime string
  | QListActiveByUserIDs string "string list" | QListActiveByInstallationIDs string "string list" | QFindDevice string
  | QCreate gotime string Message | QMarkQueued gotime string | QMarkCompleted gotime string
  | QMarkMessageFailed gotime string | QFindMessage string string | QClaimQueued nat
  | QCreateMany gotime "(string \<times> Delivery) list" | QClaimReady gotime nat | QMarkAccepted gotime string string
  | QMarkFailed string string string | QMarkRetrying string string string gotime
  | QCountByMessage string | QHasPending string

datatype Answer =
    ADevice "error + Device" | ADevices "error + Device list" | AMessage "error + Message"
  | AMessages "error + Message list" | ADeliveries "error + Delivery list" | ACounts "error + nat \<times> nat"
  | APending "error + bool" | ADone "error option"

fun run_rows :: "Query \<Rightarrow> Tables \<Rightarrow> Tables \<times> Answer" where
  "run_rows (QUpsert now i d) tb = map_prod id ADevice (row_Upsert now i d tb)"
| "run_rows (QFindByInstallationID a i) tb = map_prod id ADevice (row_FindByInstallationID a i tb)"
| "run_rows (QUpdateToken now a i p t) tb = map_prod id ADevice (row_UpdateToken now a i p t tb)"
| "run_rows (QSetUserID now a i u) tb = map_prod id ADone (row_SetUserID now a i u tb)"
| "run_rows (QClearUserID now a i) tb = map_prod id ADone (row_ClearUserID now a i tb)"
| "run_rows (QUnregister now a i) tb = map_prod id ADone (row_Unregister now a i tb)"
| "run_rows (QMarkInvalid now i) tb = map_prod id ADone (row_MarkInvalid now i tb)"
| "run_rows (QListActiveByUserIDs a us) tb = map_prod id ADevices (row_ListActiveByUserIDs a us tb)"
| "run_rows (QListActiveByInstallationIDs a is) tb = map_prod id ADevices (row_ListActiveByInstallationIDs a is tb)"
| "run_rows (QFindDevice i) tb = map_prod id ADevice (row_FindDevice i tb)"
| "run_rows (QCreate now i m) tb = map_prod id AMessage (row_create now i m tb)"
| "run_rows (QMarkQueued now i) tb = map_prod id ADone (row_MarkQueued now i tb)"
| "run_rows (QMarkCompleted now i) tb = map_prod id ADone (row_MarkCompleted now i tb)"
| "run_rows (QMarkMessageFailed now i) tb = map_prod id ADone (row_MarkMessageFailed now i tb)"
| "run_rows (QFindMessage a i) tb = map_prod id AMessage (row_FindMessage a i tb)"
| "run_rows (QClaimQueued n) tb = map_prod id AMessages (row_ClaimQueued n tb)"
| "run_rows (QCreateMany now ds) tb = map_prod id ADone (row_CreateMany now ds tb)"
| "run_rows (QClaimReady now n) tb = map_prod id ADeliveries (row_ClaimReady now n tb)"
| "run_rows (QMarkAccepted now i p) tb = map_prod id ADone (row_MarkAccepted now i p tb)"
| "run_rows (QMarkFailed i c m) tb = map_prod id ADone (row_MarkFailed i c m tb)"
| "run_rows (QMarkRetrying i c m t) tb = map_prod id ADone (row_MarkRetrying i c m t tb)"
| "run_rows (QCountByMessage i) tb = map_prod id ACounts (row_CountByMessage i tb)"
| "run_rows (QHasPending i) tb = map_prod id APending (row_HasPending i tb)"

fun run_db :: "Query \<Rightarrow> Db \<Rightarrow> Db \<times> Answer" where
  "run_db (QUpsert now i d) db = map_prod id ADevice (dev_Upsert now i d db)"
| "run_db (QFindByInstallationID a i) db = map_prod id ADevice (dev_FindByInstallationID a i db)"
| "run_db (QUpdateToken now a i p t) db = map_prod id ADevice (dev_UpdateToken now a i p t db)"
| "run_db (QSetUserID now a i u) db = map_prod id ADone (dev_SetUserID now a i u db)"
| "run_db (QClearUserID now a i) db = map_prod id ADone (dev_ClearUserID now a i db)"
| "run_db (QUnregister now a i) db = map_prod id ADone (dev_Unregister now a i db)"
| "run_db (QMarkInvalid now i) db = map_prod id ADone (dev_MarkInvalid now i db)"
| "run_db (QListActiveByUserIDs a us) db = map_prod id ADevices (dev_ListActiveByUserIDs a us db)"
| "run_db (QListActiveByInstallationIDs a is) db = map_prod id ADevices (dev_ListActiveByInstallationIDs a is db)"
| "run_db (QFindDevice i) db = map_prod id ADevice (dev_FindByID i db)"
| "run_db (QCreate now i m) db = map_prod id AMessage (msg_create now i m db)"
| "run_db (QMarkQueued now i) db = map_prod id ADone (msg_MarkQueued now i db)"
| "run_db (QMarkCompleted now i) db = map_prod id ADone (msg_MarkCompleted now i db)"
| "run_db (QMarkMessageFailed now i) db = map_prod id ADone (msg_MarkFailed now i db)"
| "run_db (QFindMessage a i) db = map_prod id AMessage (msg_FindByID a i db)"
| "run_db (QClaimQueued n) db = map_prod id AMessages (msg_ClaimQueued n db)"
| "run_db (QCreateMany now ds) db = map_prod id ADone (del_CreateMany now ds db)"
| "run_db (QClaimReady now n) db = map_prod id ADeliveries (del_ClaimReady now n db)"
| "run_db (QMarkAccepted now i p) db = map_prod id ADone (del_MarkAccepted now i p db)"
| "run_db (QMarkFailed i c m) db = map_prod id ADone (del_MarkFailed i c m db)"
| "run_db (QMarkRetrying i c m t) db = map_prod id ADone (del_MarkRetrying i c m t db)"
| "run_db (QCountByMessage i) db = map_prod id ACounts (del_CountByMessage i db)"
| "run_db (QHasPending i) db = map_prod id APending (del_HasPending i db)"

text \<open>The device service refuses a user without a name before it asks the repository.\<close>

fun names_user :: "Query \<Rightarrow> bool" where
  "names_user (QSetUserID now a i u) = (u \<noteq> '''')"
| "names_user _ = True"

section \<open>Reading commutes with the statements\<close>

lemma deref_nullStr [simp]: "deref (nullStr s) = s" "deref (Some s) = s" "deref None = []"
  by (simp_all add: deref_def nullStr_def)

lemma read_data_column [simp]: "read_data (Some (data_column kvs)) = kvs"
  by (simp add: read_data_def data_column_def case_prod_beta comp_def)

lemma scan_device_args [simp]: "scanDevice (device_args d) = d"
  by (simp add: scanDevice_def device_args_def)

lemma scan_message_args [simp]:
  "m_Type m \<noteq> '''' \<Longrightarrow> message_of (message_args m) = message_row m"
  by (simp add: message_of_def message_args_def message_row_def)

lemma row_stmt_read: "stmt (read_db tb) = map_prod id read_db (row_stmt tb)"
  by (simp add: stmt_def row_stmt_def read_db_def split: list.splits)

lemma map_update_where_scan:
  assumes "\<And>r. P' (scan r) = P r" "\<And>r. scan (f r) = f' (scan r)"
  shows "map scan (update_where P f rows) = update_where P' f' (map scan rows)"
  using assms by (simp add: update_where_def)

lemma find_scan: "(\<And>r. P' (scan r) = P r) \<Longrightarrow> find P' (map scan rows) = map_option scan (find P rows)"
  by (induction rows) auto

lemma sort_key_scan: "(\<And>r. k' (scan r) = k r) \<Longrightarrow> sort_key k' (map scan rows) = map scan (sort_key k rows)"
proof (induction rows)
  case (Cons r rows)
  have "insort_key k' (scan r) (map scan xs) = map scan (insort_key k r xs)" for xs
    using Cons.prems by (induction xs) auto
  with Cons show ?case by simp
qed simp

lemma upd_first_scan:
  assumes "\<And>r. P' (scan r) = P r" "\<And>r. scan (f r) = f' (scan r)"
  shows "map scan (upd_first P f rows) = upd_first P' f' (map scan rows)"
  using assms by (induction rows) auto

lemma read_fields [simp]:
  "db_devices (read_db tb) = map scanDevice (tb_devices tb)" "db_messages (read_db tb) = map message_of (tb_messages tb)"
  "db_deliveries (read_db tb) = map scanDelivery (tb_deliveries tb)"
  "(read_db tb)\<lparr>db_devices := map scanDevice ds\<rparr> = read_db (tb\<lparr>tb_devices := ds\<rparr>)"
  "(read_db tb)\<lparr>db_messages := map message_of ms\<rparr> = read_db (tb\<lparr>tb_messages := ms\<rparr>)"
  "(read_db tb)\<lparr>db_deliveries := map scanDelivery ys\<rparr> = read_db (tb\<lparr>tb_deliveries := ys\<rparr>)"
  by (simp_all add: read_db_def scanDevices_def)

lemma read_columns [simp]:
  "d_ID (scanDevice r) = dr_id r" "d_UserID (scanDevice r) = deref (dr_user_id r)" "d_Provider (scanDevice r) = dr_provider r"
  "d_InstallationID (scanDevice r) = dr_installation_id r" "d_AppID (scanDevice r) = dr_app_id r"
  "d_Status (scanDevice r) = dr_status r" "d_UpdatedAt (scanDevice r) = dr_updated_at r"
  "m_ID (message_of m) = mr_id m" "m_AppID (message_of m) = mr_app_id m" "m_Status (message_of m) = mr_status m"
  "m_CreatedAt (message_of m) = mr_created_at m"
  "dl_ID (scanDelivery y) = yr_id y" "dl_MessageID (scanDelivery y) = yr_message_id y"
  "dl_Status (scanDelivery y) = yr_status y" "dl_CreatedAt (scanDelivery y) = yr_created_at y"
  "dl_NextRetryAt (scanDelivery y) = yr_next_retry_at y"
  by (simp_all add: scanDevice_def message_of_def scanDelivery_def)

lemma of_installation_read [simp]: "of_installation a i (scanDevice r) = row_of_installation a i r"
  by (simp add: of_installation_def row_of_installation_def)

text \<open>The rows that the program writes: no user without a name, no message without a priority.\<close>

definition rows_ok :: "Tables \<Rightarrow> bool" where
  "rows_ok tb \<longleftrightarrow> (\<forall>r \<in> set (tb_devices tb). dr_user_id r \<noteq> Some '''') \<and> (\<forall>r \<in> set (tb_messages tb). mr_priority r \<noteq> None)"

lemma row_stmt_same:
  assumes "row_stmt tb = (e, tb')"
  shows "stmt (read_db tb) = (e, read_db tb')" "tb_devices tb' = tb_devices tb" "tb_messages tb' = tb_messages tb"
    "tb_deliveries tb' = tb_deliveries tb" "rows_ok tb' = rows_ok tb"
  using assms row_stmt_read [of tb] by (auto simp: row_stmt_def rows_ok_def split: list.splits)

lemma row_stmt_cases:
  obtains (fault) err tb' where "row_stmt tb = (Some err, tb')" "stmt (read_db tb) = (Some err, read_db tb')"
  | (run) tb' where "row_stmt tb = (None, tb')" "stmt (read_db tb) = (None, read_db tb')"
  by (metis not_None_eq prod.collapse row_stmt_same(1))

lemma merge_read:
  "dr_user_id ex \<noteq> Some '''' \<Longrightarrow> scanDevice (merge_device_row ex r) = merge_device (scanDevice ex) (scanDevice r)"
  by (auto simp: scanDevice_def merge_device_row_def merge_device_def coalesce_def deref_def split: option.splits)

lemma Upsert_read: "map_prod read_db id (row_Upsert now i d tb) = dev_Upsert now i d (read_db tb)"
proof (cases tb rule: row_stmt_cases)
  case (run tb')
  let ?d = "device_defaults now i d"
  have P: "same_device ?d (scanDevice r) = same_device_row (device_args ?d) r" for r
    by (simp add: same_device_def same_device_row_def device_args_def)
  have u: "dr_user_id (device_args ?d) \<noteq> Some ''''" by (simp add: device_args_def nullStr_def)
  have m: "scanDevice (merge_device_row (device_args ?d) r) = merge_device ?d (scanDevice r)" for r
    using merge_read [OF u] by simp
  have scan: "upd_first (same_device ?d) (merge_device ?d) (map scanDevice rows) =
      map scanDevice (upd_first (same_device_row (device_args ?d)) (merge_device_row (device_args ?d)) rows)" for rows
    by (rule sym, rule upd_first_scan) (rule P, rule m)
  have f: "find (same_device ?d) (map scanDevice rows) = map_option scanDevice (find (same_device_row (device_args ?d)) rows)" for rows
    by (rule find_scan) (rule P)
  have id: "dr_id (device_args ?d) = d_ID ?d" by (simp add: device_args_def)
  show ?thesis
    using run read_fields(4) [of "tb_devices tb' @ [device_args ?d]" tb']
    by (simp add: row_Upsert_def dev_Upsert_def Let_def f m id scan image_image split: option.splits)
qed (simp add: row_Upsert_def dev_Upsert_def)

lemma FindByInstallationID_read:
  "map_prod read_db id (row_FindByInstallationID a i tb) = dev_FindByInstallationID a i (read_db tb)"
proof (cases tb rule: row_stmt_cases)
  case (run tb')
  have "sort_key (\<lambda>r. if d_Provider r = ProviderAPNsVoIP then 1 else 0 :: int) (sort_key (\<lambda>r. - d_UpdatedAt r)
        (filter (of_installation a i) (map scanDevice rows))) =
      map scanDevice (sort_key (\<lambda>r. if dr_provider r = ''apns_voip'' then 1 else 0 :: int) (sort_key (\<lambda>r. - dr_updated_at r)
        (filter (row_of_installation a i) rows)))" for rows
    by (simp add: filter_map comp_def sort_key_scan [where scan = scanDevice] cong: if_cong)
  with run show ?thesis
    by (simp add: row_FindByInstallationID_def dev_FindByInstallationID_def split: list.splits)
qed (simp add: row_FindByInstallationID_def dev_FindByInstallationID_def)

lemma UpdateToken_read:
  "map_prod read_db id (row_UpdateToken now a i p t tb) = dev_UpdateToken now a i p t (read_db tb)"
proof (cases tb rule: row_stmt_cases)
  case (run tb')
  let ?P = "\<lambda>r. of_installation a i r \<and> (p = '''' \<or> d_Provider r = p)"
  let ?Q = "\<lambda>r. row_of_installation a i r \<and> (p = '''' \<or> dr_provider r = p)"
  let ?f = "\<lambda>r. r\<lparr>dr_token := t, dr_status := ''active'', dr_updated_at := now, dr_last_seen_at := Some now\<rparr>"
  have P: "?P (scanDevice r) = ?Q r" for r by simp
  have f: "scanDevice (?f r) = set_token now t (scanDevice r)" for r by (simp add: scanDevice_def set_token_def)
  have "update_where ?P (set_token now t) (map scanDevice rows) = map scanDevice (update_where ?Q ?f rows)" for rows
    by (rule sym, rule map_update_where_scan) (rule P, rule f)
  moreover have "find ?P (map scanDevice rows) = map_option scanDevice (find ?Q rows)" for rows
    by (rule find_scan) (rule P)
  ultimately show ?thesis
    using run by (simp add: row_UpdateToken_def dev_UpdateToken_def Let_def f split: option.splits)
qed (simp add: row_UpdateToken_def dev_UpdateToken_def)

lemma exec_read:
  assumes f: "\<And>r. scanDevice (f r) = f' (scanDevice r)"
  shows "map_prod read_db id (row_exec a i f tb) = dev_exec a i f' (read_db tb)"
proof (cases tb rule: row_stmt_cases)
  case (run tb')
  have "update_where (of_installation a i) f' (map scanDevice rows) = map scanDevice (update_where (row_of_installation a i) f rows)" for rows
    by (rule sym, rule map_update_where_scan) (simp, rule f)
  with run show ?thesis by (simp add: row_exec_def dev_exec_def list_ex_iff)
qed (simp add: row_exec_def dev_exec_def)

lemma MarkInvalid_read: "map_prod read_db id (row_MarkInvalid now i tb) = dev_MarkInvalid now i (read_db tb)"
proof (cases tb rule: row_stmt_cases)
  case (run tb')
  have "update_where (\<lambda>r. d_ID r = i) (\<lambda>r. r\<lparr>d_Status := DeviceStatusInvalid, d_UpdatedAt := now\<rparr>) (map scanDevice rows) =
      map scanDevice (update_where (\<lambda>r. dr_id r = i) (\<lambda>r. r\<lparr>dr_status := ''invalid'', dr_updated_at := now\<rparr>) rows)" for rows
    by (rule sym, rule map_update_where_scan) (simp, simp add: scanDevice_def)
  with run show ?thesis by (simp add: row_MarkInvalid_def dev_MarkInvalid_def)
qed (simp add: row_MarkInvalid_def dev_MarkInvalid_def)

lemma ListActive_read:
  assumes "rows_ok tb"
  shows "map_prod read_db id (row_ListActiveByUserIDs a us tb) = dev_ListActiveByUserIDs a us (read_db tb)"
    and "map_prod read_db id (row_ListActiveByInstallationIDs a is tb) = dev_ListActiveByInstallationIDs a is (read_db tb)"
proof -
  have u: "(case dr_user_id r of None \<Rightarrow> False | Some u \<Rightarrow> u \<in> set us) \<longleftrightarrow> deref (dr_user_id r) \<noteq> '''' \<and> deref (dr_user_id r) \<in> set us"
    if "r \<in> set (tb_devices tb)" for r
    using assms that by (auto simp: rows_ok_def deref_def split: option.splits)
  show "map_prod read_db id (row_ListActiveByUserIDs a us tb) = dev_ListActiveByUserIDs a us (read_db tb)"
  proof (cases tb rule: row_stmt_cases)
    case (run tb')
    then have "filter (\<lambda>r. dr_app_id r = a \<and> dr_status r = ''active'' \<and> (case dr_user_id r of None \<Rightarrow> False | Some u \<Rightarrow> u \<in> set us)) (tb_devices tb') =
        filter (\<lambda>r. dr_app_id r = a \<and> dr_status r = ''active'' \<and> deref (dr_user_id r) \<noteq> '''' \<and> deref (dr_user_id r) \<in> set us) (tb_devices tb')"
      using u row_stmt_same(2) [OF run(1)] by (intro filter_cong) auto
    with run show ?thesis
      by (simp add: row_ListActiveByUserIDs_def dev_ListActiveByUserIDs_def row_devices_def scanDevices_def filter_map comp_def)
  qed (simp add: row_ListActiveByUserIDs_def dev_ListActiveByUserIDs_def row_devices_def)
  show "map_prod read_db id (row_ListActiveByInstallationIDs a is tb) = dev_ListActiveByInstallationIDs a is (read_db tb)"
    by (cases tb rule: row_stmt_cases)
      (simp_all add: row_ListActiveByInstallationIDs_def dev_ListActiveByInstallationIDs_def row_devices_def
        scanDevices_def filter_map comp_def)
qed

lemma FindDevice_read: "map_prod read_db id (row_FindDevice i tb) = dev_FindByID i (read_db tb)"
proof (cases tb rule: row_stmt_cases)
  case (run tb')
  then show ?thesis
    using find_scan [of "\<lambda>r. d_ID r = i" scanDevice "\<lambda>r. dr_id r = i" "tb_devices tb'"]
    by (simp add: row_FindDevice_def dev_FindByID_def split: option.splits)
qed (simp add: row_FindDevice_def dev_FindByID_def)

lemma scan_ok: "rows_ok tb \<Longrightarrow> r \<in> set (tb_messages tb) \<Longrightarrow> scanMessage r = Inr (message_of r)"
  by (simp add: rows_ok_def scanMessage_def)

lemma dec_all_Inr: "(\<And>x. x \<in> set xs \<Longrightarrow> f x = Inr (g x)) \<Longrightarrow> dec_all f xs = Inr (map g xs)"
  by (induction xs) auto

lemma create_read: "map_prod read_db id (row_create now i m tb) = msg_create now i m (read_db tb)"
proof (cases tb rule: row_stmt_cases)
  case (run tb')
  let ?m = "message_defaults now i m"
  have t: "m_Type ?m \<noteq> ''''" by (simp add: message_defaults_def)
  have r: "mr_id (message_args ?m) = m_ID ?m" "scanMessage (message_args ?m) = Inr (message_row ?m)"
    using t by (simp_all add: scanMessage_def) (simp_all add: message_args_def)
  have "read_db (tb'\<lparr>tb_messages := tb_messages tb' @ [message_args ?m]\<rparr>) =
      (read_db tb')\<lparr>db_messages := map message_of (tb_messages tb') @ [message_row ?m]\<rparr>"
    using read_fields(5) [of "tb_messages tb' @ [message_args ?m]" tb'] t by simp
  with run show ?thesis by (simp add: row_create_def msg_create_def Let_def r image_image)
qed (simp add: row_create_def msg_create_def)

lemma update_read:
  assumes f: "\<And>r. message_of (f r) = f' (message_of r)"
  shows "map_prod read_db id (row_update i f tb) = msg_update i f' (read_db tb)"
proof (cases tb rule: row_stmt_cases)
  case (run tb')
  have "update_where (\<lambda>r. m_ID r = i) f' (map message_of rows) = map message_of (update_where (\<lambda>r. mr_id r = i) f rows)" for rows
    by (rule sym, rule map_update_where_scan) (simp, rule f)
  with run show ?thesis by (simp add: row_update_def msg_update_def)
qed (simp add: row_update_def msg_update_def)

lemma FindMessage_read:
  assumes "rows_ok tb"
  shows "map_prod read_db id (row_FindMessage a i tb) = msg_FindByID a i (read_db tb)"
proof (cases tb rule: row_stmt_cases)
  case (run tb')
  let ?P = "\<lambda>r. mr_id r = i \<and> (a = '''' \<or> mr_app_id r = a)"
  have "find (\<lambda>r. m_ID r = i \<and> (a = '''' \<or> m_AppID r = a)) (map message_of rows) = map_option message_of (find ?P rows)" for rows
    by (rule find_scan) simp
  moreover have "scanMessage r = Inr (message_of r)" if "find ?P (tb_messages tb') = Some r" for r
    using that assms row_stmt_same(3,5) [OF run(1)] by (intro scan_ok [of tb']) (auto simp: find_Some_iff)
  ultimately show ?thesis using run by (simp add: row_FindMessage_def msg_FindByID_def split: option.splits)
qed (simp add: row_FindMessage_def msg_FindByID_def)

lemma ClaimQueued_read:
  assumes "rows_ok tb"
  shows "map_prod read_db id (row_ClaimQueued n tb) = msg_ClaimQueued n (read_db tb)"
proof (cases tb rule: row_stmt_cases)
  case (run tb')
  let ?ids = "map mr_id (take n (sort_key mr_created_at (filter (\<lambda>r. mr_status r = ''queued'') (tb_messages tb'))))"
  let ?rows = "update_where (\<lambda>r. mr_id r \<in> set ?ids) (\<lambda>r. r\<lparr>mr_status := ''sending''\<rparr>) (tb_messages tb')"
  have ids: "map m_ID (take n (sort_key m_CreatedAt (filter (\<lambda>r. m_Status r = MessageStatusQueued) (db_messages (read_db tb'))))) = ?ids"
    by (simp add: filter_map comp_def sort_key_scan [where scan = message_of] take_map)
  have rows: "update_where (\<lambda>r. m_ID r \<in> set ?ids) (\<lambda>r. r\<lparr>m_Status := MessageStatusSending\<rparr>) (db_messages (read_db tb')) = map message_of ?rows"
    unfolding read_fields by (rule sym, rule map_update_where_scan) (simp, simp add: message_of_def)
  have "dec_all scanMessage (filter (\<lambda>r. mr_id r \<in> set ?ids) ?rows) = Inr (map message_of (filter (\<lambda>r. mr_id r \<in> set ?ids) ?rows))"
    using assms row_stmt_same(5) [OF run(1)] by (intro dec_all_Inr) (auto simp: scanMessage_def rows_ok_def update_where_def)
  then show ?thesis
    unfolding row_ClaimQueued_def msg_ClaimQueued_def run prod.case option.case Let_def ids rows by (simp add: filter_map comp_def)
qed (simp add: row_ClaimQueued_def msg_ClaimQueued_def)

lemma insert_read: "map_prod read_db id (row_insert now i d tb) = del_insert now i d (read_db tb)"
proof (cases tb rule: row_stmt_cases)
  case (run tb')
  let ?d = "delivery_defaults now i d"
  have r: "yr_id (delivery_args ?d) = dl_ID ?d" "yr_message_id (delivery_args ?d) = dl_MessageID ?d"
    "yr_device_id (delivery_args ?d) = dl_DeviceID ?d" by (simp_all add: delivery_args_def)
  have "scanDelivery (delivery_args ?d) = ?d\<lparr>dl_ProviderMessageID := '''', dl_ErrorCode := '''', dl_ErrorMessage := '''',
      dl_SentAt := None, dl_DeliveredAt := None, dl_OpenedAt := None\<rparr>"
    by (simp add: scanDelivery_def delivery_args_def)
  then have "read_db (tb'\<lparr>tb_deliveries := tb_deliveries tb' @ [delivery_args ?d]\<rparr>) =
      (read_db tb')\<lparr>db_deliveries := map scanDelivery (tb_deliveries tb') @ [?d\<lparr>dl_ProviderMessageID := '''', dl_ErrorCode := '''',
        dl_ErrorMessage := '''', dl_SentAt := None, dl_DeliveredAt := None, dl_OpenedAt := None\<rparr>]\<rparr>"
    using read_fields(6) [of "tb_deliveries tb' @ [delivery_args ?d]" tb'] by simp
  with run show ?thesis by (simp add: row_insert_def del_insert_def Let_def r image_image)
qed (simp add: row_insert_def del_insert_def)

lemma CreateMany_read: "map_prod read_db id (row_CreateMany now ds tb) = del_CreateMany now ds (read_db tb)"
proof (induction now ds tb rule: row_CreateMany.induct)
  case (2 now newID d ds tb)
  obtain tb' e where "row_insert now newID d tb = (tb', e)" by fastforce
  with 2 insert_read [of now newID d tb, symmetric] show ?case by (cases e) auto
qed simp

lemma ClaimReady_read: "map_prod read_db id (row_ClaimReady now n tb) = del_ClaimReady now n (read_db tb)"
proof (cases tb rule: row_stmt_cases)
  case (run tb')
  let ?ids = "map yr_id (take n (sort_key yr_created_at (filter (row_ready now) (tb_deliveries tb'))))"
  let ?rows = "update_where (\<lambda>r. yr_id r \<in> set ?ids) (\<lambda>r. r\<lparr>yr_status := ''sending'', yr_attempts := yr_attempts r + 1\<rparr>) (tb_deliveries tb')"
  have "ready now (scanDelivery r) = row_ready now r" for r
    by (auto simp: ready_def row_ready_def split: option.splits)
  then have ids: "map dl_ID (take n (sort_key dl_CreatedAt (filter (ready now) (db_deliveries (read_db tb'))))) = ?ids"
    by (simp add: filter_map comp_def sort_key_scan [where scan = scanDelivery] take_map)
  have rows: "update_where (\<lambda>r. dl_ID r \<in> set ?ids) claim (db_deliveries (read_db tb')) = map scanDelivery ?rows"
    unfolding read_fields by (rule sym, rule map_update_where_scan) (simp, simp add: scanDelivery_def claim_def)
  show ?thesis
    unfolding row_ClaimReady_def del_ClaimReady_def run prod.case option.case Let_def ids rows by (simp add: filter_map comp_def)
qed (simp add: row_ClaimReady_def del_ClaimReady_def)

lemma set_read:
  assumes f: "\<And>r. scanDelivery (f r) = f' (scanDelivery r)"
  shows "map_prod read_db id (row_set i f tb) = del_update i f' (read_db tb)"
proof (cases tb rule: row_stmt_cases)
  case (run tb')
  have "update_where (\<lambda>r. dl_ID r = i) f' (map scanDelivery rows) = map scanDelivery (update_where (\<lambda>r. yr_id r = i) f rows)" for rows
    by (rule sym, rule map_update_where_scan) (simp, rule f)
  with run show ?thesis by (simp add: row_set_def del_update_def)
qed (simp add: row_set_def del_update_def)

lemma counts_read:
  "map_prod read_db id (row_CountByMessage i tb) = del_CountByMessage i (read_db tb)"
  "map_prod read_db id (row_HasPending i tb) = del_HasPending i (read_db tb)"
  by (cases tb rule: row_stmt_cases;
      simp add: row_CountByMessage_def del_CountByMessage_def row_HasPending_def del_HasPending_def of_message_def
        terminal_status_def pending_status_def filter_map comp_def Let_def conj_commute)+

lemma markers_read:
  "map_prod read_db id (row_SetUserID now a i u tb) = dev_SetUserID now a i u (read_db tb)"
  "map_prod read_db id (row_ClearUserID now a i tb) = dev_ClearUserID now a i (read_db tb)"
  "map_prod read_db id (row_Unregister now a i tb) = dev_Unregister now a i (read_db tb)"
  "map_prod read_db id (row_MarkQueued now i tb) = msg_MarkQueued now i (read_db tb)"
  "map_prod read_db id (row_MarkCompleted now i tb) = msg_MarkCompleted now i (read_db tb)"
  "map_prod read_db id (row_MarkMessageFailed now i tb) = msg_MarkFailed now i (read_db tb)"
  "map_prod read_db id (row_MarkAccepted now i p tb) = del_MarkAccepted now i p (read_db tb)"
  "map_prod read_db id (row_MarkFailed i c m tb) = del_MarkFailed i c m (read_db tb)"
  "map_prod read_db id (row_MarkRetrying i c m t tb) = del_MarkRetrying i c m t (read_db tb)"
  unfolding row_SetUserID_def dev_SetUserID_def row_ClearUserID_def dev_ClearUserID_def row_Unregister_def dev_Unregister_def
    row_MarkQueued_def msg_MarkQueued_def row_MarkCompleted_def msg_MarkCompleted_def row_MarkMessageFailed_def msg_MarkFailed_def
    row_MarkAccepted_def del_MarkAccepted_def row_MarkFailed_def del_MarkFailed_def row_MarkRetrying_def del_MarkRetrying_def
  by (rule exec_read update_read set_read, simp add: scanDevice_def message_of_def scanDelivery_def)+

lemmas statements_read = Upsert_read FindByInstallationID_read UpdateToken_read markers_read MarkInvalid_read ListActive_read
  FindDevice_read create_read FindMessage_read ClaimQueued_read CreateMany_read ClaimReady_read counts_read

lemma run_read: "rows_ok tb \<Longrightarrow> map_prod read_db id (run_rows q tb) = run_db q (read_db tb)"
  by (cases q) (simp_all add: statements_read [symmetric] map_prod.comp map_prod.compositionality)

text \<open>Rows stay as the program writes them.\<close>

lemma rows_ok_update:
  assumes "rows_ok tb"
  shows "(\<And>r. dr_user_id r \<noteq> Some '''' \<Longrightarrow> dr_user_id (f r) \<noteq> Some '''') \<Longrightarrow>
      rows_ok (tb\<lparr>tb_devices := update_where P f (tb_devices tb)\<rparr>)"
    and "(\<And>r. mr_priority (g r) = mr_priority r) \<Longrightarrow> rows_ok (tb\<lparr>tb_messages := update_where Q g (tb_messages tb)\<rparr>)"
    and "rows_ok (tb\<lparr>tb_deliveries := ys\<rparr>)"
  using assms by (auto simp: rows_ok_def update_where_def)

lemma exec_rows_ok:
  "rows_ok tb \<Longrightarrow> (\<And>r. dr_user_id r \<noteq> Some '''' \<Longrightarrow> dr_user_id (f r) \<noteq> Some '''') \<Longrightarrow> rows_ok (fst (row_exec a i f tb))"
  by (cases tb rule: row_stmt_cases) (auto simp: row_exec_def row_stmt_same(5) intro: rows_ok_update(1))

lemma update_rows_ok:
  "rows_ok tb \<Longrightarrow> (\<And>r. mr_priority (f r) = mr_priority r) \<Longrightarrow> rows_ok (fst (row_update i f tb))"
  by (cases tb rule: row_stmt_cases) (auto simp: row_update_def row_stmt_same(5) intro: rows_ok_update(2))

lemma set_rows_ok: "rows_ok tb \<Longrightarrow> rows_ok (fst (row_set i f tb))"
  by (cases tb rule: row_stmt_cases) (auto simp: row_set_def row_stmt_same(5) intro: rows_ok_update(3))

lemma Upsert_rows_ok:
  assumes "rows_ok tb"
  shows "rows_ok (fst (row_Upsert now i d tb))"
proof (cases tb rule: row_stmt_cases)
  case (run tb')
  let ?ex = "device_args (device_defaults now i d)"
  have u: "dr_user_id ?ex \<noteq> Some ''''" by (simp add: device_args_def nullStr_def)
  then have "dr_user_id (merge_device_row ?ex r) \<noteq> Some ''''" if "dr_user_id r \<noteq> Some ''''" for r
    using that by (auto simp: merge_device_row_def coalesce_def split: option.splits)
  moreover have "rows_ok tb'" using assms row_stmt_same(5) [OF run(1)] by simp
  ultimately show ?thesis
    using u run(1) by (fastforce simp: row_Upsert_def Let_def rows_ok_def dest!: set_upd_firstD split: option.splits)
qed (use assms in \<open>simp add: row_Upsert_def row_stmt_same(5)\<close>)

lemma CreateMany_rows_ok: "rows_ok tb \<Longrightarrow> rows_ok (fst (row_CreateMany now ds tb))"
proof (induction now ds tb rule: row_CreateMany.induct)
  case (2 now newID d ds tb)
  have "rows_ok (fst (row_insert now newID d tb))" using 2(2)
    by (cases tb rule: row_stmt_cases) (auto simp: row_insert_def Let_def row_stmt_same(5) intro: rows_ok_update(3))
  with 2 show ?case by (auto split: prod.splits option.splits)
qed simp

lemma run_rows_ok: "rows_ok tb \<Longrightarrow> names_user q \<Longrightarrow> rows_ok (fst (run_rows q tb))"
proof (cases q)
  case (QCreate now i m)
  moreover assume "rows_ok tb"
  ultimately show ?thesis
    by (cases tb rule: row_stmt_cases) (auto simp: row_create_def Let_def rows_ok_def message_args_def row_stmt_same)
next
  case (QUpdateToken now a i p t)
  moreover assume "rows_ok tb"
  ultimately show ?thesis
    by (cases tb rule: row_stmt_cases) (auto simp: row_UpdateToken_def Let_def row_stmt_same(5) split: option.splits intro!: rows_ok_update(1))
qed (auto simp: row_SetUserID_def row_ClearUserID_def row_Unregister_def row_MarkQueued_def row_MarkCompleted_def
    row_MarkMessageFailed_def row_MarkAccepted_def row_MarkFailed_def row_MarkRetrying_def row_FindByInstallationID_def
    row_MarkInvalid_def row_devices_def row_ListActiveByUserIDs_def row_ListActiveByInstallationIDs_def row_FindDevice_def
    row_FindMessage_def row_ClaimQueued_def row_ClaimReady_def row_CountByMessage_def row_HasPending_def Let_def row_stmt_same(5)
    split: prod.splits option.splits list.splits intro!: exec_rows_ok update_rows_ok set_rows_ok rows_ok_update Upsert_rows_ok CreateMany_rows_ok)

lemma runs_read:
  "rows_ok tb \<Longrightarrow> list_all names_user qs \<Longrightarrow>
   map_prod read_db id (runs run_rows qs tb) = runs run_db qs (read_db tb) \<and> rows_ok (fst (runs run_rows qs tb))"
proof (induction qs arbitrary: tb)
  case (Cons q qs)
  obtain tb' a where q: "run_rows q tb = (tb', a)" by fastforce
  obtain tb'' as where r: "runs run_rows qs tb' = (tb'', as)" by fastforce
  have "run_db q (read_db tb) = (read_db tb', a)" "rows_ok tb'"
    using q run_read [of tb q] run_rows_ok [of tb q] Cons.prems by auto
  moreover from this Cons have "runs run_db qs (read_db tb') = (read_db tb'', as) \<and> rows_ok tb''" using r by fastforce
  ultimately show ?case using q r by simp
qed simp

section \<open>Property\<close>

text \<open>
  C17. The repositories refine the tables: whatever statements the program issues, in any order and with
  any of them failing, what it reads from the rows of the database, with their NULL columns, JSON
  documents and seconds, are the answers of the repositories on domain records, and the rows
  afterwards read as their state. No statement writes a row that cannot be read back.
\<close>

theorem repositories_refine_tables:
  assumes "rows_ok tb" "list_all names_user qs"
  shows "map_prod read_db id (runs run_rows qs tb) = runs run_db qs (read_db tb) \<and> rows_ok (fst (runs run_rows qs tb))"
  using assms by (rule runs_read)

definition no_rows :: Tables where
  "no_rows = \<lparr>tb_devices = [], tb_messages = [], tb_deliveries = [], tb_keys = Map.empty, tb_faults = [None, Some (Other ''down'')]\<rparr>"

definition row_device :: Device where
  "row_device = \<lparr>d_ID = ''d1'', d_UserID = ''u'', d_InstallationID = ''i'', d_Platform = ''ios'', d_Provider = ''apns'', d_Token = ''t'',
     d_AppID = ''app'', d_AppVersion = '''', d_OSVersion = '''', d_DeviceModel = '''', d_Locale = '''', d_Timezone = '''',
     d_Status = '''', d_CreatedAt = 0, d_UpdatedAt = 0, d_LastSeenAt = 0\<rparr>"

text \<open>A device is registered, clearing its user fails, then its user is cleared; the row reads back without one.\<close>

theorem repositories_refine_tables_witness:
  "let qs = [QUpsert 5 ''x'' row_device, QClearUserID 6 ''app'' ''i'', QClearUserID 7 ''app'' ''i'', QFindDevice ''d1'']
   in map dr_user_id (tb_devices (fst (runs run_rows qs no_rows))) = [None] \<and>
     map d_UserID (db_devices (fst (runs run_db qs (read_db no_rows)))) = [''''] \<and>
     snd (runs run_db qs (read_db no_rows)) = snd (runs run_rows qs no_rows)"
proof -
  let ?qs = "[QUpsert 5 ''x'' row_device, QClearUserID 6 ''app'' ''i'', QClearUserID 7 ''app'' ''i'', QFindDevice ''d1'']"
  have "rows_ok no_rows" "list_all names_user ?qs" by (simp_all add: rows_ok_def no_rows_def)
  then have r: "map_prod read_db id (runs run_rows ?qs no_rows) = runs run_db ?qs (read_db no_rows)"
    using repositories_refine_tables by blast
  have u: "map d_UserID (db_devices (read_db tb)) = map deref (map dr_user_id (tb_devices tb))" for tb by simp
  have n: "map dr_user_id (tb_devices (fst (runs run_rows ?qs no_rows))) = [None]"
    by (simp add: row_Upsert_def row_ClearUserID_def row_exec_def row_FindDevice_def row_stmt_def no_rows_def row_device_def
        device_args_def device_defaults_def nullStr_def row_of_installation_def update_where_def Let_def)
  show ?thesis unfolding Let_def r [symmetric] fst_map_prod snd_map_prod comp_def u n by simp
qed

end
