(* ===== verification/Replay.thy ===== *)
theory Replay
  imports HubProps RedisStores
begin

text \<open>
  The oplog as the hub uses it: the locale \<open>oplog_store\<close> states what both implementations of
  \<open>internal/oplog/store.go\<close> promise, a bounded log per call that reads back in order, and is interpreted
  on the one that keeps nothing and on the one on Redis. On top of it: what a device that comes back to
  a call is sent again of the signaling it missed.
\<close>

section \<open>The interface\<close>

text \<open>\<open>room\<close> is the number of messages that are kept; \<open>invar\<close> says that what is stored can be read.\<close>

locale oplog_store =
  fixes ol :: "'o OplogStore"
    and msgs :: "'o \<Rightarrow> string \<Rightarrow> Envelope list"
    and invar :: "'o \<Rightarrow> bool"
    and room :: nat
  assumes append_ok: "invar s \<Longrightarrow> ol_Append ol callID env s = (s', None) \<Longrightarrow>
      invar s' \<and> msgs s' = (msgs s)(callID := drop (length (msgs s callID @ [env]) - room) (msgs s callID @ [env]))"
    and recent_ok: "invar s \<Longrightarrow> ol_GetRecent ol callID s = Inr envs \<Longrightarrow> envs = msgs s callID"

text \<open>A run of appends to the logs of any calls, none of which fails.\<close>

inductive appends :: "'o OplogStore \<Rightarrow> 'o \<Rightarrow> (string \<times> Envelope) list \<Rightarrow> 'o \<Rightarrow> bool" for ol where
  appends_nil: "appends ol s [] s"
| appends_snoc: "appends ol s ms s' \<Longrightarrow> ol_Append ol callID env s' = (s'', None) \<Longrightarrow> appends ol s (ms @ [(callID, env)]) s''"

definition of_call :: "string \<Rightarrow> (string \<times> Envelope) list \<Rightarrow> Envelope list" where
  "of_call callID ms = map snd (filter (\<lambda>m. fst m = callID) ms)"

context oplog_store
begin

lemma appends_log:
  "appends ol s ms s' \<Longrightarrow> invar s \<Longrightarrow> msgs s callID = [] \<Longrightarrow>
   invar s' \<and> msgs s' callID = drop (length (of_call callID ms) - room) (of_call callID ms)"
proof (induction rule: appends.induct)
  case (appends_snoc s ms s' i env s'')
  let ?L = "of_call callID ms"
  from appends_snoc have IH: "invar s'" "msgs s' callID = drop (length ?L - room) ?L" by simp_all
  note a = append_ok [OF IH(1) appends_snoc.hyps(2)]
  show ?case
  proof (cases "i = callID")
    case True
    have "msgs s'' callID = drop (length (drop (length ?L - room) ?L @ [env]) - room) (drop (length ?L - room) ?L @ [env])"
      using a True IH(2) by (simp del: length_append)
    also have "\<dots> = drop (length (?L @ [env]) - room) (?L @ [env])" by (rule drop_trim)
    finally show ?thesis using a True by (simp add: of_call_def)
  next
    case False
    then show ?thesis using a IH(2) by (simp add: of_call_def)
  qed
qed (simp add: of_call_def)

lemma recent_after:
  "appends ol s ms s' \<Longrightarrow> invar s \<Longrightarrow> msgs s callID = [] \<Longrightarrow> ol_GetRecent ol callID s' = Inr envs \<Longrightarrow>
   envs = drop (length (of_call callID ms) - room) (of_call callID ms)"
  using appends_log recent_ok by metis

end

section \<open>The two implementations\<close>

interpretation noop_log: oplog_store NoOpStore "\<lambda>_ _. []" "\<lambda>_. True" 0
  by unfold_locales (auto simp: NoOpStore_def)

text \<open>The messages of a call on Redis, and that all of them can be decoded.\<close>

definition logged :: "data \<Rightarrow> string \<Rightarrow> Envelope list" where
  "logged d callID = decodable dec_envelope (lists d (oplog_key callID))"

definition logs_ok :: "data \<Rightarrow> bool" where
  "logs_ok d \<longleftrightarrow> (\<forall>callID. lists d (oplog_key callID) = map enc_envelope (logged d callID))"

lemma oplog_key_inject [simp]: "oplog_key a = oplog_key b \<longleftrightarrow> a = b"
  by (simp add: oplog_key_def)

lemma append_logged:
  assumes "logs_ok d" "d' = run_cmds [CRPush (oplog_key i) (enc_envelope env), CLTrim (oplog_key i) maxOplogSize,
      CExpire (oplog_key i) t] d"
  shows "logs_ok d' \<and> logged d' = (logged d)(i := drop (length (logged d i @ [env]) - 200) (logged d i @ [env]))"
proof -
  have L: "lists d (oplog_key j) = map enc_envelope (logged d j)" for j using assms(1) by (simp add: logs_ok_def)
  have "lists d' (oplog_key j) = map enc_envelope (if j = i
      then drop (length (logged d i @ [env]) - 200) (logged d i @ [env]) else logged d j)" for j
    by (simp add: assms(2) L maxOplogSize_def drop_map)
  then have "logged d' j = (if j = i then drop (length (logged d i @ [env]) - 200) (logged d i @ [env]) else logged d j)"
    "lists d' (oplog_key j) = map enc_envelope (logged d' j)" for j
    by (simp_all add: logged_def)
  then show ?thesis by (auto simp: logs_ok_def)
qed

locale redis_log =
  fixes R :: "'r Redis" and view :: "'r \<Rightarrow> data" and ttl :: duration
  assumes redis: "redis_ok R view"

sublocale redis_log \<subseteq> oplog_store "redis_oplog R ttl" "\<lambda>s. logged (view s)" "\<lambda>s. logs_ok (view s)" 200
proof (unfold_locales, goal_cases)
  case (1 s callID env s')
  then have "view s' = run_cmds [CRPush (oplog_key callID) (enc_envelope env), CLTrim (oplog_key callID) maxOplogSize,
      CExpire (oplog_key callID) (oplog_ttl ttl)] (view s)"
    using redis_okD(5) [OF redis] by (simp add: redis_oplog_def oplog_Append_def)
  from append_logged [OF 1(1) this] show ?case .
next
  case (2 s callID envs)
  then show ?case
    using redis_okD(4) [OF redis, of "oplog_key callID" s]
    by (auto simp: redis_oplog_def oplog_GetRecent_def logged_def split: sum.splits)
qed

context redis_log
begin

lemma recent_last_200:
  "appends (redis_oplog R ttl) s ms s' \<Longrightarrow> logs_ok (view s) \<Longrightarrow> logged (view s) callID = [] \<Longrightarrow>
   oplog_GetRecent R callID s' = Inr envs \<Longrightarrow> envs = drop (length (of_call callID ms) - 200) (of_call callID ms)"
  using recent_after [of s ms s' callID envs] by (simp add: redis_oplog_def)

end

interpretation plain_log: redis_log plain_redis "\<lambda>d. d" ttl for ttl
  by unfold_locales (rule plain_redis_ok)

section \<open>What the hub does to the oplog and to the queue of a connection\<close>

lemma oplog_frames [simp]:
  "hb_oplog (send_to cid env h) = hb_oplog h" "hb_oplog (reply now cid typ callID u data h) = hb_oplog h"
  "hb_oplog (deliverLocal app u ex env h) = hb_oplog h" "hb_oplog (routeToUser d now app u ex env h) = hb_oplog h"
  "hb_oplog (fst (run_call f h)) = hb_oplog h"
  by (simp_all add: send_to_def reply_def hub_envelope_def deliverLocal_def routeToUser_def run_call_def Let_def
      split: option.splits prod.splits)

lemma oplog_fold: "(\<And>x h. hb_oplog (f x h) = hb_oplog h) \<Longrightarrow> hb_oplog (fold f xs h) = hb_oplog h"
  by (induction xs arbitrary: h) simp_all

lemma oplog_broadcast [simp]: "hb_oplog (broadcastCall d now c typ u h) = hb_oplog h"
  by (simp add: broadcastCall_def hub_envelope_def oplog_fold)

text \<open>What sending leaves alone of a connection: its capacity, whether it is closed, and that its queue fits.\<close>

definition fits :: "Conn \<Rightarrow> nat \<times> bool \<times> bool" where
  "fits c = (cn_cap c, cn_closed c, length (cn_send c) \<le> cn_cap c)"

lemma fits_Send [simp]: "fits (fst (conn_Send env c)) = fits c"
  by (auto simp: fits_def conn_Send_def)

lemma fits_set_conn: "(\<And>c. fits (f c) = fits c) \<Longrightarrow> map_option fits (set_conn cid f heap x) = map_option fits (heap x)"
  by (simp add: set_conn_def option.map_comp split: option.splits)

lemma fits_fold_conns: "(\<And>c. fits (f c) = fits c) \<Longrightarrow>
    map_option fits (fold (\<lambda>cid. set_conn cid f) ids heap x) = map_option fits (heap x)"
  by (induction ids arbitrary: heap) (simp_all add: fits_set_conn)

lemma fits_frames [simp]:
  "map_option fits (hb_heap (send_to cid env h) x) = map_option fits (hb_heap h x)"
  "map_option fits (hb_heap (reply now cid typ callID u data h) x) = map_option fits (hb_heap h x)"
  "map_option fits (hb_heap (deliverLocal app u ex env h) x) = map_option fits (hb_heap h x)"
  "map_option fits (hb_heap (routeToUser d now app u ex env h) x) = map_option fits (hb_heap h x)"
  by (simp_all add: send_to_def reply_def hub_envelope_def deliverLocal_def routeToUser_def Let_def fits_set_conn fits_fold_conns
      split: option.splits)

lemma fits_fold: "(\<And>x h y. map_option fits (hb_heap (f x h) y) = map_option fits (hb_heap h y)) \<Longrightarrow>
    map_option fits (hb_heap (fold f xs h) y) = map_option fits (hb_heap h y)"
  by (induction xs arbitrary: h) simp_all

lemma fits_broadcast [simp]: "map_option fits (hb_heap (broadcastCall d now c typ u h) x) = map_option fits (hb_heap h x)"
  by (simp add: broadcastCall_def hub_envelope_def fits_fold)

text \<open>A replay fills the queue, in order and as far as there is room, with what others sent.\<close>

lemma replay_queue:
  "hb_heap h cid = Some c0 \<Longrightarrow> \<not> cn_closed c0 \<Longrightarrow> length (cn_send c0) \<le> cn_cap c0 \<Longrightarrow>
   \<exists>c1. hb_heap (replay cid c envs h) cid = Some c1 \<and> cn_send c1 =
     cn_send c0 @ take (cn_cap c0 - length (cn_send c0)) (filter (\<lambda>e. e_SenderID e \<noteq> cn_UserID c) envs)"
proof (induction envs arbitrary: h c0)
  case (Cons e envs)
  show ?case
  proof (cases "e_SenderID e = cn_UserID c")
    case True
    with Cons show ?thesis by (simp add: replay_def)
  next
    case False
    let ?c = "fst (conn_Send e c0)"
    have h: "hb_heap (send_to cid e h) cid = Some ?c" using Cons.prems(1) by (simp add: send_to_def set_conn_def)
    have "\<not> cn_closed ?c" "length (cn_send ?c) \<le> cn_cap ?c"
      using Cons.prems(2,3) by (auto simp: conn_Send_def)
    from Cons.IH [OF h this] False Cons.prems(2,3) show ?thesis
      by (auto simp: replay_def conn_Send_def take_Cons' split: if_splits)
  qed
qed (simp add: replay_def)

section \<open>Relaying and coming back\<close>

text \<open>
  A run of the hub as far as the oplog goes: signaling relayed for participants and logged, and anything
  that leaves the oplog alone.
\<close>

inductive relays :: "('s, 'o) HubDeps \<Rightarrow> 'o OplogStore \<Rightarrow> ('s, 'o) Hub \<Rightarrow> (string \<times> Envelope) list \<Rightarrow> ('s, 'o) Hub \<Rightarrow> bool"
  for d ol where
  relays_start: "relays d ol h [] h"
| relays_relay: "relays d ol h ms h' \<Longrightarrow> e_CallID env \<noteq> [] \<Longrightarrow>
     Get (hd_st d) Background (e_CallID env) (hb_svc h') = Inr cl \<Longrightarrow> FindParticipant (cn_UserID c) cl \<noteq> None \<Longrightarrow>
     out = protocol_New (hb_ids h' (hb_idn h')) now (e_Type env) (e_CallID env) (cn_UserID c) (e_Data env) \<Longrightarrow>
     ol_Append ol (e_CallID env) out (hb_oplog h') = (s, None) \<Longrightarrow>
     relays d ol h (ms @ [(e_CallID env, out)]) (relaySignaling d now cid c env h')"
| relays_else: "relays d ol h ms h' \<Longrightarrow> hb_oplog h'' = hb_oplog h' \<Longrightarrow> relays d ol h ms h''"

lemma relay_oplog:
  assumes "hd_oplog d = Some ol" "e_CallID env \<noteq> []" "Get (hd_st d) Background (e_CallID env) (hb_svc h) = Inr cl"
    and "FindParticipant (cn_UserID c) cl \<noteq> None"
    and "out = protocol_New (hb_ids h (hb_idn h)) now (e_Type env) (e_CallID env) (cn_UserID c) (e_Data env)"
  shows "hb_oplog (relaySignaling d now cid c env h) = fst (ol_Append ol (e_CallID env) out (hb_oplog h))"
  using assms by (auto simp: relaySignaling_def hub_envelope_def relay_append_def intro!: trans [OF oplog_fold])

lemma relays_appends: "relays d ol h ms h' \<Longrightarrow> hd_oplog d = Some ol \<Longrightarrow> appends ol (hb_oplog h) ms (hb_oplog h')"
proof (induction rule: relays.induct)
  case (relays_relay h ms h' env cl c out now s cid)
  then show ?case
    using relay_oplog [OF relays_relay.prems relays_relay.hyps(2-5), of cid] by (auto intro: appends_snoc)
qed (auto intro: appends_nil)

section \<open>Property\<close>

text \<open>
  C36. A device that comes back to a call is sent what it missed: when signaling of the call was relayed
  and logged on Redis, in between any other traffic, a resume that succeeds queues for the connection,
  after the state of the call, the last two hundred messages of the call in their order, without those
  of the user itself, as far as the queue of the connection has room.
\<close>

theorem resume_replays_missed_signaling:
  assumes "redis_ok R view" "hd_oplog d = Some (redis_oplog R ttl)" "logs_ok (view (hb_oplog h0))"
    and "logged (view (hb_oplog h0)) callID = []" "relays d (redis_oplog R ttl) h0 ms h"
    and "hb_heap h cid = Some c" "\<not> cn_closed c" "length (cn_send c) \<le> cn_cap c"
    and "callIDFrom env = callID" "callID \<noteq> []"
    and "ResumeFull (hd_st d) (hd_lib d) (hd_orch d) Background now callID (cn_UserID c) (cn_DeviceID c) (hb_svc h) = (svc, Inr snap)"
    and "oplog_GetRecent R callID (hb_oplog h) = Inr recent"
  shows "\<exists>c0 c'. hb_heap (broadcastCall d now (rr_Call snap) TypeCallParticipantJoined (cn_UserID c)
      (reply now cid TypeCallState (rr_CallID snap) (cn_UserID c) (Some (enc_resume snap)) (h\<lparr>hb_svc := svc\<rparr>))) cid = Some c0 \<and>
    hb_heap (handleResume d now cid c env h) cid = Some c' \<and>
    cn_send c' = cn_send c0 @ take (cn_cap c - length (cn_send c0))
      (filter (\<lambda>e. e_SenderID e \<noteq> cn_UserID c) (drop (length (of_call callID ms) - 200) (of_call callID ms)))"
proof -
  let ?h2 = "broadcastCall d now (rr_Call snap) TypeCallParticipantJoined (cn_UserID c)
    (reply now cid TypeCallState (rr_CallID snap) (cn_UserID c) (Some (enc_resume snap)) (h\<lparr>hb_svc := svc\<rparr>))"
  have "handleResume d now cid c env h = replay cid c recent ?h2"
    using assms(2,9-12) by (simp add: handleResume_def run_call_def redis_oplog_def)
  moreover have "recent = drop (length (of_call callID ms) - 200) (of_call callID ms)"
    using redis_log.recent_last_200 [OF redis_log.intro [OF assms(1)] relays_appends [OF assms(5,2)] assms(3,4,12)] .
  moreover have "map_option fits (hb_heap ?h2 cid) = Some (fits c)" using assms(6) by simp
  then obtain c0 where c0: "hb_heap ?h2 cid = Some c0" "fits c0 = fits c" unfolding map_option_eq_Some by blast
  then have "\<not> cn_closed c0" "length (cn_send c0) \<le> cn_cap c0" "cn_cap c0 = cn_cap c" using assms(7,8) by (simp_all add: fits_def)
  with replay_queue [OF c0(1), of c recent] have "\<exists>c1. hb_heap (replay cid c recent ?h2) cid = Some c1 \<and> cn_send c1 =
      cn_send c0 @ take (cn_cap c - length (cn_send c0)) (filter (\<lambda>e. e_SenderID e \<noteq> cn_UserID c) recent)" by simp
  ultimately show ?thesis using c0(1) by (metis (no_types, lifting))
qed

definition log_deps :: "(MemoryStore, data) HubDeps" where
  "log_deps = \<lparr>hd_st = memory_store, hd_lib = demo_lib, hd_jwt = demo_validator, hd_orch = demo_orchestrator,
     hd_oplog = Some (redis_oplog plain_redis 0), hd_bus = True, hd_incoming = True, hd_redis = None\<rparr>"

definition log_hub :: "(MemoryStore, data) Hub" where
  "log_hub = (NewHub 0 0 (\<lambda>n. replicate n CHR ''i'') demo_service None no_data)\<lparr>hb_heap := [''cv'' \<mapsto> peer ''cv'' ''v'']\<rparr>"

definition resume_request :: Envelope where
  "resume_request = \<lparr>e_ID = [], e_Type = TypeCallResume, e_Timestamp = 0, e_CallID = ''c'', e_SenderID = [], e_Data = None\<rparr>"

text \<open>An offer is relayed while the other participant is away, who then comes back and is sent it.\<close>

theorem resume_replays_missed_signaling_witness:
  "\<exists>c' q out. hb_heap (handleResume log_deps 2 ''cv'' (peer ''cv'' ''v'') resume_request
       (relaySignaling log_deps 1 ''cu'' (peer ''cu'' ''u'') demo_offer log_hub)) ''cv'' = Some c' \<and>
     cn_send c' = q @ take (8 - length q) [out] \<and> e_SenderID out = ''u'' \<and> e_Type out = TypeWebRTCOffer"
proof -
  let ?u = "peer ''cu'' ''u''" and ?v = "peer ''cv'' ''v''" and ?out = "protocol_New [] 1 TypeWebRTCOffer ''c'' ''u'' (Some JNull)"
  let ?h = "relaySignaling log_deps 1 ''cu'' ?u demo_offer log_hub"
  have d: "hd_st log_deps = memory_store" "hd_oplog log_deps = Some (redis_oplog plain_redis 0)" "hd_redis log_deps = None"
    "hd_lib log_deps = demo_lib" "hd_orch log_deps = demo_orchestrator" by (simp_all add: log_deps_def)
  have h0: "hb_svc log_hub = demo_service" "hb_oplog log_hub = no_data" "hb_heap log_hub = [''cv'' \<mapsto> ?v]" "hb_byUser log_hub = Map.empty"
    "hb_ids log_hub (hb_idn log_hub) = []" by (simp_all add: log_hub_def NewHub_def)
  have e: "e_CallID demo_offer = ''c''" "e_Type demo_offer = TypeWebRTCOffer" "e_Data demo_offer = Some JNull"
    by (simp_all add: demo_offer_def)
  have p: "cn_UserID ?u = ''u''" "cn_UserID ?v = ''v''" "\<not> cn_closed ?v" "length (cn_send ?v) \<le> cn_cap ?v" "cn_cap ?v = 8"
    by (simp_all add: peer_def SetIdentity_def conn_New_def)
  have g: "Get memory_store None ''c'' demo_service = Inr demo_call"
    by (simp add: Get_def memory_store_def mem_Get_def demo_service_def NewService_def)
  have ps: "map p_UserID (c_Participants demo_call) = [''u'', ''v'']"
    by (simp add: demo_call_def new_call_def demo_create_def new_participants_def)
  then have f: "FindParticipant ''u'' demo_call \<noteq> None" "FindParticipant ''v'' demo_call \<noteq> None"
    by (simp_all add: FindParticipant_None users_set)
  obtain s where s: "ol_Append (redis_oplog plain_redis 0) ''c'' ?out no_data = (s, None)"
    by (simp add: redis_oplog_def oplog_Append_def plain_redis_def)
  have "relays log_deps (redis_oplog plain_redis 0) log_hub ([] @ [(e_CallID demo_offer, ?out)]) ?h"
    by (rule relays_relay [OF relays_start]) (use d h0 e p g f s in simp_all)
  then have r: "relays log_deps (redis_oplog plain_redis 0) log_hub [(''c'', ?out)] ?h" by (simp add: e)
  have quiet: "fold (\<lambda>p h. if p_UserID p = w then h else routeToUser log_deps 1 app (p_UserID p) [] out h) xs h = h"
    if "hb_byUser h = Map.empty" for w app out xs and h :: "(MemoryStore, data) Hub"
    using that by (induction xs) (simp_all add: routeToUser_def d deliverLocal_def)
  have h: "hb_svc ?h = demo_service" "hb_heap ?h ''cv'' = Some ?v"
    using f(1) by (auto simp add: relaySignaling_def hub_envelope_def relay_append_def quiet d h0 e p g)
  have "IsTerminal demo_call" by (simp add: demo_call_def IsTerminal_def)
  then have q: "ResumeFull memory_store demo_lib demo_orchestrator None 2 ''c'' ''v'' (cn_DeviceID ?v) demo_service =
      (demo_service, Inr (resume_result demo_orchestrator demo_call))"
    using g f by (auto simp: ResumeFull_def Resume_def resume_check_def Let_def split: option.splits)
  have l: "logs_ok no_data" "logged no_data ''c'' = []" by (simp_all add: logs_ok_def logged_def no_data_def decodable_def)
  obtain recent where "oplog_GetRecent plain_redis ''c'' (hb_oplog ?h) = Inr recent"
    by (simp add: oplog_GetRecent_def plain_redis_def)
  have "callIDFrom resume_request = ''c''" "(''c'' :: string) \<noteq> []" by (simp_all add: resume_request_def callIDFrom_def)
  note r = resume_replays_missed_signaling [OF plain_redis_ok d(2) _ _ r h(2) p(3,4) this, unfolded h0(2) h(1) d p,
      OF l q \<open>oplog_GetRecent _ _ _ = _\<close>]
  have missed: "filter (\<lambda>e. e_SenderID e \<noteq> ''v'') (drop (length (of_call ''c'' [(''c'', ?out)]) - 200) (of_call ''c'' [(''c'', ?out)])) = [?out]"
    by (simp add: of_call_def protocol_New_def)
  from r obtain q c' where "hb_heap (handleResume log_deps 2 ''cv'' ?v resume_request ?h) ''cv'' = Some c'"
      "cn_send c' = q @ take (8 - length q) [?out]"
    unfolding missed by blast
  moreover have "e_SenderID ?out = ''u''" "e_Type ?out = TypeWebRTCOffer" by (simp_all add: protocol_New_def)
  ultimately show ?thesis by metis
qed

end
