(* ===== verification/Metrics.thy ===== *)
theory Metrics
  imports PushProps CallProps HubProps
begin

text \<open>
  The metrics (\<open>internal/metrics/metrics.go\<close>): what is declared, the samples that the worker, the
  message service and the hub record, and what the counters say about calls and deliveries. Prometheus
  is a library: a counter is the number of samples recorded for it, recording one with another number
  of label values than were declared panics, and so does declaring a name twice.
\<close>

section \<open>Declarations (metrics.go)\<close>

datatype Metric =
    MessagesTotal | MessagesFailedTotal | MessagesAcceptedTotal | MessagesRetriedTotal | DeliveryTotal
  | DeliveryFailedTotal | ProviderLatency | ProviderErrors | InvalidTokensTotal | IncomingCallPushTotal
  | IncomingCallPushFailureTotal | WebSocketConnections | WebSocketReconnects | ActiveCalls
  | ActiveParticipants | CallsCreatedTotal | CallsConnectedTotal | CallsEndedTotal | CallsFailedTotal
  | SFURooms | SFUParticipants

definition declared :: "(Metric \<times> string \<times> string list) list" where
  "declared =
     [(MessagesTotal, ''push_messages_total'', [''app_id'', ''platform'']),
      (MessagesFailedTotal, ''push_messages_failed_total'', [''app_id'', ''provider'']),
      (MessagesAcceptedTotal, ''push_messages_accepted_total'', [''app_id'', ''provider'']),
      (MessagesRetriedTotal, ''push_messages_retried_total'', [''app_id'', ''provider'']),
      (DeliveryTotal, ''push_delivery_total'', [''app_id'', ''provider'', ''platform'']),
      (DeliveryFailedTotal, ''push_delivery_failed_total'', [''app_id'', ''provider'']),
      (ProviderLatency, ''push_provider_latency'', [''provider'']),
      (ProviderErrors, ''push_provider_errors'', [''provider'', ''code'']),
      (InvalidTokensTotal, ''push_invalid_tokens_total'', [''provider'', ''app_id'']),
      (IncomingCallPushTotal, ''incoming_call_push_total'', [''app_id'']),
      (IncomingCallPushFailureTotal, ''incoming_call_push_failure_total'', [''app_id'', ''provider'']),
      (WebSocketConnections, ''websocket_connections'', []),
      (WebSocketReconnects, ''websocket_reconnects'', []),
      (ActiveCalls, ''active_calls'', []),
      (ActiveParticipants, ''active_participants'', []),
      (CallsCreatedTotal, ''call_created_total'', [''app_id'']),
      (CallsConnectedTotal, ''call_connected_total'', [''app_id'']),
      (CallsEndedTotal, ''call_ended_total'', [''app_id'']),
      (CallsFailedTotal, ''call_failed_total'', [''app_id'']),
      (SFURooms, ''sfu_rooms'', []),
      (SFUParticipants, ''sfu_participants'', [])]"

text \<open>A sample: a metric and the values of its labels. What a counter or a histogram has counted.\<close>

type_synonym Sample = "Metric \<times> string list"

definition total :: "Metric \<Rightarrow> string list \<Rightarrow> Sample list \<Rightarrow> nat" where
  "total m labels ss = length (filter (\<lambda>s. s = (m, labels)) ss)"

definition hits :: "Metric \<Rightarrow> Sample list \<Rightarrow> nat" where
  "hits m ss = length (filter (\<lambda>s. fst s = m) ss)"

definition sample_ok :: "Sample \<Rightarrow> bool" where
  "sample_ok s \<longleftrightarrow> (case map_of declared (fst s) of None \<Rightarrow> False | Some (_, labels) \<Rightarrow> length (snd s) = length labels)"

section \<open>The worker (queue/worker.go)\<close>

definition error_samples :: "int \<Rightarrow> Delivery \<Rightarrow> Device \<Rightarrow> error \<Rightarrow> Sample list" where
  "error_samples maxAttempt d device err =
     (let (code, retryable, invalid) =
            (case err of
               Prov pe \<Rightarrow> (pe_Code pe, pe_Retryable pe, pe_InvalidToken pe)
             | _ \<Rightarrow> (ErrCodeProviderTempError, True, False))
      in (ProviderErrors, [dl_Provider d, code]) #
         (if invalid then [(InvalidTokensTotal, [dl_Provider d, d_AppID device])]
          else if ShouldRetry retryable (dl_Attempts d) maxAttempt
          then [(MessagesRetriedTotal, [d_AppID device, dl_Provider d])]
          else [(DeliveryFailedTotal, [d_AppID device, dl_Provider d])]))"

definition result_samples :: "int \<Rightarrow> Delivery \<Rightarrow> Device \<Rightarrow> SendResult option \<Rightarrow> Sample list" where
  "result_samples maxAttempt d device result =
     (case result of
        None \<Rightarrow> []
      | Some result \<Rightarrow>
          if sr_InvalidToken result
          then [(InvalidTokensTotal, [dl_Provider d, d_AppID device]), (DeliveryFailedTotal, [d_AppID device, dl_Provider d])]
          else if \<not> sr_Accepted result then
            if ShouldRetry (sr_Retryable result) (dl_Attempts d) maxAttempt
            then [(MessagesRetriedTotal, [d_AppID device, dl_Provider d])]
            else [(DeliveryFailedTotal, [d_AppID device, dl_Provider d]), (MessagesFailedTotal, [d_AppID device, dl_Provider d])]
          else [(MessagesAcceptedTotal, [d_AppID device, dl_Provider d])])"

definition delivery_samples :: "Worker \<Rightarrow> gotime \<Rightarrow> Delivery \<Rightarrow> Db \<Rightarrow> Sample list" where
  "delivery_samples w now d db =
     (case dev_FindByID (dl_DeviceID d) db of
        (_, Inl _) \<Rightarrow> []
      | (db, Inr device) \<Rightarrow>
          (case msg_FindByID (d_AppID device) (dl_MessageID d) db of
             (_, Inl _) \<Rightarrow> []
           | (_, Inr msg) \<Rightarrow>
               (case registry_Get (dl_Provider d) (w_registry w) of
                  Inl _ \<Rightarrow> []
                | Inr p \<Rightarrow>
                    (ProviderLatency, [dl_Provider d]) #
                    (case pv_Send p now msg device of
                       Inl err \<Rightarrow> error_samples (w_maxAttempt w) d device err
                     | Inr result \<Rightarrow> result_samples (w_maxAttempt w) d device result))))"

section \<open>The message service (service/message.go)\<close>

definition enqueue_samples :: "string \<Rightarrow> Message \<Rightarrow> Device list \<Rightarrow> Sample list" where
  "enqueue_samples appID created devices =
     map (\<lambda>d. (DeliveryTotal, [appID, selectProviderForMessage d created, d_Platform d]))
       (filterDevicesForMessage devices (m_Type created))"

definition sent_samples :: "SendMessageInput \<Rightarrow> error + SendMessageResult \<Rightarrow> Sample list" where
  "sent_samples inp r =
     (case r of
        Inl _ \<Rightarrow> []
      | Inr res \<Rightarrow> if sr_Duplicate res then [] else [(MessagesTotal, [sm_AppID inp, sm_Type (send_type inp)])])"

definition incoming_samples :: "SendIncomingCallInput \<Rightarrow> error + SendMessageResult \<Rightarrow> Sample list" where
  "incoming_samples inp r = (case r of Inl _ \<Rightarrow> [] | Inr _ \<Rightarrow> [(IncomingCallPushTotal, [si_AppID inp])])"

section \<open>The hub (signaling/websocket/hub.go)\<close>

text \<open>The handler for every event of the bus.\<close>

definition onEvent :: "'p Event \<Rightarrow> Sample list" where
  "onEvent e =
     (if ev_Type e = CallEnded then [(CallsEndedTotal, [ev_AppID e])]
      else if ev_Type e = CallConnected then [(CallsConnectedTotal, [ev_AppID e])]
      else if ev_Type e = CallFailed then [(CallsFailedTotal, [ev_AppID e])]
      else [])"

definition created_samples :: "string \<Rightarrow> error + Call \<Rightarrow> Sample list" where
  "created_samples appID r = (case r of Inl _ \<Rightarrow> [] | Inr _ \<Rightarrow> [(CallsCreatedTotal, [appID])])"

text \<open>The counter of reconnects: a client that says it reconnects, or resumes a call.\<close>

definition auth_samples :: "('s, 'o) HubDeps \<Rightarrow> gotime \<Rightarrow> json \<Rightarrow> Sample list" where
  "auth_samples d now raw =
     (case Validate (hd_lib d) (hd_jwt d) now (ad_Token (auth_data raw)) of
        Inl _ \<Rightarrow> []
      | Inr _ \<Rightarrow> if ad_Reconnect (auth_data raw) then [(WebSocketReconnects, [])] else [])"

definition resume_samples :: "Envelope \<Rightarrow> Sample list" where
  "resume_samples env = (if callIDFrom env = [] then [] else [(WebSocketReconnects, [])])"

text \<open>The gauge of connections along a run of the hub: up in \<open>ServeHTTP\<close>, down in \<open>unregister\<close>.\<close>

inductive gauge_run :: "('s, 'o) HubDeps \<Rightarrow> ('s, 'o) Hub \<Rightarrow> int \<Rightarrow> ('s, 'o) Hub \<Rightarrow> int \<Rightarrow> bool" for d h0 g0 where
  gauge_start: "gauge_run d h0 g0 h0 g0"
| gauge_connect: "gauge_run d h0 g0 h g \<Longrightarrow> hb_heap h (''conn_'' @ hb_ids h (hb_idn h)) = None \<Longrightarrow>
    gauge_run d h0 g0 (serve now h) (g + 1)"
| gauge_disconnect: "gauge_run d h0 g0 h g \<Longrightarrow> cid \<in> set (hb_conns h) \<Longrightarrow> gauge_run d h0 g0 (unregister d now cid h) (g - 1)"
| gauge_message: "gauge_run d h0 g0 h g \<Longrightarrow> cid \<in> set (hb_conns h) \<Longrightarrow> gauge_run d h0 g0 (read_message d now cid frame h) g"
| gauge_written: "gauge_run d h0 g0 h g \<Longrightarrow> gauge_run d h0 g0 (write_message cid h) g"
| gauge_event: "gauge_run d h0 g0 h g \<Longrightarrow> gauge_run d h0 g0 (dispatch_event app u e h) g"
| gauge_others: "gauge_run d h0 g0 h g \<Longrightarrow> gauge_run d h0 g0 (h\<lparr>hb_svc := svc, hb_presence := ps, hb_oplog := ol\<rparr>) g"

section \<open>Lemmas\<close>

lemma total_append [simp]: "total m l (xs @ ys) = total m l xs + total m l ys"
  by (simp add: total_def)

lemma total_onEvent: "total CallsEndedTotal [app] (concat (map onEvent evs)) =
    length (filter (\<lambda>e. ev_Type e = CallEnded \<and> ev_AppID e = app) evs)"
  by (induction evs) (auto simp: total_def onEvent_def)

text \<open>Every event on the bus is about a call of the runtime and carries its application.\<close>

definition names_calls :: "(string \<Rightarrow> Call option) \<Rightarrow> call_event list \<Rightarrow> bool" where
  "names_calls L evs \<longleftrightarrow> (\<forall>e \<in> set evs. \<exists>c. L (ev_CallID e) = Some c \<and> c_AppID c = ev_AppID e)"

definition about :: "Call \<Rightarrow> call_event \<Rightarrow> bool" where
  "about c e \<longleftrightarrow> ev_CallID e = c_ID c \<and> ev_AppID e = c_AppID c"

lemma publish_about:
  "e \<in> set (sv_published (publish now t c u x s)) \<Longrightarrow> e \<in> set (sv_published s) \<or> about c e"
  by (auto simp: publish_def about_def split: option.splits)

context call_store
begin

definition new_events_named :: "'s Service \<Rightarrow> 's Service \<Rightarrow> bool" where
  "new_events_named s s' \<longleftrightarrow> (\<forall>e \<in> set (sv_published s'). e \<in> set (sv_published s) \<or>
     (\<exists>c. lookup (sv_store s') (ev_CallID e) = Some c \<and> c_AppID c = ev_AppID e))"

lemma update_events:
  assumes inv: "invar (sv_store s)" and fn: "runtime_fn cid fn"
    and op: "case run_update st ctx cid fn s of (t, Inl e) \<Rightarrow> s' = t | (t, Inr c) \<Rightarrow> s' = pub c t"
    and pub: "\<And>c t. sv_store (pub c t) = sv_store t"
    and new: "\<And>c t e. e \<in> set (sv_published (pub c t)) \<Longrightarrow> e \<in> set (sv_published t) \<or> about c e"
  shows "new_events_named s s'"
proof -
  obtain t r where u: "run_update st ctx cid fn s = (t, r)" by fastforce
  show ?thesis
  proof (cases rule: run_update_cases [OF inv fn u])
    case (1 c c')
    with op u have s': "s' = pub c' t" by simp
    have "sv_published t = sv_published s" by (subst 1(4), simp)
    with new [of _ c' t] 1(5,7) show ?thesis by (fastforce simp: new_events_named_def s' pub about_def)
  next
    case (2 e)
    with op u have s': "s' = t" by simp
    have "sv_published t = sv_published s" by (subst 2(2), simp)
    with s' show ?thesis by (simp add: new_events_named_def)
  qed
qed

lemma ops_named:
  assumes inv: "invar (sv_store s)"
  shows "new_events_named s (fst (Accept st ctx now cid u d s))" "new_events_named s (fst (Join st ctx now cid u d s))"
    "new_events_named s (fst (MarkConnected st ctx now cid u s))" "new_events_named s (fst (Reject st ctx now cid u s))"
    "new_events_named s (fst (Cancel st ctx now cid u s))" "new_events_named s (fst (endForUser st ctx now cid u reason e s))"
    "new_events_named s (fst (Fail st ctx now cid reason s))" "new_events_named s (fst (resume_apply st ctx cid u d s))"
proof -
  note op = update_events [OF inv, where ctx = ctx and cid = cid]
  note splits = prod.splits sum.splits
  show "new_events_named s (fst (Accept st ctx now cid u d s))"
    by (rule op [OF runtime_fn.accept [of cid now u d], where pub = "\<lambda>c. publish now CallAccepted c u
          [''accepted_device_id'' \<mapsto> PStr d, ''stop_ringing'' \<mapsto> PBool True]"])
      (auto simp: Accept_def dest: publish_about split: splits)
  show "new_events_named s (fst (Join st ctx now cid u d s))"
    by (rule op [OF runtime_fn.join [of cid now u d], where pub = "\<lambda>c. publish now CallParticipantJoined c u Map.empty"])
      (auto simp: Join_def dest: publish_about split: splits)
  show "new_events_named s (fst (MarkConnected st ctx now cid u s))"
    by (rule op [OF runtime_fn.connected [of cid now u], where pub = "\<lambda>c. publish now CallConnected c u Map.empty"])
      (auto simp: MarkConnected_def dest: publish_about split: splits)
  show "new_events_named s (fst (Reject st ctx now cid u s))"
    by (rule op [OF runtime_fn.reject [of cid now u], where pub = "\<lambda>c t. let t = publish now CallRejected c u Map.empty t
           in if c_State c = StateRejected then publish now CallEnded c u [''reason'' \<mapsto> PStr ''rejected''] t else t"])
      (auto simp: Reject_def Let_def dest!: publish_about split: splits if_splits)
  show "new_events_named s (fst (Cancel st ctx now cid u s))"
    by (rule op [OF runtime_fn.cancel [of cid now u], where pub = "\<lambda>c t. publish now CallEnded c u
          [''reason'' \<mapsto> PStr ''cancelled''] (publish now CallCancelled c u Map.empty t)"])
      (auto simp: Cancel_def Let_def dest!: publish_about split: splits)
  show "new_events_named s (fst (endForUser st ctx now cid u reason e s))"
    by (rule op [OF runtime_fn.ends [of cid now u reason e], where
          pub = "\<lambda>c t. let t = publish now CallParticipantLeft c u [''reason'' \<mapsto> PStr reason] t
             in if IsTerminal c then publish now CallEnded c u [''reason'' \<mapsto> PStr reason] t else t"])
      (auto simp: endForUser_def Let_def dest!: publish_about split: splits if_splits)
  show "new_events_named s (fst (Fail st ctx now cid reason s))"
    by (rule op [OF runtime_fn.fail [of cid now reason], where pub = "\<lambda>c. publish now CallFailed c '''' [''reason'' \<mapsto> PStr reason]"])
      (auto simp: Fail_def dest: publish_about split: splits)
  show "new_events_named s (fst (resume_apply st ctx cid u d s))"
    by (rule op [OF runtime_fn.resume [of cid u d], where pub = "\<lambda>c t. t"]) (auto simp: resume_apply_def split: splits)
qed

lemma timeout_named:
  assumes "invar (sv_store s)"
  shows "new_events_named s (fire_timeout st now cid s)"
proof -
  obtain t r where u: "run_update st Background cid (timeout_fn now) s = (t, r)" by fastforce
  have same: "sv_published t = sv_published s"
    using u by (auto simp: run_update_def split: prod.splits)
  have id: "c_ID c = cid" if "lookup (sv_store t) cid = Some c" for c
    by (cases rule: run_update_cases [OF assms runtime_fn.timeout u]) (use that lookup_id in blast)+
  show ?thesis
    using u same id get_ok [of Background cid "sv_store t"]
    by (auto simp: fire_timeout_def new_events_named_def about_def Get_def Let_def dest!: publish_about split: sum.splits)
qed

lemma create_named:
  assumes "invar (sv_store s)" "Get st Background (''call_'' @ id1) s = Inl CallNotFound"
  shows "new_events_named s (fst (Create st ctx now id1 id2 inp s))"
proof -
  let ?c = "new_call now (''call_'' @ id1) (''room_'' @ id2) inp"
  obtain sto r where p: "st_Put st ctx ?c (sv_store s) = (sto, r)" by fastforce
  have "lookup (sv_store s) (c_ID ?c) = None"
    using assms(2) by (simp add: Get_def get_background new_call_def split: option.splits)
  from put_ok [OF assms(1) this, of ctx sto] p have "r = None \<Longrightarrow> lookup sto (c_ID ?c) = Some ?c" by simp
  then show ?thesis
    using p by (auto simp: Create_def new_events_named_def about_def Let_def dest!: publish_about split: option.splits)
qed

lemma call_step_named:
  assumes "call_step st r r'" "invar (sv_store (rt_svc r))"
  shows "new_events_named (rt_svc r) (rt_svc r')"
  using assms(1)
proof cases
  case (timeout cid due now)
  then show ?thesis using timeout_named [OF assms(2), of now cid] by (simp add: new_events_named_def)
next
  case (create id1 ctx now id2 inp)
  then show ?thesis using create_named [OF assms(2)] by simp
qed (use assms(2) in \<open>simp_all add: ops_named Leave_def Hangup_def\<close>, simp add: new_events_named_def)

lemma call_steps_named:
  assumes "call_steps st r r'" "runtime_inv r" "names_calls (lookup (sv_store (rt_svc r))) (sv_published (rt_svc r))"
  shows "names_calls (lookup (sv_store (rt_svc r'))) (sv_published (rt_svc r'))"
  using assms
proof (induction rule: call_steps.induct)
  case (steps_step r1 r2 r3)
  have inv: "invar (sv_store (rt_svc r2))"
    using call_steps_inv [OF steps_step(1,4)] by (simp add: runtime_inv_def)
  have "changes (lookup (sv_store (rt_svc r2))) (lookup (sv_store (rt_svc r3)))"
    using call_step_effect [OF steps_step(2) inv] by blast
  note keep = changes_evolves [OF this]
  have "\<exists>c'. lookup (sv_store (rt_svc r3)) i = Some c' \<and> c_AppID c' = c_AppID c" if "lookup (sv_store (rt_svc r2)) i = Some c" for i c
    using keep [OF that] by (auto simp: evolves_def keeps_identity_def)
  with call_step_named [OF steps_step(2) inv] steps_step(3) [OF steps_step(4,5)] show ?case
    unfolding names_calls_def new_events_named_def by metis
qed simp

end

text \<open>What a step of the hub does to the registered connections.\<close>

lemma core_conns: "core h' = core h \<Longrightarrow> hb_conns h' = hb_conns h"
  by (simp add: core_def)

lemma conns_unregister: "hb_conns (unregister d now cid h) = removeAll cid (hb_conns h)"
proof (cases "hb_heap h cid")
  case None
  then show ?thesis by (simp add: unregister_def)
next
  case (Some c)
  let ?h = "unbind cid h"
  let ?p = "case hb_presence ?h of None \<Rightarrow> ?h | Some ps \<Rightarrow> if cn_authed c
     then (case SetOffline Background now (cn_AppID c) (cn_UserID c) (cn_DeviceID c) ps of
             (ps, up) \<Rightarrow> broadcastPresence d now up (?h\<lparr>hb_presence := Some ps\<rparr>)) else ?h"
  have p: "hb_conns ?p = hb_conns ?h" by (rule core_conns) (simp split: option.splits prod.splits)
  have "hb_conns (if cn_authed c then hub_publish d now DeviceDisconnected c ?p else ?p) = hb_conns ?p"
    by (simp only: core_conns [OF core_misc(1)] split: if_split) blast
  then show ?thesis using p unfolding unregister_def Some option.case Let_def by simp
qed

lemma conns_handle: "hb_conns (handle d now cid env raw h) = hb_conns h"
proof (cases "hb_heap h cid")
  case (Some c)
  show ?thesis
  proof (cases "e_Type env = TypeAuthenticate")
    case True
    then have "handle d now cid env raw h = handleAuth d now cid raw h" using Some by (simp add: handle_def)
    then show ?thesis
      using handleAuth_core [of d now cid raw h] core_conns auth_bind_fields(1) [OF Some] by metis
  next
    case False
    then have "core (handle d now cid env raw h) = core h"
      using Some by (auto simp: handle_def split: prod.splits bool.splits)
    then show ?thesis by (rule core_conns)
  qed
qed (simp add: handle_def)

lemma conns_read_message: "hb_conns (read_message d now cid frame h) = hb_conns h"
  by (simp add: read_message_def Let_def conns_handle core_conns [OF core_reply] split: option.splits sum.splits)

lemma gauge_run_steps: "gauge_run d h0 g0 h g \<Longrightarrow> hub_steps d h0 h"
  by (induction rule: gauge_run.induct) (blast intro: hub_steps.intros hub_step.intros)+

lemma gauge_conns:
  assumes "gauge_run d h0 g0 h g" "hub_inv d h0" "distinct (hb_conns h0)" "g0 = int (length (hb_conns h0))"
  shows "distinct (hb_conns h) \<and> g = int (length (hb_conns h))"
  using assms
proof (induction rule: gauge_run.induct)
  case (gauge_connect h g now)
  have "hub_inv d h" using hub_steps_inv [OF gauge_run_steps [OF gauge_connect(1)] gauge_connect(4)] .
  then have "''conn_'' @ hb_ids h (hb_idn h) \<notin> set (hb_conns h)"
    using gauge_connect(2) by (auto simp: hub_inv_def bindings_ok_def who_def)
  then show ?case using gauge_connect by (simp add: serve_def register_def conn_New_def)
next
  case (gauge_disconnect h g cid now)
  then have "length (removeAll cid (hb_conns h)) = length (hb_conns h) - 1"
    by (simp add: distinct_remove1_removeAll [symmetric] length_remove1)
  moreover have "hb_conns h \<noteq> []" using gauge_disconnect(2) by auto
  ultimately show ?case using gauge_disconnect by (simp add: conns_unregister distinct_removeAll of_nat_diff Suc_leI)
next
  case (gauge_written h g cid)
  then show ?case using core_conns [of "write_message cid h" h] by simp
next
  case (gauge_event h g app u e)
  then show ?case using core_conns [of "dispatch_event app u e h" h] by simp
qed (simp_all add: conns_read_message)

text \<open>Announcements that are at most one per call: counting them counts calls.\<close>

lemma once_per_call:
  assumes "\<And>i. length (filter (\<lambda>e. ev_Type e = t \<and> ev_CallID e = i) evs) \<le> 1"
  shows "length (filter (\<lambda>e. ev_Type e = t \<and> P e) evs) = card (ev_CallID ` {e \<in> set evs. ev_Type e = t \<and> P e})"
  using assms
proof (induction evs)
  case (Cons e evs)
  have le: "length (filter (\<lambda>e. ev_Type e = t \<and> ev_CallID e = i) evs) \<le> 1" for i
    using Cons.prems [of i] by (auto split: if_splits)
  show ?case
  proof (cases "ev_Type e = t \<and> P e")
    case True
    have "filter (\<lambda>x. ev_Type x = t \<and> ev_CallID x = ev_CallID e) evs = []" using Cons.prems [of "ev_CallID e"] True by simp
    then have "ev_CallID e \<notin> ev_CallID ` {x \<in> set evs. ev_Type x = t \<and> P x}" by (auto simp: filter_empty_conv)
    moreover have "{x \<in> set (e # evs). ev_Type x = t \<and> P x} = insert e {x \<in> set evs. ev_Type x = t \<and> P x}" using True by auto
    ultimately show ?thesis using Cons.IH [OF le] True by simp
  next
    case False
    then have "{x \<in> set (e # evs). ev_Type x = t \<and> P x} = {x \<in> set evs. ev_Type x = t \<and> P x}" by auto
    with False Cons.IH [OF le] show ?thesis by (simp del: de_Morgan_conj)
  qed
qed simp

lemma ended_calls_announced:
  assumes "\<And>i. ended_count i evs = ended_due (L i)" "names_calls L evs"
  shows "ev_CallID ` {e \<in> set evs. ev_Type e = CallEnded \<and> ev_AppID e = app} =
    {i. \<exists>c. L i = Some c \<and> c_AppID c = app \<and> IsTerminal c \<and> c_State c \<noteq> StateFailed}" (is "?E = ?C")
proof (intro set_eqI iffI)
  fix i assume "i \<in> ?E"
  then obtain e where e: "e \<in> set evs" "ev_Type e = CallEnded" "ev_AppID e = app" "ev_CallID e = i" by auto
  then have "filter (\<lambda>e. ev_Type e = CallEnded \<and> ev_CallID e = i) evs \<noteq> []" by (auto simp: filter_empty_conv)
  then have "ended_due (L i) \<noteq> 0" unfolding assms(1) [of i, symmetric] ended_count_def by simp
  moreover obtain c where "L i = Some c" "c_AppID c = app" using assms(2) e by (auto simp: names_calls_def)
  ultimately show "i \<in> ?C" by (auto split: if_splits)
next
  fix i assume "i \<in> ?C"
  then obtain c where c: "L i = Some c" "c_AppID c = app" "ended_due (L i) = 1" by auto
  then have "filter (\<lambda>e. ev_Type e = CallEnded \<and> ev_CallID e = i) evs \<noteq> []" using assms(1) [of i] by (auto simp: ended_count_def)
  then obtain e where e: "e \<in> set evs" "ev_Type e = CallEnded" "ev_CallID e = i" by (auto simp: filter_empty_conv)
  with assms(2) c have "ev_AppID e = app" by (fastforce simp: names_calls_def)
  with e show "i \<in> ?E" by auto
qed

definition outcome_samples :: "Delivery \<Rightarrow> Sample list \<Rightarrow> bool" where
  "outcome_samples r ss \<longleftrightarrow>
     hits MessagesAcceptedTotal ss = of_bool (dl_Status r = DeliveryStatusAccepted) \<and>
     hits MessagesRetriedTotal ss = of_bool (dl_Status r = DeliveryStatusRetrying) \<and>
     hits DeliveryFailedTotal ss \<le> of_bool (dl_Status r = DeliveryStatusFailed)"

lemma answer_samples:
  "outcome_samples (verdict mx now d (Inl err)) (error_samples mx d dev err)"
  "outcome_samples (verdict mx now d (Inr res)) (result_samples mx d dev res)"
  by (auto simp: outcome_samples_def hits_def verdict_def error_samples_def result_samples_def ShouldRetry_def Let_def
      split: error.splits option.splits)

lemma outcome_latency: "outcome_samples r ss \<Longrightarrow> outcome_samples r ((ProviderLatency, ls) # ss)"
  by (simp add: outcome_samples_def hits_def)

lemma not_sent_samples: "dl_Status r = DeliveryStatusFailed \<Longrightarrow> outcome_samples r []"
  by (simp add: outcome_samples_def hits_def)

lemma set_row_outcome:
  "db_deliveries db' = set_row i r db \<Longrightarrow> outcome_samples r ss \<Longrightarrow> dl_ID r = i \<Longrightarrow>
   \<forall>r' \<in> set (db_deliveries db'). dl_ID r' = i \<longrightarrow> outcome_samples r' ss"
  by (auto simp: set_row_def)

lemma verdict_ID [simp]: "dl_ID (verdict mx now d answer) = dl_ID d"
  by (auto simp: verdict_def Let_def split: sum.splits option.splits error.splits)

section \<open>Properties\<close>

text \<open>
  C5. The counter of ended calls is right: in every state the call runtime reaches with a bus attached,
  whatever requests and timers were interleaved, the samples the hub records for the events of the
  bus give \<open>call_ended_total\<close> of an application as the number of its calls that have ended other than
  by failing.
\<close>

theorem ended_total_counts_calls:
  assumes "call_steps memory_store (new_runtime NewMemoryStore (Some bus) ring) r"
  shows "let ended = {i. \<exists>c. ms_calls (sv_store (rt_svc r)) i = Some c \<and> c_AppID c = app \<and> IsTerminal c \<and> c_State c \<noteq> StateFailed}
    in finite ended \<and> total CallsEndedTotal [app] (concat (map onEvent (sv_published (rt_svc r)))) = card ended"
proof -
  let ?evs = "sv_published (rt_svc r)" and ?L = "ms_calls (sv_store (rt_svc r))"
  have "sv_bus (rt_svc r) = Some bus"
    using mem.call_steps_bus [OF assms] mem_start by (simp add: new_runtime_bus)
  with mem_reachable_inv [OF assms] have count: "ended_count i ?evs = ended_due (?L i)" for i by (simp add: mem.runtime_inv_def)
  have "sv_published (rt_svc (new_runtime NewMemoryStore (Some bus) ring)) = []"
    by (simp add: new_runtime_def NewService_def SetRingTimeoutHandler_def)
  then have named: "names_calls ?L ?evs"
    using mem.call_steps_named [OF assms] mem_start by (simp add: names_calls_def)
  have "ended_due (?L i) \<le> 1" for i by (cases "?L i") simp_all
  then have "length (filter (\<lambda>e. ev_Type e = CallEnded \<and> ev_CallID e = i) ?evs) \<le> 1" for i
    using count [of i] unfolding ended_count_def by simp
  from once_per_call [OF this] show ?thesis
    unfolding total_onEvent Let_def ended_calls_announced [OF count named, symmetric] by simp
qed

text \<open>A call that is cancelled is counted for its application.\<close>

theorem ended_total_counts_calls_witness:
  "total CallsEndedTotal [c_AppID CallProps.demo_call] (concat (map onEvent (sv_published (rt_svc demo_cancelled)))) \<ge> 1"
proof -
  let ?S = "{i. \<exists>c. ms_calls (sv_store (rt_svc demo_cancelled)) i = Some c \<and> c_AppID c = c_AppID CallProps.demo_call \<and> IsTerminal c \<and>
    c_State c \<noteq> StateFailed}"
  have "call_steps memory_store (new_runtime NewMemoryStore (Some (NewBus 0)) 0) demo_cancelled"
    using call_steps_trans [OF demo_ringing_reachable demo_cancelled_steps] by (simp add: demo_start_def)
  note t = ended_total_counts_calls [OF this, of "c_AppID CallProps.demo_call"]
  have c: "ms_calls (sv_store (rt_svc demo_cancelled)) ''call_1'' = Some (fst (cancel_fn 200 ''a'' CallProps.demo_call))"
    by (simp add: demo_cancelled_store)
  have "''call_1'' \<in> ?S" using c by (simp add: cancel_fn_def demo_call_fields IsTerminal_def)
  with t have "0 < card ?S" by (auto simp: card_gt_0_iff Let_def)
  with t show ?thesis by (simp add: Let_def)
qed



section \<open>Further facts\<close>

text \<open>No name is declared twice, and every sample has the label values that were declared.\<close>

lemma sample_ok_labels [simp]:
  "sample_ok (ProviderLatency, [a])" "sample_ok (ProviderErrors, [a, b])" "sample_ok (InvalidTokensTotal, [a, b])"
  "sample_ok (MessagesRetriedTotal, [a, b])" "sample_ok (DeliveryFailedTotal, [a, b])" "sample_ok (MessagesFailedTotal, [a, b])"
  "sample_ok (MessagesAcceptedTotal, [a, b])" "sample_ok (DeliveryTotal, [a, b, c])" "sample_ok (MessagesTotal, [a, b])"
  "sample_ok (IncomingCallPushTotal, [a])" "sample_ok (CallsEndedTotal, [a])" "sample_ok (CallsConnectedTotal, [a])"
  "sample_ok (CallsFailedTotal, [a])" "sample_ok (CallsCreatedTotal, [a])" "sample_ok (WebSocketConnections, [])"
  "sample_ok (WebSocketReconnects, [])"
  by (simp_all add: sample_ok_def declared_def)

lemma declared_once: "distinct (map fst declared)" "distinct (map (\<lambda>(_, name, _). name) declared)"
  by (simp_all add: declared_def)

lemma samples_ok:
  "list_all sample_ok (error_samples mx d dev err)" "list_all sample_ok (result_samples mx d dev res)"
  "list_all sample_ok (enqueue_samples app m devices)" "list_all sample_ok (sent_samples inp r1)"
  "list_all sample_ok (incoming_samples inc r1)" "list_all sample_ok (onEvent e)" "list_all sample_ok (created_samples app r2)"
  "list_all sample_ok (auth_samples dp now raw)" "list_all sample_ok (resume_samples env)"
  by (simp_all add: error_samples_def result_samples_def enqueue_samples_def sent_samples_def incoming_samples_def onEvent_def
      created_samples_def auth_samples_def resume_samples_def list.pred_map list.pred_True comp_def Let_def split: prod.splits sum.splits option.splits error.splits)

lemma metrics_do_not_panic: "list_all sample_ok (delivery_samples w now d db)"
  by (simp add: delivery_samples_def samples_ok split: prod.splits sum.splits)

text \<open>
  \<open>call_connected_total\<close> counts connections of participants: every successful report of one is counted,
  also when the call was connected before.
\<close>

lemma connected_total_counts_participants:
  assumes "MarkConnected st ctx now cid u s = (s', Inr c)" "sv_bus s \<noteq> None"
  shows "total CallsConnectedTotal [c_AppID c] (concat (map onEvent (sv_published s'))) =
    total CallsConnectedTotal [c_AppID c] (concat (map onEvent (sv_published s))) + 1"
proof -
  obtain t where t: "run_update st ctx cid (connected_fn now u) s = (t, Inr c)" "s' = publish now CallConnected c u Map.empty t"
    using assms(1) by (auto simp: MarkConnected_def split: prod.splits sum.splits)
  moreover have "sv_published t = sv_published s" "sv_bus t = sv_bus s" using t(1) by (auto simp: run_update_def split: prod.splits)
  ultimately show ?thesis using assms(2) by (auto simp: publish_def onEvent_def total_def)
qed

text \<open>A push that was found to be a duplicate is counted as an incoming call push, and not as a message.\<close>

lemma duplicates_are_counted:
  "sr_Duplicate res \<Longrightarrow> incoming_samples inc (Inr res) = [(IncomingCallPushTotal, [si_AppID inc])] \<and> sent_samples inp (Inr res) = []"
  by (simp add: incoming_samples_def sent_samples_def)

text \<open>A delivery that fails for a token the provider reports as an error is missing in the counter of failed ones.\<close>

lemma failure_not_counted:
  assumes "pe_InvalidToken pe"
  shows "dl_Status (verdict mx now d (Inl (Prov pe))) = DeliveryStatusFailed \<and>
    hits DeliveryFailedTotal (error_samples mx d dev (Prov pe)) = 0"
  using assms by (simp add: verdict_def error_samples_def hits_def Let_def)

text \<open>
  The gauge \<open>websocket_connections\<close> is the number of registered connections after any run of a new hub.
\<close>

lemma connections_gauge:
  assumes "gauge_run d (NewHub msgs calls ids svc ps ol) 0 h g"
  shows "g = int (ActiveConnections h)"
  using gauge_conns [OF assms hub_inv_new] by (simp add: NewHub_def ActiveConnections_def)

end
