(* ===== verification/Process.thy ===== *)
theory Process
  imports Startup WorkerLoop
begin

text \<open>
  The life of the process (\<open>main\<close> of \<open>cmd/mgl-push/main.go\<close>): the order in which it opens the
  database, starts the worker, connects to Redis and serves, its exits on the way, and the order in which
  it closes what it opened. What the outside answers are parameters.
\<close>

section \<open>The registry at the end (provider.go)\<close>

fun vendor_Close :: "Vendor \<Rightarrow> error option" where
  "vendor_Close _ = None"

definition registry_Names :: "(string \<times> Vendor) list \<Rightarrow> string list" where
  "registry_Names vs = map fst vs"

definition registry_Close :: "(string \<times> Vendor) list \<Rightarrow> error option" where
  "registry_Close vs =
     fold (\<lambda>(_, v) firstErr. case vendor_Close v of
             None \<Rightarrow> firstErr
           | Some err \<Rightarrow> if firstErr = None then Some err else firstErr) vs None"

section \<open>The steps of main\<close>

datatype Action =
    OpenPool | PingDatabase | RegisterProviders | StartWorker | ParseRedisURL | PingRedis | Serve
  | Signal | ShutdownHTTP | StopWorker | CloseRegistry | CloseRedis | ClosePool | Exit int

text \<open>What the outside answers: an error, or none. The server fails, or a signal comes first.\<close>

record Probes =
  pb_pool :: "error option"
  pb_ping :: "error option"
  pb_redisURL :: "error option"
  pb_redisPing :: "error option"
  pb_serve :: "error option"

definition or_exit :: "error option \<Rightarrow> Action list \<Rightarrow> Action list" where
  "or_exit err rest = (case err of Some _ \<Rightarrow> [Exit 1] | None \<Rightarrow> rest)"

definition connect_redis :: "Probes \<Rightarrow> Config \<Rightarrow> Action list \<Rightarrow> Action list" where
  "connect_redis pb cfg rest =
     (if cf_RedisURL cfg \<noteq> ''''
      then ParseRedisURL # or_exit (pb_redisURL pb) (PingRedis # or_exit (pb_redisPing pb) rest)
      else rest)"

text \<open>The last step is the deferred close of the pool, the second one.\<close>

definition shutdown :: "Config \<Rightarrow> Action list" where
  "shutdown cfg =
     [Signal, ShutdownHTTP, StopWorker, CloseRegistry] @
     (if cf_RedisURL cfg \<noteq> '''' then [CloseRedis] else []) @ [ClosePool, ClosePool]"

definition main_run :: "Probes \<Rightarrow> Config \<Rightarrow> Action list" where
  "main_run pb cfg =
     OpenPool # or_exit (pb_pool pb)
       (PingDatabase # or_exit (pb_ping pb)
         (RegisterProviders # StartWorker # connect_redis pb cfg
           (Serve # or_exit (pb_serve pb) (shutdown cfg))))"

section \<open>What is in use\<close>

record Proc =
  pr_pool :: bool
  pr_database :: bool
  pr_providers :: bool
  pr_worker :: WorkerRun
  pr_redis :: bool
  pr_serving :: bool

definition proc_start :: Proc where
  "proc_start = \<lparr>pr_pool = False, pr_database = False, pr_providers = False,
     pr_worker = \<lparr>wr_running = False, wr_loops = 0\<rparr>, pr_redis = False, pr_serving = False\<rparr>"

text \<open>The effect of a step, given what the outside answers.\<close>

fun act :: "Probes \<Rightarrow> Action \<Rightarrow> Proc \<Rightarrow> Proc" where
  "act pb OpenPool p = p\<lparr>pr_pool := (pb_pool pb = None)\<rparr>"
| "act pb PingDatabase p = p\<lparr>pr_database := (pb_ping pb = None)\<rparr>"
| "act pb RegisterProviders p = p\<lparr>pr_providers := True\<rparr>"
| "act pb StartWorker p = p\<lparr>pr_worker := worker_Start (pr_worker p)\<rparr>"
| "act pb ParseRedisURL p = p"
| "act pb PingRedis p = p\<lparr>pr_redis := (pb_redisPing pb = None)\<rparr>"
| "act pb Serve p = p\<lparr>pr_serving := True\<rparr>"
| "act pb Signal p = p"
| "act pb ShutdownHTTP p = p\<lparr>pr_serving := False\<rparr>"
| "act pb StopWorker p = p\<lparr>pr_worker := worker_Stop (pr_worker p)\<rparr>"
| "act pb CloseRegistry p = p\<lparr>pr_providers := False\<rparr>"
| "act pb CloseRedis p = p\<lparr>pr_redis := False\<rparr>"
| "act pb ClosePool p = p\<lparr>pr_pool := False\<rparr>"
| "act pb (Exit _) p = proc_start"

text \<open>
  What uses something has it: while requests are served the database has answered, its pool is open,
  Redis, if there is one, has answered, and the worker runs; while a loop of the worker runs it has the
  pool and the providers.
\<close>

definition proc_ok :: "Config \<Rightarrow> Proc \<Rightarrow> bool" where
  "proc_ok cfg p \<longleftrightarrow>
     (pr_serving p \<longrightarrow> pr_pool p \<and> pr_database p \<and> pr_providers p \<and> Alive (pr_worker p) \<and> (cf_RedisURL cfg \<noteq> '''' \<longrightarrow> pr_redis p)) \<and>
     (0 < wr_loops (pr_worker p) \<longrightarrow> pr_pool p \<and> pr_database p \<and> pr_providers p)"

section \<open>Lemmas\<close>

fun all_states_ok :: "Probes \<Rightarrow> Config \<Rightarrow> Action list \<Rightarrow> Proc \<Rightarrow> bool" where
  "all_states_ok pb cfg [] p = proc_ok cfg p"
| "all_states_ok pb cfg (a # as) p = (proc_ok cfg p \<and> all_states_ok pb cfg as (act pb a p))"

lemma all_states_ok_prefix: "all_states_ok pb cfg as p \<Longrightarrow> prefix bs as \<Longrightarrow> proc_ok cfg (fold (act pb) bs p)"
  by (induction as arbitrary: bs p) (auto simp: prefix_Cons)

lemma proc_start_ok [simp]: "proc_ok cfg proc_start"
  by (simp add: proc_ok_def proc_start_def)

lemma registry_Close_ok: "registry_Close vs = None"
proof -
  have "fold (\<lambda>(_, v) firstErr. case vendor_Close v of None \<Rightarrow> firstErr | Some err \<Rightarrow> if firstErr = None then Some err else firstErr) vs e = e"
    for e by (induction vs) auto
  then show ?thesis by (simp add: registry_Close_def)
qed

lemma main_states_ok: "all_states_ok pb cfg (main_run pb cfg) proc_start"
  by (auto simp: main_run_def or_exit_def connect_redis_def shutdown_def proc_ok_def proc_start_def worker_Start_def
      worker_Stop_def Alive_def split: option.splits)

section \<open>Properties\<close>


definition healthy :: Probes where
  "healthy = \<lparr>pb_pool = None, pb_ping = None, pb_redisURL = None, pb_redisPing = None, pb_serve = None\<rparr>"

definition with_redis :: Config where
  "with_redis = Load (\<lambda>k. if k = ''MGL_PUSH_REDIS_URL'' then ''redis://host'' else '''')"


text \<open>
  The worker is started before Redis is asked: when Redis does not answer, the process exits with the
  worker running, without stopping it.
\<close>

lemma exit_with_worker_running:
  assumes "pb_pool pb = None" "pb_ping pb = None" "cf_RedisURL cfg \<noteq> ''''" "pb_redisURL pb = None" "pb_redisPing pb = Some e"
  shows "main_run pb cfg = [OpenPool, PingDatabase, RegisterProviders, StartWorker, ParseRedisURL, PingRedis, Exit 1]"
  using assms by (simp add: main_run_def or_exit_def connect_redis_def)

end
