(* ===== verification/CallHeap.thy ===== *)
theory CallHeap
  imports CallService
begin

text \<open>
  The in-process store as it is in memory (\<open>internal/call/memory_store.go\<close>, \<open>types.go\<close>): it keeps
  pointers to calls, a call has pointers to its participants, the closures of the runtime write through
  these pointers, and \<open>Get\<close> and \<open>Update\<close> hand out what \<open>Clone\<close> made. The theory relates this to the store
  of values that the runtime is verified against. Pointers to times are kept as values: the code
  replaces such a pointer and never writes through it. A slice of participants is a list: what \<open>append\<close>
  may write behind the end of a slice belongs to no other call, since \<open>Clone\<close> makes a new one.
\<close>

section \<open>Objects\<close>

type_synonym addr = nat

text \<open>A \<open>Call\<close> in memory: its plain fields, and the pointers to its participants.\<close>

record CallObj =
  co_fields :: Call
  co_Participants :: "addr list"

record Heap =
  hp_calls :: "addr \<rightharpoonup> CallObj"
  hp_participants :: "addr \<rightharpoonup> Participant"
  hp_next :: addr

definition parts :: "Heap \<Rightarrow> addr \<Rightarrow> addr list" where
  "parts h a = (case hp_calls h a of None \<Rightarrow> [] | Some ob \<Rightarrow> co_Participants ob)"

definition deref_participant :: "Heap \<Rightarrow> addr \<Rightarrow> Participant" where
  "deref_participant h p = the (hp_participants h p)"

text \<open>The call that a pointer shows.\<close>

definition load :: "Heap \<Rightarrow> addr \<Rightarrow> Call" where
  "load h a = (co_fields (the (hp_calls h a)))\<lparr>c_Participants := map (deref_participant h) (parts h a)\<rparr>"

section \<open>Statements\<close>

text \<open>Assigning to fields of a call and of a participant, and the loop over the participants.\<close>

definition assign :: "addr \<Rightarrow> (Call \<Rightarrow> Call) \<Rightarrow> Heap \<Rightarrow> Heap" where
  "assign a f h = h\<lparr>hp_calls := (hp_calls h)(a := map_option (\<lambda>ob. ob\<lparr>co_fields := f (co_fields ob)\<rparr>) (hp_calls h a))\<rparr>"

definition assign_participant :: "addr \<Rightarrow> (Participant \<Rightarrow> Participant) \<Rightarrow> Heap \<Rightarrow> Heap" where
  "assign_participant p f h = h\<lparr>hp_participants := (hp_participants h)(p := map_option f (hp_participants h p))\<rparr>"

definition each_participant :: "addr \<Rightarrow> (Participant \<Rightarrow> Participant) \<Rightarrow> Heap \<Rightarrow> Heap" where
  "each_participant a f h = fold (\<lambda>p. assign_participant p f) (parts h a) h"

definition find_participant :: "string \<Rightarrow> addr \<Rightarrow> Heap \<Rightarrow> addr option" where
  "find_participant userID a h = find (\<lambda>p. p_UserID (deref_participant h p) = userID) (parts h a)"

definition new_participant :: "Participant \<Rightarrow> Heap \<Rightarrow> Heap \<times> addr" where
  "new_participant x h = (h\<lparr>hp_participants := (hp_participants h)(hp_next h \<mapsto> x), hp_next := Suc (hp_next h)\<rparr>, hp_next h)"

definition append_participant :: "addr \<Rightarrow> addr \<Rightarrow> Heap \<Rightarrow> Heap" where
  "append_participant a p h =
     h\<lparr>hp_calls := (hp_calls h)(a := map_option (\<lambda>ob. ob\<lparr>co_Participants := co_Participants ob @ [p]\<rparr>) (hp_calls h a))\<rparr>"

fun new_participants_at :: "Participant list \<Rightarrow> Heap \<Rightarrow> Heap \<times> addr list" where
  "new_participants_at [] h = (h, [])"
| "new_participants_at (x # xs) h =
     (case new_participant x h of (h, p) \<Rightarrow> map_prod id (\<lambda>ps. p # ps) (new_participants_at xs h))"

text \<open>A new call with its participants, as \<open>Create\<close> builds it, and a copy of a call.\<close>

definition alloc_call :: "Call \<Rightarrow> Heap \<Rightarrow> Heap \<times> addr" where
  "alloc_call c h =
     (case new_participants_at (c_Participants c) h of (h, ps) \<Rightarrow>
        (h\<lparr>hp_calls := (hp_calls h)(hp_next h \<mapsto> \<lparr>co_fields = c\<lparr>c_Participants := []\<rparr>, co_Participants = ps\<rparr>),
           hp_next := Suc (hp_next h)\<rparr>, hp_next h))"

definition Clone :: "addr \<Rightarrow> Heap \<Rightarrow> Heap \<times> addr" where
  "Clone a h =
     (let cp = the (hp_calls h a)
      in case new_participants_at (map (deref_participant h) (co_Participants cp)) h of (h, ps) \<Rightarrow>
           (h\<lparr>hp_calls := (hp_calls h)(hp_next h \<mapsto> cp\<lparr>co_Participants := ps\<rparr>), hp_next := Suc (hp_next h)\<rparr>, hp_next h))"

section \<open>The closures of the runtime, in place (service.go)\<close>

type_synonym heap_fn = "addr \<Rightarrow> Heap \<Rightarrow> Heap \<times> error option"

definition heap_timeout :: "gotime \<Rightarrow> heap_fn" where
  "heap_timeout now c h =
     (if c_State (load h c) \<noteq> StateRinging then (h, Some errSkip)
      else (let h = assign c (\<lambda>c. c\<lparr>c_State := StateTimeout\<rparr>) h;
                h = assign c (\<lambda>c. c\<lparr>c_EndedAt := Some now\<rparr>) h;
                h = assign c (\<lambda>c. c\<lparr>c_Reason := ''ring_timeout''\<rparr>) h
            in (each_participant c (disconnect_ringing now) h, None)))"

definition heap_accept :: "gotime \<Rightarrow> string \<Rightarrow> string \<Rightarrow> heap_fn" where
  "heap_accept now userID deviceID c h =
     (if IsTerminal (load h c) then (h, Some (InvalidRequest ''call already ended''))
      else if c_State (load h c) \<noteq> StateRinging \<and> c_State (load h c) \<noteq> StateAccepted \<and> c_State (load h c) \<noteq> StateConnecting
      then (h, Some (InvalidRequest ''call not ringing''))
      else case find_participant userID c h of
             None \<Rightarrow> (h, Some (Forbidden ''not a participant''))
           | Some p \<Rightarrow>
               (let h = assign_participant p (\<lambda>p. p\<lparr>p_State := ParticipantAccepted\<rparr>) h;
                    h = assign_participant p (\<lambda>p. p\<lparr>p_DeviceID := deviceID\<rparr>) h;
                    h = assign_participant p (\<lambda>p. p\<lparr>p_JoinedAt := Some now\<rparr>) h;
                    h = assign c (\<lambda>c. c\<lparr>c_State := StateAccepted\<rparr>) h
                in (if c_Mode (load h c) = ModeDirect
                    then each_participant c
                           (\<lambda>other. if p_UserID other \<noteq> userID \<and> p_UserID other \<noteq> c_CallerID (load h c)
                                    then disconnect_ringing now other else other) h
                    else h, None)))"

definition heap_reject :: "gotime \<Rightarrow> string \<Rightarrow> heap_fn" where
  "heap_reject now userID c h =
     (if IsTerminal (load h c) then (h, Some (InvalidRequest ''call already ended''))
      else case find_participant userID c h of
             None \<Rightarrow> (h, Some (Forbidden ''not a participant''))
           | Some p \<Rightarrow>
               (let h = assign_participant p (\<lambda>p. p\<lparr>p_State := ParticipantRejected\<rparr>) h;
                    h = assign_participant p (\<lambda>p. p\<lparr>p_LeftAt := Some now\<rparr>) h
                in (if c_Mode (load h c) = ModeDirect
                    then assign c (\<lambda>c. c\<lparr>c_Reason := ''rejected''\<rparr>)
                           (assign c (\<lambda>c. c\<lparr>c_EndedAt := Some now\<rparr>) (assign c (\<lambda>c. c\<lparr>c_State := StateRejected\<rparr>) h))
                    else h, None)))"

definition heap_cancel :: "gotime \<Rightarrow> string \<Rightarrow> heap_fn" where
  "heap_cancel now userID c h =
     (if IsTerminal (load h c) then (h, Some (InvalidRequest ''call already ended''))
      else if c_CallerID (load h c) \<noteq> userID then (h, Some (Forbidden ''only caller can cancel''))
      else (let h = assign c (\<lambda>c. c\<lparr>c_State := StateCancelled\<rparr>) h;
                h = assign c (\<lambda>c. c\<lparr>c_EndedAt := Some now\<rparr>) h;
                h = assign c (\<lambda>c. c\<lparr>c_Reason := ''cancelled''\<rparr>) h
            in (each_participant c (disconnect_ringing now) h, None)))"

text \<open>What \<open>Join\<close> does once it has a pointer to the participant.\<close>

definition join_as :: "gotime \<Rightarrow> string \<Rightarrow> addr \<Rightarrow> addr \<Rightarrow> Heap \<Rightarrow> Heap" where
  "join_as now deviceID p c h =
     (let h = assign_participant p (\<lambda>p. p\<lparr>p_DeviceID := deviceID\<rparr>) h;
          h = assign_participant p (\<lambda>p. p\<lparr>p_State := ParticipantConnecting\<rparr>) h;
          h = (if p_JoinedAt (deref_participant h p) = None
               then assign_participant p (\<lambda>p. p\<lparr>p_JoinedAt := Some now\<rparr>) h else h)
      in if c_State (load h c) = StateAccepted \<or> c_State (load h c) = StateRinging
         then assign c (\<lambda>c. c\<lparr>c_State := StateConnecting\<rparr>) h else h)"

definition heap_join :: "gotime \<Rightarrow> string \<Rightarrow> string \<Rightarrow> string \<Rightarrow> heap_fn" where
  "heap_join now callID userID deviceID c h =
     (if IsTerminal (load h c) then (h, Some (InvalidRequest ''call already ended''))
      else case find_participant userID c h of
             Some p \<Rightarrow> (join_as now deviceID p c h, None)
           | None \<Rightarrow>
               if c_Mode (load h c) \<noteq> ModeGroup then (h, Some (Forbidden ''not a participant''))
               else (case new_participant \<lparr>p_CallID = callID, p_UserID = userID, p_DeviceID = '''', p_State = ParticipantInvited,
                              p_JoinedAt = None, p_LeftAt = None, p_Role = ''participant''\<rparr> h of
                       (h, p) \<Rightarrow> (join_as now deviceID p c (append_participant c p h), None)))"

definition heap_connected :: "gotime \<Rightarrow> string \<Rightarrow> heap_fn" where
  "heap_connected now userID c h =
     (if IsTerminal (load h c) then (h, Some (InvalidRequest ''call already ended''))
      else case find_participant userID c h of
             None \<Rightarrow> (h, Some (Forbidden ''not a participant''))
           | Some p \<Rightarrow>
               (let h = assign_participant p (\<lambda>p. p\<lparr>p_State := ParticipantConnected\<rparr>) h
                in (if c_StartedAt (load h c) = None
                    then assign c (\<lambda>c. c\<lparr>c_State := StateConnected\<rparr>) (assign c (\<lambda>c. c\<lparr>c_StartedAt := Some now\<rparr>) h)
                    else h, None)))"

definition heap_fail :: "gotime \<Rightarrow> string \<Rightarrow> heap_fn" where
  "heap_fail now reason c h =
     (if IsTerminal (load h c) then (h, None)
      else (assign c (\<lambda>c. c\<lparr>c_Reason := reason\<rparr>)
              (assign c (\<lambda>c. c\<lparr>c_EndedAt := Some now\<rparr>) (assign c (\<lambda>c. c\<lparr>c_State := StateFailed\<rparr>) h)), None))"

definition heap_resume :: "string \<Rightarrow> string \<Rightarrow> heap_fn" where
  "heap_resume userID deviceID c h =
     (case find_participant userID c h of
        None \<Rightarrow> (h, None)
      | Some p \<Rightarrow>
          (let h = assign_participant p (\<lambda>p. p\<lparr>p_DeviceID := deviceID\<rparr>) h
           in (if p_State (deref_participant h p) \<in> {ParticipantDisconnected, ParticipantReconnecting, ParticipantConnected}
               then assign_participant p (\<lambda>p. p\<lparr>p_State := ParticipantReconnecting\<rparr>) h else h, None)))"

definition heap_end :: "gotime \<Rightarrow> string \<Rightarrow> string \<Rightarrow> bool \<Rightarrow> heap_fn" where
  "heap_end now userID reason endCall c h =
     (if IsTerminal (load h c) then (h, Some (InvalidRequest ''call already ended''))
      else case find_participant userID c h of
             None \<Rightarrow> (h, Some (Forbidden ''not a participant''))
           | Some p \<Rightarrow>
               (let h = assign_participant p (\<lambda>p. p\<lparr>p_State := ParticipantLeft\<rparr>) h;
                    h = assign_participant p (\<lambda>p. p\<lparr>p_LeftAt := Some now\<rparr>) h;
                    ended = assign c (\<lambda>c. c\<lparr>c_Reason := reason\<rparr>)
                      (assign c (\<lambda>c. c\<lparr>c_EndedAt := Some now\<rparr>) (assign c (\<lambda>c. c\<lparr>c_State := StateEnded\<rparr>) h))
                in if endCall \<or> c_Mode (load h c) = ModeDirect then (ended, None)
                   else (let active = length (filter (\<lambda>other. is_active (p_State (deref_participant h other))) (parts h c))
                         in (if active = 0 then ended else h, None))))"

text \<open>The closures, with what they capture; on the heap and on values.\<close>

datatype Closure =
    CTimeout gotime
  | CAccept gotime string string
  | CReject gotime string
  | CCancel gotime string
  | CJoin gotime string string string
  | CConnected gotime string
  | CFail gotime string
  | CResume string string
  | CEnd gotime string string bool

fun on_heap :: "Closure \<Rightarrow> heap_fn" where
  "on_heap (CTimeout now) = heap_timeout now"
| "on_heap (CAccept now u d) = heap_accept now u d"
| "on_heap (CReject now u) = heap_reject now u"
| "on_heap (CCancel now u) = heap_cancel now u"
| "on_heap (CJoin now i u d) = heap_join now i u d"
| "on_heap (CConnected now u) = heap_connected now u"
| "on_heap (CFail now r) = heap_fail now r"
| "on_heap (CResume u d) = heap_resume u d"
| "on_heap (CEnd now u r e) = heap_end now u r e"

fun on_value :: "Closure \<Rightarrow> update_fn" where
  "on_value (CTimeout now) = timeout_fn now"
| "on_value (CAccept now u d) = accept_fn now u d"
| "on_value (CReject now u) = reject_fn now u"
| "on_value (CCancel now u) = cancel_fn now u"
| "on_value (CJoin now i u d) = join_fn now i u d"
| "on_value (CConnected now u) = connected_fn now u"
| "on_value (CFail now r) = fail_fn now r"
| "on_value (CResume u d) = resume_fn u d"
| "on_value (CEnd now u r e) = end_fn now u r e"

section \<open>The store of pointers (memory_store.go)\<close>

record PtrStore =
  pt_heap :: Heap
  pt_calls :: "string \<rightharpoonup> addr"
  pt_byUser :: index

definition new_pointers :: PtrStore where
  "new_pointers = \<lparr>pt_heap = \<lparr>hp_calls = Map.empty, hp_participants = Map.empty, hp_next = 0\<rparr>, pt_calls = Map.empty, pt_byUser = Map.empty\<rparr>"

definition ptr_Put :: "ctx \<Rightarrow> addr \<Rightarrow> PtrStore \<Rightarrow> PtrStore \<times> error option" where
  "ptr_Put ctx a s =
     (case ctx of
        Some err \<Rightarrow> (s, Some err)
      | None \<Rightarrow>
          (let c = load (pt_heap s) a
           in (s\<lparr>pt_calls := (pt_calls s)(c_ID c \<mapsto> a), pt_byUser := index_participants c (pt_byUser s)\<rparr>, None)))"

definition ptr_Get :: "ctx \<Rightarrow> string \<Rightarrow> PtrStore \<Rightarrow> PtrStore \<times> (error + addr)" where
  "ptr_Get ctx callID s =
     (case ctx of
        Some err \<Rightarrow> (s, Inl err)
      | None \<Rightarrow>
          (case pt_calls s callID of
             None \<Rightarrow> (s, Inl CallNotFound)
           | Some a \<Rightarrow> (case Clone a (pt_heap s) of (h, b) \<Rightarrow> (s\<lparr>pt_heap := h\<rparr>, Inr b))))"

definition ptr_Update :: "ctx \<Rightarrow> string \<Rightarrow> heap_fn \<Rightarrow> PtrStore \<Rightarrow> PtrStore \<times> (error + addr)" where
  "ptr_Update ctx callID fn s =
     (case ctx of
        Some err \<Rightarrow> (s, Inl err)
      | None \<Rightarrow>
          (case pt_calls s callID of
             None \<Rightarrow> (s, Inl CallNotFound)
           | Some a \<Rightarrow>
               (case fn a (pt_heap s) of
                  (h, Some err) \<Rightarrow> (s\<lparr>pt_heap := h\<rparr>, Inl err)
                | (h, None) \<Rightarrow>
                    (let idx = index_participants (load h a) (pt_byUser s)
                     in case Clone a h of (h, b) \<Rightarrow> (s\<lparr>pt_heap := h, pt_byUser := idx\<rparr>, Inr b)))))"

definition ptr_ActiveCallIDsForUser :: "ctx \<Rightarrow> string \<Rightarrow> string \<Rightarrow> PtrStore \<Rightarrow> string list" where
  "ptr_ActiveCallIDsForUser ctx appID userID s =
     (case ctx of
        Some _ \<Rightarrow> []
      | None \<Rightarrow>
          filter (\<lambda>id. case pt_calls s id of None \<Rightarrow> False | Some a \<Rightarrow> \<not> IsTerminal (load (pt_heap s) a))
            (index_get (pt_byUser s) (user_key appID userID)))"

text \<open>Operations on the store, and what they answer; an answer has a call, or a pointer to one.\<close>

datatype StoreOp =
    OPut ctx Call
  | OGet ctx string
  | OUpdate ctx string Closure
  | OActive ctx string string

datatype 'c Outcome = Stored "error option" | Returned "error + 'c" | Listed "string list"

fun run_pointers :: "StoreOp \<Rightarrow> PtrStore \<Rightarrow> PtrStore \<times> addr Outcome" where
  "run_pointers (OPut ctx c) s =
     (case alloc_call c (pt_heap s) of (h, a) \<Rightarrow> map_prod id Stored (ptr_Put ctx a (s\<lparr>pt_heap := h\<rparr>)))"
| "run_pointers (OGet ctx i) s = map_prod id Returned (ptr_Get ctx i s)"
| "run_pointers (OUpdate ctx i cl) s = map_prod id Returned (ptr_Update ctx i (on_heap cl) s)"
| "run_pointers (OActive ctx app u) s = (s, Listed (ptr_ActiveCallIDsForUser ctx app u s))"

fun run_values :: "StoreOp \<Rightarrow> MemoryStore \<Rightarrow> MemoryStore \<times> Call Outcome" where
  "run_values (OPut ctx c) s = map_prod id Stored (mem_Put ctx c s)"
| "run_values (OGet ctx i) s = (s, Returned (mem_Get ctx i s))"
| "run_values (OUpdate ctx i cl) s = map_prod id Returned (mem_Update ctx i (on_value cl) s)"
| "run_values (OActive ctx app u) s = (s, Listed (mem_ActiveCallIDsForUser ctx app u s))"

text \<open>The store of values that a store of pointers shows.\<close>

definition shown :: "PtrStore \<Rightarrow> MemoryStore" where
  "shown s = \<lparr>ms_calls = (\<lambda>i. map_option (load (pt_heap s)) (pt_calls s i)), ms_byUser = pt_byUser s\<rparr>"

section \<open>Lemmas\<close>

text \<open>
  Every call has its own participants: no two calls in memory share one, and no call has a participant
  twice.
\<close>

definition heap_ok :: "Heap \<Rightarrow> bool" where
  "heap_ok h \<longleftrightarrow>
     (\<forall>a. a \<in> dom (hp_calls h) \<longrightarrow> a < hp_next h) \<and> (\<forall>a. distinct (parts h a)) \<and>
     (\<forall>a p. p \<in> set (parts h a) \<longrightarrow> p < hp_next h \<and> hp_participants h p \<noteq> None) \<and>
     (\<forall>a b. a \<noteq> b \<longrightarrow> set (parts h a) \<inter> set (parts h b) = {})"

text \<open>A change of one call that leaves every other call in memory as it was.\<close>

definition changes_only :: "addr \<Rightarrow> Heap \<Rightarrow> Heap \<Rightarrow> bool" where
  "changes_only a h h' \<longleftrightarrow> heap_ok h' \<and> dom (hp_calls h') = dom (hp_calls h) \<and>
     (\<forall>b. b \<in> dom (hp_calls h) \<longrightarrow> b \<noteq> a \<longrightarrow> load h' b = load h b)"

lemma changes_only_refl [simp]: "changes_only a h h \<longleftrightarrow> heap_ok h"
  by (simp add: changes_only_def)

lemma changes_only_trans [trans]: "changes_only a h h1 \<Longrightarrow> changes_only a h1 h2 \<Longrightarrow> changes_only a h h2"
  by (auto simp: changes_only_def)

lemma assign_fields [simp]:
  "dom (hp_calls (assign a f h)) = dom (hp_calls h)" "parts (assign a f h) = parts h"
  "hp_participants (assign a f h) = hp_participants h" "hp_next (assign a f h) = hp_next h"
  "dom (hp_calls (assign_participant p g h)) = dom (hp_calls h)" "parts (assign_participant p g h) = parts h"
  "hp_calls (assign_participant p g h) = hp_calls h" "hp_next (assign_participant p g h) = hp_next h"
  by (auto simp: assign_def assign_participant_def parts_def fun_eq_iff split: option.splits if_splits)

lemma deref_assign [simp]:
  "deref_participant (assign a f h) = deref_participant h"
  "hp_participants h p \<noteq> None \<Longrightarrow> deref_participant (assign_participant p g h) q =
    (if q = p then g (deref_participant h p) else deref_participant h q)"
  by (auto simp: deref_participant_def assign_participant_def fun_eq_iff)

lemma assign_twice [simp]:
  "assign a f (assign a g h) = assign a (\<lambda>c. f (g c)) h"
  "assign_participant p k (assign_participant p l h) = assign_participant p (\<lambda>x. k (l x)) h"
  by (simp_all add: assign_def assign_participant_def option.map_comp comp_def)

lemma assign_if:
  "hp_participants h p \<noteq> None \<Longrightarrow>
   (if P (deref_participant h p) then assign_participant p f h else h) = assign_participant p (\<lambda>x. if P x then f x else x) h"
  by (auto simp: assign_participant_def deref_participant_def map_upd_triv)

lemma assign_participant_heap [simp]:
  "hp_participants (assign_participant p f h) = (hp_participants h)(p := map_option f (hp_participants h p))"
  by (simp add: assign_participant_def)

lemma load_assign:
  assumes "a \<in> dom (hp_calls h)" "\<And>c ps. f (c\<lparr>c_Participants := ps\<rparr>) = (f c)\<lparr>c_Participants := ps\<rparr>"
  shows "load (assign a f h) a = f (load h a)"
proof -
  have "co_fields (the (hp_calls (assign a f h) a)) = f (co_fields (the (hp_calls h a)))"
    using assms(1) by (auto simp: assign_def)
  then show ?thesis using assms(2) by (simp add: load_def)
qed

lemma assign_changes: "heap_ok h \<Longrightarrow> changes_only a h (assign a f h)"
proof -
  assume "heap_ok h"
  then have "heap_ok (assign a f h)" by (simp add: heap_ok_def)
  moreover have "hp_calls (assign a f h) b = hp_calls h b" if "b \<noteq> a" for b using that by (simp add: assign_def)
  ultimately show ?thesis by (simp add: changes_only_def load_def)
qed

lemma heap_ok_participant: "heap_ok h \<Longrightarrow> p \<in> set (parts h a) \<Longrightarrow> hp_participants h p \<noteq> None"
  by (auto simp: heap_ok_def)

text \<open>Writing through the pointers to some participants of a call.\<close>

definition write_all :: "addr list \<Rightarrow> (Participant \<Rightarrow> Participant) \<Rightarrow> Heap \<Rightarrow> Heap" where
  "write_all ps f h = fold (\<lambda>p. assign_participant p f) ps h"

lemma write_all_fields:
  "hp_calls (write_all ps f h) = hp_calls h" "parts (write_all ps f h) = parts h" "hp_next (write_all ps f h) = hp_next h"
  "distinct ps \<Longrightarrow> hp_participants (write_all ps f h) q = (if q \<in> set ps then map_option f (hp_participants h q) else hp_participants h q)"
  unfolding write_all_def by (induction ps arbitrary: h) auto

lemma write_all_deref:
  "distinct ps \<Longrightarrow> (\<And>p. p \<in> set ps \<Longrightarrow> hp_participants h p \<noteq> None) \<Longrightarrow>
   deref_participant (write_all ps f h) q = (if q \<in> set ps then f (deref_participant h q) else deref_participant h q)"
  by (auto simp: deref_participant_def write_all_fields option.map_sel)

lemma write_all_load:
  assumes "heap_ok h" "set ps \<subseteq> set (parts h a)" "distinct ps"
  shows "load (write_all ps f h) a = (load h a)\<lparr>c_Participants :=
      map (\<lambda>q. if q \<in> set ps then f (deref_participant h q) else deref_participant h q) (parts h a)\<rparr>"
    and "changes_only a h (write_all ps f h)"
proof -
  have alloc: "hp_participants h p \<noteq> None" if "p \<in> set ps" for p using that assms(1,2) heap_ok_participant by blast
  note d = write_all_deref [OF assms(3) alloc]
  show "load (write_all ps f h) a = (load h a)\<lparr>c_Participants :=
      map (\<lambda>q. if q \<in> set ps then f (deref_participant h q) else deref_participant h q) (parts h a)\<rparr>"
    by (simp add: load_def write_all_fields d)
  have "load (write_all ps f h) b = load h b" if "b \<noteq> a" for b
  proof -
    have "set (parts h b) \<inter> set (parts h a) = {}" using assms(1) that by (simp add: heap_ok_def)
    then have "map (deref_participant (write_all ps f h)) (parts h b) = map (deref_participant h) (parts h b)"
      using assms(2) d by (intro map_cong) auto
    then show ?thesis by (simp add: load_def write_all_fields)
  qed
  moreover have "heap_ok (write_all ps f h)"
    using assms(1,3) unfolding heap_ok_def write_all_fields by (auto simp: write_all_fields)
  ultimately show "changes_only a h (write_all ps f h)" by (simp add: changes_only_def write_all_fields)
qed

text \<open>The loop over all participants, and an assignment through the pointer that was found.\<close>

lemma each_participant_load:
  assumes "heap_ok h"
  shows "load (each_participant a f h) a = (load h a)\<lparr>c_Participants := map f (c_Participants (load h a))\<rparr>"
    and "changes_only a h (each_participant a f h)"
proof -
  have "distinct (parts h a)" using assms by (simp add: heap_ok_def)
  note w = write_all_load [OF assms order_refl this, folded each_participant_def write_all_def, of f]
  have e: "each_participant a f h = write_all (parts h a) f h" by (simp add: each_participant_def write_all_def)
  show "load (each_participant a f h) a = (load h a)\<lparr>c_Participants := map f (c_Participants (load h a))\<rparr>"
    unfolding e w by (simp add: load_def)
  show "changes_only a h (each_participant a f h)" unfolding e by (rule w)
qed

lemma find_participant_None: "find_participant u a h = None \<longleftrightarrow> FindParticipant u (load h a) = None"
  by (auto simp: find_participant_def FindParticipant_def load_def find_None_iff)

lemma find_participant_Some:
  assumes "find_participant u a h = Some p"
  shows "p \<in> set (parts h a)" "p_UserID (deref_participant h p) = u"
    "FindParticipant u (load h a) = Some (deref_participant h p)"
proof -
  show "p \<in> set (parts h a)" "p_UserID (deref_participant h p) = u"
    using assms by (auto simp: find_participant_def find_Some_iff)
  have "find P (map g xs) = map_option g (find (\<lambda>x. P (g x)) xs)" for P and g :: "addr \<Rightarrow> Participant" and xs
    by (induction xs) auto
  then show "FindParticipant u (load h a) = Some (deref_participant h p)"
    using assms by (simp add: find_participant_def FindParticipant_def load_def)
qed

lemma upd_first_at:
  "find (\<lambda>q. P (g q)) ps = Some p \<Longrightarrow> distinct ps \<Longrightarrow>
   upd_first P f (map g ps) = map (\<lambda>q. if q = p then f (g q) else g q) ps"
  by (induction ps) (auto split: if_splits intro!: map_cong dest!: find_SomeD)

lemma assign_found:
  assumes "heap_ok h" "find_participant u a h = Some p"
  shows "load (assign_participant p f h) a = set_participant u f (load h a)"
    and "changes_only a h (assign_participant p f h)"
proof -
  have p: "set [p] \<subseteq> set (parts h a)" using find_participant_Some(1) [OF assms(2)] by simp
  have e: "assign_participant p f h = write_all [p] f h" by (simp add: write_all_def)
  have "distinct (parts h a)" using assms(1) by (simp add: heap_ok_def)
  then have "upd_first (\<lambda>x. p_UserID x = u) f (map (deref_participant h) (parts h a)) =
      map (\<lambda>q. if q = p then f (deref_participant h q) else deref_participant h q) (parts h a)"
    using assms(2) by (intro upd_first_at) (simp_all add: find_participant_def)
  then show "load (assign_participant p f h) a = set_participant u f (load h a)"
    unfolding e write_all_load(1) [OF assms(1) p distinct_singleton] by (simp add: set_participant_def load_def)
  show "changes_only a h (assign_participant p f h)"
    unfolding e by (rule write_all_load(2) [OF assms(1) p distinct_singleton])
qed


section \<open>The closures on the heap and on values\<close>

text \<open>A change of one call, with what it makes of the call; such changes add up.\<close>

definition turns :: "addr \<Rightarrow> Heap \<Rightarrow> Heap \<Rightarrow> Call \<Rightarrow> bool" where
  "turns a h h' c \<longleftrightarrow> changes_only a h h' \<and> load h' a = c"

lemma turnsD: "turns a h h' c \<Longrightarrow> a \<in> dom (hp_calls h) \<Longrightarrow> heap_ok h' \<and> a \<in> dom (hp_calls h') \<and> load h' a = c"
  by (auto simp: turns_def changes_only_def)

lemma turns_start: "heap_ok h \<Longrightarrow> turns a h h (load h a)"
  by (simp add: turns_def)

lemma turns_assign:
  assumes "turns a h h' c" "a \<in> dom (hp_calls h)" "\<And>c ps. f (c\<lparr>c_Participants := ps\<rparr>) = (f c)\<lparr>c_Participants := ps\<rparr>"
  shows "turns a h (assign a f h') (f c)"
  using turnsD [OF assms(1,2)] assms(1) load_assign [OF _ assms(3), of a h'] changes_only_trans [OF _ assign_changes, of a h h' f]
  by (simp add: turns_def)

lemma turns_each:
  assumes "turns a h h' c" "a \<in> dom (hp_calls h)"
  shows "turns a h (each_participant a f h') (c\<lparr>c_Participants := map f (c_Participants c)\<rparr>)"
  using turnsD [OF assms] assms(1) each_participant_load [of h' a f] changes_only_trans [of a h h'] by (auto simp: turns_def)

lemma turns_found:
  assumes "heap_ok h" "find_participant u a h = Some p"
  shows "turns a h (assign_participant p f h) (set_participant u f (load h a))"
  using assign_found [OF assms] by (simp add: turns_def)

text \<open>What a closure does in place is what its function on values says, with the same error.\<close>

definition agrees :: "addr \<Rightarrow> Heap \<Rightarrow> Heap \<times> error option \<Rightarrow> Call \<times> error option \<Rightarrow> bool" where
  "agrees a h r v \<longleftrightarrow> turns a h (fst r) (fst v) \<and> snd r = snd v"

definition runs_as :: "heap_fn \<Rightarrow> update_fn \<Rightarrow> bool" where
  "runs_as g fn \<longleftrightarrow> (\<forall>h a. heap_ok h \<longrightarrow> a \<in> dom (hp_calls h) \<longrightarrow> agrees a h (g a h) (fn (load h a)))"

lemma agrees_same [simp]: "heap_ok h \<Longrightarrow> agrees a h (h, e) (load h a, e)"
  by (simp add: agrees_def turns_start)

lemma agrees_turns: "turns a h h' c \<Longrightarrow> agrees a h (h', e) (c, e)"
  by (simp add: agrees_def)

text \<open>Reading the call after an assignment through a pointer to a participant.\<close>

lemma load_found:
  assumes "heap_ok h" "find_participant u a h = Some p"
  shows "c_Mode (load (assign_participant p f h) a) = c_Mode (load h a)" "c_State (load (assign_participant p f h) a) = c_State (load h a)"
    "c_CallerID (load (assign_participant p f h) a) = c_CallerID (load h a)"
    "c_StartedAt (load (assign_participant p f h) a) = c_StartedAt (load h a)"
  using assign_found(1) [OF assms] by simp_all

lemma runs_as_loops:
  "runs_as (heap_timeout now) (timeout_fn now)" "runs_as (heap_cancel now u) (cancel_fn now u)" "runs_as (heap_fail now reason) (fail_fn now reason)"
proof -
  have t: "agrees a h (each_participant a (disconnect_ringing now) (assign a (\<lambda>c. c\<lparr>c_State := st, c_EndedAt := Some now, c_Reason := r\<rparr>) h), None)
      ((load h a)\<lparr>c_State := st, c_EndedAt := Some now, c_Reason := r,
         c_Participants := map (disconnect_ringing now) (c_Participants (load h a))\<rparr>, None)"
    if h: "heap_ok h" "a \<in> dom (hp_calls h)" for a h st r
    using turns_each [OF turns_assign [OF turns_start [OF h(1)] h(2), of "\<lambda>c. c\<lparr>c_State := st, c_EndedAt := Some now, c_Reason := r\<rparr>"] h(2),
        of "disconnect_ringing now"] by (simp add: agrees_turns)
  then show "runs_as (heap_timeout now) (timeout_fn now)" "runs_as (heap_cancel now u) (cancel_fn now u)"
    by (simp_all add: runs_as_def heap_timeout_def timeout_fn_def heap_cancel_def cancel_fn_def Let_def)
  show "runs_as (heap_fail now reason) (fail_fn now reason)"
    using turns_assign [OF turns_start, of _ _ "\<lambda>c. c\<lparr>c_State := StateFailed, c_EndedAt := Some now, c_Reason := reason\<rparr>"]
    by (simp add: runs_as_def heap_fail_def fail_fn_def agrees_turns)
qed

lemma runs_asI:
  assumes "\<And>h a. heap_ok h \<Longrightarrow> a \<in> dom (hp_calls h) \<Longrightarrow> find_participant u a h = None \<Longrightarrow> FindParticipant u (load h a) = None \<Longrightarrow> agrees a h (g a h) (fn (load h a))"
    and "\<And>h a p. heap_ok h \<Longrightarrow> a \<in> dom (hp_calls h) \<Longrightarrow> find_participant u a h = Some p \<Longrightarrow> agrees a h (g a h) (fn (load h a))"
  shows "runs_as g fn"
  unfolding runs_as_def
proof (intro allI impI)
  fix h a assume "heap_ok h" "a \<in> dom (hp_calls h)"
  then show "agrees a h (g a h) (fn (load h a))" by (cases "find_participant u a h") (use assms find_participant_None [of u a h] in blast)+
qed

lemma runs_as_reject: "runs_as (heap_reject now u) (reject_fn now u)"
proof (rule runs_asI [of u])
  fix h a p assume h: "heap_ok h" "a \<in> dom (hp_calls h)" and p: "find_participant u a h = Some p"
  note f = turns_found [OF h(1) p, of "\<lambda>p. p\<lparr>p_State := ParticipantRejected, p_LeftAt := Some now\<rparr>"]
  note g = turns_assign [OF f h(2), of "\<lambda>c. c\<lparr>c_State := StateRejected, c_EndedAt := Some now, c_Reason := ''rejected''\<rparr>"]
  show "agrees a h (heap_reject now u a h) (reject_fn now u (load h a))"
    using f g h(1) by (simp add: heap_reject_def reject_fn_def agrees_turns load_found [OF h(1) p] find_participant_Some(3) [OF p] p Let_def)
qed (simp add: heap_reject_def reject_fn_def)

lemma runs_as_connected: "runs_as (heap_connected now u) (connected_fn now u)"
proof (rule runs_asI [of u])
  fix h a p assume h: "heap_ok h" "a \<in> dom (hp_calls h)" and p: "find_participant u a h = Some p"
  note f = turns_found [OF h(1) p, of "\<lambda>p. p\<lparr>p_State := ParticipantConnected\<rparr>"]
  note g = turns_assign [OF f h(2), of "\<lambda>c. c\<lparr>c_StartedAt := Some now, c_State := StateConnected\<rparr>"]
  show "agrees a h (heap_connected now u a h) (connected_fn now u (load h a))"
    using f g h(1) by (simp add: heap_connected_def connected_fn_def agrees_turns load_found [OF h(1) p] find_participant_Some(3) [OF p] p Let_def)
qed (simp add: heap_connected_def connected_fn_def)

lemma runs_as_accept: "runs_as (heap_accept now u d) (accept_fn now u d)"
proof (rule runs_asI [of u])
  fix h a p assume h: "heap_ok h" "a \<in> dom (hp_calls h)" and p: "find_participant u a h = Some p"
  let ?f = "\<lambda>p. p\<lparr>p_State := ParticipantAccepted, p_DeviceID := d, p_JoinedAt := Some now\<rparr>"
  let ?h = "assign a (\<lambda>c. c\<lparr>c_State := StateAccepted\<rparr>) (assign_participant p ?f h)"
  have g: "turns a h ?h ((set_participant u ?f (load h a))\<lparr>c_State := StateAccepted\<rparr>)"
    by (rule turns_assign [OF turns_found [OF h(1) p] h(2)]) simp
  note e = turns_each [OF g h(2), of "\<lambda>other. if p_UserID other \<noteq> u \<and> p_UserID other \<noteq> c_CallerID (load h a)
       then disconnect_ringing now other else other"]
  have l: "load ?h a = (set_participant u ?f (load h a))\<lparr>c_State := StateAccepted\<rparr>" using g by (simp add: turns_def)
  show "agrees a h (heap_accept now u d a h) (accept_fn now u d (load h a))"
    using g e h(1) l by (simp add: heap_accept_def accept_fn_def disconnect_others_def agrees_turns find_participant_Some(3) [OF p] p Let_def)
qed (simp add: heap_accept_def accept_fn_def)

lemma runs_as_resume: "runs_as (heap_resume u d) (resume_fn u d)"
proof (rule runs_asI [of u])
  fix h a p assume h: "heap_ok h" "a \<in> dom (hp_calls h)" and p: "find_participant u a h = Some p"
  let ?g = "\<lambda>p. p\<lparr>p_DeviceID := d\<rparr>"
  have "hp_participants (assign_participant p ?g h) p \<noteq> None"
    using heap_ok_participant [OF h(1) find_participant_Some(1) [OF p]] by simp
  note i = assign_if [OF this, of "\<lambda>x. p_State x \<in> {ParticipantDisconnected, ParticipantReconnecting, ParticipantConnected}"]
  have "heap_resume u d a h = (assign_participant p (\<lambda>x. if p_State x \<in> {ParticipantDisconnected, ParticipantReconnecting,
      ParticipantConnected} then x\<lparr>p_DeviceID := d, p_State := ParticipantReconnecting\<rparr> else x\<lparr>p_DeviceID := d\<rparr>) h, None)"
    unfolding heap_resume_def p option.case Let_def i by (simp cong: if_cong)
  with turns_found [OF h(1) p] show "agrees a h (heap_resume u d a h) (resume_fn u d (load h a))"
    by (simp add: resume_fn_def agrees_def Let_def)
next
  fix h a assume "heap_ok h" "find_participant u a h = None" "FindParticipant u (load h a) = None" "a \<in> dom (hp_calls h)"
  moreover have "set_participant u f (load h a) = load h a" for f
  proof -
    have "upd_first (\<lambda>p. p_UserID p = u) f (c_Participants (load h a)) = c_Participants (load h a)"
      by (rule upd_first_id) (use calculation(3) in \<open>auto simp: FindParticipant_None\<close>)
    then show ?thesis by (simp add: set_participant_def)
  qed
  ultimately show "agrees a h (heap_resume u d a h) (resume_fn u d (load h a))" by (simp add: heap_resume_def resume_fn_def)
qed

lemma runs_as_end: "runs_as (heap_end now u reason e) (end_fn now u reason e)"
proof (rule runs_asI [of u])
  fix h a p assume h: "heap_ok h" "a \<in> dom (hp_calls h)" and p: "find_participant u a h = Some p"
  let ?f = "\<lambda>p. p\<lparr>p_State := ParticipantLeft, p_LeftAt := Some now\<rparr>"
  note f = turns_found [OF h(1) p, of ?f]
  note g = turns_assign [OF f h(2), of "\<lambda>c. c\<lparr>c_State := StateEnded, c_EndedAt := Some now, c_Reason := reason\<rparr>"]
  have "c_Participants (set_participant u ?f (load h a)) = map (deref_participant (assign_participant p ?f h)) (parts h a)"
    unfolding assign_found(1) [OF h(1) p, symmetric] by (simp add: load_def)
  then have "length (filter (\<lambda>q. is_active (p_State (deref_participant (assign_participant p ?f h) q))) (parts h a)) =
      length (filter (\<lambda>q. is_active (p_State q)) (c_Participants (set_participant u ?f (load h a))))"
    by (simp add: filter_map comp_def)
  then show "agrees a h (heap_end now u reason e a h) (end_fn now u reason e (load h a))"
    using f g h(1) by (simp add: heap_end_def end_fn_def agrees_turns load_found [OF h(1) p] find_participant_Some(3) [OF p] p Let_def)
qed (simp add: heap_end_def end_fn_def)


lemma find_last: "find P xs = None \<Longrightarrow> find P (xs @ ys) = find P ys"
  by (induction xs) (auto split: if_splits)

text \<open>A new participant at the end of a call.\<close>

lemma append_new:
  assumes "heap_ok h" "a \<in> dom (hp_calls h)" "new_participant x h = (h', p)"
  shows "turns a h (append_participant a p h') ((load h a)\<lparr>c_Participants := c_Participants (load h a) @ [x]\<rparr>)"
    and "FindParticipant (p_UserID x) (load h a) = None \<Longrightarrow> find_participant (p_UserID x) a (append_participant a p h') = Some p"
proof -
  let ?h = "append_participant a p h'"
  have p: "p = hp_next h" and h': "h' = h\<lparr>hp_participants := (hp_participants h)(hp_next h \<mapsto> x), hp_next := Suc (hp_next h)\<rparr>"
    using assms(3) by (auto simp: new_participant_def)
  obtain ob where ob: "hp_calls h a = Some ob" using assms(2) by blast
  have fresh: "p \<notin> set (parts h b)" for b using assms(1) by (auto simp: heap_ok_def p)
  have parts: "parts ?h b = (if b = a then parts h a @ [p] else parts h b)" for b
    using ob by (simp add: parts_def append_participant_def h')
  have deref: "deref_participant ?h q = (if q = p then x else deref_participant h q)" for q
    by (simp add: deref_participant_def append_participant_def h' p)
  have same: "map (deref_participant ?h) (parts h b) = map (deref_participant h) (parts h b)" for b
    using fresh [of b] by (intro map_cong) (auto simp: deref)
  have calls: "hp_calls ?h b = (if b = a then Some (ob\<lparr>co_Participants := co_Participants ob @ [p]\<rparr>) else hp_calls h b)" for b
    using ob by (simp add: append_participant_def h')
  have load: "load ?h b = (if b = a then (load h a)\<lparr>c_Participants := c_Participants (load h a) @ [x]\<rparr> else load h b)" for b
    using ob by (simp add: load_def parts calls same) (simp add: deref)
  have grown: "hp_next ?h = Suc (hp_next h)" "hp_participants ?h = (hp_participants h)(p \<mapsto> x)"
    by (simp_all add: append_participant_def h' p)
  have dom: "dom (hp_calls ?h) = dom (hp_calls h)" using ob by (auto simp: calls dom_def)
  moreover have "heap_ok ?h"
    using assms(1) fresh unfolding heap_ok_def parts grown dom by (auto simp: p less_SucI)
  ultimately show "turns a h ?h ((load h a)\<lparr>c_Participants := c_Participants (load h a) @ [x]\<rparr>)"
    by (simp add: turns_def changes_only_def load)
  assume "FindParticipant (p_UserID x) (load h a) = None"
  then have "find (\<lambda>q. p_UserID (deref_participant ?h q) = p_UserID x) (parts h a) = None"
    using fresh [of a] by (auto simp: FindParticipant_None find_None_iff load_def deref image_iff)
  then show "find_participant (p_UserID x) a ?h = Some p"
    by (simp add: find_participant_def parts find_last deref)
qed

lemma join_as_turns:
  assumes h: "heap_ok h" "a \<in> dom (hp_calls h)" and p: "find_participant u a h = Some p"
  shows "turns a h (join_as now d p a h)
    (let c = set_participant u (\<lambda>p. p\<lparr>p_DeviceID := d, p_State := ParticipantConnecting,
           p_JoinedAt := (if p_JoinedAt p = None then Some now else p_JoinedAt p)\<rparr>) (load h a)
     in if c_State c = StateAccepted \<or> c_State c = StateRinging then c\<lparr>c_State := StateConnecting\<rparr> else c)"
proof -
  let ?f = "\<lambda>p. p\<lparr>p_DeviceID := d, p_State := ParticipantConnecting, p_JoinedAt := (if p_JoinedAt p = None then Some now else p_JoinedAt p)\<rparr>"
  let ?g = "\<lambda>p. p\<lparr>p_DeviceID := d, p_State := ParticipantConnecting\<rparr>"
  have "hp_participants (assign_participant p ?g h) p \<noteq> None"
    using heap_ok_participant [OF h(1) find_participant_Some(1) [OF p]] by simp
  note i = assign_if [OF this, of "\<lambda>x. p_JoinedAt x = None" "\<lambda>p. p\<lparr>p_JoinedAt := Some now\<rparr>"]
  have "(if p_JoinedAt (deref_participant (assign_participant p ?g h) p) = None
      then assign_participant p (\<lambda>p. p\<lparr>p_JoinedAt := Some now\<rparr>) (assign_participant p ?g h) else assign_participant p ?g h) =
      assign_participant p ?f h"
    unfolding i unfolding assign_twice(2) by (rule arg_cong [where f = "\<lambda>k. assign_participant p k h"]) (auto simp: fun_eq_iff)
  then have "join_as now d p a h = (if c_State (load h a) = StateAccepted \<or> c_State (load h a) = StateRinging
      then assign a (\<lambda>c. c\<lparr>c_State := StateConnecting\<rparr>) (assign_participant p ?f h) else assign_participant p ?f h)"
    unfolding join_as_def Let_def assign_twice(2) by (simp add: load_found [OF h(1) p])
  then show ?thesis
    using turns_found [OF h(1) p, of ?f] turns_assign [OF turns_found [OF h(1) p, of ?f] h(2), of "\<lambda>c. c\<lparr>c_State := StateConnecting\<rparr>"]
    by (simp add: Let_def)
qed


lemma turns_trans: "turns a h h1 c1 \<Longrightarrow> turns a h1 h2 c2 \<Longrightarrow> turns a h h2 c2"
  using changes_only_trans by (auto simp: turns_def)

lemma runs_as_join: "runs_as (heap_join now i u d) (join_fn now i u d)"
proof (rule runs_asI)
  fix h a p assume h: "heap_ok h" "a \<in> dom (hp_calls h)" and p: "find_participant u a h = Some p"
  show "agrees a h (heap_join now i u d a h) (join_fn now i u d (load h a))"
    using join_as_turns [OF h p, of now d] h(1) by (simp add: heap_join_def join_fn_def p find_participant_Some(3) [OF p] agrees_def Let_def turns_start)
next
  fix h a assume h: "heap_ok h" "a \<in> dom (hp_calls h)" and n: "find_participant u a h = None" "FindParticipant u (load h a) = None"
  let ?x = "\<lparr>p_CallID = i, p_UserID = u, p_DeviceID = [], p_State = ParticipantInvited, p_JoinedAt = None, p_LeftAt = None,
     p_Role = ''participant''\<rparr>"
  obtain h' p where x: "new_participant ?x h = (h', p)" by fastforce
  note app = append_new [OF h x]
  have f: "find_participant u a (append_participant a p h') = Some p" using app(2) n(2) by simp
  have "heap_ok (append_participant a p h')" "a \<in> dom (hp_calls (append_participant a p h'))"
    "load (append_participant a p h') a = (load h a)\<lparr>c_Participants := c_Participants (load h a) @ [?x]\<rparr>"
    using turnsD [OF app(1) h(2)] by blast+
  from turns_trans [OF app(1) join_as_turns [OF this(1,2) f, of now d, unfolded this(3)]]
  show "agrees a h (heap_join now i u d a h) (join_fn now i u d (load h a))"
    using h(1) by (simp add: heap_join_def join_fn_def n x agrees_def Let_def turns_start)
qed

lemma closures_agree: "runs_as (on_heap cl) (on_value cl)"
  by (cases cl) (simp_all add: runs_as_loops runs_as_reject runs_as_connected runs_as_accept runs_as_resume runs_as_end runs_as_join)

section \<open>New calls and copies\<close>

lemma new_participants_at:
  "new_participants_at xs h = (h', ps) \<Longrightarrow>
     hp_calls h' = hp_calls h \<and> hp_next h' = hp_next h + length xs \<and> ps = [hp_next h..<hp_next h + length xs] \<and>
     hp_participants h' = (\<lambda>q. if hp_next h \<le> q \<and> q < hp_next h + length xs then Some (xs ! (q - hp_next h)) else hp_participants h q)"
proof (induction xs arbitrary: h h' ps)
  case (Cons x xs)
  define h1 where "h1 = fst (new_participant x h)"
  have x: "new_participant x h = (h1, hp_next h)" and h1: "hp_calls h1 = hp_calls h" "hp_next h1 = Suc (hp_next h)"
    "hp_participants h1 = (hp_participants h)(hp_next h \<mapsto> x)" by (simp_all add: new_participant_def h1_def)
  obtain ps' where r: "new_participants_at xs h1 = (h', ps')" "ps = hp_next h # ps'"
    using Cons.prems x by (auto simp: map_prod_def split: prod.splits)
  note n = Cons.IH [OF r(1), unfolded h1]
  have "hp_participants h' q = (if hp_next h \<le> q \<and> q < hp_next h + length (x # xs) then Some ((x # xs) ! (q - hp_next h)) else hp_participants h q)" for q
    using n by (cases "q = hp_next h") (auto simp: nth_Cons')
  moreover have "[hp_next h..<hp_next h + length (x # xs)] = hp_next h # [Suc (hp_next h)..<Suc (hp_next h) + length xs]"
    by (simp add: upt_conv_Cons del: upt_Suc)
  ultimately show ?case using n by (simp add: r(2) del: upt_Suc)
qed (auto simp: fun_eq_iff)

text \<open>A new call has new participants and leaves every call in memory as it was.\<close>

lemma new_object:
  assumes "heap_ok h" "new_participants_at xs h = (h1, ps)"
    "h' = h1\<lparr>hp_calls := (hp_calls h1)(hp_next h1 \<mapsto> ob), hp_next := Suc (hp_next h1)\<rparr>" "co_Participants ob = ps" "b = hp_next h1"
  shows "heap_ok h'" "b \<notin> dom (hp_calls h)" "dom (hp_calls h') = insert b (dom (hp_calls h))"
    "load h' b = (co_fields ob)\<lparr>c_Participants := xs\<rparr>" "\<And>a. a \<in> dom (hp_calls h) \<Longrightarrow> load h' a = load h a"
proof -
  note n = new_participants_at [OF assms(2)]
  have b: "b = hp_next h + length xs" using n assms(5) by simp
  show fresh: "b \<notin> dom (hp_calls h)" using assms(1) unfolding heap_ok_def b by fastforce
  have calls: "hp_calls h' = (hp_calls h)(b \<mapsto> ob)" using n assms(3,5) by simp
  have parts: "parts h' a = (if a = b then [hp_next h..<hp_next h + length xs] else parts h a)" for a
    using n assms(4) by (simp add: parts_def calls)
  have heap: "hp_participants h' q = (if hp_next h \<le> q \<and> q < hp_next h + length xs then Some (xs ! (q - hp_next h)) else hp_participants h q)"
    "hp_next h' = Suc (hp_next h + length xs)" for q
    using n assms(3) by simp_all
  have old: "q < hp_next h" if "q \<in> set (parts h a)" for q a using that assms(1) by (auto simp: heap_ok_def)
  have new_addr: "q \<notin> set (parts h a)" if "hp_next h \<le> q" for q a using that old [of q a] by auto
  have new: "map (deref_participant h') [hp_next h..<hp_next h + length xs] = xs"
    by (rule nth_equalityI) (simp_all add: deref_participant_def heap)
  show dom: "dom (hp_calls h') = insert b (dom (hp_calls h))" by (simp add: calls)
  show "load h' b = (co_fields ob)\<lparr>c_Participants := xs\<rparr>"
    by (simp add: load_def parts calls new)
  show "load h' a = load h a" if "a \<in> dom (hp_calls h)" for a
  proof -
    have "a \<noteq> b" using that fresh by auto
    moreover have "map (deref_participant h') (parts h a) = map (deref_participant h) (parts h a)"
      using old by (intro map_cong) (auto simp: deref_participant_def heap dest: leD)
    ultimately show ?thesis by (simp add: load_def parts calls)
  qed
  show "heap_ok h'"
    using assms(1) old new_addr unfolding heap_ok_def parts heap dom by (auto simp: b intro: less_SucI trans_less_add1)
qed


lemma alloc_call_new:
  assumes "heap_ok h" "alloc_call c h = (h', b)"
  shows "heap_ok h'" "b \<notin> dom (hp_calls h)" "dom (hp_calls h') = insert b (dom (hp_calls h))" "load h' b = c"
    "\<And>a. a \<in> dom (hp_calls h) \<Longrightarrow> load h' a = load h a"
proof -
  obtain h1 ps where n: "new_participants_at (c_Participants c) h = (h1, ps)" by fastforce
  have e: "h' = h1\<lparr>hp_calls := (hp_calls h1)(hp_next h1 \<mapsto> \<lparr>co_fields = c\<lparr>c_Participants := []\<rparr>, co_Participants = ps\<rparr>),
      hp_next := Suc (hp_next h1)\<rparr>" "b = hp_next h1"
    using assms(2) by (auto simp: alloc_call_def n)
  note new = new_object [OF assms(1) n e(1) _ e(2)]
  show "heap_ok h'" "b \<notin> dom (hp_calls h)" "dom (hp_calls h') = insert b (dom (hp_calls h))" "load h' b = c"
    "\<And>a. a \<in> dom (hp_calls h) \<Longrightarrow> load h' a = load h a"
    using new by simp_all
qed

lemma Clone_new:
  assumes "heap_ok h" "a \<in> dom (hp_calls h)" "Clone a h = (h', b)"
  shows "heap_ok h'" "b \<notin> dom (hp_calls h)" "dom (hp_calls h') = insert b (dom (hp_calls h))" "load h' b = load h a"
    "\<And>a. a \<in> dom (hp_calls h) \<Longrightarrow> load h' a = load h a"
proof -
  obtain ob where ob: "hp_calls h a = Some ob" using assms(2) by blast
  obtain h1 ps where n: "new_participants_at (map (deref_participant h) (co_Participants ob)) h = (h1, ps)" by fastforce
  have e: "h' = h1\<lparr>hp_calls := (hp_calls h1)(hp_next h1 \<mapsto> ob\<lparr>co_Participants := ps\<rparr>), hp_next := Suc (hp_next h1)\<rparr>" "b = hp_next h1"
    using assms(3) by (auto simp: Clone_def n ob)
  note new = new_object [OF assms(1) n e(1) _ e(2)]
  show "heap_ok h'" "b \<notin> dom (hp_calls h)" "dom (hp_calls h') = insert b (dom (hp_calls h))" "load h' b = load h a"
    "\<And>a. a \<in> dom (hp_calls h) \<Longrightarrow> load h' a = load h a"
    using new by (simp_all add: load_def [of h a] parts_def ob)
qed

section \<open>The store of pointers shows the store of values\<close>

text \<open>Stored calls are in memory, each under one id.\<close>

definition ptr_ok :: "PtrStore \<Rightarrow> bool" where
  "ptr_ok s \<longleftrightarrow> heap_ok (pt_heap s) \<and> ran (pt_calls s) \<subseteq> dom (hp_calls (pt_heap s)) \<and>
     (\<forall>i j a. pt_calls s i = Some a \<longrightarrow> pt_calls s j = Some a \<longrightarrow> i = j)"

text \<open>
  What an operation may not touch: the calls in memory that are not stored, among them the copies that were
  handed out. None of them is stored later.
\<close>

definition keeps_copies :: "PtrStore \<Rightarrow> PtrStore \<Rightarrow> bool" where
  "keeps_copies s s' \<longleftrightarrow> (\<forall>b \<in> dom (hp_calls (pt_heap s)) - ran (pt_calls s).
     b \<in> dom (hp_calls (pt_heap s')) - ran (pt_calls s') \<and> load (pt_heap s') b = load (pt_heap s) b)"

lemma keeps_copies_refl [simp]: "keeps_copies s s"
  by (simp add: keeps_copies_def)

lemma keeps_copies_trans: "keeps_copies s s1 \<Longrightarrow> keeps_copies s1 s2 \<Longrightarrow> keeps_copies s s2"
  by (auto simp: keeps_copies_def)

fun copies :: "addr Outcome \<Rightarrow> addr set" where
  "copies (Returned (Inr b)) = {b}"
| "copies _ = {}"

text \<open>What one operation does: the same as on values, and its answer is a copy of its own.\<close>

definition op_ok :: "PtrStore \<Rightarrow> PtrStore \<times> addr Outcome \<Rightarrow> MemoryStore \<times> Call Outcome \<Rightarrow> bool" where
  "op_ok s r v \<longleftrightarrow> ptr_ok (fst r) \<and> keeps_copies s (fst r) \<and>
     copies (snd r) \<subseteq> dom (hp_calls (pt_heap (fst r))) - ran (pt_calls (fst r)) \<and>
     shown (fst r) = fst v \<and> map_Outcome (load (pt_heap (fst r))) (snd r) = snd v"

lemma op_ok_same: "ptr_ok s \<Longrightarrow> copies r = {} \<Longrightarrow> map_Outcome (load (pt_heap s)) r = v \<Longrightarrow> op_ok s (s, r) (shown s, v)"
  by (simp add: op_ok_def)

text \<open>A change of memory that a copy is made of afterwards, or not.\<close>

lemma shown_cong:
  assumes "\<And>i a. pt_calls s i = Some a \<Longrightarrow> load h a = load (pt_heap s) a"
  shows "shown (s\<lparr>pt_heap := h\<rparr>) = shown s"
  using assms by (auto simp: shown_def fun_eq_iff map_option_case split: option.splits)

lemma heap_grows:
  assumes "ptr_ok s" "heap_ok h" "dom (hp_calls (pt_heap s)) \<subseteq> dom (hp_calls h)"
    "\<And>a. a \<in> dom (hp_calls (pt_heap s)) \<Longrightarrow> load h a = load (pt_heap s) a"
  shows "ptr_ok (s\<lparr>pt_heap := h\<rparr>)" "keeps_copies s (s\<lparr>pt_heap := h\<rparr>)" "shown (s\<lparr>pt_heap := h\<rparr>) = shown s"
proof -
  show "ptr_ok (s\<lparr>pt_heap := h\<rparr>)" using assms(1-3) unfolding ptr_ok_def by simp blast
  show "keeps_copies s (s\<lparr>pt_heap := h\<rparr>)" using assms(3,4) by (auto simp: keeps_copies_def)
  have "a \<in> dom (hp_calls (pt_heap s))" if "pt_calls s i = Some a" for i a
    using assms(1) that by (auto simp: ptr_ok_def ran_def)
  with assms(4) show "shown (s\<lparr>pt_heap := h\<rparr>) = shown s" by (intro shown_cong) blast
qed


lemma op_put:
  assumes "ptr_ok s"
  shows "op_ok s (run_pointers (OPut ctx c) s) (run_values (OPut ctx c) (shown s))"
proof -
  obtain h b where a: "alloc_call c (pt_heap s) = (h, b)" by fastforce
  have ok: "heap_ok (pt_heap s)" and sub: "ran (pt_calls s) \<subseteq> dom (hp_calls (pt_heap s))" using assms by (simp_all add: ptr_ok_def)
  note new = alloc_call_new [OF ok a]
  have "dom (hp_calls (pt_heap s)) \<subseteq> dom (hp_calls h)" using new(3) by blast
  note g = heap_grows [OF assms new(1) this new(5)]
  show ?thesis
  proof (cases ctx)
    case None
    let ?s = "s\<lparr>pt_heap := h, pt_calls := (pt_calls s)(c_ID c \<mapsto> b), pt_byUser := index_participants c (pt_byUser s)\<rparr>"
    have ran: "ran ((pt_calls s)(c_ID c \<mapsto> b)) \<subseteq> insert b (ran (pt_calls s))" by (auto simp: ran_def)
    have "b \<notin> ran (pt_calls s)" using sub new(2) by blast
    then have "ptr_ok ?s" using g(1) ran sub new(3) unfolding ptr_ok_def by (auto simp: ran_def)
    moreover have "keeps_copies s ?s" using ran new(2,3,5) unfolding keeps_copies_def by auto
    moreover have "ms_calls (shown (s\<lparr>pt_heap := h\<rparr>)) = ms_calls (shown s)" using g(3) by simp
    then have "shown ?s = fst (mem_Put None c (shown s))"
      using new(4) by (auto simp: shown_def mem_Put_def fun_eq_iff)
    ultimately show ?thesis using None new(4) by (simp add: op_ok_def a ptr_Put_def mem_Put_def Let_def)
  qed (use g in \<open>simp add: op_ok_def a ptr_Put_def mem_Put_def\<close>)
qed

text \<open>A copy at the end of an operation.\<close>

lemma clone_ok:
  assumes "ptr_ok s" "pt_calls s i = Some a" "Clone a (pt_heap s) = (h, b)"
  shows "op_ok s (s\<lparr>pt_heap := h\<rparr>, Returned (Inr b)) (shown s, Returned (Inr (load (pt_heap s) a)))"
proof -
  have ok: "heap_ok (pt_heap s)" and sub: "ran (pt_calls s) \<subseteq> dom (hp_calls (pt_heap s))" using assms by (simp_all add: ptr_ok_def)
  have "a \<in> dom (hp_calls (pt_heap s))" using sub assms(2) by (auto simp: ran_def)
  note new = Clone_new [OF ok this assms(3)]
  have "dom (hp_calls (pt_heap s)) \<subseteq> dom (hp_calls h)" using new(3) by blast
  note g = heap_grows [OF assms(1) new(1) this new(5)]
  have "b \<notin> ran (pt_calls s)" "b \<in> dom (hp_calls h)" using sub new(2,3) by blast+
  then show ?thesis using g new(4) by (simp add: op_ok_def)
qed

lemma op_get:
  assumes "ptr_ok s"
  shows "op_ok s (run_pointers (OGet ctx i) s) (run_values (OGet ctx i) (shown s))"
proof -
  have same: "op_ok s (s, Returned (Inl e)) (shown s, Returned (Inl e))" for e using assms by (simp add: op_ok_same)
  show ?thesis
    using same clone_ok [OF assms, of i]
    by (auto simp: ptr_Get_def mem_Get_def shown_def split: option.splits prod.splits)
qed

text \<open>A closure that runs on a stored call.\<close>

lemma closure_ok:
  assumes "ptr_ok s" "pt_calls s i = Some a" "on_heap cl a (pt_heap s) = (h, e)" "on_value cl (load (pt_heap s) a) = (c, e')"
  shows "ptr_ok (s\<lparr>pt_heap := h\<rparr>)" "keeps_copies s (s\<lparr>pt_heap := h\<rparr>)" "e = e'" "load h a = c"
    "shown (s\<lparr>pt_heap := h\<rparr>) = (shown s)\<lparr>ms_calls := (ms_calls (shown s))(i \<mapsto> c)\<rparr>"
proof -
  have ok: "heap_ok (pt_heap s)" and sub: "ran (pt_calls s) \<subseteq> dom (hp_calls (pt_heap s))"
    and one: "pt_calls s j = Some a \<Longrightarrow> j = i" for j using assms(1,2) by (auto simp: ptr_ok_def)
  have "a \<in> dom (hp_calls (pt_heap s))" using sub assms(2) by (auto simp: ran_def)
  with closures_agree [of cl] ok assms(3,4) have t: "changes_only a (pt_heap s) h" "e = e'" "load h a = c"
    unfolding runs_as_def by (fastforce simp: agrees_def turns_def)+
  then show "e = e'" "load h a = c" by simp_all
  show "ptr_ok (s\<lparr>pt_heap := h\<rparr>)" using assms(1) t(1) by (auto simp: ptr_ok_def changes_only_def)
  show "keeps_copies s (s\<lparr>pt_heap := h\<rparr>)"
    using t(1) assms(2) by (auto simp: keeps_copies_def changes_only_def ran_def)
  have "load h b = load (pt_heap s) b" if "pt_calls s j = Some b" "j \<noteq> i" for j b
    using t(1) sub one that assms(2) unfolding changes_only_def by (metis ranI subsetD)
  then show "shown (s\<lparr>pt_heap := h\<rparr>) = (shown s)\<lparr>ms_calls := (ms_calls (shown s))(i \<mapsto> c)\<rparr>"
    using t(3) assms(2) by (auto simp: shown_def fun_eq_iff map_option_case split: option.splits)
qed


lemma op_update:
  assumes "ptr_ok s"
  shows "op_ok s (run_pointers (OUpdate ctx i cl) s) (run_values (OUpdate ctx i cl) (shown s))"
proof (cases "ctx = None \<and> pt_calls s i \<noteq> None")
  case False
  have same: "op_ok s (s, Returned (Inl e)) (shown s, Returned (Inl e))" for e using assms by (simp add: op_ok_same)
  then show ?thesis using False by (auto simp: ptr_Update_def mem_Update_def shown_def split: option.splits)
next
  case True
  then obtain a where a: "ctx = None" "pt_calls s i = Some a" by blast
  obtain h e c e' where f: "on_heap cl a (pt_heap s) = (h, e)" "on_value cl (load (pt_heap s) a) = (c, e')" by fastforce
  note r = closure_ok [OF assms a(2) f]
  have v: "ms_calls (shown s) i = Some (load (pt_heap s) a)" using a(2) by (simp add: shown_def)
  show ?thesis
  proof (cases e)
    case (Some err)
    then show ?thesis using r v by (simp add: op_ok_def ptr_Update_def mem_Update_def a f)
  next
    case None
    let ?s = "s\<lparr>pt_heap := h\<rparr>" and ?idx = "index_participants c (pt_byUser s)"
    obtain h' b where cl: "Clone a h = (h', b)" by fastforce
    with clone_ok [OF r(1), of i a h' b] a(2) r(4)
    have o: "op_ok ?s (s\<lparr>pt_heap := h'\<rparr>, Returned (Inr b)) (shown ?s, Returned (Inr c))" by simp
    have k: "keeps_copies s (s\<lparr>pt_heap := h'\<rparr>)" using keeps_copies_trans [OF r(2)] o by (simp add: op_ok_def)
    have "op_ok s (s\<lparr>pt_heap := h', pt_byUser := ?idx\<rparr>, Returned (Inr b)) ((shown ?s)\<lparr>ms_byUser := ?idx\<rparr>, Returned (Inr c))"
      using o k by (auto simp: op_ok_def ptr_ok_def keeps_copies_def shown_def)
    moreover have "run_pointers (OUpdate ctx i cl) s = (s\<lparr>pt_heap := h', pt_byUser := ?idx\<rparr>, Returned (Inr b))"
      using None r(4) by (simp add: ptr_Update_def a f cl Let_def)
    moreover have "run_values (OUpdate ctx i cl) (shown s) = ((shown ?s)\<lparr>ms_byUser := ?idx\<rparr>, Returned (Inr c))"
      using None r(3,5) v by (simp add: mem_Update_def a f) (simp add: shown_def)
    ultimately show ?thesis by simp
  qed
qed

lemma op_all:
  assumes "ptr_ok s"
  shows "op_ok s (run_pointers q s) (run_values q (shown s))"
proof (cases q)
  case (OActive ctx app u)
  have "ptr_ActiveCallIDsForUser ctx app u s = mem_ActiveCallIDsForUser ctx app u (shown s)"
    by (auto simp: ptr_ActiveCallIDsForUser_def mem_ActiveCallIDsForUser_def shown_def split: option.splits intro!: filter_cong)
  with OActive assms show ?thesis by (simp add: op_ok_same)
qed (use assms op_put op_get op_update in auto)

text \<open>An answer reads the same in a later state that keeps the copies.\<close>

lemma read_later:
  "copies r \<subseteq> dom (hp_calls (pt_heap s)) - ran (pt_calls s) \<Longrightarrow> keeps_copies s s' \<Longrightarrow>
   map_Outcome (load (pt_heap s')) r = map_Outcome (load (pt_heap s)) r"
  by (cases r rule: copies.cases) (auto simp: keeps_copies_def)

lemma runs_shown:
  assumes "ptr_ok s" "runs run_pointers qs s = (s', rs)"
  shows "ptr_ok s' \<and> keeps_copies s s' \<and> (shown s', map (map_Outcome (load (pt_heap s'))) rs) = runs run_values qs (shown s)"
  using assms
proof (induction qs arbitrary: s rs)
  case (Cons q qs)
  obtain s1 r1 where r1: "run_pointers q s = (s1, r1)" by fastforce
  obtain rs' where rs: "runs run_pointers qs s1 = (s', rs')" "rs = r1 # rs'"
    using Cons.prems(2) r1 by (auto simp: map_prod_def split: prod.splits)
  have o: "op_ok s (s1, r1) (run_values q (shown s))" using op_all [OF Cons.prems(1), of q] r1 by simp
  then have ih: "ptr_ok s'" "keeps_copies s1 s'" "(shown s', map (map_Outcome (load (pt_heap s'))) rs') = runs run_values qs (shown s1)"
    using Cons.IH [OF _ rs(1)] by (simp_all add: op_ok_def)
  have "map_Outcome (load (pt_heap s')) r1 = map_Outcome (load (pt_heap s1)) r1"
    using read_later [OF _ ih(2)] o by (simp add: op_ok_def)
  then have "run_values q (shown s) = (shown s1, map_Outcome (load (pt_heap s')) r1)"
    using o by (simp add: op_ok_def prod_eq_iff)
  then show ?case using ih o keeps_copies_trans [of s s1 s'] by (simp add: op_ok_def rs(2) flip: ih(3))
qed simp

section \<open>Properties\<close>

text \<open>
  C9. The in-process store may be understood as a store of values: for every sequence of operations with
  the closures of the runtime writing in place, the calls that the stored pointers show and the index are
  those of the store of values, every answer shows the same call, error or list, and it still does so after
  all later operations: what was handed out is a copy that no later write reaches.
\<close>

theorem pointers_refine_values:
  "case runs run_pointers qs new_pointers of (s, rs) \<Rightarrow>
     (shown s, map (map_Outcome (load (pt_heap s))) rs) = runs run_values qs NewMemoryStore"
proof -
  have "ptr_ok new_pointers" by (simp add: ptr_ok_def heap_ok_def new_pointers_def parts_def)
  moreover have "shown new_pointers = NewMemoryStore" by (simp add: shown_def new_pointers_def NewMemoryStore_def fun_eq_iff)
  ultimately show ?thesis using runs_shown by (auto split: prod.splits)
qed

text \<open>
  \<open>Create\<close> goes on with the pointer it has stored, and puts it into the events it publishes: what
  such an event shows is the call as it is at the time of reading, not as it was created.
\<close>

lemma stored_pointer_is_live:
  assumes "ptr_ok s" "pt_calls s i = Some a" "on_value cl (load (pt_heap s) a) = (c, None)"
  shows "load (pt_heap (fst (run_pointers (OUpdate Background i cl) s))) a = c"
proof -
  obtain h e where f: "on_heap cl a (pt_heap s) = (h, e)" by fastforce
  note r = closure_ok [OF assms(1,2) f assms(3)]
  obtain h' b where cl: "Clone a h = (h', b)" by fastforce
  have "heap_ok h" "a \<in> dom (hp_calls h)" using r(1) assms(2) by (auto simp: ptr_ok_def ran_def)
  then have "load h' a = load h a" using Clone_new(5) [OF _ _ cl] by blast
  then show ?thesis using r(3,4) by (simp add: ptr_Update_def assms(2) f cl)
qed

end
