(* ===== verification/Spec2Isabelle.thy ===== *)
theory Spec2Isabelle
  imports RateLimit CallProps PushProps MessageProps DeviceProps Presence Orchestrator IncomingCall CallRedis HubProps
    RedisStores ApiProps Config WorkerLoop Startup Rows Replay Metrics Process CallHeap
begin

text \<open>
  A verification library for the realtime server of \<open>mgl-communication\<close>
  (\<open>src/mgl-realtime-server\<close>): a Go process that runs voice and video calls between users, relays their
  signaling over WebSockets, tracks presence, and delivers push messages to devices through seven vendors.

  \<^bold>\<open>The program.\<close> Requests enter through the HTTP API (\<open>internal/api\<close>) and the WebSocket hub
  (\<open>internal/signaling/websocket\<close>), both behind \<open>internal/auth\<close>. They drive the call orchestrator
  (\<open>internal/call/orchestrator.go\<close>), which asks Phoenix for consent (\<open>internal/phoenix\<close>), keeps calls in
  the call runtime (\<open>internal/call/service.go\<close>) over a store in process or on Redis, and makes rooms and
  tokens for the media server (\<open>internal/sfu\<close>). The runtime announces what happens on the event bus
  (\<open>internal/events\<close>), which the hub routes to connections, on several nodes over Redis. A call that rings
  is turned into push messages (\<open>internal/incomingcall\<close>); the message service (\<open>internal/service\<close>)
  writes a message and one delivery per device to the database (\<open>internal/repository\<close>), and the worker
  (\<open>internal/queue\<close>) claims deliveries, hands them to a provider (\<open>internal/provider/*\<close>) and settles or
  retries them (\<open>internal/retry\<close>).

  \<^bold>\<open>The theories, with the code they model.\<close>

  \<^item> \<open>Prelude\<close>: Go's base types and string functions, sets kept in maps, updates of slices, collections of
    rules. \<open>Domain\<close>: \<open>internal/domain\<close>. \<open>Json\<close>: what is used of \<open>encoding/json\<close>, and the documents of a
    call. \<open>RedisClient\<close>: the commands of Redis as a parameter, with \<open>redis_ok\<close> for what they promise.

  \<^item> Calls. \<open>Events\<close> (\<open>events/bus.go\<close>), \<open>CallTypes\<close> (\<open>call/types.go\<close>, the states as instances of \<open>enum\<close>), \<open>CallStore\<close>
    (\<open>call/memory_store.go\<close> and the interface \<open>Store\<close> as the locale \<open>call_store\<close>), \<open>CallService\<close>
    (\<open>call/service.go\<close>: one definition per operation and one per closure it gives to the store),
    \<open>CallRuntime\<close> (the runtime as the step relation \<open>call_step\<close>, with the timers and the two halves of
    \<open>Resume\<close> as steps of their own), \<open>CallHeap\<close> (the in-process store in memory: pointers, closures that write
    in place, \<open>Clone\<close>), \<open>CallInvariant\<close> (what the closures do to one call), \<open>CallProps\<close> (the
    properties), \<open>CallRedis\<close> (\<open>call/store.go\<close>: the store on Redis with interleaved clients),
    \<open>Cluster\<close> (the runtime over that store, on several nodes: the weaker contract \<open>shared_store\<close>, which
    \<open>call_store\<close> gives and the store on Redis fulfils as the locale \<open>redis_cluster\<close>),
    \<open>Orchestrator\<close> (\<open>call/orchestrator.go\<close>, \<open>sfu/service.go\<close>).

  \<^item> Push. \<open>Repository\<close> (the statements over tables as lists of domain records), \<open>Rows\<close> (the same statements
    over rows with nullable columns, with the scanning of rows, and the schema of \<open>migrations\<close>), \<open>Retry\<close> (\<open>retry\<close>,
    \<open>provider/provider.go\<close>, \<open>provider/named.go\<close>), \<open>DeviceService\<close>, \<open>MessageService\<close> (\<open>service\<close>), \<open>Worker\<close>
    (one tick, and the pipeline as the step relation \<open>push_step\<close> with any number of requests and workers,
    failing statements and crashes), \<open>WorkerLoop\<close> (starting, stopping, the loop and a stop within a batch), \<open>PushInvariant\<close>,
    \<open>PushProps\<close>, \<open>MessageProps\<close>, \<open>DeviceProps\<close>, \<open>IncomingCall\<close> (\<open>incomingcall/service.go\<close>).

  \<^item> Providers. \<open>ProviderHttp\<close> (what they share, and their contract towards the worker as the locale
    \<open>push_provider\<close>), \<open>ProviderHuawei\<close>, \<open>ProviderOppo\<close>, \<open>ProviderVivo\<close>, \<open>ProviderXiaomi\<close>, \<open>ProviderApns\<close>,
    \<open>ProviderFcm\<close> (also the stub \<open>noop\<close>), each interpreting the locale, and \<open>ProviderProps\<close>.

  \<^item> Realtime. \<open>Auth\<close> (\<open>auth\<close>), \<open>RateLimit\<close> (\<open>ratelimit\<close>), \<open>Presence\<close> (\<open>presence/memory_store.go\<close>),
    \<open>RedisStores\<close> (\<open>presence/redis_store.go\<close>, \<open>oplog\<close>), \<open>Signaling\<close> (\<open>signaling/protocol\<close>), \<open>Hub\<close> and
    \<open>HubProps\<close> (\<open>signaling/websocket\<close>, \<open>signaling/connection\<close>), \<open>External\<close> (\<open>phoenix/client.go\<close>,
    \<open>events/redis_bus.go\<close>), \<open>LiveKit\<close> (\<open>sfu/livekit\<close>), \<open>Replay\<close> (relaying and resuming over an oplog: its
    interface as the locale \<open>oplog_store\<close>, for the empty store and, as the locale \<open>redis_log\<close>, for Redis).

  \<^item> The process. \<open>Api\<close> and \<open>ApiProps\<close> (\<open>api/server.go\<close>, \<open>api/calls.go\<close>), \<open>Config\<close> (\<open>config\<close>), \<open>Startup\<close>
    (\<open>cmd/mgl-push/main.go\<close>: what is built of the configuration), \<open>Process\<close> (its life from connecting to
    closing, with every exit), \<open>Metrics\<close> (\<open>metrics/metrics.go\<close> and the samples that worker, message
    service, API and hub record).

  \<^bold>\<open>What is shown.\<close> Calls: every reachable state is well formed, ended calls stay ended, states move along
  the edges of one machine, the end is announced exactly once, no call rings for ever, a failed operation
  changes nothing, a successful one was authorized; the list of a user's calls is exact; the store of pointers in memory
  refines the store of values, so that what is handed out is a copy. An update on
  Redis refines an atomic one, and on a cluster each node keeps the promise that the others rely on, so that
  ended calls stay ended there as well. Push: a delivery
  is sent at most as often as it is counted and within the limit, settled deliveries are final, completed
  messages are done, the worker drains its queue, the repositories over nullable rows refine those over
  records for every sequence of queries, and what each answer of a provider, each request and each
  repetition of a request does to the tables. Providers: whatever a vendor answers, the result keeps the
  contract of the worker; refused access tokens are dropped; the range of a number computed in 32 bits.
  Metrics: the counter of ended calls is their number, the counters of the worker agree with the rows, the
  gauge of connections is their number, no sample panics.
  Realtime: who may do what, that the bindings of the hub and its subscriptions agree, who receives a relayed
  message and what a resume replays of it, the bound of the limiter, presence against a log of updates. The
  process: nothing is used that is not open and the worker ends before what it uses is closed; a request
  changes at most one call of its own user, an error answer changes none, nothing changes without a token,
  a ring timeout is pushed to the callees, and every provider a device may name is registered.
  Some theorems show where the code does not do what it means to; they stand beside the others and say so.

  \<^bold>\<open>How state and effects are modelled.\<close> Structs are records, enumerations datatypes, Go maps partial
  functions or association lists, and a value of an interface is a record of functions. An operation takes
  the state, the clock readings and the new identifiers it uses and returns the new state with an error or a
  result. A database or Redis operation is one atomic step; a statement of the database may fail, as the
  list \<open>db_faults\<close> says, and then has no effect. One operation reads the clock once unless the definition
  takes more readings. Publishing is recorded with the operation that publishes. Integers are unbounded
  where they cannot overflow; products of durations are taken modulo \<open>2 ^ 64\<close>, hashes modulo \<open>2 ^ 32\<close>.

  \<^bold>\<open>Parameters.\<close> Redis (\<open>redis_ok\<close>, \<open>redis_failures\<close>), the JWT library (\<open>jwt_ok\<close>), HTTP and the text of a document
  (\<open>HttpClient\<close>), Firebase, the file system and keys of APNs (\<open>KeyFiles\<close>), hash functions and the generator
  of identifiers. Properties that rely on a promise state it as a hypothesis, with a witness for it.

  \<^bold>\<open>Bounds.\<close> The retry loop of \<open>Update\<close> on Redis has the fuel of the code, twenty attempts, after which
  the code gives up with an error as the model does. All other loops run over a list that is given, so
  every definition is total. That the worker comes to an end with its queue is a theorem, with the number
  of ticks that are enough: deliveries times attempts.

  \<^bold>\<open>Not modelled.\<close> Logging, which changes nothing; the ULID generator, whose results are
  arguments; printing and parsing of JSON text, since documents are trees; sockets, pings, deadlines and
  timeouts of exchanges; expiry of entries in Redis; column widths and rounding of timestamps in the database; the
  drivers of the database and of Redis and the listener, whose answers are parameters of \<open>Process\<close>; the client libraries in Kotlin, Swift,
  Dart and ClojureDart, which are other programs.
\<close>

end
